(* ===== verification/Anchr_Prelude.thy ===== *)
theory Anchr_Prelude
  imports Complex_Main "HOL-Library.AList"
begin

text \<open>
  Shared vocabulary of the development: the JavaScript values the sources compute with.

  \<^item> \<open>jsnum\<close> is the JavaScript \<open>number\<close>: \<open>NaN\<close>, the two infinities and a finite value kept as an
    exact rational.  Every number the modelled code computes with is an integer count of sats, seconds
    or milliseconds well below 2^53, or a finite sum, difference or thousandth of such numbers, for
    which double precision arithmetic has no observable rounding.  Comparisons are the JavaScript ones,
    so each comparison with \<open>NaN\<close> is false.
  \<^item> \<open>jsval\<close> is a value of the TypeScript type \<open>unknown\<close>.
  \<^item> \<open>('k, 'v) jsmap\<close> is a JavaScript \<open>Map\<close> as its insertion ordered entry list.
  \<^item> \<open>msg\<close> is a diagnostic text assembled by a template literal: the literal pieces and the
    interpolated numbers and dynamic values, in order.
  \<^item> strings are lists of code units.
\<close>

named_theorems js_simps \<open>evaluation rules for JavaScript numbers, strings and truthiness\<close>
named_theorems map_simps \<open>laws of insertion ordered maps\<close>

section \<open>Numbers\<close>

datatype jsnum = NaN | Infty | NegInfty | Fin rat

instantiation jsnum :: "{ord, plus, minus, times, zero, one}"
begin

fun less_jsnum :: "jsnum \<Rightarrow> jsnum \<Rightarrow> bool" where
  "less_jsnum (Fin a) (Fin b) = (a < b)"
| "less_jsnum (Fin a) Infty = True"
| "less_jsnum NegInfty (Fin b) = True"
| "less_jsnum NegInfty Infty = True"
| "less_jsnum _ _ = False"

definition less_eq_jsnum :: "jsnum \<Rightarrow> jsnum \<Rightarrow> bool" where
  "less_eq_jsnum a b = (a < b \<or> (a = b \<and> a \<noteq> NaN))"

fun plus_jsnum :: "jsnum \<Rightarrow> jsnum \<Rightarrow> jsnum" where
  "plus_jsnum (Fin a) (Fin b) = Fin (a + b)"
| "plus_jsnum NaN _ = NaN"
| "plus_jsnum _ NaN = NaN"
| "plus_jsnum Infty NegInfty = NaN"
| "plus_jsnum NegInfty Infty = NaN"
| "plus_jsnum Infty _ = Infty"
| "plus_jsnum NegInfty _ = NegInfty"
| "plus_jsnum (Fin a) b = b"

fun minus_jsnum :: "jsnum \<Rightarrow> jsnum \<Rightarrow> jsnum" where
  "minus_jsnum a (Fin b) = a + Fin (- b)"
| "minus_jsnum a NaN = NaN"
| "minus_jsnum a Infty = a + NegInfty"
| "minus_jsnum a NegInfty = a + Infty"

definition scale_infty :: "bool \<Rightarrow> rat \<Rightarrow> jsnum" where
  "scale_infty pos a = (if a = 0 then NaN else if (0 < a) = pos then Infty else NegInfty)"

fun times_jsnum :: "jsnum \<Rightarrow> jsnum \<Rightarrow> jsnum" where
  "times_jsnum (Fin a) (Fin b) = Fin (a * b)"
| "times_jsnum NaN _ = NaN"
| "times_jsnum _ NaN = NaN"
| "times_jsnum (Fin a) Infty = scale_infty True a"
| "times_jsnum (Fin a) NegInfty = scale_infty False a"
| "times_jsnum Infty (Fin b) = scale_infty True b"
| "times_jsnum NegInfty (Fin b) = scale_infty False b"
| "times_jsnum Infty Infty = Infty"
| "times_jsnum NegInfty NegInfty = Infty"
| "times_jsnum Infty NegInfty = NegInfty"
| "times_jsnum NegInfty Infty = NegInfty"

definition zero_jsnum :: jsnum where "zero_jsnum = Fin 0"
definition one_jsnum :: jsnum where "one_jsnum = Fin 1"

instance ..

end

lemma jsnum_add_laws:
  "(x + y) + z = x + (y + z)" "x + y = y + x" "0 + x = x" for x y z :: jsnum
  by (induction x; induction y; induction z; simp add: zero_jsnum_def)+

instance jsnum :: comm_monoid_add
  by standard (fact jsnum_add_laws)+

instance jsnum :: numeral ..

lemma jsnum_zero [simp, js_simps]: "0 = Fin 0"
  by (fact zero_jsnum_def)

lemma jsnum_one [simp, js_simps]: "1 = Fin 1"
  by (fact one_jsnum_def)

lemma jsnum_numeral [simp, js_simps]: "numeral w = Fin (numeral w)"
proof (induction w)
  case One
  show ?case by (simp add: numeral.numeral_One)
next
  case (Bit0 w)
  then show ?case by (simp only: numeral.simps(2) plus_jsnum.simps)
next
  case (Bit1 w)
  then show ?case by (simp only: numeral.simps(3) plus_jsnum.simps jsnum_one)
qed

lemma jsnum_le_simps [simp, js_simps]:
  "Fin a \<le> Fin b \<longleftrightarrow> a \<le> b"
  "\<not> NaN \<le> x" "\<not> x \<le> NaN"
  "Fin a \<le> Infty" "NegInfty \<le> Fin a" "NegInfty \<le> Infty"
  "\<not> Infty \<le> Fin a" "\<not> Fin a \<le> NegInfty" "\<not> Infty \<le> NegInfty"
  "Infty \<le> Infty" "NegInfty \<le> NegInfty"
  by (cases x; auto simp: less_eq_jsnum_def)+

lemma jsnum_nan_less [simp, js_simps]: "\<not> NaN < x" "\<not> x < NaN"
  by (cases x; simp)+

lemma jsnum_less_irrefl [simp]: "\<not> (x::jsnum) < x"
  by (cases x) simp_all

lemma jsnum_less_trans: "(x::jsnum) < y \<Longrightarrow> y < z \<Longrightarrow> x < z"
  by (cases x; cases y; cases z) auto

lemma jsnum_less_le_trans: "(x::jsnum) < y \<Longrightarrow> y \<le> z \<Longrightarrow> x < z"
  by (auto simp: less_eq_jsnum_def intro: jsnum_less_trans)

lemma jsnum_le_less_trans: "(x::jsnum) \<le> y \<Longrightarrow> y < z \<Longrightarrow> x < z"
  by (auto simp: less_eq_jsnum_def intro: jsnum_less_trans)

lemma jsnum_le_trans: "(x::jsnum) \<le> y \<Longrightarrow> y \<le> z \<Longrightarrow> x \<le> z"
  by (auto simp: less_eq_jsnum_def intro: jsnum_less_trans)

lemma jsnum_less_le: "(x::jsnum) < y \<Longrightarrow> x \<le> y"
  by (simp add: less_eq_jsnum_def)

lemma jsnum_less_not_le: "(x::jsnum) < y \<Longrightarrow> \<not> y \<le> x"
  by (cases x; cases y) auto

text \<open>\<open>Number.isFinite\<close>, \<open>Number.isInteger\<close>, \<open>Math.floor\<close>, division, \<open>===\<close> and truthiness.\<close>

fun is_finite :: "jsnum \<Rightarrow> bool" where
  "is_finite (Fin a) = True"
| "is_finite _ = False"

fun is_integer :: "jsnum \<Rightarrow> bool" where
  "is_integer (Fin a) = (of_int \<lfloor>a\<rfloor> = a)"
| "is_integer _ = False"

fun js_floor :: "jsnum \<Rightarrow> jsnum" where
  "js_floor (Fin a) = Fin (of_int \<lfloor>a\<rfloor>)"
| "js_floor x = x"

fun div_by :: "jsnum \<Rightarrow> rat \<Rightarrow> jsnum" where
  "div_by (Fin a) k = Fin (a / k)"
| "div_by x k = x"

definition num_eq :: "jsnum \<Rightarrow> jsnum \<Rightarrow> bool" where
  "num_eq a b = (a = b \<and> a \<noteq> NaN)"

definition num_truthy :: "jsnum \<Rightarrow> bool" where
  "num_truthy a = (a \<noteq> NaN \<and> a \<noteq> 0)"

definition of_len :: "'a list \<Rightarrow> jsnum" where
  "of_len xs = Fin (of_nat (length xs))"

lemma is_finite_iff: "is_finite x \<longleftrightarrow> (\<exists>r. x = Fin r)"
  by (cases x) auto

lemma is_integer_finite: "is_integer x \<Longrightarrow> is_finite x"
  by (cases x) auto

lemma is_integer_iff: "is_integer x \<longleftrightarrow> (\<exists>i. x = Fin (of_int i))"
proof (cases x)
  case (Fin r)
  then show ?thesis by (auto intro: exI [of _ "\<lfloor>r\<rfloor>"])
qed simp_all

lemma num_eq_Fin [simp, js_simps]: "num_eq (Fin a) (Fin b) \<longleftrightarrow> a = b"
  by (simp add: num_eq_def)

lemma num_truthy_simps [simp, js_simps]:
  "num_truthy (Fin a) \<longleftrightarrow> a \<noteq> 0" "\<not> num_truthy NaN" "num_truthy Infty" "num_truthy NegInfty"
  by (simp_all add: num_truthy_def)

declare less_jsnum.simps [js_simps] plus_jsnum.simps [js_simps] minus_jsnum.simps [js_simps]
  is_finite.simps [js_simps] is_integer.simps [js_simps] js_floor.simps [js_simps] div_by.simps [js_simps]

section \<open>Strings, options, dynamic values and diagnostics\<close>

definition ws_chars :: "char list" where
  "ws_chars = [CHR 0x09, CHR 0x0A, CHR 0x0B, CHR 0x0C, CHR 0x0D, CHR 0x20, CHR 0xA0]"

definition trim :: "string \<Rightarrow> string" where
  "trim s = rev (dropWhile (\<lambda>c. c \<in> set ws_chars) (rev (dropWhile (\<lambda>c. c \<in> set ws_chars) s)))"

definition str_truthy :: "string \<Rightarrow> bool" where
  "str_truthy s = (s \<noteq> [])"

definition ostr_truthy :: "string option \<Rightarrow> bool" where
  "ostr_truthy s = (case s of None \<Rightarrow> False | Some t \<Rightarrow> t \<noteq> [])"

definition onum_truthy :: "jsnum option \<Rightarrow> bool" where
  "onum_truthy n = (case n of None \<Rightarrow> False | Some x \<Rightarrow> num_truthy x)"

text \<open>The operator \<open>??\<close> on optional values.\<close>

fun orElse :: "'a option \<Rightarrow> 'a option \<Rightarrow> 'a option" where
  "orElse (Some a) _ = Some a"
| "orElse None b = b"

definition hd_opt :: "'a list \<Rightarrow> 'a option" where
  "hd_opt xs = (case xs of [] \<Rightarrow> None | x # _ \<Rightarrow> Some x)"

lemma hd_opt_simps [simp]: "hd_opt [] = None" "hd_opt (x # xs) = Some x"
  by (simp_all add: hd_opt_def)

lemma ostr_truthy_simps [simp, js_simps]: "\<not> ostr_truthy None" "ostr_truthy (Some s) \<longleftrightarrow> s \<noteq> []"
  by (simp_all add: ostr_truthy_def)

lemma ostr_truthyE: "ostr_truthy s \<Longrightarrow> (\<And>t. s = Some t \<Longrightarrow> t \<noteq> [] \<Longrightarrow> P) \<Longrightarrow> P"
  by (cases s) auto

lemma onum_truthy_simps [simp, js_simps]: "\<not> onum_truthy None" "onum_truthy (Some n) \<longleftrightarrow> num_truthy n"
  by (simp_all add: onum_truthy_def)

lemma orElse_None [simp]: "orElse a None = a"
  by (cases a) simp_all

lemma orElse_eq_None [simp]: "orElse a b = None \<longleftrightarrow> a = None \<and> b = None"
  by (cases a) simp_all

lemma dropWhile_eq_Nil_all: "dropWhile P xs = [] \<longleftrightarrow> (\<forall>x \<in> set xs. P x)"
  by (induction xs) auto

lemma trim_eq_Nil: "trim s = [] \<longleftrightarrow> (\<forall>c \<in> set s. c \<in> set ws_chars)"
proof -
  have "trim s = [] \<longleftrightarrow> (\<forall>c \<in> set (dropWhile (\<lambda>c. c \<in> set ws_chars) s). c \<in> set ws_chars)"
    by (simp add: trim_def dropWhile_eq_Nil_all)
  also have "\<dots> \<longleftrightarrow> (\<forall>c \<in> set s. c \<in> set ws_chars)"
    by (induction s) auto
  finally show ?thesis .
qed

datatype jsval = Undefined | Null | Bool bool | Number jsnum | String string
  | Array "jsval list" | Object "(string \<times> jsval) list"

datatype chunk = T string | N jsnum | J jsval | EmDash

type_synonym msg = "chunk list"

definition plain :: "string \<Rightarrow> msg" where
  "plain s = [T s]"

section \<open>Insertion ordered maps\<close>

type_synonym ('k, 'v) jsmap = "('k \<times> 'v) list"

definition map_get :: "('k, 'v) jsmap \<Rightarrow> 'k \<Rightarrow> 'v option" where
  "map_get m k = map_of m k"

definition map_has :: "('k, 'v) jsmap \<Rightarrow> 'k \<Rightarrow> bool" where
  "map_has m k = (map_of m k \<noteq> None)"

definition map_set :: "'k \<Rightarrow> 'v \<Rightarrow> ('k, 'v) jsmap \<Rightarrow> ('k, 'v) jsmap" where
  "map_set k v m = AList.update k v m"

definition map_delete :: "'k \<Rightarrow> ('k, 'v) jsmap \<Rightarrow> ('k, 'v) jsmap" where
  "map_delete k m = AList.delete k m"

definition map_values :: "('k, 'v) jsmap \<Rightarrow> 'v list" where
  "map_values m = map snd m"

definition map_entries :: "('k, 'v) jsmap \<Rightarrow> ('k \<times> 'v) list" where
  "map_entries m = m"

definition map_wf :: "('k, 'v) jsmap \<Rightarrow> bool" where
  "map_wf m = distinct (map fst m)"

text \<open>
  The interface through which the services use a map: lookup after an update, what every update keeps
  of the representation invariant, and that the entries enumerate the map once.
\<close>

locale kv_store =
  fixes get :: "'s \<Rightarrow> 'k \<Rightarrow> 'v option"
    and put :: "'k \<Rightarrow> 'v \<Rightarrow> 's \<Rightarrow> 's"
    and remove :: "'k \<Rightarrow> 's \<Rightarrow> 's"
    and entries :: "'s \<Rightarrow> ('k \<times> 'v) list"
    and inv :: "'s \<Rightarrow> bool"
  assumes get_put: "inv s \<Longrightarrow> get (put k v s) = (get s)(k \<mapsto> v)"
    and get_remove: "inv s \<Longrightarrow> get (remove k s) = (get s)(k := None)"
    and inv_put: "inv s \<Longrightarrow> inv (put k v s)"
    and inv_remove: "inv s \<Longrightarrow> inv (remove k s)"
    and get_entries: "inv s \<Longrightarrow> map_of (entries s) = get s"
    and distinct_entries: "inv s \<Longrightarrow> distinct (map fst (entries s))"
begin

lemma mem_entries: "inv s \<Longrightarrow> (k, v) \<in> set (entries s) \<longleftrightarrow> get s k = Some v"
  using get_entries [of s] distinct_entries [of s] by (metis map_of_eq_Some_iff)

text \<open>A loop that rewrites some of the listed entries.\<close>

lemma fold_put_inv: "inv s \<Longrightarrow> inv (fold (\<lambda>(k, v). if P v then put k (f v) else (\<lambda>s. s)) kvs s)"
  by (induction kvs arbitrary: s) (auto simp: inv_put)

lemma fold_put_get:
  assumes "inv s" "distinct (map fst kvs)"
  shows "get (fold (\<lambda>(k, v). if P v then put k (f v) else (\<lambda>s. s)) kvs s) k =
    (case map_of kvs k of None \<Rightarrow> get s k | Some v \<Rightarrow> if P v then Some (f v) else get s k)"
  using assms
proof (induction kvs arbitrary: s)
  case (Cons kv kvs)
  obtain k' v where kv: "kv = (k', v)" by (cases kv)
  have "inv (if P v then put k' (f v) s else s)" using Cons.prems by (simp add: inv_put)
  moreover have fresh: "map_of kvs k' = None" using Cons.prems kv by (simp add: map_of_eq_None_iff)
  ultimately show ?case
    using Cons.prems Cons.IH [of s] Cons.IH [of "put k' (f v) s"]
    by (cases "k = k'"; cases "P v") (simp_all add: kv fresh get_put split: option.split)
qed simp

lemma rewrite_all_get:
  assumes "inv s"
  shows "get (fold (\<lambda>(k, v). if P v then put k (f v) else (\<lambda>s. s)) (entries s) s) k =
    map_option (\<lambda>v. if P v then f v else v) (get s k)"
  by (simp add: assms fold_put_get distinct_entries get_entries split: option.split)

text \<open>A loop that removes some of the listed entries.\<close>

lemma fold_remove_inv: "inv s \<Longrightarrow> inv (fold (\<lambda>(k, v). if P v then remove k else (\<lambda>s. s)) kvs s)"
  by (induction kvs arbitrary: s) (auto simp: inv_remove)

lemma fold_remove_get:
  assumes "inv s" "distinct (map fst kvs)"
  shows "get (fold (\<lambda>(k, v). if P v then remove k else (\<lambda>s. s)) kvs s) k =
    (case map_of kvs k of None \<Rightarrow> get s k | Some v \<Rightarrow> if P v then None else get s k)"
  using assms
proof (induction kvs arbitrary: s)
  case (Cons kv kvs)
  obtain k' v where kv: "kv = (k', v)" by (cases kv)
  have "inv (if P v then remove k' s else s)" using Cons.prems by (simp add: inv_remove)
  moreover have fresh: "map_of kvs k' = None" using Cons.prems kv by (simp add: map_of_eq_None_iff)
  ultimately show ?case
    using Cons.prems Cons.IH [of s] Cons.IH [of "remove k' s"]
    by (cases "k = k'"; cases "P v") (simp_all add: kv fresh get_remove split: option.split)
qed simp

lemma remove_all_get:
  assumes "inv s"
  shows "get (fold (\<lambda>(k, v). if P v then remove k else (\<lambda>s. s)) (entries s) s) k =
    (case get s k of None \<Rightarrow> None | Some v \<Rightarrow> if P v then None else Some v)"
  by (simp add: assms fold_remove_get distinct_entries get_entries split: option.split)

end

lemma map_wf_Nil [simp]: "map_wf []"
  by (simp add: map_wf_def)

lemma map_get_Nil [simp]: "map_get [] k = None"
  by (simp add: map_get_def)

lemma map_set_wf [simp, intro]: "map_wf m \<Longrightarrow> map_wf (map_set k v m)"
  unfolding map_wf_def map_set_def by (rule distinct_update)

lemma map_delete_wf [simp, intro]: "map_wf m \<Longrightarrow> map_wf (map_delete k m)"
  unfolding map_wf_def map_delete_def by (rule distinct_delete)

lemma map_get_set [simp, map_simps]: "map_get (map_set k v m) k' = (if k' = k then Some v else map_get m k')"
  by (simp add: map_get_def map_set_def update_conv')

lemma map_get_delete [simp, map_simps]:
  "map_get (map_delete k m) k' = (if k' = k then None else map_get m k')"
  by (simp add: map_get_def map_delete_def delete_conv')

lemma map_has_get: "map_has m k \<longleftrightarrow> map_get m k \<noteq> None"
  by (simp add: map_has_def map_get_def)

interpretation jm: kv_store map_get map_set map_delete map_entries map_wf
proof
  fix m :: "('a, 'b) jsmap" and k v
  assume wf: "map_wf m"
  show "map_get (map_set k v m) = (map_get m)(k \<mapsto> v)" by (simp add: fun_eq_iff)
  show "map_get (map_delete k m) = (map_get m)(k := None)" by (simp add: fun_eq_iff)
  show "map_wf (map_set k v m)" "map_wf (map_delete k m)" using wf by auto
  show "map_of (map_entries m) = map_get m" by (simp add: map_entries_def map_get_def fun_eq_iff)
  show "distinct (map fst (map_entries m))" using wf by (simp add: map_entries_def map_wf_def)
qed

lemma map_values_iff:
  assumes "map_wf m"
  shows "v \<in> set (map_values m) \<longleftrightarrow> (\<exists>k. map_get m k = Some v)"
proof -
  have "v \<in> set (map_values m) \<longleftrightarrow> (\<exists>k. (k, v) \<in> set (map_entries m))"
    by (force simp: map_values_def map_entries_def)
  then show ?thesis by (simp add: jm.mem_entries [OF assms])
qed

lemma map_set_all [intro]: "list_all P m \<Longrightarrow> P (k, v) \<Longrightarrow> list_all P (map_set k v m)"
  unfolding map_set_def by (induction m) auto

lemma map_delete_all [intro]: "list_all P m \<Longrightarrow> list_all P (map_delete k m)"
  unfolding map_delete_def by (induction m) auto

lemma map_all_get: "list_all P m \<Longrightarrow> map_get m k = Some v \<Longrightarrow> P (k, v)"
  by (auto simp: map_get_def list_all_iff dest!: map_of_SomeD)

lemma map_set_present: "map_get m k \<noteq> None \<Longrightarrow> map fst (map_set k v m) = map fst m"
  unfolding map_set_def map_get_def by (induction m) auto

lemma map_set_fresh: "map_get m k = None \<Longrightarrow> map_set k v m = m @ [(k, v)]"
  unfolding map_set_def map_get_def by (induction m) (auto split: if_splits)

end
