(* ===== verification/Json.thy ===== *)
theory Json
  imports Anchr_Prelude
begin

text \<open>
  \<open>JSON.parse\<close> and \<open>JSON.stringify\<close> of the language, as the sources use them on request, offer and
  delivery payloads and on Cashu secrets.  \<open>jparse\<close> is a recursive descent parser with fuel
  \<open>2 * length + 2\<close>, which is enough: more fuel never changes the result (\<open>jparse_fuel\<close>).  Numbers are
  read exactly; on printing, integers below 10^21 are written in decimal and the shortest decimal form
  of any other number is the argument \<open>fstr\<close>.  A code unit is one byte, so escapes above \<open>00ff\<close> have
  no counterpart in the model and are refused.
\<close>

section \<open>Lexical elements\<close>

definition jws :: "char \<Rightarrow> bool" where
  "jws c = (c = CHR 0x20 \<or> c = CHR 0x09 \<or> c = CHR 0x0A \<or> c = CHR 0x0D)"

definition skip_ws :: "string \<Rightarrow> string" where
  "skip_ws s = dropWhile jws s"

definition is_digit :: "char \<Rightarrow> bool" where
  "is_digit c = (48 \<le> (of_char c :: nat) \<and> (of_char c :: nat) \<le> 57)"

definition digit_val :: "char \<Rightarrow> nat" where
  "digit_val c = of_char c - 48"

definition digit_of :: "nat \<Rightarrow> char" where
  "digit_of n = char_of (n + 48)"

definition digits_val :: "string \<Rightarrow> nat" where
  "digits_val ds = foldl (\<lambda>a c. a * 10 + digit_val c) 0 ds"

fun nat_str :: "nat \<Rightarrow> string" where
  "nat_str n = (if n < 10 then [digit_of n] else nat_str (n div 10) @ [digit_of (n mod 10)])"

declare nat_str.simps [simp del]

definition int_str :: "int \<Rightarrow> string" where
  "int_str i = (if i < 0 then CHR ''-'' # nat_str (nat (- i)) else nat_str (nat i))"

definition jhex :: "char \<Rightarrow> nat option" where
  "jhex c =
    (let n = of_char c in
     if 48 \<le> n \<and> n \<le> 57 then Some (n - 48)
     else if 97 \<le> n \<and> n \<le> 102 then Some (n - 87)
     else if 65 \<le> n \<and> n \<le> 70 then Some (n - 55)
     else None)"

definition hex4 :: "string \<Rightarrow> nat option" where
  "hex4 ds =
    (case map jhex ds of
       [Some a, Some b, Some c, Some d] \<Rightarrow> Some (((a * 16 + b) * 16 + c) * 16 + d)
     | _ \<Rightarrow> None)"

section \<open>Strings\<close>

definition unescape :: "string \<Rightarrow> (char \<times> string) option" where
  "unescape s =
    (case s of
       [] \<Rightarrow> None
     | c # r \<Rightarrow>
       if c = CHR 0x22 \<or> c = CHR 0x5C \<or> c = CHR ''/'' then Some (c, r)
       else if c = CHR ''b'' then Some (CHR 0x08, r)
       else if c = CHR ''f'' then Some (CHR 0x0C, r)
       else if c = CHR ''n'' then Some (CHR 0x0A, r)
       else if c = CHR ''r'' then Some (CHR 0x0D, r)
       else if c = CHR ''t'' then Some (CHR 0x09, r)
       else if c = CHR ''u'' then
         (case hex4 (take 4 r) of
            None \<Rightarrow> None
          | Some n \<Rightarrow> if n < 256 then Some (char_of n, drop 4 r) else None)
       else None)"

lemma unescape_shorter [termination_simp]: "unescape s = Some (c, r) \<Longrightarrow> length r < length s"
  by (auto simp: unescape_def split: list.splits if_splits option.splits)

fun jstring :: "string \<Rightarrow> (string \<times> string) option" where
  "jstring [] = None"
| "jstring (c # r) =
    (if c = CHR 0x22 then Some ([], r)
     else if c = CHR 0x5C then
       (case unescape r of
          None \<Rightarrow> None
        | Some (d, r') \<Rightarrow> (case jstring r' of None \<Rightarrow> None | Some (t, r'') \<Rightarrow> Some (d # t, r'')))
     else if (of_char c :: nat) < 32 then None
     else (case jstring r of None \<Rightarrow> None | Some (t, r'') \<Rightarrow> Some (c # t, r'')))"

definition hex_char :: "nat \<Rightarrow> char" where
  "hex_char n = (if n < 10 then char_of (n + 48) else char_of (n + 87))"

definition escape :: "char \<Rightarrow> string" where
  "escape c =
    (let n = of_char c in
     if c = CHR 0x22 then [CHR 0x5C, CHR 0x22]
     else if c = CHR 0x5C then [CHR 0x5C, CHR 0x5C]
     else if c = CHR 0x08 then [CHR 0x5C, CHR ''b'']
     else if c = CHR 0x0C then [CHR 0x5C, CHR ''f'']
     else if c = CHR 0x0A then [CHR 0x5C, CHR ''n'']
     else if c = CHR 0x0D then [CHR 0x5C, CHR ''r'']
     else if c = CHR 0x09 then [CHR 0x5C, CHR ''t'']
     else if n < 32 then [CHR 0x5C, CHR ''u'', CHR ''0'', CHR ''0'', hex_char (n div 16), hex_char (n mod 16)]
     else [c])"

definition jquote :: "string \<Rightarrow> string" where
  "jquote s = CHR 0x22 # concat (map escape s) @ [CHR 0x22]"

section \<open>Numbers\<close>

definition jexponent :: "string \<Rightarrow> (int \<times> string) option" where
  "jexponent s =
    (case s of
       [] \<Rightarrow> Some (0, s)
     | c # r \<Rightarrow>
       if c = CHR ''e'' \<or> c = CHR ''E'' then
         (let neg = (take 1 r = ''-''); r1 = (if neg \<or> take 1 r = ''+'' then drop 1 r else r);
              ds = takeWhile is_digit r1
          in if ds = [] then None
             else Some ((if neg then -1 else 1) * int (digits_val ds), dropWhile is_digit r1))
       else Some (0, s))"

definition jfraction :: "string \<Rightarrow> (rat \<times> string) option" where
  "jfraction s =
    (case s of
       [] \<Rightarrow> Some (0, s)
     | c # r \<Rightarrow>
       if c = CHR ''.'' then
         (let ds = takeWhile is_digit r
          in if ds = [] then None
             else Some (of_nat (digits_val ds) / 10 ^ length ds, dropWhile is_digit r))
       else Some (0, s))"

definition scale10 :: "rat \<Rightarrow> int \<Rightarrow> rat" where
  "scale10 r e = (if 0 \<le> e then r * 10 ^ nat e else r / 10 ^ nat (- e))"

definition jnumber :: "string \<Rightarrow> (rat \<times> string) option" where
  "jnumber s =
    (let neg = (take 1 s = ''-''); s1 = (if neg then drop 1 s else s);
         ds = takeWhile is_digit s1; r1 = dropWhile is_digit s1
     in if ds = [] \<or> (1 < length ds \<and> take 1 ds = ''0'') then None
        else case jfraction r1 of
               None \<Rightarrow> None
             | Some (f, r2) \<Rightarrow>
               (case jexponent r2 of
                  None \<Rightarrow> None
                | Some (e, r3) \<Rightarrow>
                  Some ((if neg then -1 else 1) * scale10 (of_nat (digits_val ds) + f) e, r3)))"

definition jnum_str :: "(rat \<Rightarrow> string) \<Rightarrow> rat \<Rightarrow> string" where
  "jnum_str fstr r = (if of_int \<lfloor>r\<rfloor> = r \<and> \<bar>r\<bar> < 10 ^ 21 then int_str \<lfloor>r\<rfloor> else fstr r)"

section \<open>Values\<close>

definition jobject :: "(string \<times> jsval) list \<Rightarrow> jsval" where
  "jobject ms = Object (fold (\<lambda>(k, v). map_set k v) ms [])"

fun jvalue :: "nat \<Rightarrow> string \<Rightarrow> (jsval \<times> string) option"
  and jelements :: "nat \<Rightarrow> string \<Rightarrow> (jsval list \<times> string) option"
  and jmembers :: "nat \<Rightarrow> string \<Rightarrow> ((string \<times> jsval) list \<times> string) option" where
  "jvalue 0 s = None"
| "jvalue (Suc n) s =
    (case skip_ws s of
       [] \<Rightarrow> None
     | c # r \<Rightarrow>
       if c = CHR ''{'' then
         (if take 1 (skip_ws r) = ''}'' then Some (Object [], drop 1 (skip_ws r))
          else case jmembers n r of None \<Rightarrow> None | Some (ms, r') \<Rightarrow> Some (jobject ms, r'))
       else if c = CHR ''['' then
         (if take 1 (skip_ws r) = '']'' then Some (Array [], drop 1 (skip_ws r))
          else case jelements n r of None \<Rightarrow> None | Some (vs, r') \<Rightarrow> Some (Array vs, r'))
       else if c = CHR 0x22 then
         (case jstring r of None \<Rightarrow> None | Some (t, r') \<Rightarrow> Some (String t, r'))
       else if take 4 (c # r) = ''true'' then Some (Bool True, drop 3 r)
       else if take 5 (c # r) = ''false'' then Some (Bool False, drop 4 r)
       else if take 4 (c # r) = ''null'' then Some (Null, drop 3 r)
       else (case jnumber (c # r) of None \<Rightarrow> None | Some (x, r') \<Rightarrow> Some (Number (Fin x), r')))"
| "jelements 0 s = None"
| "jelements (Suc n) s =
    (case jvalue n s of
       None \<Rightarrow> None
     | Some (v, r) \<Rightarrow>
       (case skip_ws r of
          [] \<Rightarrow> None
        | c # r' \<Rightarrow>
          if c = CHR '']'' then Some ([v], r')
          else if c = CHR '','' then
            (case jelements n r' of None \<Rightarrow> None | Some (vs, r'') \<Rightarrow> Some (v # vs, r''))
          else None))"
| "jmembers 0 s = None"
| "jmembers (Suc n) s =
    (case skip_ws s of
       [] \<Rightarrow> None
     | q # r \<Rightarrow>
       if q \<noteq> CHR 0x22 then None
       else case jstring r of
              None \<Rightarrow> None
            | Some (k, r1) \<Rightarrow>
              (case skip_ws r1 of
                 [] \<Rightarrow> None
               | c # r2 \<Rightarrow>
                 if c \<noteq> CHR '':'' then None
                 else case jvalue n r2 of
                        None \<Rightarrow> None
                      | Some (v, r3) \<Rightarrow>
                        (case skip_ws r3 of
                           [] \<Rightarrow> None
                         | d # r4 \<Rightarrow>
                           if d = CHR ''}'' then Some ([(k, v)], r4)
                           else if d = CHR '','' then
                             (case jmembers n r4 of
                                None \<Rightarrow> None
                              | Some (ms, r5) \<Rightarrow> Some ((k, v) # ms, r5))
                           else None)))"

definition jparse :: "string \<Rightarrow> jsval option" where
  "jparse s =
    (case jvalue (2 * length s + 2) s of
       None \<Rightarrow> None
     | Some (v, r) \<Rightarrow> if skip_ws r = [] then Some v else None)"

fun jsep :: "string list \<Rightarrow> string" where
  "jsep [] = []"
| "jsep [x] = x"
| "jsep (x # xs) = x @ '','' @ jsep xs"

fun jprint :: "(rat \<Rightarrow> string) \<Rightarrow> jsval \<Rightarrow> string" where
  "jprint fstr Undefined = ''null''"
| "jprint fstr Null = ''null''"
| "jprint fstr (Bool b) = (if b then ''true'' else ''false'')"
| "jprint fstr (Number x) = (case x of Fin r \<Rightarrow> jnum_str fstr r | _ \<Rightarrow> ''null'')"
| "jprint fstr (String s) = jquote s"
| "jprint fstr (Array vs) = ''['' @ jsep (map (jprint fstr) vs) @ '']''"
| "jprint fstr (Object ms) =
    ''{'' @ jsep (map (\<lambda>(k, absent, t). jquote k @ '':'' @ t)
       (filter (\<lambda>(k, absent, t). \<not> absent)
         (map (\<lambda>(k, v). (k, v = Undefined, jprint fstr v)) ms))) @ ''}''"

definition jstringify :: "(rat \<Rightarrow> string) \<Rightarrow> jsval \<Rightarrow> string option" where
  "jstringify fstr v = (if v = Undefined then None else Some (jprint fstr v))"

section \<open>Printing and reading back\<close>

lemma jhex_hex_char: "m < 16 \<Longrightarrow> jhex (hex_char m) = Some m"
  by (auto simp: jhex_def hex_char_def Let_def)

lemma hex4_control: "n < 256 \<Longrightarrow> hex4 [CHR ''0'', CHR ''0'', hex_char (n div 16), hex_char (n mod 16)] = Some n"
  by (simp add: hex4_def jhex_hex_char less_mult_imp_div_less) (simp add: jhex_def)

lemma jstring_escape:
  "jstring (escape c @ r) = (case jstring r of None \<Rightarrow> None | Some (t, r') \<Rightarrow> Some (c # t, r'))"
proof -
  consider "c = CHR 0x22" | "c = CHR 0x5C" | "c = CHR 0x08" | "c = CHR 0x0C"
    | "c = CHR 0x0A" | "c = CHR 0x0D" | "c = CHR 0x09"
    | (ctl) "c \<noteq> CHR 0x22" "c \<noteq> CHR 0x5C" "c \<notin> {CHR 0x08, CHR 0x0C, CHR 0x0A, CHR 0x0D, CHR 0x09}" "(of_char c::nat) < 32"
    | (plain) "c \<noteq> CHR 0x22" "c \<noteq> CHR 0x5C" "\<not> (of_char c::nat) < 32" by force
  then show ?thesis
  proof cases
    case ctl
    then show ?thesis
      using hex4_control [of "of_char c"] by (simp add: escape_def unescape_def Let_def)
  next
    case plain
    then have "c \<notin> {CHR 0x08, CHR 0x0C, CHR 0x0A, CHR 0x0D, CHR 0x09}" by auto
    then show ?thesis using plain by (simp add: escape_def Let_def)
  qed (hypsubst, simp add: escape_def unescape_def Let_def)+
qed

lemma jstring_quoted: "jstring (concat (map escape s) @ CHR 0x22 # r) = Some (s, r)"
  by (induction s) (simp_all add: jstring_escape)

lemma digit_of_simps [simp]: "n < 10 \<Longrightarrow> is_digit (digit_of n)" "n < 10 \<Longrightarrow> digit_val (digit_of n) = n"
  by (simp_all add: is_digit_def digit_val_def digit_of_def)

lemma digits_val_snoc: "digits_val (ds @ [c]) = digits_val ds * 10 + digit_val c"
  by (simp add: digits_val_def)

lemma nat_str_digits: "list_all is_digit (nat_str n)"
  by (induction n rule: nat_str.induct) (subst nat_str.simps, simp)

lemma nat_str_val: "digits_val (nat_str n) = n"
proof (induction n rule: nat_str.induct)
  case (1 n)
  then show ?case by (subst nat_str.simps) (simp add: digits_val_snoc, simp add: digits_val_def)
qed

lemma nat_str_nonempty [simp]: "nat_str n \<noteq> []"
  by (subst nat_str.simps) simp

lemma nat_str_head: "n \<noteq> 0 \<Longrightarrow> hd (nat_str n) \<noteq> CHR ''0''"
proof (induction n rule: nat_str.induct)
  case (1 n)
  have "digit_of n \<noteq> CHR ''0''" if "n < 10" "n \<noteq> 0"
    using that digit_of_simps(2) [OF that(1)] by (auto simp: digit_val_def)
  then show ?case
    using 1 by (subst nat_str.simps) (simp add: div_greater_zero_iff)
qed

definition num_stop :: "string \<Rightarrow> bool" where
  "num_stop r = (r = [] \<or> (\<not> is_digit (hd r) \<and> hd r \<notin> {CHR ''.'', CHR ''e'', CHR ''E''}))"

lemma takeWhile_digits:
  assumes "list_all is_digit ds" "num_stop r"
  shows "takeWhile is_digit (ds @ r) = ds" "dropWhile is_digit (ds @ r) = r"
  using assms by (induction ds) (auto simp: num_stop_def, (cases r; simp)+)

lemma jnumber_nat:
  assumes "num_stop r"
  shows "jnumber (nat_str n @ r) = Some (of_nat n, r)" "jnumber (CHR ''-'' # nat_str n @ r) = Some (- of_nat n, r)"
proof -
  obtain d ds where d: "nat_str n = d # ds" by (cases "nat_str n") auto
  have dig: "is_digit d" using nat_str_digits [of n] d by simp
  have zero: "\<not> (1 < length (nat_str n) \<and> take 1 (nat_str n) = ''0'')"
  proof (cases "n = 0")
    case True
    then show ?thesis by (simp add: nat_str.simps)
  next
    case False
    then show ?thesis using nat_str_head [of n] d by auto
  qed
  have fr: "jfraction r = Some (0, r)" "jexponent r = Some (0, r)"
    using assms by (auto simp: jfraction_def jexponent_def num_stop_def split: list.split)
  have neg: "take 1 (nat_str n @ r) \<noteq> ''-''" using dig d by (auto simp: is_digit_def)
  show "jnumber (nat_str n @ r) = Some (of_nat n, r)"
    using neg zero fr takeWhile_digits [OF nat_str_digits assms]
    by (simp add: jnumber_def Let_def nat_str_val scale10_def)
  show "jnumber (CHR ''-'' # nat_str n @ r) = Some (- of_nat n, r)"
    using zero fr takeWhile_digits [OF nat_str_digits assms]
    by (simp add: jnumber_def Let_def nat_str_val scale10_def)
qed

lemma jnumber_int: "num_stop r \<Longrightarrow> jnumber (int_str i @ r) = Some (of_int i, r)"
  by (cases "i < 0") (simp_all add: int_str_def jnumber_nat)


text \<open>The values that survive printing: no \<open>undefined\<close>, no object with a repeated key, every number an
  integer below 10^21.\<close>

fun jok :: "jsval \<Rightarrow> bool" where
  "jok Undefined = False"
| "jok Null = True"
| "jok (Bool b) = True"
| "jok (Number x) = (case x of Fin r \<Rightarrow> of_int \<lfloor>r\<rfloor> = r \<and> \<bar>r\<bar> < 10 ^ 21 | _ \<Rightarrow> False)"
| "jok (String s) = True"
| "jok (Array vs) = list_all jok vs"
| "jok (Object ms) = (distinct (map fst ms) \<and> list_all (\<lambda>(k, v). jok v) ms)"

lemma jok_not_undefined: "jok v \<Longrightarrow> v \<noteq> Undefined"
  by auto

definition member_text :: "(rat \<Rightarrow> string) \<Rightarrow> string \<times> jsval \<Rightarrow> string" where
  "member_text fstr kv = jquote (fst kv) @ '':'' @ jprint fstr (snd kv)"

lemma member_text_pair [simp]: "member_text fstr (k, v) = jquote k @ '':'' @ jprint fstr v"
  by (simp add: member_text_def)

lemma jprint_object:
  assumes "list_all (\<lambda>(k, v). jok v) ms"
  shows "jprint fstr (Object ms) = ''{'' @ jsep (map (member_text fstr) ms) @ ''}''"
proof -
  have "map (\<lambda>(k, absent, t). jquote k @ '':'' @ t) (filter (\<lambda>(k, absent, t). \<not> absent)
      (map (\<lambda>(k, v). (k, v = Undefined, jprint fstr v)) ms)) = map (member_text fstr) ms"
    using assms by (induction ms) (auto simp: member_text_def)
  then show ?thesis by simp
qed

definition val_stop :: "string \<Rightarrow> bool" where
  "val_stop r = (r = [] \<or> hd r \<in> {CHR '','', CHR '']'', CHR ''}''})"

lemma val_stop_num: "val_stop r \<Longrightarrow> num_stop r"
  by (auto simp: val_stop_def num_stop_def is_digit_def)

lemma val_stop_Cons [simp]: "c \<in> {CHR '','', CHR '']'', CHR ''}''} \<Longrightarrow> val_stop (c # r)"
  by (simp add: val_stop_def)

definition solid :: "string \<Rightarrow> bool" where
  "solid s = (s \<noteq> [] \<and> \<not> jws (hd s) \<and> hd s \<noteq> CHR '']'' \<and> hd s \<noteq> CHR ''}'')"

lemma solid_skip: "solid s \<Longrightarrow> skip_ws (s @ r) = s @ r"
  by (cases s) (auto simp: solid_def skip_ws_def)

lemma digit_not_punct:
  "is_digit c \<Longrightarrow> \<not> jws c \<and> c \<notin> {CHR '']'', CHR ''}'', CHR ''['', CHR ''{'', CHR 0x22, CHR ''t'', CHR ''f'', CHR ''n'', CHR ''-''}"
  by (auto simp: is_digit_def jws_def)

lemma int_str_head: "\<exists>c cs. int_str i = c # cs \<and> (is_digit c \<or> c = CHR ''-'')"
proof -
  have "\<exists>c cs. nat_str n = c # cs \<and> is_digit c" for n
    using nat_str_digits [of n] by (cases "nat_str n") auto
  from this [of "nat i"] show ?thesis by (auto simp: int_str_def)
qed

lemma jok_int: "jok (Number x) \<Longrightarrow> \<exists>i. x = Fin (of_int i) \<and> jprint fstr (Number x) = int_str i"
  by (cases x) (auto simp: jnum_str_def intro!: exI [of _ "\<lfloor>_\<rfloor>"])

lemma jprint_solid: "jok v \<Longrightarrow> solid (jprint fstr v)"
proof (cases v)
  case (Number x)
  assume "jok v"
  then obtain i where "jprint fstr v = int_str i" using jok_int Number by blast
  then show ?thesis using int_str_head [of i] digit_not_punct by (auto simp: solid_def jws_def)
qed (auto simp: solid_def jws_def jquote_def)

lemma jsep_Cons: "xs \<noteq> [] \<Longrightarrow> jsep (x # xs) = x @ '','' @ jsep xs"
  by (cases xs) simp_all

lemma jvalue_number:
  assumes "jnumber (c # r) = Some (x, r')" "is_digit c \<or> c = CHR ''-''"
  shows "jvalue (Suc n) (c # r) = Some (Number (Fin x), r')"
proof -
  have "skip_ws (c # r) = c # r" using assms(2) digit_not_punct by (auto simp: skip_ws_def jws_def)
  moreover have "c \<noteq> CHR ''{''" "c \<noteq> CHR ''[''" "c \<noteq> CHR 0x22" "c \<noteq> CHR ''t''" "c \<noteq> CHR ''f''" "c \<noteq> CHR ''n''"
    using assms(2) digit_not_punct [of c] by blast+
  ultimately show ?thesis using assms(1) by simp
qed

lemma jelements_print:
  assumes "vs \<noteq> []" "\<And>v n r. v \<in> set vs \<Longrightarrow> val_stop r \<Longrightarrow> 2 * length (jprint fstr v) < n \<Longrightarrow>
      jvalue n (jprint fstr v @ r) = Some (v, r)"
    "2 * length (jsep (map (jprint fstr) vs)) + 1 < n" "\<And>v. v \<in> set vs \<Longrightarrow> solid (jprint fstr v)"
  shows "jelements n (jsep (map (jprint fstr) vs) @ '']'' @ r) = Some (vs, r)"
  using assms
proof (induction vs arbitrary: n)
  case (Cons v vs)
  obtain m where n: "n = Suc m" using Cons.prems(3) by (cases n) auto
  show ?case
  proof (cases "vs = []")
    case True
    have "jvalue m (jprint fstr v @ CHR '']'' # r) = Some (v, CHR '']'' # r)"
      by (rule Cons.prems(2)) (use Cons.prems(3) True n in auto)
    then show ?thesis using True n by (simp add: skip_ws_def jws_def)
  next
    case False
    let ?rest = "jsep (map (jprint fstr) vs) @ '']'' @ r"
    have len: "2 * length (jprint fstr v) < m" "2 * length (jsep (map (jprint fstr) vs)) + 1 < m"
      using Cons.prems(3) False n by (simp_all add: jsep_Cons)
    have "jvalue m (jprint fstr v @ CHR '','' # ?rest) = Some (v, CHR '','' # ?rest)"
      by (rule Cons.prems(2)) (use len in auto)
    moreover have "jelements m ?rest = Some (vs, r)"
      by (rule Cons.IH) (use False Cons.prems len in auto)
    ultimately show ?thesis using False n by (simp add: jsep_Cons skip_ws_def jws_def)
  qed
qed simp

lemma jmembers_print:
  assumes "ms \<noteq> []" "\<And>k v n r. (k, v) \<in> set ms \<Longrightarrow> val_stop r \<Longrightarrow> 2 * length (jprint fstr v) < n \<Longrightarrow>
      jvalue n (jprint fstr v @ r) = Some (v, r)"
    "2 * length (jsep (map (member_text fstr) ms)) + 1 < n"
  shows "jmembers n (jsep (map (member_text fstr) ms) @ ''}'' @ r) = Some (ms, r)"
  using assms
proof (induction ms arbitrary: n)
  case (Cons kv ms)
  obtain k v where kv: "kv = (k, v)" by (cases kv)
  obtain m where n: "n = Suc m" using Cons.prems(3) by (cases n) auto
  have key: "jstring (concat (map escape k) @ CHR 0x22 # s) = Some (k, s)" for s by (rule jstring_quoted)
  show ?case
  proof (cases "ms = []")
    case True
    have "jvalue m (jprint fstr v @ CHR ''}'' # r) = Some (v, CHR ''}'' # r)"
      by (rule Cons.prems(2) [of k]) (use Cons.prems(3) True n kv in auto)
    then show ?thesis using True n kv key by (simp add: jquote_def skip_ws_def jws_def)
  next
    case False
    let ?rest = "jsep (map (member_text fstr) ms) @ ''}'' @ r"
    have len: "2 * length (jprint fstr v) < m" "2 * length (jsep (map (member_text fstr) ms)) + 1 < m"
      using Cons.prems(3) False n kv by (simp_all add: jsep_Cons)
    have "jvalue m (jprint fstr v @ CHR '','' # ?rest) = Some (v, CHR '','' # ?rest)"
      by (rule Cons.prems(2) [of k]) (use len kv in auto)
    moreover have "jmembers m ?rest = Some (ms, r)"
      by (rule Cons.IH) (use False Cons.prems len in auto)
    ultimately show ?thesis using False n kv key
      by (simp add: jsep_Cons jquote_def skip_ws_def jws_def)
  qed
qed simp

lemma fold_map_set_fresh:
  "distinct (map fst (acc @ ms)) \<Longrightarrow> fold (\<lambda>(k, v). map_set k v) ms acc = acc @ ms"
proof (induction ms arbitrary: acc)
  case (Cons kv ms)
  obtain k v where kv: "kv = (k, v)" by (cases kv)
  have "map_set k v acc = acc @ [(k, v)]"
    using Cons.prems kv by (intro map_set_fresh) (auto simp: map_get_def map_of_eq_None_iff)
  then show ?case using Cons kv by simp
qed simp

lemma solid_jsep: "xs \<noteq> [] \<Longrightarrow> solid (hd xs) \<Longrightarrow> solid (jsep xs)"
  by (cases xs rule: jsep.cases) (auto simp: solid_def)

lemma jvalue_print:
  assumes "jok v" "val_stop r" "2 * length (jprint fstr v) < n"
  shows "jvalue n (jprint fstr v @ r) = Some (v, r)"
  using assms
proof (induction v arbitrary: n r)
  case (Number x)
  obtain i where i: "x = Fin (of_int i)" "jprint fstr (Number x) = int_str i"
    using jok_int [OF Number(1)] by blast
  obtain c cs where c: "int_str i = c # cs" "is_digit c \<or> c = CHR ''-''" using int_str_head by blast
  obtain m where n: "n = Suc m" using Number(3) by (cases n) auto
  have "jnumber (c # cs @ r) = Some (of_int i, r)"
    using jnumber_int [OF val_stop_num [OF Number(2)], of i] c by simp
  from jvalue_number [OF this c(2), of m] show ?case using n i c by simp
next
  case (String s)
  then show ?case by (cases n) (simp_all add: jquote_def skip_ws_def jws_def jstring_quoted)
next
  case (Array vs)
  obtain m where n: "n = Suc m" using Array(4) by (cases n) auto
  have ok: "v \<in> set vs \<Longrightarrow> jok v" for v using Array(2) by (simp add: list_all_iff)
  show ?case
  proof (cases "vs = []")
    case True
    then show ?thesis using n by (simp add: skip_ws_def jws_def)
  next
    case False
    have "jelements m (jsep (map (jprint fstr) vs) @ '']'' @ r) = Some (vs, r)"
      by (rule jelements_print) (use False Array ok n jprint_solid in auto)
    moreover have "solid (jsep (map (jprint fstr) vs))"
      using False ok jprint_solid by (intro solid_jsep) (auto simp: hd_map)
    ultimately show ?thesis
      using n solid_skip by (auto simp: skip_ws_def [of "CHR ''['' # _"] jws_def solid_def neq_Nil_conv)
  qed
next
  case (Object ms)
  obtain m where n: "n = Suc m" using Object(4) by (cases n) auto
  have ok: "list_all (\<lambda>(k, v). jok v) ms" and dist: "distinct (map fst ms)" using Object(2) by auto
  show ?case
  proof (cases "ms = []")
    case True
    then show ?thesis using n by (simp add: skip_ws_def jws_def)
  next
    case False
    have len: "2 * length (jsep (map (member_text fstr) ms)) + 1 < m"
      using Object(4) n jprint_object [OF ok, of fstr] by simp
    have "jmembers m (jsep (map (member_text fstr) ms) @ ''}'' @ r) = Some (ms, r)"
      by (rule jmembers_print) (use False Object ok len in \<open>auto simp: list_all_iff\<close>)
    moreover have "solid (jsep (map (member_text fstr) ms))"
      using False by (intro solid_jsep) (auto simp: hd_map member_text_def jquote_def solid_def jws_def)
    moreover have "jobject ms = Object ms" using dist fold_map_set_fresh [of "[]" ms] by (simp add: jobject_def)
    ultimately show ?thesis
      using n solid_skip jprint_object [OF ok, of fstr]
      by (auto simp: skip_ws_def [of "CHR ''{'' # _"] jws_def solid_def neq_Nil_conv)
  qed
next
  case Undefined
  then show ?case by simp
next
  case Null
  then show ?case by (cases n) (simp_all add: skip_ws_def jws_def)
next
  case (Bool b)
  then show ?case by (cases n; cases b) (simp_all add: skip_ws_def jws_def)
qed

lemma jparse_print: "jok v \<Longrightarrow> jparse (jprint fstr v) = Some v"
  using jvalue_print [of v "[]" fstr "2 * length (jprint fstr v) + 2"]
  by (simp add: jparse_def val_stop_def skip_ws_def)

section \<open>The fuel is enough\<close>

lemma skip_ws_length: "length (skip_ws s) \<le> length s"
  by (simp add: skip_ws_def length_dropWhile_le)

lemma skip_ws_Cons: "skip_ws s = c # r \<Longrightarrow> length r < length s"
  using skip_ws_length [of s] by simp

lemma jstring_shorter: "jstring s = Some (t, r) \<Longrightarrow> length r < length s"
proof (induction s arbitrary: t r rule: jstring.induct)
  case (2 c s)
  then show ?case
    by (fastforce dest: unescape_shorter split: if_splits option.splits)
qed simp

lemma jexponent_length: "jexponent s = Some (e, r) \<Longrightarrow> length r \<le> length s"
  by (auto simp: jexponent_def Let_def le_SucI intro: order_trans [OF length_dropWhile_le] split: list.splits if_splits)

lemma jfraction_length: "jfraction s = Some (e, r) \<Longrightarrow> length r \<le> length s"
  by (auto simp: jfraction_def Let_def le_SucI length_dropWhile_le split: list.splits if_splits)

lemma jnumber_shorter: "jnumber s = Some (x, r) \<Longrightarrow> length r < length s"
proof -
  assume a: "jnumber s = Some (x, r)"
  define s1 where "s1 = (if take 1 s = ''-'' then drop 1 s else s)"
  have ds: "takeWhile is_digit s1 \<noteq> []" and r: "length r \<le> length (dropWhile is_digit s1)"
    using a by (auto simp: jnumber_def Let_def s1_def dest!: jfraction_length jexponent_length
        split: if_splits option.splits)
  have "length (takeWhile is_digit s1) + length (dropWhile is_digit s1) = length s1"
    by (metis length_append takeWhile_dropWhile_id)
  then have "length (dropWhile is_digit s1) < length s1" using ds by (cases "takeWhile is_digit s1") auto
  moreover have "length s1 \<le> length s" by (simp add: s1_def)
  ultimately show "length r < length s" using r by simp
qed

lemma jvalue_shorter:
  "jvalue n s = Some (v, r) \<Longrightarrow> length r < length s"
  "jelements n s = Some (vs, r) \<Longrightarrow> length r < length s"
  "jmembers n s = Some (ms, r) \<Longrightarrow> length r < length s"
proof (induction n s and n s and n s arbitrary: v r and vs r and ms r rule: jvalue_jelements_jmembers.induct)
  case (2 n s)
  show ?case
  proof (cases "skip_ws s")
    case Nil
    then show ?thesis using 2 by simp
  next
    case (Cons c s')
    have l: "length s' < length s" by (rule skip_ws_Cons [OF Cons])
    have w: "length (drop 1 (skip_ws s')) \<le> length s'" using skip_ws_length [of s'] by simp
    show ?thesis
      using 2 Cons l w
      by (fastforce dest: jstring_shorter jnumber_shorter split: if_splits option.splits)
  qed
qed (fastforce dest: skip_ws_Cons jstring_shorter split: list.splits if_splits option.splits)+

lemma jvalue_more_fuel:
  "2 * length s < n \<Longrightarrow> jvalue (Suc n) s = jvalue n s"
  "2 * length s + 1 < n \<Longrightarrow> jelements (Suc n) s = jelements n s"
  "2 * length s + 1 < n \<Longrightarrow> jmembers (Suc n) s = jmembers n s"
proof (induction n arbitrary: s)
  case (Suc n)
  {
    case 1
    show ?case
    proof (cases "skip_ws s")
      case Nil
      then show ?thesis by simp
    next
      case (Cons c r)
      have "2 * length r + 1 < n" using skip_ws_Cons [OF Cons] 1 by simp
      then have "jelements (Suc n) r = jelements n r" "jmembers (Suc n) r = jmembers n r"
        using Suc.IH by blast+
      then show ?thesis unfolding jvalue.simps(2) Cons by (simp del: jelements.simps jmembers.simps)
    qed
  next
    case 2
    have v: "jvalue (Suc n) s = jvalue n s" using 2 Suc.IH by simp
    note body = jelements.simps(2) [of "Suc n" s] jelements.simps(2) [of n s]
    show ?case
    proof (cases "jvalue n s")
      case None
      then show ?thesis by (subst body(1), subst body(2)) (simp add: v del: jelements.simps jvalue.simps)
    next
      case (Some vr)
      obtain w r where vr: "vr = (w, r)" by (cases vr)
      have "jelements (Suc n) r' = jelements n r'" if "skip_ws r = c # r'" for c r'
      proof (rule Suc.IH(2))
        have "length r < length s" "length r' < length r"
          using Some vr that jvalue_shorter(1) skip_ws_Cons by blast+
        then show "2 * length r' + 1 < n" using 2 by simp
      qed
      then show ?thesis
        by (subst body(1), subst body(2), cases "skip_ws r")
          (simp_all add: v Some vr del: jelements.simps jvalue.simps)
    qed
  next
    case 3
    note body = jmembers.simps(2) [of "Suc n" s] jmembers.simps(2) [of n s]
    show ?case
    proof (cases "\<exists>q r k r1 c r2. skip_ws s = q # r \<and> jstring r = Some (k, r1) \<and> skip_ws r1 = c # r2")
      case False
      then show ?thesis by (subst body(1), subst body(2))
        (auto simp del: jmembers.simps jvalue.simps split: list.split option.split)
    next
      case True
      then obtain q r k r1 c r2 where *: "skip_ws s = q # r" "jstring r = Some (k, r1)" "skip_ws r1 = c # r2"
        by blast
      have l: "length r < length s" "length r1 < length r" "length r2 < length r1"
        using * jstring_shorter skip_ws_Cons by blast+
      have v: "jvalue (Suc n) r2 = jvalue n r2" by (rule Suc.IH(1)) (use l 3 in simp)
      show ?thesis
      proof (cases "jvalue n r2")
        case None
        then show ?thesis by (subst body(1), subst body(2)) (simp add: * v del: jmembers.simps jvalue.simps)
      next
        case (Some vr)
        obtain w r3 where vr: "vr = (w, r3)" by (cases vr)
        have "jmembers (Suc n) r4 = jmembers n r4" if "skip_ws r3 = d # r4" for d r4
        proof (rule Suc.IH(3))
          have "length r3 < length r2" "length r4 < length r3"
            using Some vr that jvalue_shorter(1) skip_ws_Cons by blast+
          then show "2 * length r4 + 1 < n" using l 3 by simp
        qed
        then show ?thesis
          by (subst body(1), subst body(2), cases "skip_ws r3")
            (simp_all add: * v Some vr del: jmembers.simps jvalue.simps)
      qed
    qed
  }
qed simp_all

lemma jvalue_fuel: "2 * length s < n \<Longrightarrow> n \<le> m \<Longrightarrow> jvalue m s = jvalue n s"
proof (induction m)
  case (Suc m)
  then show ?case
    using jvalue_more_fuel(1) [of s m] by (cases "n = Suc m") auto
qed simp

lemma jparse_fuel:
  assumes "2 * length s + 2 \<le> n"
  shows "jparse s = (case jvalue n s of None \<Rightarrow> None | Some (v, r) \<Rightarrow> if skip_ws r = [] then Some v else None)"
  using jvalue_fuel [of s "2 * length s + 2" n] assms by (simp add: jparse_def)

end
