(* ===== verification/Cashu_Escrow.thy ===== *)
theory Cashu_Escrow
  imports Json
begin

text \<open>
  Cashu wallet and escrow operations (\<open>payments/cashu/cashu-wallet.ts\<close>, \<open>cashu-escrow-helpers.ts\<close>,
  \<open>cashu-htlc-options.ts\<close>, \<open>cashu-escrow.ts\<close>, \<open>redeem-swap.ts\<close>).  The Cashu library and the mint are
  the record \<open>cashu\<close> of functions; a call that throws or rejects is \<open>None\<close>, and so is a send that
  outlives the timeout of \<open>loadAndSend\<close>.  The library's lock builder is not interpreted: a lock is the
  list of builder calls, turned into library options by \<open>c_toOptions\<close>.
\<close>

section \<open>The library interface\<close>

record Proof =
  p_amount :: jsnum
  p_secret :: string
  p_C :: string
  p_witness :: jsval
  p_id :: string
  p_dleq :: jsval

datatype p2pk_call = AddHashlock jsval | AddLockPubkey "string list" | RequireLockSignatures nat
  | LockUntil jsnum | AddRefundPubkey jsval | RequireRefundSignatures nat | SigAll

type_synonym p2pk_lock = "p2pk_call list"

record 'opt cashu =
  c_mintUrl :: "string option"
  c_loadMint :: bool
  c_toOptions :: "p2pk_lock \<Rightarrow> 'opt"
  c_send :: "jsnum \<Rightarrow> Proof list \<Rightarrow> 'opt option \<Rightarrow> string option \<Rightarrow> Proof list option"
  c_fees :: "Proof list \<Rightarrow> jsnum"
  c_encode :: "string \<Rightarrow> Proof list \<Rightarrow> string"
  c_decode :: "string \<Rightarrow> (string \<times> Proof list) option"
  c_states :: "Proof list \<Rightarrow> string list option"
  c_signP2PK :: "Proof list \<Rightarrow> string \<Rightarrow> Proof list option"
  c_htlcAuthorised :: "Proof \<Rightarrow> bool"
  c_verifyHTLCHash :: "string \<Rightarrow> string \<Rightarrow> bool"

section \<open>Configuration and helpers (cashu-wallet.ts, cashu-escrow-helpers.ts)\<close>

definition getCashuConfig :: "'opt cashu \<Rightarrow> string option" where
  "getCashuConfig lib =
    (case map_option trim (c_mintUrl lib) of
       None \<Rightarrow> None
     | Some u \<Rightarrow> if str_truthy u then Some u else None)"

definition isCashuEnabled :: "'opt cashu \<Rightarrow> bool" where
  "isCashuEnabled lib = (getCashuConfig lib \<noteq> None)"

text \<open>\<open>None\<close>: \<open>loadMint\<close> rejected; \<open>Some None\<close>: no mint configured.\<close>

definition getWalletAndConfig :: "'opt cashu \<Rightarrow> string option option" where
  "getWalletAndConfig lib =
    (case getCashuConfig lib of
       None \<Rightarrow> Some None
     | Some mintUrl \<Rightarrow> if c_loadMint lib then Some (Some mintUrl) else None)"

definition sumProofAmounts :: "Proof list \<Rightarrow> jsnum" where
  "sumProofAmounts proofs = foldl (\<lambda>sum p. sum + p_amount p) 0 proofs"

definition encodeProofs :: "'opt cashu \<Rightarrow> string \<Rightarrow> Proof list \<Rightarrow> string" where
  "encodeProofs lib mintUrl proofs = c_encode lib mintUrl proofs"

definition loadAndSend ::
    "'opt cashu \<Rightarrow> jsnum \<Rightarrow> Proof list \<Rightarrow> p2pk_lock option \<Rightarrow> string option \<Rightarrow> Proof list option" where
  "loadAndSend lib amountSats proofs lock privkey =
    (if \<not> c_loadMint lib then None
     else c_send lib amountSats proofs (map_option (c_toOptions lib) lock)
            (if ostr_truthy privkey then privkey else None))"

definition computeNetAmount :: "'opt cashu \<Rightarrow> Proof list \<Rightarrow> jsnum option" where
  "computeNetAmount lib proofs =
    (let amountSats = sumProofAmounts proofs - c_fees lib proofs
     in if amountSats \<le> 0 then None else Some amountSats)"

section \<open>Lock options (cashu-htlc-options.ts)\<close>

record HtlcInitialLockParams =
  hi_hash :: string
  hi_customerPubkey :: string
  hi_locktimeSeconds :: jsnum

record HtlcProviderBindParams =
  hb_hash :: jsval
  hb_providerPubkey :: string
  hb_customerRefundPubkey :: jsval
  hb_locktimeSeconds :: jsnum

definition buildHtlcInitialOptions :: "HtlcInitialLockParams \<Rightarrow> p2pk_lock option" where
  "buildHtlcInitialOptions params = None"

definition buildHtlcPreselectionOptions :: "string \<Rightarrow> p2pk_lock" where
  "buildHtlcPreselectionOptions customerPubkey =
    [AddLockPubkey [customerPubkey], RequireLockSignatures 1, SigAll]"

definition buildHtlcFinalOptions :: "HtlcProviderBindParams \<Rightarrow> p2pk_lock" where
  "buildHtlcFinalOptions params =
    [AddHashlock (hb_hash params), AddLockPubkey [hb_providerPubkey params], RequireLockSignatures 1,
     LockUntil (hb_locktimeSeconds params), AddRefundPubkey (hb_customerRefundPubkey params),
     RequireRefundSignatures 1, SigAll]"

section \<open>Escrow tokens (cashu-escrow.ts)\<close>

record EscrowParams =
  es_oraclePubkey :: string
  es_providerPubkey :: string
  es_customerRefundPubkey :: string
  es_locktimeSeconds :: jsnum

record EscrowToken =
  et_token :: string
  et_proofs :: "Proof list"
  et_lock :: "p2pk_lock option"
  et_amountSats :: jsnum

record SwapResult =
  sr_providerToken :: string
  sr_oracleToken :: string
  sr_providerAmountSats :: jsnum
  sr_oracleFeeSats :: jsnum

definition buildEscrowP2PKOptions :: "EscrowParams \<Rightarrow> p2pk_lock" where
  "buildEscrowP2PKOptions params =
    [AddLockPubkey [es_oraclePubkey params, es_providerPubkey params], RequireLockSignatures 2,
     LockUntil (es_locktimeSeconds params), AddRefundPubkey (String (es_customerRefundPubkey params)),
     RequireRefundSignatures 1, SigAll]"

text \<open>The shared shape of the functions that lock proofs: send inside a \<open>try\<close>, encode what came back.\<close>

definition lock_proofs ::
    "'opt cashu \<Rightarrow> string \<Rightarrow> jsnum \<Rightarrow> Proof list \<Rightarrow> p2pk_lock option \<Rightarrow> EscrowToken option" where
  "lock_proofs lib mintUrl amountSats proofs lock =
    (case loadAndSend lib amountSats proofs lock None of
       None \<Rightarrow> None
     | Some send \<Rightarrow> Some \<lparr> et_token = encodeProofs lib mintUrl send, et_proofs = send, et_lock = lock,
                          et_amountSats = amountSats \<rparr>)"

definition createEscrowToken ::
    "'opt cashu \<Rightarrow> jsnum \<Rightarrow> EscrowParams \<Rightarrow> Proof list \<Rightarrow> EscrowToken option option" where
  "createEscrowToken lib amountSats params sourceProofs =
    (case getWalletAndConfig lib of
       None \<Rightarrow> None
     | Some None \<Rightarrow> Some None
     | Some (Some mintUrl) \<Rightarrow>
         Some (lock_proofs lib mintUrl amountSats sourceProofs (Some (buildEscrowP2PKOptions params))))"

definition remainingProofs :: "Proof list \<Rightarrow> Proof list \<Rightarrow> Proof list" where
  "remainingProofs signedProofs providerProofs =
    filter (\<lambda>p. \<not> list_ex (\<lambda>providerProof. p_C providerProof = p_C p) providerProofs) signedProofs"

text \<open>The mint is stateful: the second send of the swap is the function \<open>send2\<close>, the mint after the
  first one.\<close>

definition executeEscrowSwap ::
    "'opt cashu \<Rightarrow> (jsnum \<Rightarrow> Proof list \<Rightarrow> 'opt option \<Rightarrow> string option \<Rightarrow> Proof list option) \<Rightarrow>
     Proof list \<Rightarrow> string \<Rightarrow> string \<Rightarrow> jsnum \<Rightarrow> SwapResult option option" where
  "executeEscrowSwap lib send2 signedProofs providerPubkey oraclePubkey feeSats =
    (case getWalletAndConfig lib of
       None \<Rightarrow> None
     | Some None \<Rightarrow> Some None
     | Some (Some mintUrl) \<Rightarrow>
       let providerSats = sumProofAmounts signedProofs - feeSats in
       if providerSats \<le> 0 then Some None
       else case loadAndSend lib providerSats signedProofs (Some [AddLockPubkey [providerPubkey]]) None of
              None \<Rightarrow> Some None
            | Some providerProofs \<Rightarrow>
              let remaining = remainingProofs signedProofs providerProofs in
              (case (if remaining = [] then Some []
                     else loadAndSend (lib\<lparr> c_send := send2 \<rparr>) feeSats remaining
                            (Some [AddLockPubkey [oraclePubkey]]) None) of
                 None \<Rightarrow> Some None
               | Some oracleProofs \<Rightarrow> Some (Some
                   \<lparr> sr_providerToken = encodeProofs lib mintUrl providerProofs,
                     sr_oracleToken = (if oracleProofs = [] then [] else encodeProofs lib mintUrl oracleProofs),
                     sr_providerAmountSats = providerSats, sr_oracleFeeSats = feeSats \<rparr>)))"

definition createHtlcToken ::
    "'opt cashu \<Rightarrow> jsnum \<Rightarrow> HtlcInitialLockParams \<Rightarrow> Proof list \<Rightarrow> EscrowToken option option" where
  "createHtlcToken lib amountSats params sourceProofs =
    (case getWalletAndConfig lib of
       None \<Rightarrow> None
     | Some None \<Rightarrow> Some None
     | Some (Some mintUrl) \<Rightarrow> Some (lock_proofs lib mintUrl amountSats sourceProofs None))"

definition swapHtlcBindProvider ::
    "'opt cashu \<Rightarrow> Proof list \<Rightarrow> HtlcProviderBindParams \<Rightarrow> EscrowToken option option" where
  "swapHtlcBindProvider lib initialProofs params =
    (case getWalletAndConfig lib of
       None \<Rightarrow> None
     | Some None \<Rightarrow> Some None
     | Some (Some mintUrl) \<Rightarrow>
       (case computeNetAmount lib initialProofs of
          None \<Rightarrow> Some None
        | Some amountSats \<Rightarrow>
            Some (lock_proofs lib mintUrl amountSats initialProofs (Some (buildHtlcFinalOptions params)))))"

definition calculateOracleFee :: "jsnum \<Rightarrow> jsnum \<Rightarrow> jsnum" where
  "calculateOracleFee amountSats feePpm =
    (case div_by (amountSats * feePpm) 1000000 of Fin r \<Rightarrow> Fin (of_int \<lceil>r\<rceil>) | x \<Rightarrow> x)"

definition inspectEscrowToken :: "'opt cashu \<Rightarrow> string \<Rightarrow> (jsnum \<times> nat \<times> string) option" where
  "inspectEscrowToken lib token =
    (case c_decode lib token of
       None \<Rightarrow> None
     | Some (mint, proofs) \<Rightarrow> Some (sumProofAmounts proofs, length proofs, mint))"

text \<open>Reading a property of a parsed value: \<open>None\<close> is the exception of reading from \<open>null\<close> or
  \<open>undefined\<close>.\<close>

fun js_index :: "jsval \<Rightarrow> nat \<Rightarrow> jsval" where
  "js_index (Array vs) i = (if i < length vs then vs ! i else Undefined)"
| "js_index (String s) i = (if i < length s then String [s ! i] else Undefined)"
| "js_index (Object ms) i = (case map_get ms (nat_str i) of None \<Rightarrow> Undefined | Some v \<Rightarrow> v)"
| "js_index _ i = Undefined"

fun opt_prop :: "jsval \<Rightarrow> string \<Rightarrow> jsval" where
  "opt_prop (Object ms) k = (case map_get ms k of None \<Rightarrow> Undefined | Some v \<Rightarrow> v)"
| "opt_prop _ k = Undefined"

definition validateHtlcSecret :: "Proof \<Rightarrow> jsnum \<Rightarrow> string \<Rightarrow> msg option" where
  "validateHtlcSecret proof index expectedHash =
    (case jparse (p_secret proof) of
       None \<Rightarrow> Some [T ''Proof '', N index, T '': invalid secret format'']
     | Some secret \<Rightarrow>
       (case secret of
          Array _ \<Rightarrow>
            if js_index secret 0 \<noteq> String ''HTLC'' then Some [T ''Proof '', N index, T '': not an HTLC proof'']
            else if opt_prop (js_index secret 1) ''data'' \<noteq> String expectedHash
            then Some [T ''Proof '', N index, T ('': hashlock mismatch (expected='' @ expectedHash @ '', got=''),
                       J (opt_prop (js_index secret 1) ''data''), T '')'']
            else None
        | _ \<Rightarrow> Some [T ''Proof '', N index, T '': not an HTLC proof'']))"

fun jsval_truthy :: "jsval \<Rightarrow> bool" where
  "jsval_truthy Undefined = False"
| "jsval_truthy Null = False"
| "jsval_truthy (Bool b) = b"
| "jsval_truthy (Number x) = num_truthy x"
| "jsval_truthy (String s) = (s \<noteq> [])"
| "jsval_truthy _ = True"

fun verify_proofs_from :: "'opt cashu \<Rightarrow> string \<Rightarrow> nat \<Rightarrow> Proof list \<Rightarrow> msg option" where
  "verify_proofs_from lib expectedHash i [] = None"
| "verify_proofs_from lib expectedHash i (proof # ps) =
    (case validateHtlcSecret proof (Fin (of_nat i)) expectedHash of
       Some err \<Rightarrow> Some err
     | None \<Rightarrow>
       if jsval_truthy (p_witness proof) \<and> \<not> c_htlcAuthorised lib proof
       then Some [T ''Proof '', N (Fin (of_nat i)), T '': HTLC spending conditions not met'']
       else verify_proofs_from lib expectedHash (Suc i) ps)"

definition verifyHtlcProofs :: "'opt cashu \<Rightarrow> Proof list \<Rightarrow> string \<Rightarrow> string \<Rightarrow> msg option" where
  "verifyHtlcProofs lib htlcProofs expectedHash preimage =
    (if \<not> c_verifyHTLCHash lib preimage expectedHash
     then Some (plain (''Preimage does not match expected hash (hash='' @ expectedHash @ '')''))
     else verify_proofs_from lib expectedHash 0 htlcProofs)"

section \<open>Redeeming (redeem-swap.ts)\<close>

text \<open>What the code reads of the wallet; an absent optional method is \<open>None\<close>, and so is a call that
  throws.  An output registered for recovery has its blinded message and the library's function from a
  restored signature to a proof.\<close>

record OutputData =
  od_B :: string
  od_toProof :: "string \<Rightarrow> Proof"

record CashuRedeemWallet =
  rw_getFeesForProofs :: "Proof list \<Rightarrow> jsnum"
  rw_keyset :: "string option"
  rw_asCustom :: bool
  rw_createRandomData :: "jsnum \<Rightarrow> string \<Rightarrow> OutputData list"
  rw_run :: "jsnum \<Rightarrow> Proof list \<Rightarrow> string option \<Rightarrow> OutputData list option \<Rightarrow> Proof list option"
  rw_checkProofsStates :: "(Proof list \<Rightarrow> string list option) option"
  rw_restore :: "(string list \<Rightarrow> (string list \<times> string list) option) option"

datatype RedeemSwapFailureReason = Fee_exceeds_amount | Mint_error | State_unknown | Inputs_unspent
  | Outputs_not_registered | Restore_failed | Restore_empty

datatype RedeemSwapResult =
    Redeem_ok "Proof list" jsnum bool
  | Redeem_failed RedeemSwapFailureReason bool bool

definition recover_proofs :: "OutputData list \<Rightarrow> string list \<Rightarrow> string list \<Rightarrow> Proof list" where
  "recover_proofs outputData outputs signatures =
    (let byBlindedMessage = fold (\<lambda>o'. map_set (od_B o') o') outputData []
     in List.map_filter
          (\<lambda>i. if i < length signatures
                then map_option (\<lambda>data. od_toProof data (signatures ! i)) (map_get byBlindedMessage (outputs ! i))
                else None) [0..<length outputs])"

definition recoverInterruptedRedeem ::
    "CashuRedeemWallet \<Rightarrow> Proof list \<Rightarrow> OutputData list option \<Rightarrow> string option \<Rightarrow> RedeemSwapResult" where
  "recoverInterruptedRedeem wallet inputs outputData keyset =
    (case rw_checkProofsStates wallet of
       None \<Rightarrow> Redeem_failed Mint_error False False
     | Some checkProofsStates \<Rightarrow>
       (case checkProofsStates inputs of
          None \<Rightarrow> Redeem_failed State_unknown False True
        | Some states \<Rightarrow>
          if \<not> list_ex (\<lambda>s. s = ''SPENT'') states then Redeem_failed Inputs_unspent True False
          else (case (outputData, keyset, rw_restore wallet) of
                  (Some outs, Some ks, Some restore) \<Rightarrow>
                    (case restore (map od_B outs) of
                       None \<Rightarrow> Redeem_failed Restore_failed False True
                     | Some (outputs, signatures) \<Rightarrow>
                       let recovered = recover_proofs outs outputs signatures
                       in if recovered = [] then Redeem_failed Restore_empty False True
                          else Redeem_ok recovered (sumProofAmounts recovered) True)
                | _ \<Rightarrow> Redeem_failed Outputs_not_registered False True)))"

definition redeemSignedProofs ::
    "CashuRedeemWallet \<Rightarrow> Proof list \<Rightarrow> string option \<Rightarrow> RedeemSwapResult" where
  "redeemSignedProofs wallet signedProofs signingPrivateKey =
    (let swapAmount = sumProofAmounts signedProofs - rw_getFeesForProofs wallet signedProofs
     in if swapAmount \<le> 0 then Redeem_failed Fee_exceeds_amount False False
        else let outputData = (case rw_keyset wallet of
                                 Some ks \<Rightarrow> if rw_asCustom wallet
                                            then Some (rw_createRandomData wallet swapAmount ks) else None
                               | None \<Rightarrow> None)
             in case rw_run wallet swapAmount signedProofs signingPrivateKey outputData of
                  Some send \<Rightarrow> Redeem_ok send (sumProofAmounts send) False
                | None \<Rightarrow> recoverInterruptedRedeem wallet signedProofs outputData (rw_keyset wallet))"

section \<open>Redeeming an HTLC token (cashu-escrow.ts)\<close>

definition htlc_witness :: "string \<Rightarrow> string" where
  "htlc_witness preimage =
    jprint (\<lambda>r. []) (Object [(''preimage'', String preimage), (''signatures'', Array [])])"

definition prepareHtlcWitness :: "'opt cashu \<Rightarrow> Proof list \<Rightarrow> string \<Rightarrow> string \<Rightarrow> Proof list option" where
  "prepareHtlcWitness lib proofs preimage providerPrivateKey =
    c_signP2PK lib (map (\<lambda>p. p\<lparr> p_witness := String (htlc_witness preimage) \<rparr>) proofs) providerPrivateKey"

definition verifyHtlcSpendAuth :: "'opt cashu \<Rightarrow> Proof list \<Rightarrow> msg option" where
  "verifyHtlcSpendAuth lib signedProofs =
    (if list_all (c_htlcAuthorised lib) signedProofs then None
     else Some (plain ''HTLC spending condition not met''))"

text \<open>\<open>None\<close>: the call throws; \<open>Some None\<close>: it returns \<open>null\<close>.\<close>

definition redeemHtlcToken ::
    "'opt cashu \<Rightarrow> CashuRedeemWallet \<Rightarrow> Proof list \<Rightarrow> string \<Rightarrow> string \<Rightarrow>
     (string \<times> Proof list \<times> jsnum) option option" where
  "redeemHtlcToken lib wallet htlcProofs preimage providerPrivateKey =
    (case getWalletAndConfig lib of
       None \<Rightarrow> None
     | Some None \<Rightarrow> Some None
     | Some (Some mintUrl) \<Rightarrow>
       (case prepareHtlcWitness lib htlcProofs preimage providerPrivateKey of
          None \<Rightarrow> Some None
        | Some signedProofs \<Rightarrow>
          if verifyHtlcSpendAuth lib signedProofs \<noteq> None then Some None
          else (case redeemSignedProofs wallet signedProofs (Some providerPrivateKey) of
                  Redeem_ok proofs amountSats _ \<Rightarrow>
                    Some (Some (encodeProofs lib mintUrl proofs, proofs, amountSats))
                | Redeem_failed reason _ uncertain \<Rightarrow>
                    if reason = Fee_exceeds_amount then Some None
                    else if reason \<noteq> Inputs_unspent \<and> uncertain then None
                    else Some None)))"

section \<open>Token verification (cashu-wallet.ts)\<close>

definition verifyToken :: "'opt cashu \<Rightarrow> string \<Rightarrow> jsnum option \<Rightarrow> bool \<times> jsnum \<times> msg option" where
  "verifyToken lib token expectedMinSats =
    (case c_decode lib token of
       None \<Rightarrow> (False, 0, Some (plain ''Invalid token''))
     | Some (_, proofs) \<Rightarrow>
       let totalAmount = foldl (\<lambda>sum p. sum + p_amount p) 0 proofs in
       if onum_truthy expectedMinSats \<and> totalAmount < the expectedMinSats
       then (False, totalAmount, Some [T ''Insufficient amount: '', N totalAmount, T '' < '', N (the expectedMinSats)])
       else if getCashuConfig lib = None
       then (False, totalAmount, Some (plain ''Cashu mint is not configured; proof state cannot be verified''))
       else if \<not> c_loadMint lib
       then (False, totalAmount, Some (plain ''Mint verification failed''))
       else case c_states lib proofs of
              None \<Rightarrow> (False, totalAmount, Some (plain ''Mint verification failed''))
            | Some states \<Rightarrow>
              let spent = filter (\<lambda>s. s \<noteq> ''UNSPENT'') states in
              if spent \<noteq> [] then (False, totalAmount, Some [N (of_len spent), T '' proof(s) already spent on mint''])
              else (True, totalAmount, None))"

end
