(* ===== verification/Schema_Uri.thy ===== *)
theory Schema_Uri
  imports Anchr_Prelude
begin

text \<open>
  Proof Schema URLs (\<open>packages/protocol/src/schema.ts\<close>).  The WHATWG URL parser of the platform is
  the argument \<open>parse\<close> of \<open>isSchemaUri\<close>: it returns the components the source reads, or \<open>None\<close> where
  the \<open>URL\<close> constructor throws.
\<close>

record url =
  u_protocol :: string
  u_username :: string
  u_password :: string
  u_search :: string
  u_hash :: string
  u_pathname :: string

type_synonym url_parser = "string \<Rightarrow> url option"

definition TlsnV1 :: string where
  "TlsnV1 = ''https://anchr-spec.org/spec/proof/tlsn/v1''"

definition C2paImageV1 :: string where
  "C2paImageV1 = ''https://anchr-spec.org/spec/proof/c2pa-image/v1''"

definition slug_char :: "char \<Rightarrow> bool" where
  "slug_char c = (c \<in> set ''abcdefghijklmnopqrstuvwxyz0123456789-'')"

definition digit_char :: "char \<Rightarrow> bool" where
  "digit_char c = (c \<in> set ''0123456789'')"

text \<open>The regular expression \<open>/^\/spec\/proof\/[a-z0-9-]+\/v\d+$/\<close>.\<close>

definition schema_path_tail :: "string \<Rightarrow> bool" where
  "schema_path_tail r =
    (take 2 r = ''/v'' \<and> drop 2 r \<noteq> [] \<and> list_all digit_char (drop 2 r))"

definition schema_path :: "string \<Rightarrow> bool" where
  "schema_path p =
    (take 12 p = ''/spec/proof/'' \<and>
     takeWhile slug_char (drop 12 p) \<noteq> [] \<and>
     schema_path_tail (dropWhile slug_char (drop 12 p)))"

fun isSchemaUri :: "url_parser \<Rightarrow> jsval \<Rightarrow> bool" where
  "isSchemaUri parse (String s) =
    (case parse s of
       None \<Rightarrow> False
     | Some u \<Rightarrow>
        if u_protocol u \<noteq> ''https:'' then False
        else if u_username u \<noteq> [] \<or> u_password u \<noteq> [] then False
        else if u_search u \<noteq> [] \<or> u_hash u \<noteq> [] then False
        else schema_path (u_pathname u))"
| "isSchemaUri parse _ = False"

lemma dropWhile_append_stop:
  "\<forall>c \<in> set xs. P c \<Longrightarrow> ys = [] \<or> \<not> P (hd ys) \<Longrightarrow> takeWhile P (xs @ ys) = xs \<and> dropWhile P (xs @ ys) = ys"
  by (induction xs) (auto, (cases ys; simp)+)

text \<open>The scanning predicate is the language of the regular expression.\<close>

lemma schema_path_iff:
  "schema_path p \<longleftrightarrow>
    (\<exists>slug ds. p = ''/spec/proof/'' @ slug @ ''/v'' @ ds \<and> slug \<noteq> [] \<and> ds \<noteq> [] \<and>
       list_all slug_char slug \<and> list_all digit_char ds)" (is "_ \<longleftrightarrow> ?R")
proof
  assume p: "schema_path p"
  let ?s = "takeWhile slug_char (drop 12 p)" and ?r = "dropWhile slug_char (drop 12 p)"
  have "take 12 p = ''/spec/proof/''" "take 2 ?r = ''/v''"
    using p by (simp_all add: schema_path_def schema_path_tail_def)
  moreover have "p = take 12 p @ ?s @ take 2 ?r @ drop 2 ?r" by simp
  ultimately have "p = ''/spec/proof/'' @ ?s @ ''/v'' @ drop 2 ?r" by metis
  then show ?R
    using p by (intro exI [of _ ?s] exI [of _ "drop 2 ?r"])
      (auto simp: schema_path_def schema_path_tail_def list_all_iff dest: set_takeWhileD)
next
  assume ?R
  then obtain slug ds where *: "p = ''/spec/proof/'' @ slug @ ''/v'' @ ds" "slug \<noteq> []" "ds \<noteq> []"
    "list_all slug_char slug" "list_all digit_char ds" by blast
  have "takeWhile slug_char (slug @ ''/v'' @ ds) = slug \<and> dropWhile slug_char (slug @ ''/v'' @ ds) = ''/v'' @ ds"
    by (rule dropWhile_append_stop) (use * in \<open>auto simp: list_all_iff slug_char_def\<close>)
  then show "schema_path p"
    using * by (simp add: schema_path_def schema_path_tail_def)
qed

lemma isSchemaUriE:
  assumes "isSchemaUri parse v"
  obtains s u where "v = String s" "parse s = Some u" "u_protocol u = ''https:''"
    "u_username u = []" "u_password u = []" "u_search u = []" "u_hash u = []" "schema_path (u_pathname u)"
  using assms by (cases v) (auto split: option.splits if_splits)

end
