(* ===== verification/Query_Domain.thy ===== *)
theory Query_Domain
  imports Schema_Uri
begin

text \<open>
  The request lifecycle domain (\<open>packages/sdk/src/requests/domain/\<close>): the \<open>Query\<close> aggregate and its
  parts (\<open>types.ts\<close>), the transition tables (\<open>query-transitions.ts\<close>), the value object validators
  (\<open>value-objects.ts\<close>) and the transition functions (\<open>query-aggregate.ts\<close>).  A transition returns
  \<open>Inl\<close> with the error text or \<open>Inr\<close> with the new query.
\<close>

named_theorems transition_defs \<open>definitions of the aggregate transitions\<close>

section \<open>Data (types.ts)\<close>

datatype QueryStatus = Pending | Awaiting_offers | Provider_selected | Processing | Verifying
  | Approved | Rejected | Expired

datatype PaymentStatus = Payment_none | Escrow_pending | Escrow_locked | Escrow_swapped | Locked
  | Released | Cancelled

datatype CustomerType = Customer_agent | Customer_human | Customer_app

datatype ExecutorType = Exec_human | Exec_agent | Exec_service

datatype SubmissionChannel = Adapter

datatype AttachmentStorageKind = Blossom | External

record AttachmentRef =
  at_id :: string
  at_uri :: string
  at_mime_type :: string
  at_storage_kind :: AttachmentStorageKind
  at_filename :: "string option"
  at_size_bytes :: "jsnum option"
  at_blossom_hash :: "string option"
  at_blossom_servers :: "string list option"

record BlossomKeyMaterial =
  bk_encrypt_key :: string
  bk_encrypt_iv :: string

type_synonym BlossomKeyMap = "(string, BlossomKeyMaterial) jsmap"

record QueryInput =
  qi_description :: string
  qi_schema :: "string option"
  qi_location_hint :: "string option"
  qi_verification_requirements :: "string list option"
  qi_schema_requirement :: jsval

record QueryResult =
  qr_attachments :: "AttachmentRef list"
  qr_notes :: "string option"
  qr_schema_evidence :: jsval

record CustomerMeta =
  cm_customer_type :: CustomerType
  cm_customer_id :: "string option"
  cm_client_name :: "string option"

record SubmissionMeta =
  sm_executor_type :: ExecutorType
  sm_channel :: SubmissionChannel

record PaymentLockInfo =
  pl_amount_sats :: jsnum
  pl_escrow_token :: "string option"

text \<open>The discriminated union \<open>HtlcEscrow | P2pkFrostEscrow\<close>: the tag carries the field only that
  variant has (\<open>hash\<close>, \<open>group_pubkey\<close>).\<close>

datatype escrow_type = Htlc string | P2pk_frost string

record EscrowInfo =
  e_type :: escrow_type
  e_oracle_pubkeys :: "string list"
  e_customer_pubkey :: string
  e_provider_pubkey :: "string option"
  e_locktime :: jsnum
  e_escrow_token :: "string option"
  e_verified_escrow_sats :: "jsnum option"
  e_escrow_ref :: "string option"

record OfferInfo =
  o_provider_pubkey :: string
  o_amount_sats :: "jsnum option"
  o_offer_event_id :: string
  o_received_at :: jsnum

record QuorumConfig =
  qc_min_approvals :: jsnum

record OracleAttestationRecord =
  ar_oracle_id :: string
  ar_passed :: bool
  ar_checks :: "msg list"
  ar_failures :: "msg list"
  ar_attested_at :: jsnum
  ar_schema_verdict :: jsval

record VerificationDetail =
  vd_passed :: bool
  vd_checks :: "msg list"
  vd_failures :: "msg list"
  vd_warnings :: "msg list option"
  vd_schema_verdict :: jsval

record Query =
  q_id :: string
  q_schema :: "string option"
  q_status :: QueryStatus
  q_description :: string
  q_location_hint :: "string option"
  q_challenge_nonce :: "string option"
  q_verification_requirements :: "string list"
  q_created_at :: jsnum
  q_expires_at :: jsnum
  q_customer_meta :: "CustomerMeta option"
  q_payment_lock :: "PaymentLockInfo option"
  q_oracle_ids :: "string list option"
  q_assigned_oracle_id :: "string option"
  q_submitted_at :: "jsnum option"
  q_result :: "QueryResult option"
  q_verification :: "VerificationDetail option"
  q_submission_meta :: "SubmissionMeta option"
  q_payment_status :: PaymentStatus
  q_escrow :: "EscrowInfo option"
  q_offers :: "OfferInfo list option"
  q_nostr_event_id :: "string option"
  q_blossom_keys :: "BlossomKeyMap option"
  q_schema_requirement :: jsval
  q_quorum :: "QuorumConfig option"
  q_attestations :: "OracleAttestationRecord list option"

section \<open>Transition tables (query-transitions.ts)\<close>

fun SIMPLE_TRANSITIONS :: "QueryStatus \<Rightarrow> QueryStatus list option" where
  "SIMPLE_TRANSITIONS Pending = Some [Approved, Rejected, Expired]"
| "SIMPLE_TRANSITIONS _ = None"

fun ESCROW_TRANSITIONS :: "QueryStatus \<Rightarrow> QueryStatus list option" where
  "ESCROW_TRANSITIONS Awaiting_offers = Some [Provider_selected, Expired]"
| "ESCROW_TRANSITIONS Provider_selected = Some [Processing, Expired]"
| "ESCROW_TRANSITIONS Processing = Some [Verifying, Expired]"
| "ESCROW_TRANSITIONS Verifying = Some [Approved, Rejected, Expired]"
| "ESCROW_TRANSITIONS _ = None"

definition TERMINAL_STATUSES :: "QueryStatus list" where
  "TERMINAL_STATUSES = [Approved, Rejected, Expired]"

definition OPEN_STATUSES :: "QueryStatus list" where
  "OPEN_STATUSES = [Pending, Awaiting_offers, Provider_selected, Processing]"

definition EXPIRABLE_STATUSES :: "QueryStatus list" where
  "EXPIRABLE_STATUSES = [Pending, Awaiting_offers, Provider_selected, Processing, Verifying]"

definition isValidTransition :: "QueryStatus \<Rightarrow> QueryStatus \<Rightarrow> bool \<Rightarrow> bool" where
  "isValidTransition from to isHtlc =
    (case (if isHtlc then ESCROW_TRANSITIONS from else SIMPLE_TRANSITIONS from) of
       None \<Rightarrow> False
     | Some tos \<Rightarrow> to \<in> set tos)"

definition isExpirable :: "QueryStatus \<Rightarrow> bool" where
  "isExpirable s = (s \<in> set EXPIRABLE_STATUSES)"

definition isTerminal :: "QueryStatus \<Rightarrow> bool" where
  "isTerminal s = (s \<in> set TERMINAL_STATUSES)"

definition isOpenStatus :: "QueryStatus \<Rightarrow> bool" where
  "isOpenStatus s = (s \<in> set OPEN_STATUSES)"

section \<open>Value objects (value-objects.ts)\<close>

definition MIN_ESCROW_LOCKTIME_SECS :: jsnum where
  "MIN_ESCROW_LOCKTIME_SECS = 600"

definition validateBountyInfo :: "PaymentLockInfo \<Rightarrow> msg option" where
  "validateBountyInfo input =
    (if \<not> is_finite (pl_amount_sats input) then Some (plain ''amount_sats must be a finite number'')
     else if pl_amount_sats input \<le> 0 then Some (plain ''amount_sats must be positive'')
     else if \<not> is_integer (pl_amount_sats input) then Some (plain ''amount_sats must be an integer'')
     else None)"

definition validateEscrowLocktime :: "jsnum \<Rightarrow> jsnum \<Rightarrow> jsnum \<Rightarrow> msg option" where
  "validateEscrowLocktime locktime nowSecs minSecs =
    (if \<not> is_finite locktime then Some (plain ''locktime must be a finite number'')
     else let remaining = locktime - nowSecs in
       if remaining < minSecs
       then Some [T ''escrow locktime must be at least '', N minSecs, T ''s in the future (got '',
                  N remaining, T ''s)'']
       else None)"

definition validateQueryInput :: "url_parser \<Rightarrow> QueryInput \<Rightarrow> msg option" where
  "validateQueryInput parse input =
    (if \<not> str_truthy (qi_description input) \<or> length (trim (qi_description input)) = 0
     then Some (plain ''description must not be empty'')
     else if (case qi_schema input of None \<Rightarrow> False | Some s \<Rightarrow> \<not> isSchemaUri parse (String s))
     then Some (plain ''schema must be a valid Proof Schema URL'')
     else None)"

definition validateOfferInfo :: "OfferInfo \<Rightarrow> msg option" where
  "validateOfferInfo off =
    (if \<not> str_truthy (o_provider_pubkey off) \<or> length (trim (o_provider_pubkey off)) = 0
     then Some (plain ''provider_pubkey must not be empty'')
     else if \<not> str_truthy (o_offer_event_id off) \<or> length (trim (o_offer_event_id off)) = 0
     then Some (plain ''offer_event_id must not be empty'')
     else None)"

section \<open>The aggregate (query-aggregate.ts)\<close>

definition DEFAULT_QUERY_SCHEMA :: string where
  "DEFAULT_QUERY_SCHEMA = ''https://anchr-spec.org/spec/proof/photo/v1''"

type_synonym TransitionResult = "msg + Query"

record CreateQueryAggregateOptions =
  co_ttlMs :: jsnum
  co_customerMeta :: "CustomerMeta option"
  co_payment_lock :: "PaymentLockInfo option"
  co_oracleIds :: "string list option"
  co_escrow :: "EscrowInfo option"
  co_nostrEventId :: "string option"
  co_quorum :: "QuorumConfig option"

text \<open>The domain ports as the values their calls return during one operation.\<close>

record DomainServices =
  ds_now :: jsnum
  ds_newQueryId :: string
  ds_newChallengeNonce :: string

fun status_str :: "QueryStatus \<Rightarrow> string" where
  "status_str Pending = ''pending''"
| "status_str Awaiting_offers = ''awaiting_offers''"
| "status_str Provider_selected = ''provider_selected''"
| "status_str Processing = ''processing''"
| "status_str Verifying = ''verifying''"
| "status_str Approved = ''approved''"
| "status_str Rejected = ''rejected''"
| "status_str Expired = ''expired''"

text \<open>The template \<open>Query is ${query.status}, \<dots>\<close>.\<close>

definition query_is :: "QueryStatus \<Rightarrow> string \<Rightarrow> msg" where
  "query_is st rest = plain (''Query is '' @ status_str st @ rest)"

definition createQueryAggregate ::
    "url_parser \<Rightarrow> QueryInput \<Rightarrow> CreateQueryAggregateOptions \<Rightarrow> DomainServices \<Rightarrow> TransitionResult" where
  "createQueryAggregate parse input options services =
    (case validateQueryInput parse input of
       Some inputError \<Rightarrow> Inl inputError
     | None \<Rightarrow>
       let now = ds_now services;
           locktimeError =
             (case co_escrow options of
                None \<Rightarrow> None
              | Some e \<Rightarrow>
                 if num_truthy (e_locktime e)
                 then validateEscrowLocktime (e_locktime e) (js_floor (div_by now 1000))
                        MIN_ESCROW_LOCKTIME_SECS
                 else None)
       in case locktimeError of
            Some err \<Rightarrow> Inl err
          | None \<Rightarrow>
            let requirements = (case qi_verification_requirements input of None \<Rightarrow> [] | Some r \<Rightarrow> r);
                nonce = (if ''nonce'' \<in> set requirements
                         then Some (ds_newChallengeNonce services) else None);
                isEscrow = (co_escrow options \<noteq> None)
            in Inr \<lparr> q_id = ds_newQueryId services,
                     q_schema = orElse (qi_schema input) (Some DEFAULT_QUERY_SCHEMA),
                     q_status = (if isEscrow then Awaiting_offers else Pending),
                     q_description = qi_description input,
                     q_location_hint = qi_location_hint input,
                     q_challenge_nonce = nonce,
                     q_verification_requirements = requirements,
                     q_created_at = now,
                     q_expires_at = now + co_ttlMs options,
                     q_customer_meta = co_customerMeta options,
                     q_payment_lock = co_payment_lock options,
                     q_oracle_ids = co_oracleIds options,
                     q_assigned_oracle_id = None,
                     q_submitted_at = None,
                     q_result = None,
                     q_verification = None,
                     q_submission_meta = None,
                     q_payment_status = (if isEscrow then Escrow_locked else Locked),
                     q_escrow = co_escrow options,
                     q_offers = (if isEscrow then Some [] else None),
                     q_nostr_event_id = co_nostrEventId options,
                     q_blossom_keys = None,
                     q_schema_requirement = qi_schema_requirement input,
                     q_quorum = co_quorum options,
                     q_attestations = None \<rparr>)"

definition firstOracleId :: "OracleAttestationRecord list option \<Rightarrow> string option" where
  "firstOracleId atts = (case atts of None \<Rightarrow> None | Some as \<Rightarrow> map_option ar_oracle_id (hd_opt as))"

definition quorumAttestations ::
    "Query \<Rightarrow> OracleAttestationRecord list option \<Rightarrow> OracleAttestationRecord list option" where
  "quorumAttestations q atts = (if q_quorum q \<noteq> None then atts else None)"

definition submitResult ::
    "Query \<Rightarrow> QueryResult \<Rightarrow> VerificationDetail \<Rightarrow> SubmissionMeta \<Rightarrow> string option \<Rightarrow>
     OracleAttestationRecord list option \<Rightarrow> BlossomKeyMap option \<Rightarrow> jsnum \<Rightarrow> TransitionResult" where
  "submitResult q result verification meta oracleId attestations blossomKeys now =
    (if q_escrow q \<noteq> None
     then Inl (plain ''Use the escrow-mode functions for queries with an escrow'')
     else if q_status q \<noteq> Pending then Inl (query_is (q_status q) '', not pending'')
     else if q_expires_at q < now
     then Inr (q\<lparr> q_status := Expired, q_payment_status := Cancelled \<rparr>)
     else Inr (q\<lparr> q_status := (if vd_passed verification then Approved else Rejected),
                  q_submitted_at := Some now,
                  q_result := Some result,
                  q_verification := Some verification,
                  q_submission_meta := Some meta,
                  q_payment_status := (if vd_passed verification then Released else Cancelled),
                  q_assigned_oracle_id := orElse (firstOracleId attestations) oracleId,
                  q_blossom_keys := blossomKeys,
                  q_attestations := quorumAttestations q attestations \<rparr>))"

definition expireQuery :: "Query \<Rightarrow> jsnum \<Rightarrow> TransitionResult" where
  "expireQuery q now =
    (if \<not> isExpirable (q_status q) then Inl (query_is (q_status q) '', cannot expire'')
     else if now \<le> q_expires_at q then Inl (plain ''Query has not expired yet'')
     else Inr (q\<lparr> q_status := Expired, q_payment_status := Cancelled \<rparr>))"

definition cancelQuery :: "Query \<Rightarrow> TransitionResult" where
  "cancelQuery q =
    (if \<not> isOpenStatus (q_status q) then Inl (plain (''Query is already '' @ status_str (q_status q)))
     else Inr (q\<lparr> q_status := Rejected, q_payment_status := Cancelled \<rparr>))"

definition addOffer :: "Query \<Rightarrow> OfferInfo \<Rightarrow> TransitionResult" where
  "addOffer q off =
    (if q_escrow q = None then Inl (plain ''Not an escrow query'')
     else if q_status q \<noteq> Awaiting_offers then Inl (query_is (q_status q) '', not awaiting_offers'')
     else case validateOfferInfo off of
            Some err \<Rightarrow> Inl err
          | None \<Rightarrow> Inr (q\<lparr> q_offers := Some ((case q_offers q of None \<Rightarrow> [] | Some os \<Rightarrow> os) @ [off]) \<rparr>))"

text \<open>A partial object: the outer option tells whether the property is present, the inner one its value.\<close>

record EscrowSelectionUpdates =
  su_escrow_token :: "string option option"
  su_verified_escrow_sats :: "jsnum option option"
  su_escrow_ref :: "string option option"
  su_provider_pubkey :: "string option option"

definition noUpdates :: EscrowSelectionUpdates where
  "noUpdates = \<lparr> su_escrow_token = None, su_verified_escrow_sats = None, su_escrow_ref = None,
                 su_provider_pubkey = None \<rparr>"

definition spread :: "'a option option \<Rightarrow> 'a option \<Rightarrow> 'a option" where
  "spread upd old = (case upd of None \<Rightarrow> old | Some v \<Rightarrow> v)"

definition selectProvider :: "Query \<Rightarrow> string \<Rightarrow> EscrowSelectionUpdates \<Rightarrow> TransitionResult" where
  "selectProvider q providerPubkey upd =
    (case q_escrow q of
       None \<Rightarrow> Inl (plain ''Not an escrow query'')
     | Some e \<Rightarrow>
       if \<not> isValidTransition (q_status q) Provider_selected True
       then Inl (query_is (q_status q) '', not awaiting_offers'')
       else let escrow = e\<lparr> e_provider_pubkey := spread (su_provider_pubkey upd) (Some providerPubkey),
                            e_escrow_token := spread (su_escrow_token upd) (e_escrow_token e),
                            e_verified_escrow_sats :=
                              spread (su_verified_escrow_sats upd) (e_verified_escrow_sats e),
                            e_escrow_ref := spread (su_escrow_ref upd) (e_escrow_ref e) \<rparr>
            in Inr (q\<lparr> q_status := Provider_selected,
                       q_escrow := Some escrow,
                       q_payment_status := (if ostr_truthy (spread (su_escrow_token upd) None)
                                            then Escrow_swapped else q_payment_status q) \<rparr>))"

definition beginWork :: "Query \<Rightarrow> TransitionResult" where
  "beginWork q =
    (if q_escrow q = None then Inl (plain ''Not an escrow query'')
     else if \<not> isValidTransition (q_status q) Processing True
     then Inl (query_is (q_status q) '', not provider_selected'')
     else Inr (q\<lparr> q_status := Processing \<rparr>))"

definition recordResult ::
    "Query \<Rightarrow> QueryResult \<Rightarrow> string \<Rightarrow> BlossomKeyMap option \<Rightarrow> jsnum \<Rightarrow> TransitionResult" where
  "recordResult q result providerPubkey blossomKeys now =
    (case q_escrow q of
       None \<Rightarrow> Inl (plain ''Not an escrow query'')
     | Some e \<Rightarrow>
       if \<not> isValidTransition (q_status q) Verifying True
       then Inl (query_is (q_status q) '', not processing'')
       else if ostr_truthy (e_provider_pubkey e) \<and> e_provider_pubkey e \<noteq> Some providerPubkey
       then Inl (plain ''Provider pubkey does not match selected provider'')
       else Inr (q\<lparr> q_status := Verifying,
                    q_result := Some result,
                    q_submitted_at := Some now,
                    q_submission_meta := Some \<lparr> sm_executor_type = Exec_human, sm_channel = Adapter \<rparr>,
                    q_blossom_keys := blossomKeys \<rparr>))"

definition completeVerification ::
    "Query \<Rightarrow> bool \<Rightarrow> VerificationDetail option \<Rightarrow> string option \<Rightarrow>
     OracleAttestationRecord list option \<Rightarrow> TransitionResult" where
  "completeVerification q ok verification oracleId attestations =
    (if q_escrow q = None then Inl (plain ''Not an escrow query'')
     else let target = (if ok then Approved else Rejected) in
       if \<not> isValidTransition (q_status q) target True
       then Inl (query_is (q_status q) '', not verifying'')
       else Inr (q\<lparr> q_status := target,
                    q_payment_status := (if ok then Released else Cancelled),
                    q_verification := orElse verification (q_verification q),
                    q_assigned_oracle_id := orElse oracleId (firstOracleId attestations),
                    q_attestations := quorumAttestations q attestations \<rparr>))"

end
