(* ===== verification/Query_Lifecycle.thy ===== *)
theory Query_Lifecycle
  imports Query_Domain
begin

text \<open>
  Correctness of the aggregate transitions.  \<open>query_wf\<close> is the invariant relating status, payment
  status, escrow and recorded result; \<open>query_frame\<close> lists the fields no transition may touch, among
  them the hash lock or group key of the escrow; \<open>life_step\<close> is the abstract lifecycle of a paid
  request.  The locale \<open>query_transition\<close> is the contract every transition of the aggregate meets, and
  each transition function is an interpretation of it.
\<close>

section \<open>Invariant, frame and abstract lifecycle\<close>

definition query_wf :: "Query \<Rightarrow> bool" where
  "query_wf q =
    ((case q_status q of
        Pending \<Rightarrow> q_escrow q = None \<and> q_payment_status q = Locked
      | Awaiting_offers \<Rightarrow> q_escrow q \<noteq> None \<and> q_payment_status q = Escrow_locked
      | Provider_selected \<Rightarrow> q_escrow q \<noteq> None \<and> q_payment_status q \<in> {Escrow_locked, Escrow_swapped}
      | Processing \<Rightarrow> q_escrow q \<noteq> None \<and> q_payment_status q \<in> {Escrow_locked, Escrow_swapped}
      | Verifying \<Rightarrow> q_escrow q \<noteq> None \<and> q_payment_status q \<in> {Escrow_locked, Escrow_swapped} \<and>
                     q_result q \<noteq> None \<and> q_submitted_at q \<noteq> None
      | Approved \<Rightarrow> q_payment_status q = Released \<and> q_result q \<noteq> None \<and> q_submitted_at q \<noteq> None
      | Rejected \<Rightarrow> q_payment_status q = Cancelled
      | Expired \<Rightarrow> q_payment_status q = Cancelled) \<and>
     (q_offers q = None \<longleftrightarrow> q_escrow q = None) \<and>
     (q_attestations q \<noteq> None \<longrightarrow> q_quorum q \<noteq> None) \<and>
     (q_payment_status q = Escrow_swapped \<longrightarrow>
        (case q_escrow q of None \<Rightarrow> False | Some e \<Rightarrow> ostr_truthy (e_escrow_token e))))"

definition escrow_lock :: "EscrowInfo \<Rightarrow> escrow_type \<times> string list \<times> string \<times> jsnum" where
  "escrow_lock e = (e_type e, e_oracle_pubkeys e, e_customer_pubkey e, e_locktime e)"

definition query_frame :: "Query \<Rightarrow> Query \<Rightarrow> bool" where
  "query_frame q q' =
    (q_id q' = q_id q \<and> q_schema q' = q_schema q \<and> q_description q' = q_description q \<and>
     q_location_hint q' = q_location_hint q \<and> q_challenge_nonce q' = q_challenge_nonce q \<and>
     q_verification_requirements q' = q_verification_requirements q \<and>
     q_created_at q' = q_created_at q \<and> q_expires_at q' = q_expires_at q \<and>
     q_customer_meta q' = q_customer_meta q \<and> q_payment_lock q' = q_payment_lock q \<and>
     q_oracle_ids q' = q_oracle_ids q \<and> q_nostr_event_id q' = q_nostr_event_id q \<and>
     q_schema_requirement q' = q_schema_requirement q \<and> q_quorum q' = q_quorum q \<and>
     map_option escrow_lock (q_escrow q') = map_option escrow_lock (q_escrow q))"

type_synonym phase = "QueryStatus \<times> PaymentStatus"

definition phase :: "Query \<Rightarrow> phase" where
  "phase q = (q_status q, q_payment_status q)"

definition isEscrow :: "Query \<Rightarrow> bool" where
  "isEscrow q = (q_escrow q \<noteq> None)"

inductive life_step :: "bool \<Rightarrow> phase \<Rightarrow> phase \<Rightarrow> bool" where
  offer: "life_step True (Awaiting_offers, p) (Awaiting_offers, p)"
| select: "p' \<in> {p, Escrow_swapped} \<Longrightarrow> life_step True (Awaiting_offers, p) (Provider_selected, p')"
| work: "life_step True (Provider_selected, p) (Processing, p)"
| result: "life_step True (Processing, p) (Verifying, p)"
| approve: "life_step True (Verifying, p) (Approved, Released)"
| reject: "life_step True (Verifying, p) (Rejected, Cancelled)"
| accept: "life_step False (Pending, p) (Approved, Released)"
| decline: "life_step False (Pending, p) (Rejected, Cancelled)"
| expire: "isExpirable st \<Longrightarrow> life_step esc (st, p) (Expired, Cancelled)"
| cancel: "isOpenStatus st \<Longrightarrow> life_step esc (st, p) (Rejected, Cancelled)"

inductive_cases life_stepE: "life_step esc (s, p) (t, p')"

inductive_simps life_step_terminal_simps:
  "life_step esc (Approved, p) x" "life_step esc (Rejected, p) x" "life_step esc (Expired, p) x"

lemmas status_list_defs = isExpirable_def isTerminal_def isOpenStatus_def EXPIRABLE_STATUSES_def
  TERMINAL_STATUSES_def OPEN_STATUSES_def

lemma isTerminal_simps [simp]:
  "isTerminal Approved" "isTerminal Rejected" "isTerminal Expired" "\<not> isTerminal Pending"
  "\<not> isTerminal Awaiting_offers" "\<not> isTerminal Provider_selected" "\<not> isTerminal Processing"
  "\<not> isTerminal Verifying"
  by (simp_all add: status_list_defs)

lemma isExpirable_iff: "isExpirable st \<longleftrightarrow> \<not> isTerminal st"
  by (cases st) (simp_all add: status_list_defs)

lemma isOpenStatus_iff: "isOpenStatus st \<longleftrightarrow> \<not> isTerminal st \<and> st \<noteq> Verifying"
  by (cases st) (simp_all add: status_list_defs)

lemma isValidTransition_simps [simp]:
  "isValidTransition st Provider_selected True \<longleftrightarrow> st = Awaiting_offers"
  "isValidTransition st Processing True \<longleftrightarrow> st = Provider_selected"
  "isValidTransition st Verifying True \<longleftrightarrow> st = Processing"
  "isValidTransition st Approved True \<longleftrightarrow> st = Verifying"
  "isValidTransition st Rejected True \<longleftrightarrow> st = Verifying"
  by (cases st; simp add: isValidTransition_def)+

lemma life_step_not_terminal: "life_step esc (st, p) x \<Longrightarrow> \<not> isTerminal st"
  by (cases st) (auto simp: life_step_terminal_simps isExpirable_iff isOpenStatus_iff)

lemma life_step_expired [simp]: "life_step esc (st, p) (Expired, Cancelled) \<longleftrightarrow> isExpirable st"
  by (auto elim: life_stepE intro: life_step.expire)

text \<open>Each step of the lifecycle is in the transition table of its mode, is the recording of an offer,
  or is a cancellation.\<close>

lemma life_step_table:
  assumes "life_step esc (s, p) (t, p')"
  shows "isValidTransition s t esc \<or> (s = Awaiting_offers \<and> t = s) \<or> (isOpenStatus s \<and> t = Rejected) \<or>
    (isExpirable s \<and> t = Expired)"
  using assms by (elim life_stepE) (simp_all add: isValidTransition_def)

fun life_rank :: "QueryStatus \<Rightarrow> nat" where
  "life_rank Awaiting_offers = 4"
| "life_rank Provider_selected = 3"
| "life_rank Processing = 2"
| "life_rank Verifying = 1"
| "life_rank Pending = 1"
| "life_rank _ = 0"

lemma life_step_rank:
  assumes "life_step esc (s, p) (t, p')" "s \<noteq> t"
  shows "life_rank t < life_rank s"
  using assms by (elim life_stepE; cases s) (simp_all add: status_list_defs)

section \<open>The contract of a transition\<close>

locale query_transition =
  fixes op :: "Query \<Rightarrow> TransitionResult"
  assumes op_step: "op q = Inr q' \<Longrightarrow> life_step (isEscrow q) (phase q) (phase q')"
    and op_frame: "op q = Inr q' \<Longrightarrow> query_frame q q'"
    and op_wf: "op q = Inr q' \<Longrightarrow> query_wf q \<Longrightarrow> query_wf q'"
begin

lemma op_terminal: "isTerminal (q_status q) \<Longrightarrow> \<exists>err. op q = Inl err"
  by (cases "op q") (auto simp: phase_def dest!: op_step life_step_not_terminal)

lemma op_id: "op q = Inr q' \<Longrightarrow> q_id q' = q_id q"
  using op_frame by (simp add: query_frame_def)

lemma op_escrow: "op q = Inr q' \<Longrightarrow> isEscrow q' = isEscrow q"
  using op_frame [of q q'] by (cases "q_escrow q"; cases "q_escrow q'") (auto simp: query_frame_def isEscrow_def)

lemma op_rank: "op q = Inr q' \<Longrightarrow> q_status q' \<noteq> q_status q \<Longrightarrow> life_rank (q_status q') < life_rank (q_status q)"
  using op_step [of q q'] by (auto simp: phase_def intro: life_step_rank)

end

lemmas aggregate_defs = submitResult_def expireQuery_def cancelQuery_def addOffer_def selectProvider_def
  beginWork_def recordResult_def completeVerification_def

lemmas aggregate_specs = query_wf_def query_frame_def phase_def isEscrow_def escrow_lock_def
  quorumAttestations_def

interpretation submit: query_transition "\<lambda>q. submitResult q r v m oid atts bk now" for r v m oid atts bk now
  by unfold_locales
    (auto simp: submitResult_def aggregate_specs isExpirable_iff intro: life_step.intros split: if_splits)

interpretation expire: query_transition "\<lambda>q. expireQuery q now" for now
  by unfold_locales (auto simp: expireQuery_def aggregate_specs intro: life_step.intros split: if_splits)

interpretation cancel: query_transition cancelQuery
  by unfold_locales (auto simp: cancelQuery_def aggregate_specs intro: life_step.intros split: if_splits)

interpretation offer: query_transition "\<lambda>q. addOffer q off" for off
  by unfold_locales
    (auto simp: addOffer_def aggregate_specs intro: life_step.intros split: if_splits option.splits)

lemma spread_truthy_swapped:
  "ostr_truthy (spread upd None) \<Longrightarrow> ostr_truthy (spread upd old)"
  by (auto simp: spread_def split: option.splits)

interpretation select: query_transition "\<lambda>q. selectProvider q pk upd" for pk upd
  by unfold_locales
    (auto simp: selectProvider_def aggregate_specs Let_def spread_truthy_swapped intro: life_step.intros
      split: if_splits option.splits)

interpretation begin_work: query_transition beginWork
  by unfold_locales (auto simp: beginWork_def aggregate_specs intro: life_step.intros split: if_splits)

interpretation result: query_transition "\<lambda>q. recordResult q r pk bk now" for r pk bk now
  by unfold_locales
    (auto simp: recordResult_def aggregate_specs intro: life_step.intros split: if_splits option.splits)

interpretation complete: query_transition "\<lambda>q. completeVerification q ok v oid atts" for ok v oid atts
  by unfold_locales
    (auto simp: completeVerification_def aggregate_specs Let_def intro: life_step.intros split: if_splits)

end
