(* ===== verification/Oracle_Registry.thy ===== *)
theory Oracle_Registry
  imports Query_Domain
begin

text \<open>
  Oracles and their registry (\<open>requests/domain/oracle-types.ts\<close>,
  \<open>adapters/oracle-client/registry.ts\<close>).  An oracle's \<open>verify\<close> is a function of the query, the result
  and the attachment keys; \<open>None\<close> is a rejected promise.  The locale \<open>oracle_resolver\<close> is what the
  verification use case relies on; the registry provides it.
\<close>

record OracleInfo =
  oi_id :: string
  oi_name :: string
  oi_endpoint :: "string option"
  oi_fee_ppm :: jsnum
  oi_supported_schemas :: "string list option"
  oi_supported_payment_lock_types :: "string list option"
  oi_min_amount_sats :: "jsnum option"
  oi_max_amount_sats :: "jsnum option"
  oi_description :: "string option"

record OracleAttestation =
  oa_oracle_id :: string
  oa_query_id :: string
  oa_passed :: bool
  oa_checks :: "msg list"
  oa_failures :: "msg list"
  oa_attested_at :: jsnum
  oa_schema_verdict :: jsval

record Oracle =
  or_info :: OracleInfo
  or_verify :: "Query \<Rightarrow> QueryResult \<Rightarrow> BlossomKeyMap option \<Rightarrow> OracleAttestation option"

type_synonym registry = "(string, Oracle) jsmap"

definition registry_get :: "registry \<Rightarrow> string \<Rightarrow> Oracle option" where
  "registry_get oracles i = map_get oracles i"

definition registry_list :: "registry \<Rightarrow> OracleInfo list" where
  "registry_list oracles = map or_info (map_values oracles)"

definition registry_register :: "Oracle \<Rightarrow> registry \<Rightarrow> registry" where
  "registry_register oracle oracles = map_set (oi_id (or_info oracle)) oracle oracles"

definition nonempty_ids :: "string list option \<Rightarrow> bool" where
  "nonempty_ids ids = (case ids of None \<Rightarrow> False | Some xs \<Rightarrow> xs \<noteq> [])"

definition ids_of :: "string list option \<Rightarrow> string list" where
  "ids_of ids = (case ids of None \<Rightarrow> [] | Some xs \<Rightarrow> xs)"

definition resolve :: "registry \<Rightarrow> string option \<Rightarrow> string list option \<Rightarrow> Oracle option" where
  "resolve oracles oracleId acceptableIds =
    (if ostr_truthy oracleId
     then (if nonempty_ids acceptableIds \<and> the oracleId \<notin> set (ids_of acceptableIds) then None
           else registry_get oracles (the oracleId))
     else case acceptableIds of
            Some [i] \<Rightarrow> registry_get oracles i
          | _ \<Rightarrow> None)"

fun resolve_ids :: "registry \<Rightarrow> jsnum \<Rightarrow> string list \<Rightarrow> Oracle list \<Rightarrow> Oracle list" where
  "resolve_ids oracles count [] result = result"
| "resolve_ids oracles count (i # ids) result =
    (if count \<le> of_len result then result
     else case map_get oracles i of
            Some o' \<Rightarrow> resolve_ids oracles count ids (result @ [o'])
          | None \<Rightarrow> resolve_ids oracles count ids result)"

fun take_oracles :: "jsnum \<Rightarrow> Oracle list \<Rightarrow> Oracle list \<Rightarrow> Oracle list" where
  "take_oracles count [] result = result"
| "take_oracles count (o' # os) result =
    (if count \<le> of_len result then result else take_oracles count os (result @ [o']))"

definition resolveMultiple :: "registry \<Rightarrow> string list option \<Rightarrow> jsnum \<Rightarrow> Oracle list" where
  "resolveMultiple oracles acceptableIds count =
    (if nonempty_ids acceptableIds then resolve_ids oracles count (ids_of acceptableIds) []
     else take_oracles count (map_values oracles) [])"

definition registry_wf :: "registry \<Rightarrow> bool" where
  "registry_wf oracles =
    (map_wf oracles \<and> list_all (\<lambda>(i, o'). oi_id (or_info o') = i) oracles)"

section \<open>What the registry guarantees\<close>

lemma registry_wf_get: "registry_wf oracles \<Longrightarrow> map_get oracles i = Some o' \<Longrightarrow> oi_id (or_info o') = i"
  by (auto simp: registry_wf_def map_get_def list_all_iff dest!: map_of_SomeD)

lemma registry_wf_values: "registry_wf oracles \<Longrightarrow> map (\<lambda>o'. oi_id (or_info o')) (map_values oracles) = map fst oracles"
  by (induction oracles) (auto simp: registry_wf_def map_wf_def map_values_def)

lemma registry_wf_Nil [simp]: "registry_wf []"
  by (simp add: registry_wf_def)

lemma registry_wf_register [intro]: "registry_wf oracles \<Longrightarrow> registry_wf (registry_register o' oracles)"
  by (auto simp: registry_wf_def registry_register_def)

lemma resolve_ids_mem:
  "o' \<in> set (resolve_ids oracles count ids result) \<Longrightarrow>
    o' \<in> set result \<or> (\<exists>i \<in> set ids. map_get oracles i = Some o')"
  by (induction oracles count ids result rule: resolve_ids.induct) (auto split: if_splits option.splits)

lemma take_oracles_mem: "o' \<in> set (take_oracles count os result) \<Longrightarrow> o' \<in> set result \<or> o' \<in> set os"
  by (induction count os result rule: take_oracles.induct) (auto split: if_splits)

text \<open>An oracle returned for a query with an acceptable list is on that list.\<close>

lemma resolve_accepted:
  assumes "registry_wf oracles" "resolve oracles oid ids = Some o'" "nonempty_ids ids"
  shows "oi_id (or_info o') \<in> set (ids_of ids)"
  using assms registry_wf_get
  by (auto simp: resolve_def registry_get_def ids_of_def nonempty_ids_def
      split: if_splits option.splits list.splits)

text \<open>Without an acceptable list and without a requested oracle nothing is resolved.\<close>

lemma resolve_unrequested: "\<not> nonempty_ids ids \<Longrightarrow> resolve oracles None ids = None"
  by (auto simp: resolve_def nonempty_ids_def split: option.splits list.splits)

lemma resolveMultiple_accepted:
  assumes "registry_wf oracles" "o' \<in> set (resolveMultiple oracles ids count)" "nonempty_ids ids"
  shows "oi_id (or_info o') \<in> set (ids_of ids)"
  using assms registry_wf_get by (auto simp: resolveMultiple_def dest!: resolve_ids_mem)

lemma resolveMultiple_registered:
  assumes "registry_wf oracles" "o' \<in> set (resolveMultiple oracles ids count)"
  shows "map_get oracles (oi_id (or_info o')) = Some o'"
proof -
  have "map_wf oracles" using assms(1) by (simp add: registry_wf_def)
  then have "\<exists>i. map_get oracles i = Some o'"
    using assms(2) by (auto simp: resolveMultiple_def map_values_iff dest!: resolve_ids_mem take_oracles_mem
        split: if_splits)
  then show ?thesis using registry_wf_get [OF assms(1)] by auto
qed

lemma resolve_ids_distinct:
  assumes "registry_wf oracles" "distinct ids" "distinct (map (\<lambda>o'. oi_id (or_info o')) result)"
    "set ids \<inter> (\<lambda>o'. oi_id (or_info o')) ` set result = {}"
  shows "distinct (map (\<lambda>o'. oi_id (or_info o')) (resolve_ids oracles count ids result))"
  using assms
proof (induction oracles count ids result rule: resolve_ids.induct)
  case (2 oracles count i ids result)
  then show ?case
    by (auto split: option.splits dest: registry_wf_get)
qed simp

lemma take_oracles_prefix: "\<exists>n. take_oracles count os result = result @ take n os"
proof (induction count os result rule: take_oracles.induct)
  case (2 count o' os result)
  show ?case
  proof (cases "count \<le> of_len result")
    case True
    then show ?thesis by (auto intro: exI [of _ 0])
  next
    case False
    with 2 obtain n where "take_oracles count os (result @ [o']) = (result @ [o']) @ take n os" by blast
    with False show ?thesis by (auto intro: exI [of _ "Suc n"])
  qed
qed simp

text \<open>With pairwise different acceptable identifiers the resolved oracles are pairwise different.\<close>

lemma resolveMultiple_distinct:
  assumes wf: "registry_wf oracles" and ids: "distinct (ids_of ids)"
  shows "distinct (map (\<lambda>o'. oi_id (or_info o')) (resolveMultiple oracles ids count))"
proof (cases "nonempty_ids ids")
  case True
  then show ?thesis using resolve_ids_distinct [OF wf ids, of "[]"] by (simp add: resolveMultiple_def)
next
  case False
  obtain n where n: "take_oracles count (map_values oracles) [] = take n (map_values oracles)"
    using take_oracles_prefix [of count "map_values oracles" "[]"] by auto
  have "distinct (map fst oracles)" using wf by (simp add: registry_wf_def map_wf_def)
  then have "distinct (map (\<lambda>o'. oi_id (or_info o')) (map_values oracles))"
    by (simp add: registry_wf_values [OF wf])
  then show ?thesis using False n by (simp add: resolveMultiple_def flip: take_map)
qed

lemma resolve_registered:
  assumes "registry_wf oracles" "resolve oracles oid ids = Some o'"
  shows "map_get oracles (oi_id (or_info o')) = Some o'"
proof -
  have "\<exists>i. map_get oracles i = Some o'"
    using assms(2) by (auto simp: resolve_def registry_get_def split: if_splits option.splits list.splits)
  then show ?thesis using registry_wf_get [OF assms(1)] by auto
qed

text \<open>The contract of an oracle source, as the verification use case relies on it.\<close>

locale oracle_resolver =
  fixes wf :: "'r \<Rightarrow> bool"
    and look :: "'r \<Rightarrow> string \<Rightarrow> Oracle option"
    and single :: "'r \<Rightarrow> string option \<Rightarrow> string list option \<Rightarrow> Oracle option"
    and multiple :: "'r \<Rightarrow> string list option \<Rightarrow> jsnum \<Rightarrow> Oracle list"
  assumes single_registered: "wf r \<Longrightarrow> single r oid ids = Some o' \<Longrightarrow> look r (oi_id (or_info o')) = Some o'"
    and single_accepted: "wf r \<Longrightarrow> single r oid ids = Some o' \<Longrightarrow> nonempty_ids ids \<Longrightarrow>
      oi_id (or_info o') \<in> set (ids_of ids)"
    and single_unrequested: "\<not> nonempty_ids ids \<Longrightarrow> single r None ids = None"
    and multiple_registered: "wf r \<Longrightarrow> o' \<in> set (multiple r ids count) \<Longrightarrow> look r (oi_id (or_info o')) = Some o'"
    and multiple_accepted: "wf r \<Longrightarrow> o' \<in> set (multiple r ids count) \<Longrightarrow> nonempty_ids ids \<Longrightarrow>
      oi_id (or_info o') \<in> set (ids_of ids)"
    and multiple_distinct: "wf r \<Longrightarrow> distinct (ids_of ids) \<Longrightarrow>
      distinct (map (\<lambda>o'. oi_id (or_info o')) (multiple r ids count))"

interpretation reg: oracle_resolver registry_wf map_get resolve resolveMultiple
  by unfold_locales
    (fact resolve_registered resolve_accepted resolve_unrequested resolveMultiple_registered
      resolveMultiple_accepted resolveMultiple_distinct)+

end
