(* ===== verification/Preimage_Store.thy ===== *)
theory Preimage_Store
  imports Anchr_Prelude "HOL-Library.Word"
begin

text \<open>
  The preimage store of the Oracle (\<open>payments/cashu/preimage-store.ts\<close>) and its port
  (\<open>requests/application/ports.ts\<close>).  The hash function \<open>sha256\<close> and the byte printer \<open>bytesToHex\<close> of
  the noble library are arguments; the bytes drawn from the platform's random generator and the clock
  reading are inputs of \<open>create\<close>.  The locale \<open>preimage_store\<close> is the contract the verification and
  delivery use cases rely on.
\<close>

type_synonym bytes = "8 word list"

record PreimageEntry =
  pe_hash :: string
  pe_preimage :: string
  pe_created_at :: jsnum

type_synonym preimages = "(string, PreimageEntry) jsmap"

section \<open>Hexadecimal text (requests/domain/ports.ts, preimage-store.ts)\<close>

definition hex_digits :: string where
  "hex_digits = ''0123456789abcdef''"

definition hex_byte :: "8 word \<Rightarrow> string" where
  "hex_byte b = [hex_digits ! (unat b div 16), hex_digits ! (unat b mod 16)]"

definition hex_string :: "bytes \<Rightarrow> string" where
  "hex_string bs = concat (map hex_byte bs)"

definition hex_value :: "char \<Rightarrow> nat option" where
  "hex_value c =
    (let n = of_char c in
     if 48 \<le> n \<and> n \<le> 57 then Some (n - 48)
     else if 97 \<le> n \<and> n \<le> 102 then Some (n - 87)
     else if 65 \<le> n \<and> n \<le> 70 then Some (n - 55)
     else None)"

fun hex_prefix :: "string \<Rightarrow> nat list" where
  "hex_prefix [] = []"
| "hex_prefix (c # cs) = (case hex_value c of None \<Rightarrow> [] | Some v \<Rightarrow> v # hex_prefix cs)"

text \<open>\<open>parseInt(s, 16)\<close>: leading white space, a sign and a \<open>0x\<close> prefix are skipped, then the longest
  run of hexadecimal digits is read; \<open>None\<close> is \<open>NaN\<close>.\<close>

definition strip_0x :: "string \<Rightarrow> string" where
  "strip_0x s = (if take 2 s = ''0x'' \<or> take 2 s = ''0X'' then drop 2 s else s)"

definition parse_hex :: "string \<Rightarrow> int option" where
  "parse_hex s =
    (let s1 = dropWhile (\<lambda>c. c \<in> set ws_chars) s;
         neg = (take 1 s1 = ''-'');
         s2 = (if neg \<or> take 1 s1 = ''+'' then drop 1 s1 else s1);
         ds = hex_prefix (strip_0x s2)
     in if ds = [] then None
        else Some ((if neg then -1 else 1) * int (foldl (\<lambda>a d. a * 16 + d) 0 ds)))"

text \<open>\<open>s.match(/.{2}/g)\<close>: consecutive pairs of characters other than line terminators.\<close>

definition line_term :: "char \<Rightarrow> bool" where
  "line_term c = (c = CHR 0x0A \<or> c = CHR 0x0D)"

fun match_pairs :: "string \<Rightarrow> string list" where
  "match_pairs (a # b # cs) =
    (if line_term a then match_pairs (b # cs)
     else if line_term b then match_pairs cs
     else [a, b] # match_pairs cs)"
| "match_pairs _ = []"

text \<open>A \<open>Uint8Array\<close> element: \<open>NaN\<close> becomes zero, integers wrap around.\<close>

definition to_uint8 :: "int option \<Rightarrow> 8 word" where
  "to_uint8 v = (case v of None \<Rightarrow> 0 | Some i \<Rightarrow> word_of_int i)"

section \<open>The in-memory store\<close>

definition createPreimage :: "(bytes \<Rightarrow> bytes) \<Rightarrow> (bytes \<Rightarrow> string) \<Rightarrow> bytes \<Rightarrow> string \<times> string" where
  "createPreimage sha256 bytesToHex raw = (bytesToHex raw, bytesToHex (sha256 raw))"

text \<open>\<open>None\<close>: \<open>match\<close> returned \<open>null\<close> and the call to \<open>map\<close> throws.\<close>

definition verifyPreimageHash ::
    "(bytes \<Rightarrow> bytes) \<Rightarrow> (bytes \<Rightarrow> string) \<Rightarrow> string \<Rightarrow> string \<Rightarrow> bool option" where
  "verifyPreimageHash sha256 bytesToHex preimage hash =
    (if match_pairs preimage = [] then None
     else Some (bytesToHex (sha256 (map (\<lambda>b. to_uint8 (parse_hex b)) (match_pairs preimage))) = hash))"

definition preimage_create ::
    "(bytes \<Rightarrow> bytes) \<Rightarrow> (bytes \<Rightarrow> string) \<Rightarrow> bytes \<Rightarrow> jsnum \<Rightarrow> preimages \<Rightarrow> PreimageEntry \<times> preimages" where
  "preimage_create sha256 bytesToHex raw now entries =
    (let (preimage, hash) = createPreimage sha256 bytesToHex raw;
         entry = \<lparr> pe_hash = hash, pe_preimage = preimage, pe_created_at = now \<rparr>
     in (entry, map_set hash entry entries))"

definition getPreimage :: "preimages \<Rightarrow> string \<Rightarrow> string option" where
  "getPreimage entries hash = map_option pe_preimage (map_get entries hash)"

definition preimage_has :: "preimages \<Rightarrow> string \<Rightarrow> bool" where
  "preimage_has entries hash = map_has entries hash"

definition preimage_verify ::
    "(bytes \<Rightarrow> bytes) \<Rightarrow> (bytes \<Rightarrow> string) \<Rightarrow> preimages \<Rightarrow> string \<Rightarrow> string \<Rightarrow> bool option" where
  "preimage_verify sha256 bytesToHex entries hash preimage =
    (case map_get entries hash of
       None \<Rightarrow> Some False
     | Some entry \<Rightarrow> verifyPreimageHash sha256 bytesToHex preimage (pe_hash entry))"

definition preimage_delete :: "string \<Rightarrow> preimages \<Rightarrow> preimages" where
  "preimage_delete hash entries = map_delete hash entries"

section \<open>Hash issuance (issueQueryHash)\<close>

text \<open>The call is atomic up to the awaited \<open>create\<close>; \<open>issue_finish\<close> is the code after it.\<close>

type_synonym hash_map = "(string, string) jsmap"

definition issue_begin :: "hash_map \<Rightarrow> string \<Rightarrow> (string \<times> bool) option" where
  "issue_begin queryHashMap queryId =
    (case map_get queryHashMap queryId of None \<Rightarrow> None | Some existing \<Rightarrow> Some (existing, False))"

definition issue_finish :: "PreimageEntry \<Rightarrow> string \<Rightarrow> hash_map \<Rightarrow> (string \<times> bool) \<times> hash_map" where
  "issue_finish entry queryId queryHashMap =
    ((pe_hash entry, True), map_set queryId (pe_hash entry) queryHashMap)"

definition issueQueryHash ::
    "(bytes \<Rightarrow> bytes) \<Rightarrow> (bytes \<Rightarrow> string) \<Rightarrow> bytes \<Rightarrow> jsnum \<Rightarrow> string \<Rightarrow> preimages \<times> hash_map \<Rightarrow>
     (string \<times> bool) \<times> preimages \<times> hash_map" where
  "issueQueryHash sha256 bytesToHex raw now queryId st =
    (case st of (entries, queryHashMap) \<Rightarrow>
      case issue_begin queryHashMap queryId of
        Some r \<Rightarrow> (r, entries, queryHashMap)
      | None \<Rightarrow>
         let (entry, entries') = preimage_create sha256 bytesToHex raw now entries;
             (r, queryHashMap') = issue_finish entry queryId queryHashMap
         in (r, entries', queryHashMap'))"

section \<open>Contract and correctness\<close>

locale preimage_store =
  fixes get :: "'s \<Rightarrow> string \<Rightarrow> string option"
    and delete :: "string \<Rightarrow> 's \<Rightarrow> 's"
  assumes get_delete: "get (delete h s) h' = (if h' = h then None else get s h')"
begin

lemma deleted_once: "get (delete h s) h = None"
  by (simp add: get_delete)

lemma deletes_no_reveal:
  "get (fold delete hs s) h = (if h \<in> set hs then None else get s h)"
  by (induction hs arbitrary: s) (auto simp: get_delete)

end

interpretation pm: preimage_store getPreimage preimage_delete
  by unfold_locales (simp add: getPreimage_def preimage_delete_def)

lemma hex_value_digit: "n < 16 \<Longrightarrow> hex_value (hex_digits ! n) = Some n"
proof -
  have "\<forall>n < 16. hex_value (hex_digits ! n) = Some n" by code_simp
  then show "n < 16 \<Longrightarrow> hex_value (hex_digits ! n) = Some n" by blast
qed

lemma hex_digit_plain:
  "n < 16 \<Longrightarrow> \<not> line_term (hex_digits ! n) \<and> hex_digits ! n \<notin> set ws_chars \<and>
    hex_digits ! n \<noteq> CHR ''-'' \<and> hex_digits ! n \<noteq> CHR ''+'' \<and> hex_digits ! n \<noteq> CHR ''x'' \<and>
    hex_digits ! n \<noteq> CHR ''X''"
proof -
  have "\<forall>n < 16. \<not> line_term (hex_digits ! n) \<and> hex_digits ! n \<notin> set ws_chars \<and>
    hex_digits ! n \<noteq> CHR ''-'' \<and> hex_digits ! n \<noteq> CHR ''+'' \<and> hex_digits ! n \<noteq> CHR ''x'' \<and>
    hex_digits ! n \<noteq> CHR ''X''" by code_simp
  then show "n < 16 \<Longrightarrow> ?thesis" by blast
qed

lemma unat8_div: "unat (b :: 8 word) div 16 < 16"
proof -
  have "unat b < 2 ^ LENGTH(8)" by (rule unsigned_less)
  then show ?thesis by simp
qed

lemma parse_hex_byte: "to_uint8 (parse_hex (hex_byte b)) = b"
proof -
  let ?h = "hex_digits ! (unat b div 16)" and ?l = "hex_digits ! (unat b mod 16)"
  have "unat b mod 16 < 16" by simp
  note d = hex_digit_plain [OF unat8_div [of b]] hex_digit_plain [OF this]
    hex_value_digit [OF unat8_div [of b]] hex_value_digit [OF this]
  have "parse_hex [?h, ?l] = Some (int (unat b div 16 * 16 + unat b mod 16))"
    using d by (simp add: parse_hex_def strip_0x_def Let_def)
  then show ?thesis by (simp add: hex_byte_def to_uint8_def)
qed

lemma match_pairs_hex: "match_pairs (hex_string bs) = map hex_byte bs"
proof (induction bs)
  case (Cons b bs)
  have "unat b mod 16 < 16" by simp
  then show ?case
    using Cons hex_digit_plain [OF unat8_div [of b]] hex_digit_plain [of "unat b mod 16"]
    by (simp add: hex_string_def hex_byte_def)
qed (simp add: hex_string_def)

lemma hex_string_inj: "hex_string bs = hex_string cs \<Longrightarrow> bs = cs"
proof -
  have "map (\<lambda>p. to_uint8 (parse_hex p)) (match_pairs (hex_string bs)) = bs" for bs
    by (simp add: match_pairs_hex parse_hex_byte comp_def)
  then show "hex_string bs = hex_string cs \<Longrightarrow> bs = cs" by metis
qed

lemma verify_created_iff:
  assumes "\<And>bs. bytesToHex bs = hex_string bs" and "raw \<noteq> []"
  shows "verifyPreimageHash sha256 bytesToHex (bytesToHex raw) h = Some (bytesToHex (sha256 raw) = h)"
proof -
  have "match_pairs (bytesToHex raw) = map hex_byte raw" by (simp add: assms match_pairs_hex)
  then show ?thesis
    using assms(2) by (simp add: verifyPreimageHash_def parse_hex_byte comp_def)
qed

definition preimages_wf :: "(bytes \<Rightarrow> bytes) \<Rightarrow> (bytes \<Rightarrow> string) \<Rightarrow> preimages \<Rightarrow> bool" where
  "preimages_wf sha256 bytesToHex entries =
    (map_wf entries \<and>
     list_all (\<lambda>(h, e). pe_hash e = h \<and> verifyPreimageHash sha256 bytesToHex (pe_preimage e) h = Some True) entries)"

lemma preimages_wf_Nil [simp]: "preimages_wf sha256 bytesToHex []"
  by (simp add: preimages_wf_def)

lemma preimages_wf_create:
  assumes "\<And>bs. bytesToHex bs = hex_string bs" "raw \<noteq> []" "preimages_wf sha256 bytesToHex entries"
  shows "preimages_wf sha256 bytesToHex (snd (preimage_create sha256 bytesToHex raw now entries))"
proof -
  let ?h = "bytesToHex (sha256 raw)"
  have "verifyPreimageHash sha256 bytesToHex (bytesToHex raw) ?h = Some True"
    unfolding verify_created_iff [OF assms(1,2)] by simp
  then show ?thesis
    using assms(3) by (auto simp only: preimages_wf_def preimage_create_def createPreimage_def Let_def
        split_def fst_conv snd_conv PreimageEntry.simps intro!: map_set_all)
qed

lemma preimages_wf_delete:
  "preimages_wf sha256 bytesToHex entries \<Longrightarrow> preimages_wf sha256 bytesToHex (preimage_delete h entries)"
  by (auto simp: preimages_wf_def preimage_delete_def)

lemma preimages_wf_get:
  assumes "preimages_wf sha256 bytesToHex entries" "getPreimage entries h = Some p"
  shows "verifyPreimageHash sha256 bytesToHex p h = Some True"
  using assms by (auto simp: preimages_wf_def getPreimage_def dest: map_all_get)

end
