(* ===== verification/Query_Service.thy ===== *)
theory Query_Service
  imports Query_Lifecycle Oracle_Registry Preimage_Store
begin

text \<open>
  The application service over the query store (\<open>packages/sdk/src/requests/application/\<close> and
  \<open>requests/domain/query-store.ts\<close>).  The store is an insertion ordered map from identifiers to
  queries.  Every synchronous method is one function on the store; an asynchronous method is the
  composition of the code before its \<open>await\<close> (\<open>\<dots>_begin\<close>), the awaited value and the code after it
  (\<open>\<dots>_finish\<close>), so that the same definitions serve the run to completion semantics here and the
  interleaving semantics of the theory \<open>Query_Interleaving\<close>.  Ports are function arguments collected
  in \<open>ServiceDeps\<close>; a rejected promise of a port is \<open>None\<close>.
\<close>

section \<open>Outcomes, options and ports\<close>

type_synonym query_store = "(string, Query) jsmap"

record CreateQueryOptions =
  cq_ttlMs :: "jsnum option"
  cq_ttlSeconds :: "jsnum option"
  cq_customerMeta :: "CustomerMeta option"
  cq_payment_lock :: "PaymentLockInfo option"
  cq_oracleIds :: "string list option"
  cq_escrow :: "EscrowInfo option"
  cq_nostrEventId :: "string option"
  cq_quorum :: "QuorumConfig option"

record SubmitQueryOutcome =
  so_ok :: bool
  so_query :: "Query option"
  so_message :: msg

record HtlcOutcome =
  ho_ok :: bool
  ho_message :: msg

record EscrowSubmitOutcome =
  eo_ok :: bool
  eo_query :: "Query option"
  eo_message :: msg
  eo_preimage :: "string option"
  eo_frost_signature :: "string list option"

record EscrowAmountResult =
  ea_valid :: bool
  ea_amountSats :: "jsnum option"
  ea_error :: "msg option"

record EscrowTokenLockResult =
  el_ok :: bool
  el_message :: "msg option"

record EscrowPort =
  ep_verify :: "string \<Rightarrow> jsnum \<Rightarrow> EscrowAmountResult option"
  ep_verifyLock :: "string \<Rightarrow> string \<Rightarrow> string \<Rightarrow> EscrowTokenLockResult option"

record 'ps PreimagePort =
  pp_getPreimage :: "'ps \<Rightarrow> string \<Rightarrow> string option"
  pp_delete :: "string \<Rightarrow> 'ps \<Rightarrow> 'ps"

record 'ps ServiceDeps =
  sd_oracleResolver :: "string option \<Rightarrow> string list option \<Rightarrow> Oracle option"
  sd_multiOracleResolver :: "(string list option \<Rightarrow> jsnum \<Rightarrow> Oracle list) option"
  sd_preimageStore :: "'ps PreimagePort option"
  sd_escrowProvider :: "EscrowPort option"
  sd_frostSignature :: "(Query \<Rightarrow> QueryResult \<Rightarrow> BlossomKeyMap option \<Rightarrow> string list option option) option"
  sd_normalizeResult :: "(QueryResult \<Rightarrow> QueryResult) option"

definition identityNormalize :: "QueryResult \<Rightarrow> QueryResult" where
  "identityNormalize result = result"

definition normalize :: "'ps ServiceDeps \<Rightarrow> QueryResult \<Rightarrow> QueryResult" where
  "normalize deps = (case sd_normalizeResult deps of None \<Rightarrow> identityNormalize | Some f \<Rightarrow> f)"

definition DEFAULT_TTL_MS :: jsnum where
  "DEFAULT_TTL_MS = 10 * 60 * 1000"

definition resolveTtlMs :: "CreateQueryOptions option \<Rightarrow> jsnum" where
  "resolveTtlMs options =
    (case options of
       None \<Rightarrow> DEFAULT_TTL_MS
     | Some o' \<Rightarrow>
       (case cq_ttlMs o' of
          Some ms \<Rightarrow> ms
        | None \<Rightarrow> (case cq_ttlSeconds o' of Some s \<Rightarrow> s * 1000 | None \<Rightarrow> DEFAULT_TTL_MS)))"

section \<open>Oracle verification (query-verification.ts, verification-orchestration.ts)\<close>

record QuorumVerificationResult =
  qv_passed :: bool
  qv_attestations :: "OracleAttestationRecord list"
  qv_verification :: VerificationDetail

definition toAttestationRecord :: "OracleAttestation \<Rightarrow> OracleAttestationRecord" where
  "toAttestationRecord a =
    \<lparr> ar_oracle_id = oa_oracle_id a, ar_passed = oa_passed a, ar_checks = oa_checks a,
      ar_failures = oa_failures a, ar_attested_at = oa_attested_at a,
      ar_schema_verdict = oa_schema_verdict a \<rparr>"

definition failed_verification :: "msg \<Rightarrow> QuorumVerificationResult" where
  "failed_verification failure =
    \<lparr> qv_passed = False, qv_attestations = [],
      qv_verification = \<lparr> vd_passed = False, vd_checks = [], vd_failures = [failure],
                          vd_warnings = None, vd_schema_verdict = Undefined \<rparr> \<rparr>"

definition verifySingleOracle ::
    "Query \<Rightarrow> QueryResult \<Rightarrow> (string option \<Rightarrow> string list option \<Rightarrow> Oracle option) \<Rightarrow> string option \<Rightarrow>
     BlossomKeyMap option \<Rightarrow> QuorumVerificationResult option" where
  "verifySingleOracle q result resolveOracle effectiveOracleId blossomKeys =
    (case resolveOracle effectiveOracleId (q_oracle_ids q) of
       None \<Rightarrow> Some (failed_verification
          (if ostr_truthy effectiveOracleId
           then plain (''Oracle \"'' @ the effectiveOracleId @
                       ''\" is not available or not accepted for this query'')
           else plain ''No oracle available for this query''))
     | Some oracle \<Rightarrow>
       (case or_verify oracle q result blossomKeys of
          None \<Rightarrow> None
        | Some att \<Rightarrow> Some
           \<lparr> qv_passed = oa_passed att, qv_attestations = [toAttestationRecord att],
             qv_verification = \<lparr> vd_passed = oa_passed att, vd_checks = oa_checks att,
                                 vd_failures = oa_failures att, vd_warnings = None,
                                 vd_schema_verdict = oa_schema_verdict att \<rparr> \<rparr>))"

definition quorum_result :: "jsnum \<Rightarrow> OracleAttestation list \<Rightarrow> QuorumVerificationResult" where
  "quorum_result min_approvals rawAtts =
    (let records = map toAttestationRecord rawAtts;
         passCount = of_len (filter ar_passed records);
         ok = (min_approvals \<le> passCount);
         firstPass = find ar_passed records
     in \<lparr> qv_passed = ok, qv_attestations = records,
          qv_verification = \<lparr> vd_passed = ok, vd_checks = concat (map ar_checks records),
                              vd_failures = concat (map ar_failures records), vd_warnings = None,
                              vd_schema_verdict =
                                (case firstPass of None \<Rightarrow> Undefined | Some a \<Rightarrow> ar_schema_verdict a) \<rparr> \<rparr>)"

definition verifyQuorum ::
    "Query \<Rightarrow> QuorumConfig \<Rightarrow> QueryResult \<Rightarrow> (string list option \<Rightarrow> jsnum \<Rightarrow> Oracle list) option \<Rightarrow>
     BlossomKeyMap option \<Rightarrow> QuorumVerificationResult option" where
  "verifyQuorum q quorum result multi blossomKeys =
    (case multi of
       None \<Rightarrow> Some (failed_verification (plain ''No oracle registry with resolveMultiple support''))
     | Some resolveM \<Rightarrow>
       let needed = qc_min_approvals quorum + 2;
           oracles = resolveM (q_oracle_ids q) needed
       in if of_len oracles < qc_min_approvals quorum
          then Some (failed_verification
             [T ''Need '', N (qc_min_approvals quorum), T '' oracles but only '', N (of_len oracles),
              T '' available''])
          else map_option (quorum_result (qc_min_approvals quorum))
                 (those (map (\<lambda>o'. or_verify o' q result blossomKeys) oracles)))"

definition verifyWithQuorum ::
    "Query \<Rightarrow> QueryResult \<Rightarrow> (string option \<Rightarrow> string list option \<Rightarrow> Oracle option) \<Rightarrow>
     (string list option \<Rightarrow> jsnum \<Rightarrow> Oracle list) option \<Rightarrow> BlossomKeyMap option \<Rightarrow> string option \<Rightarrow>
     QuorumVerificationResult option" where
  "verifyWithQuorum q result resolveOracle multi blossomKeys oracleId =
    (let effectiveOracleId = (if nonempty_ids (q_oracle_ids q) then oracleId else None)
     in case q_quorum q of
          None \<Rightarrow> verifySingleOracle q result resolveOracle effectiveOracleId blossomKeys
        | Some quorum \<Rightarrow> verifyQuorum q quorum result multi blossomKeys)"

definition finalize :: "Query \<Rightarrow> QuorumVerificationResult \<Rightarrow> Query" where
  "finalize q v =
    q\<lparr> q_status := (if qv_passed v then Approved else Rejected),
       q_payment_status := (if qv_passed v then Released else Cancelled),
       q_verification := Some (qv_verification v),
       q_assigned_oracle_id := map_option ar_oracle_id (hd_opt (qv_attestations v)),
       q_attestations := (if q_quorum q \<noteq> None then Some (qv_attestations v) else None) \<rparr>"

definition verifyAndFinalize ::
    "Query \<Rightarrow> QueryResult \<Rightarrow> 'ps ServiceDeps \<Rightarrow> BlossomKeyMap option \<Rightarrow> string option \<Rightarrow>
     (QuorumVerificationResult \<times> Query) option" where
  "verifyAndFinalize q normalizedResult deps blossomKeys oracleId =
    map_option (\<lambda>v. (v, finalize q v))
      (verifyWithQuorum q normalizedResult (sd_oracleResolver deps) (sd_multiOracleResolver deps)
         blossomKeys oracleId)"

definition tryRevealPreimage ::
    "'ps PreimagePort option \<Rightarrow> string option \<Rightarrow> bool \<Rightarrow> 'ps \<Rightarrow> string option \<times> 'ps" where
  "tryRevealPreimage port htlcHash ok ps =
    (case port of
       None \<Rightarrow> (None, ps)
     | Some p \<Rightarrow>
       if \<not> ok \<or> \<not> ostr_truthy htlcHash then (None, ps)
       else let preimage = pp_getPreimage p ps (the htlcHash)
            in if ostr_truthy preimage then (preimage, pp_delete p (the htlcHash) ps) else (None, ps))"

section \<open>Lifecycle methods (query-lifecycle-methods.ts)\<close>

definition not_found :: msg where
  "not_found = plain ''Query not found''"

definition doCreateQuery ::
    "url_parser \<Rightarrow> query_store \<Rightarrow> QueryInput \<Rightarrow> CreateQueryOptions option \<Rightarrow> DomainServices \<Rightarrow>
     TransitionResult \<times> query_store" where
  "doCreateQuery parse store input options services =
    (let r = createQueryAggregate parse input
               \<lparr> co_ttlMs = resolveTtlMs options,
                 co_customerMeta = Option.bind options cq_customerMeta,
                 co_payment_lock = Option.bind options cq_payment_lock,
                 co_oracleIds = Option.bind options cq_oracleIds,
                 co_escrow = Option.bind options cq_escrow,
                 co_nostrEventId = Option.bind options cq_nostrEventId,
                 co_quorum = Option.bind options cq_quorum \<rparr> services
     in case r of
          Inl err \<Rightarrow> (Inl err, store)
        | Inr q \<Rightarrow> (Inr q, map_set (q_id q) q store))"

definition join_failures :: "msg list \<Rightarrow> msg" where
  "join_failures fs = concat (case fs of [] \<Rightarrow> [] | f # rest \<Rightarrow> f # map (\<lambda>g. T '', '' # g) rest)"

definition submit_begin ::
    "query_store \<Rightarrow> string \<Rightarrow> jsnum \<Rightarrow> (SubmitQueryOutcome + Query) \<times> query_store" where
  "submit_begin store i now =
    (case map_get store i of
       None \<Rightarrow> (Inl \<lparr> so_ok = False, so_query = None, so_message = not_found \<rparr>, store)
     | Some q \<Rightarrow>
       if q_status q \<noteq> Pending
       then (Inl \<lparr> so_ok = False, so_query = Some q,
                   so_message = query_is (q_status q) '', not pending'' \<rparr>, store)
       else if q_expires_at q < now
       then (Inl \<lparr> so_ok = False, so_query = Some q, so_message = plain ''Query has expired'' \<rparr>,
             map_set i (q\<lparr> q_status := Expired, q_payment_status := Cancelled \<rparr>) store)
       else (Inr q, store))"

definition submit_finish ::
    "query_store \<Rightarrow> string \<Rightarrow> Query \<Rightarrow> QueryResult \<Rightarrow> SubmissionMeta \<Rightarrow> BlossomKeyMap option \<Rightarrow> jsnum \<Rightarrow>
     QuorumVerificationResult \<times> Query \<Rightarrow> SubmitQueryOutcome \<times> query_store" where
  "submit_finish store i q normalizedResult submissionMeta blossomKeys now vu =
    (case vu of (v, updated) \<Rightarrow>
      if \<not> qv_passed v \<and> qv_attestations v = []
      then (\<lparr> so_ok = False, so_query = Some q,
              so_message = (case vd_failures (qv_verification v) of
                              [] \<Rightarrow> plain ''No oracle available'' | f # _ \<Rightarrow> f) \<rparr>, store)
      else let final = updated\<lparr> q_submitted_at := Some now, q_result := Some normalizedResult,
                                q_submission_meta := Some submissionMeta, q_blossom_keys := blossomKeys \<rparr>
           in (\<lparr> so_ok = qv_passed v, so_query = Some final,
                 so_message = (if qv_passed v then plain ''Verification passed. Result accepted.''
                               else T ''Verification failed: '' # join_failures (vd_failures (qv_verification v))) \<rparr>,
               map_set i final store))"

text \<open>The clock is read before and after the awaited verification (\<open>now\<close>, \<open>now'\<close>).\<close>

definition doSubmitQueryResult ::
    "'ps ServiceDeps \<Rightarrow> query_store \<Rightarrow> string \<Rightarrow> QueryResult \<Rightarrow> SubmissionMeta \<Rightarrow> string option \<Rightarrow>
     BlossomKeyMap option \<Rightarrow> jsnum \<Rightarrow> jsnum \<Rightarrow> SubmitQueryOutcome option \<times> query_store" where
  "doSubmitQueryResult deps store i result submissionMeta oracleId blossomKeys now now' =
    (case submit_begin store i now of
       (Inl outcome, store') \<Rightarrow> (Some outcome, store')
     | (Inr q, store') \<Rightarrow>
       (case verifyAndFinalize q (normalize deps result) deps blossomKeys oracleId of
          None \<Rightarrow> (None, store')
        | Some vu \<Rightarrow>
          (case submit_finish store' i q (normalize deps result) submissionMeta blossomKeys now' vu of
             (outcome, store'') \<Rightarrow> (Some outcome, store''))))"

definition doCancelQuery :: "query_store \<Rightarrow> string \<Rightarrow> HtlcOutcome \<times> query_store" where
  "doCancelQuery store i =
    (case map_get store i of
       None \<Rightarrow> (\<lparr> ho_ok = False, ho_message = not_found \<rparr>, store)
     | Some q \<Rightarrow>
       if \<not> isOpenStatus (q_status q)
       then (\<lparr> ho_ok = False, ho_message = plain (''Query is already '' @ status_str (q_status q)) \<rparr>, store)
       else (\<lparr> ho_ok = True, ho_message = plain ''Query cancelled'' \<rparr>,
             map_set i (q\<lparr> q_status := Rejected, q_payment_status := Cancelled \<rparr>) store))"

definition expire_one :: "jsnum \<Rightarrow> Query \<Rightarrow> query_store \<times> nat \<Rightarrow> query_store \<times> nat" where
  "expire_one now q st =
    (if isExpirable (q_status q) \<and> q_expires_at q < now
     then (map_set (q_id q) (q\<lparr> q_status := Expired, q_payment_status := Cancelled \<rparr>) (fst st), snd st + 1)
     else st)"

definition doExpireQueries :: "query_store \<Rightarrow> jsnum \<Rightarrow> nat \<times> query_store" where
  "doExpireQueries store now =
    (let (store', count) = fold (expire_one now) (map_values store) (store, 0) in (count, store'))"

definition purge_one :: "Query \<Rightarrow> query_store \<times> Query list \<Rightarrow> query_store \<times> Query list" where
  "purge_one q st =
    (if q_status q = Expired then (map_delete (q_id q) (fst st), snd st @ [q]) else st)"

definition doPurgeExpired :: "query_store \<Rightarrow> Query list \<times> query_store" where
  "doPurgeExpired store =
    (let (store', expired) = fold purge_one (map_values store) (store, []) in (expired, store'))"

section \<open>Escrow flow (escrow-flow-methods.ts, query-escrow-validation.ts)\<close>

text \<open>The shape shared by the synchronous methods: look the query up, apply the transition, store it.\<close>

definition commitTransition ::
    "query_store \<Rightarrow> string \<Rightarrow> (Query \<Rightarrow> TransitionResult) \<Rightarrow> msg \<Rightarrow> HtlcOutcome \<times> query_store" where
  "commitTransition store i op done_msg =
    (case map_get store i of
       None \<Rightarrow> (\<lparr> ho_ok = False, ho_message = not_found \<rparr>, store)
     | Some q \<Rightarrow>
       (case op q of
          Inl err \<Rightarrow> (\<lparr> ho_ok = False, ho_message = err \<rparr>, store)
        | Inr q' \<Rightarrow> (\<lparr> ho_ok = True, ho_message = done_msg \<rparr>, map_set i q' store)))"

definition doRecordOffer :: "query_store \<Rightarrow> string \<Rightarrow> OfferInfo \<Rightarrow> HtlcOutcome \<times> query_store" where
  "doRecordOffer store i off = commitTransition store i (\<lambda>q. addOffer q off) (plain ''Offer recorded'')"

definition doBeginWork :: "query_store \<Rightarrow> string \<Rightarrow> HtlcOutcome \<times> query_store" where
  "doBeginWork store i = commitTransition store i beginWork (plain ''Work begun'')"

definition doRecordResult ::
    "'ps ServiceDeps \<Rightarrow> query_store \<Rightarrow> string \<Rightarrow> QueryResult \<Rightarrow> string \<Rightarrow> BlossomKeyMap option \<Rightarrow> jsnum \<Rightarrow>
     HtlcOutcome \<times> query_store" where
  "doRecordResult deps store i result providerPubkey blossomKeys now =
    commitTransition store i
      (\<lambda>q. recordResult q (normalize deps result) providerPubkey blossomKeys now)
      (plain ''Result recorded, verification in progress'')"

definition doCompleteVerification ::
    "query_store \<Rightarrow> string \<Rightarrow> bool \<Rightarrow> string option \<Rightarrow> HtlcOutcome \<times> query_store" where
  "doCompleteVerification store i ok oracleId =
    commitTransition store i (\<lambda>q. completeVerification q ok None oracleId None)
      (plain (if ok then ''Verification passed'' else ''Verification failed''))"

definition isEscrowQuery :: "Query \<Rightarrow> bool" where
  "isEscrowQuery q = (q_escrow q \<noteq> None)"

definition escrow_ref_of :: "EscrowInfo \<Rightarrow> string option \<Rightarrow> string option" where
  "escrow_ref_of e escrowToken = orElse (e_escrow_ref e) (orElse (e_escrow_token e) escrowToken)"

definition payment_hash_of :: "EscrowInfo \<Rightarrow> string option" where
  "payment_hash_of e = (case e_type e of Htlc h \<Rightarrow> Some h | P2pk_frost _ \<Rightarrow> None)"

definition verifyEscrowAmount :: "EscrowPort \<Rightarrow> string \<Rightarrow> jsnum \<Rightarrow> EscrowAmountResult option" where
  "verifyEscrowAmount port escrowRef expectedSats = ep_verify port escrowRef expectedSats"

definition verifyEscrowLock ::
    "EscrowPort \<Rightarrow> string \<Rightarrow> string \<Rightarrow> string \<Rightarrow> EscrowTokenLockResult option" where
  "verifyEscrowLock port escrowRef paymentHash providerPubkey =
    ep_verifyLock port escrowRef paymentHash providerPubkey"

text \<open>The awaited checks of \<open>doSelectProvider\<close>: the updates to commit, the refusal to return, or a
  rejected promise.\<close>

definition select_checks ::
    "'ps ServiceDeps \<Rightarrow> Query \<Rightarrow> EscrowInfo \<Rightarrow> string \<Rightarrow> string option \<Rightarrow>
     (msg + EscrowSelectionUpdates) option" where
  "select_checks deps q e providerPubkey escrowToken =
    (let escrowRef = escrow_ref_of e escrowToken;
         expectedSats = map_option pl_amount_sats (q_payment_lock q);
         paymentHash = payment_hash_of e;
         updates = noUpdates\<lparr> su_escrow_token := map_option Some escrowToken \<rparr>;
         lockStep = (\<lambda>updates'.
           case sd_escrowProvider deps of
             None \<Rightarrow> Some (Inr updates')
           | Some port \<Rightarrow>
             if ostr_truthy escrowRef \<and> ostr_truthy paymentHash
             then (case verifyEscrowLock port (the escrowRef) (the paymentHash) providerPubkey of
                     None \<Rightarrow> None
                   | Some c \<Rightarrow> if \<not> el_ok c
                               then Some (Inl (case el_message c of None \<Rightarrow> [] | Some m \<Rightarrow> m))
                               else Some (Inr updates'))
             else Some (Inr updates'))
     in if ostr_truthy escrowRef \<and> (onum_truthy expectedSats \<or> ostr_truthy paymentHash) \<and>
           sd_escrowProvider deps = None
        then Some (Inl [T ''Escrow provider port not configured '', EmDash,
                        T '' cannot verify escrow token before selection''])
        else case sd_escrowProvider deps of
               Some port \<Rightarrow>
                 if ostr_truthy escrowRef \<and> onum_truthy expectedSats
                 then (case verifyEscrowAmount port (the escrowRef) (the expectedSats) of
                         None \<Rightarrow> None
                       | Some c \<Rightarrow>
                         if \<not> ea_valid c
                         then Some (Inl (T ''Escrow token verification failed: '' #
                                (case ea_error c of None \<Rightarrow> [T ''undefined''] | Some m \<Rightarrow> m)))
                         else lockStep (updates\<lparr> su_verified_escrow_sats := Some (ea_amountSats c) \<rparr>))
                 else lockStep updates
             | None \<Rightarrow> lockStep updates)"

definition select_begin ::
    "query_store \<Rightarrow> string \<Rightarrow> string \<Rightarrow> HtlcOutcome + Query \<times> EscrowInfo" where
  "select_begin store i providerPubkey =
    (case map_get store i of
       None \<Rightarrow> Inl \<lparr> ho_ok = False, ho_message = not_found \<rparr>
     | Some q \<Rightarrow>
       (case selectProvider q providerPubkey noUpdates of
          Inl err \<Rightarrow> Inl \<lparr> ho_ok = False, ho_message = err \<rparr>
        | Inr _ \<Rightarrow> Inr (q, the (q_escrow q))))"

definition select_finish ::
    "query_store \<Rightarrow> string \<Rightarrow> Query \<Rightarrow> string \<Rightarrow> msg + EscrowSelectionUpdates \<Rightarrow> HtlcOutcome \<times> query_store" where
  "select_finish store i q providerPubkey checked =
    (case checked of
       Inl err \<Rightarrow> (\<lparr> ho_ok = False, ho_message = err \<rparr>, store)
     | Inr updates \<Rightarrow>
       (case selectProvider q providerPubkey updates of
          Inl err \<Rightarrow> (\<lparr> ho_ok = False, ho_message = err \<rparr>, store)
        | Inr q' \<Rightarrow> (\<lparr> ho_ok = True, ho_message = plain ''Provider selected'' \<rparr>, map_set i q' store)))"

definition doSelectProvider ::
    "'ps ServiceDeps \<Rightarrow> query_store \<Rightarrow> string \<Rightarrow> string \<Rightarrow> string option \<Rightarrow>
     HtlcOutcome option \<times> query_store" where
  "doSelectProvider deps store i providerPubkey escrowToken =
    (case select_begin store i providerPubkey of
       Inl outcome \<Rightarrow> (Some outcome, store)
     | Inr (q, e) \<Rightarrow>
       (case select_checks deps q e providerPubkey escrowToken of
          None \<Rightarrow> (None, store)
        | Some checked \<Rightarrow>
          (case select_finish store i q providerPubkey checked of
             (outcome, store') \<Rightarrow> (Some outcome, store'))))"

definition escrow_outcome :: "bool \<Rightarrow> Query option \<Rightarrow> msg \<Rightarrow> EscrowSubmitOutcome" where
  "escrow_outcome ok q m =
    \<lparr> eo_ok = ok, eo_query = q, eo_message = m, eo_preimage = None, eo_frost_signature = None \<rparr>"

text \<open>The code of \<open>doSubmitEscrowResult\<close> up to the first \<open>await\<close>: an early return, or the query read
  and the query stored as \<open>verifying\<close>.\<close>

definition escrow_begin ::
    "'ps ServiceDeps \<Rightarrow> query_store \<Rightarrow> string \<Rightarrow> QueryResult \<Rightarrow> string \<Rightarrow> BlossomKeyMap option \<Rightarrow> jsnum \<Rightarrow>
     (EscrowSubmitOutcome + Query \<times> Query) \<times> query_store" where
  "escrow_begin deps store i result providerPubkey blossomKeys now =
    (case map_get store i of
       None \<Rightarrow> (Inl (escrow_outcome False None not_found), store)
     | Some q \<Rightarrow>
       if \<not> isEscrowQuery q
       then (Inl (escrow_outcome False (Some q) (plain ''Not an escrow query'')), store)
       else (case recordResult q (normalize deps result) providerPubkey blossomKeys now of
               Inl err \<Rightarrow> (Inl (escrow_outcome False (Some q) err), store)
             | Inr vq \<Rightarrow> (Inr (q, vq), map_set i vq store)))"

definition settle_frost ::
    "'ps ServiceDeps \<Rightarrow> EscrowInfo \<Rightarrow> Query \<Rightarrow> QueryResult \<Rightarrow> BlossomKeyMap option \<Rightarrow> string list option" where
  "settle_frost deps e vq normalizedResult blossomKeys =
    (case (e_type e, sd_frostSignature deps) of
       (P2pk_frost _, Some requestSignature) \<Rightarrow>
         (case requestSignature vq normalizedResult blossomKeys of
            None \<Rightarrow> None | Some sig \<Rightarrow> sig)
     | _ \<Rightarrow> None)"

text \<open>The code after the awaited verification: store the finalized query, then settle.\<close>

definition escrow_finish ::
    "'ps ServiceDeps \<Rightarrow> query_store \<times> 'ps \<Rightarrow> string \<Rightarrow> Query \<Rightarrow> Query \<Rightarrow> QueryResult \<Rightarrow>
     BlossomKeyMap option \<Rightarrow> QuorumVerificationResult \<times> Query \<Rightarrow> EscrowSubmitOutcome \<times> query_store \<times> 'ps" where
  "escrow_finish deps st i q vq normalizedResult blossomKeys vu =
    (case vu of (v, updated) \<Rightarrow>
     case st of (store, ps) \<Rightarrow>
      let store' = map_set i updated store;
          e = the (q_escrow q);
          (preimage, ps') =
            (if qv_passed v \<and> payment_hash_of e \<noteq> None
             then tryRevealPreimage (sd_preimageStore deps) (payment_hash_of e) (qv_passed v) ps
             else (None, ps));
          frostSignature = (if qv_passed v then settle_frost deps e vq normalizedResult blossomKeys else None);
          base = escrow_outcome (qv_passed v) (Some updated)
                   (if qv_passed v then plain ''Verification passed.''
                    else T ''Verification failed: '' # join_failures (vd_failures (qv_verification v)))
      in (if ostr_truthy preimage
          then base\<lparr> eo_message := plain ''Verification passed. Preimage revealed for HTLC redemption.'',
                     eo_preimage := preimage \<rparr>
          else if frostSignature \<noteq> None
          then base\<lparr> eo_message := plain ''Verification passed. FROST group signature delivered for P2PK redemption.'',
                     eo_frost_signature := frostSignature \<rparr>
          else base, store', ps'))"

definition doSubmitEscrowResult ::
    "'ps ServiceDeps \<Rightarrow> query_store \<times> 'ps \<Rightarrow> string \<Rightarrow> QueryResult \<Rightarrow> string \<Rightarrow> string option \<Rightarrow>
     BlossomKeyMap option \<Rightarrow> jsnum \<Rightarrow> EscrowSubmitOutcome option \<times> query_store \<times> 'ps" where
  "doSubmitEscrowResult deps st i result providerPubkey oracleId blossomKeys now =
    (case escrow_begin deps (fst st) i result providerPubkey blossomKeys now of
       (Inl outcome, store') \<Rightarrow> (Some outcome, store', snd st)
     | (Inr (q, vq), store') \<Rightarrow>
       (case verifyAndFinalize vq (normalize deps result) deps blossomKeys oracleId of
          None \<Rightarrow> (None, store', snd st)
        | Some vu \<Rightarrow>
          (case escrow_finish deps (store', snd st) i q vq (normalize deps result) blossomKeys vu of
             (outcome, st') \<Rightarrow> (Some outcome, st'))))"

section \<open>Listings (query-service.ts)\<close>

definition listOpenQueries :: "query_store \<Rightarrow> jsnum \<Rightarrow> Query list" where
  "listOpenQueries store now =
    filter (\<lambda>q. isOpenStatus (q_status q) \<and> now < q_expires_at q) (map_values store)"

end
