(* ===== verification/Escrow_Providers.thy ===== *)
theory Escrow_Providers
  imports Cashu_Escrow Query_Service
begin

text \<open>
  The two implementations of the escrow provider port: Cashu HTLC tokens
  (\<open>payments/cashu/cashu-escrow-provider.ts\<close>) and the FROST group lock
  (\<open>payments/cashu/frost-escrow-provider.ts\<close>).  Each keeps a map from opaque references to tokens and a
  counter.  A rejected promise is \<open>None\<close>.  The locale \<open>escrow_provider\<close> is the contract the selection
  use case relies on; both providers are interpretations.
\<close>

section \<open>Reading Cashu secrets\<close>

fun no_props :: "jsval \<Rightarrow> bool" where
  "no_props Undefined = True"
| "no_props Null = True"
| "no_props _ = False"

text \<open>\<open>tags.find((t) => t[0] === name)\<close>: \<open>None\<close> when an element has no properties.\<close>

fun find_tag :: "string \<Rightarrow> jsval list \<Rightarrow> jsval option option" where
  "find_tag name [] = Some None"
| "find_tag name (t # ts) =
    (if no_props t then None
     else if js_index t 0 = String name then Some (Some t)
     else find_tag name ts)"

text \<open>\<open>(secret[1]?.tags ?? []).find(\<dots>)\<close>.\<close>

definition secret_tag :: "jsval \<Rightarrow> string \<Rightarrow> jsval option option" where
  "secret_tag secret name =
    (if no_props secret then None
     else case opt_prop (js_index secret 1) ''tags'' of
            Undefined \<Rightarrow> Some None
          | Null \<Rightarrow> Some None
          | Array ts \<Rightarrow> find_tag name ts
          | _ \<Rightarrow> None)"

definition js_or_empty :: "jsval \<Rightarrow> jsval" where
  "js_or_empty v = (if no_props v then String [] else v)"

text \<open>\<open>Number(s)\<close> on the tag values, which the protocol writes as decimal strings.\<close>

fun js_to_number :: "jsval \<Rightarrow> jsnum" where
  "js_to_number (String s) =
    (let t = trim s in
     if t = [] then Fin 0
     else case jnumber t of Some (r, []) \<Rightarrow> Fin r | _ \<Rightarrow> NaN)"
| "js_to_number (Number x) = x"
| "js_to_number (Bool b) = (if b then Fin 1 else Fin 0)"
| "js_to_number Null = Fin 0"
| "js_to_number _ = NaN"

definition first_secret :: "Proof list \<Rightarrow> string" where
  "first_secret proofs = (case proofs of [] \<Rightarrow> ''[]'' | p # _ \<Rightarrow> p_secret p)"

definition refund_key_of :: "string \<Rightarrow> jsval" where
  "refund_key_of secretText =
    (case Option.bind (jparse secretText) (\<lambda>s. secret_tag s ''refund'') of
       Some (Some t) \<Rightarrow> js_or_empty (js_index t 1)
     | _ \<Rightarrow> String [])"

definition locktime_of :: "string \<Rightarrow> jsnum \<Rightarrow> jsnum" where
  "locktime_of secretText fallback =
    (case Option.bind (jparse secretText) (\<lambda>s. secret_tag s ''locktime'') of
       Some (Some t) \<Rightarrow> if jsval_truthy (js_index t 1) then js_to_number (js_index t 1) else fallback
     | _ \<Rightarrow> fallback)"

definition hash_of :: "string \<Rightarrow> jsval" where
  "hash_of secretText =
    (case jparse secretText of
       None \<Rightarrow> String []
     | Some s \<Rightarrow> if no_props s then String [] else js_or_empty (opt_prop (js_index s 1) ''data''))"

section \<open>The Cashu provider\<close>

record cashu_provider =
  cp_tokenMap :: "(string, string \<times> EscrowToken) jsmap"
  cp_refCounter :: nat

record HoldParams =
  hp_amount_sats :: jsnum
  hp_payment_hash :: string
  hp_expiry :: jsnum
  hp_customer_pubkey :: string

definition cashu_ref :: "nat \<Rightarrow> string" where
  "cashu_ref n = ''cashu_htlc_'' @ nat_str n"

definition cashu_createHold ::
    "'opt cashu \<Rightarrow> (jsnum \<Rightarrow> Proof list option) option \<Rightarrow> HoldParams \<Rightarrow> cashu_provider \<Rightarrow>
     string option option \<times> cashu_provider" where
  "cashu_createHold lib sourceProofsResolver params st =
    (case sourceProofsResolver of
       None \<Rightarrow> (Some None, st)
     | Some resolver \<Rightarrow>
       (case resolver (hp_amount_sats params) of
          None \<Rightarrow> (None, st)
        | Some sourceProofs \<Rightarrow>
          (case createHtlcToken lib (hp_amount_sats params)
                  \<lparr> hi_hash = hp_payment_hash params, hi_customerPubkey = hp_customer_pubkey params,
                    hi_locktimeSeconds = hp_expiry params \<rparr> sourceProofs of
             None \<Rightarrow> (None, st)
           | Some None \<Rightarrow> (Some None, st)
           | Some (Some result) \<Rightarrow>
             let n = Suc (cp_refCounter st); ref = cashu_ref n
             in (Some (Some ref),
                 \<lparr> cp_tokenMap = map_set ref (et_token result, result) (cp_tokenMap st), cp_refCounter = n \<rparr>))))"

definition cashu_bindProvider ::
    "'opt cashu \<Rightarrow> jsnum \<Rightarrow> string \<Rightarrow> string \<Rightarrow> cashu_provider \<Rightarrow> string option option \<times> cashu_provider" where
  "cashu_bindProvider lib now escrow_ref provider_pubkey st =
    (case map_get (cp_tokenMap st) escrow_ref of
       None \<Rightarrow> (Some None, st)
     | Some (token, escrowToken) \<Rightarrow>
       (case c_decode lib token of
          None \<Rightarrow> (None, st)
        | Some (_, proofs) \<Rightarrow>
          let secretText = first_secret proofs;
              params = \<lparr> hb_hash = hash_of secretText, hb_providerPubkey = provider_pubkey,
                         hb_customerRefundPubkey = refund_key_of secretText,
                         hb_locktimeSeconds = locktime_of secretText (js_floor (div_by now 1000) + 3600) \<rparr>
          in case swapHtlcBindProvider lib (et_proofs escrowToken) params of
               None \<Rightarrow> (None, st)
             | Some None \<Rightarrow> (Some None, st)
             | Some (Some result) \<Rightarrow>
               let n = Suc (cp_refCounter st); newRef = cashu_ref n
               in (Some (Some newRef),
                   \<lparr> cp_tokenMap = map_delete escrow_ref
                       (map_set newRef (et_token result, result) (cp_tokenMap st)), cp_refCounter = n \<rparr>)))"

definition unknown_ref :: msg where
  "unknown_ref = plain ''Unknown escrow reference''"

definition token_amount_check :: "'opt cashu \<Rightarrow> string option \<Rightarrow> jsnum \<Rightarrow> EscrowAmountResult option" where
  "token_amount_check lib token expected_sats =
    (case token of
       None \<Rightarrow> Some \<lparr> ea_valid = False, ea_amountSats = None, ea_error = Some unknown_ref \<rparr>
     | Some t \<Rightarrow>
       (case verifyToken lib t (Some expected_sats) of
          (valid, amount, err) \<Rightarrow> Some \<lparr> ea_valid = valid, ea_amountSats = Some amount, ea_error = err \<rparr>))"

definition cashu_verify ::
    "'opt cashu \<Rightarrow> cashu_provider \<Rightarrow> string \<Rightarrow> jsnum \<Rightarrow> EscrowAmountResult option" where
  "cashu_verify lib st escrow_ref expected_sats =
    token_amount_check lib (map_option fst (map_get (cp_tokenMap st) escrow_ref)) expected_sats"

definition lock_refused :: "string \<Rightarrow> EscrowTokenLockResult option" where
  "lock_refused m = Some \<lparr> el_ok = False, el_message = Some (plain m) \<rparr>"

definition lock_accepted :: "EscrowTokenLockResult option" where
  "lock_accepted = Some \<lparr> el_ok = True, el_message = None \<rparr>"

definition provider_hex :: "string \<Rightarrow> string" where
  "provider_hex pk = (if take 2 pk = ''02'' \<or> take 2 pk = ''03'' then pk else ''02'' @ pk)"

text \<open>The body of the loop for one proof: \<open>Inl\<close> is the early return (or the rejected promise),
  \<open>Inr\<close> goes on.\<close>

definition cashu_check_proof :: "Proof \<Rightarrow> string \<Rightarrow> string \<Rightarrow> EscrowTokenLockResult option + unit" where
  "cashu_check_proof proof payment_hash provider_pubkey =
    (case jparse (p_secret proof) of
       None \<Rightarrow> Inl (lock_refused ''Proof secret is not valid JSON'')
     | Some secret \<Rightarrow>
       (case secret of
          Array _ \<Rightarrow>
            if js_index secret 0 \<noteq> String ''HTLC'' then Inl (lock_refused ''Proof is not an HTLC proof'')
            else if opt_prop (js_index secret 1) ''data'' \<noteq> String payment_hash
            then Inl (lock_refused ''HTLC hash mismatch: token hashlock does not match query'')
            else (case secret_tag secret ''pubkeys'' of
                    None \<Rightarrow> Inl None
                  | Some None \<Rightarrow> Inl (lock_refused ''No pubkeys tag in HTLC proof'')
                  | Some (Some (Array keys)) \<Rightarrow>
                    let lockedKeys = drop 1 keys in
                    if String provider_pubkey \<notin> set lockedKeys \<and>
                       String (provider_hex provider_pubkey) \<notin> set lockedKeys
                    then Inl (lock_refused ''HTLC token not locked to selected provider'')
                    else Inr ()
                  | _ \<Rightarrow> Inl None)
        | _ \<Rightarrow> Inl (lock_refused ''Proof is not an HTLC proof'')))"

fun cashu_check_proofs ::
    "Proof list \<Rightarrow> string \<Rightarrow> string \<Rightarrow> bool \<Rightarrow> EscrowTokenLockResult option" where
  "cashu_check_proofs [] h pk checkedHtlcProof =
    (if checkedHtlcProof then lock_accepted else lock_refused ''Token has no HTLC proofs'')"
| "cashu_check_proofs (p # ps) h pk checkedHtlcProof =
    (case cashu_check_proof p h pk of Inl r \<Rightarrow> r | Inr _ \<Rightarrow> cashu_check_proofs ps h pk True)"

definition cashu_verifyLock ::
    "'opt cashu \<Rightarrow> cashu_provider \<Rightarrow> string \<Rightarrow> string \<Rightarrow> string \<Rightarrow> EscrowTokenLockResult option" where
  "cashu_verifyLock lib st escrow_ref payment_hash provider_pubkey =
    (case map_get (cp_tokenMap st) escrow_ref of
       None \<Rightarrow> Some \<lparr> el_ok = False, el_message = Some unknown_ref \<rparr>
     | Some (token, _) \<Rightarrow>
       (case c_decode lib token of
          None \<Rightarrow> lock_refused ''Token failed to decode''
        | Some (_, proofs) \<Rightarrow> cashu_check_proofs proofs payment_hash provider_pubkey False))"

definition cashu_settle :: "string \<Rightarrow> string \<Rightarrow> bool \<times> msg" where
  "cashu_settle escrow_ref preimage =
    (False, plain ''settle() is not wired through EscrowProvider; provider must call redeemHtlcToken() directly with its private key'')"

definition cashu_cancel :: "string \<Rightarrow> cashu_provider \<Rightarrow> bool \<times> cashu_provider" where
  "cashu_cancel escrow_ref st =
    (map_has (cp_tokenMap st) escrow_ref, st\<lparr> cp_tokenMap := map_delete escrow_ref (cp_tokenMap st) \<rparr>)"

section \<open>The FROST provider\<close>

record frost_entry =
  fe_token :: string
  fe_proofs :: "Proof list"
  fe_customerRefundPubkey :: string
  fe_locktimeSeconds :: jsnum

record frost_provider =
  fp_tokenMap :: "(string, frost_entry) jsmap"
  fp_refCounter :: nat

text \<open>\<open>None\<close>: the refusal to build a lock without a refund key.\<close>

definition buildFrostP2PKOptions :: "string \<Rightarrow> string \<Rightarrow> string \<Rightarrow> jsnum \<Rightarrow> p2pk_lock option" where
  "buildFrostP2PKOptions providerPubkey groupPubkey customerRefundPubkey locktimeSeconds =
    (if \<not> str_truthy customerRefundPubkey then None
     else Some [AddLockPubkey [providerPubkey, groupPubkey], RequireLockSignatures 2,
                LockUntil locktimeSeconds, AddRefundPubkey (String customerRefundPubkey),
                RequireRefundSignatures 1])"

definition frost_ref :: "nat \<Rightarrow> string" where
  "frost_ref n = ''frost_p2pk_'' @ nat_str n"

definition frost_createHold ::
    "'opt cashu \<Rightarrow> (jsnum \<Rightarrow> Proof list option) option \<Rightarrow> HoldParams \<Rightarrow> frost_provider \<Rightarrow>
     string option option \<times> frost_provider" where
  "frost_createHold lib sourceProofsResolver params st =
    (case sourceProofsResolver of
       None \<Rightarrow> (Some None, st)
     | Some resolver \<Rightarrow>
       (case getWalletAndConfig lib of
          None \<Rightarrow> (None, st)
        | Some None \<Rightarrow> (Some None, st)
        | Some (Some mintUrl) \<Rightarrow>
          (case resolver (hp_amount_sats params) of
             None \<Rightarrow> (None, st)
           | Some sourceProofs \<Rightarrow>
             (case loadAndSend lib (hp_amount_sats params) sourceProofs None None of
                None \<Rightarrow> (Some None, st)
              | Some send \<Rightarrow>
                let n = Suc (fp_refCounter st); ref = frost_ref n
                in (Some (Some ref),
                    \<lparr> fp_tokenMap = map_set ref
                        \<lparr> fe_token = encodeProofs lib mintUrl send, fe_proofs = send,
                          fe_customerRefundPubkey = hp_customer_pubkey params,
                          fe_locktimeSeconds = hp_expiry params \<rparr> (fp_tokenMap st),
                      fp_refCounter = n \<rparr>)))))"

definition frost_bindProvider ::
    "'opt cashu \<Rightarrow> string \<Rightarrow> string \<Rightarrow> string \<Rightarrow> frost_provider \<Rightarrow> string option option \<times> frost_provider" where
  "frost_bindProvider lib groupPubkey escrow_ref provider_pubkey st =
    (case map_get (fp_tokenMap st) escrow_ref of
       None \<Rightarrow> (Some None, st)
     | Some entry \<Rightarrow>
       (case getWalletAndConfig lib of
          None \<Rightarrow> (None, st)
        | Some None \<Rightarrow> (Some None, st)
        | Some (Some mintUrl) \<Rightarrow>
          (case buildFrostP2PKOptions provider_pubkey groupPubkey (fe_customerRefundPubkey entry)
                  (fe_locktimeSeconds entry) of
             None \<Rightarrow> (Some None, st)
           | Some lock \<Rightarrow>
             (case computeNetAmount lib (fe_proofs entry) of
                None \<Rightarrow> (Some None, st)
              | Some amountSats \<Rightarrow>
                (case loadAndSend lib amountSats (fe_proofs entry) (Some lock) None of
                   None \<Rightarrow> (Some None, st)
                 | Some send \<Rightarrow>
                   let n = Suc (fp_refCounter st); newRef = frost_ref n
                   in (Some (Some newRef),
                       \<lparr> fp_tokenMap = map_delete escrow_ref (map_set newRef
                           (entry\<lparr> fe_token := encodeProofs lib mintUrl send, fe_proofs := send \<rparr>)
                           (fp_tokenMap st)),
                         fp_refCounter = n \<rparr>))))))"

definition frost_verify ::
    "'opt cashu \<Rightarrow> frost_provider \<Rightarrow> string \<Rightarrow> jsnum \<Rightarrow> EscrowAmountResult option" where
  "frost_verify lib st escrow_ref expected_sats =
    token_amount_check lib (map_option fe_token (map_get (fp_tokenMap st) escrow_ref)) expected_sats"

fun isRecord :: "jsval \<Rightarrow> bool" where
  "isRecord (Object _) = True"
| "isRecord (Array _) = True"
| "isRecord _ = False"

fun string_of :: "jsval \<Rightarrow> string option" where
  "string_of (String s) = Some s"
| "string_of _ = None"

fun string_tag :: "jsval \<Rightarrow> string list option" where
  "string_tag (Array vs) = those (map string_of vs)"
| "string_tag _ = None"

fun readStringTags :: "jsval \<Rightarrow> string list list" where
  "readStringTags (Array vs) = List.map_filter string_tag vs"
| "readStringTags _ = []"

definition toXOnly :: "string \<Rightarrow> string" where
  "toXOnly pubkey =
    (if length pubkey = 66 \<and> (take 2 pubkey = ''02'' \<or> take 2 pubkey = ''03'') then drop 2 pubkey else pubkey)"

definition to_lower :: "string \<Rightarrow> string" where
  "to_lower s = map (\<lambda>c. if 65 \<le> (of_char c :: nat) \<and> (of_char c :: nat) \<le> 90 then char_of (of_char c + 32 :: nat) else c) s"

definition sameXOnlyPubkey :: "string \<Rightarrow> string \<Rightarrow> bool" where
  "sameXOnlyPubkey candidate expected = (to_lower (toXOnly candidate) = to_lower (toXOnly expected))"

definition tag_named :: "string \<Rightarrow> string list list \<Rightarrow> string list option" where
  "tag_named name tags = find (\<lambda>t. hd_opt t = Some name) tags"

definition lock_pubkeys :: "jsval \<Rightarrow> string list" where
  "lock_pubkeys body =
    (case opt_prop body ''data'' of String s \<Rightarrow> [s] | _ \<Rightarrow> []) @
    (case tag_named ''pubkeys'' (readStringTags (opt_prop body ''tags'')) of None \<Rightarrow> [] | Some t \<Rightarrow> drop 1 t)"

text \<open>One proof of the loop: the refusal, or \<open>None\<close> to go on.  The whole body stands in a \<open>try\<close>.\<close>

definition frost_check_proof :: "string \<Rightarrow> Proof \<Rightarrow> string \<Rightarrow> string option" where
  "frost_check_proof groupPubkey proof provider_pubkey =
    (case jparse (p_secret proof) of
       None \<Rightarrow> Some ''P2PK verification failed''
     | Some (Array vs) \<Rightarrow>
       let body = js_index (Array vs) 1; tags = readStringTags (opt_prop body ''tags'');
           nSigs = tag_named ''n_sigs'' tags
       in if js_index (Array vs) 0 \<noteq> String ''P2PK'' then Some ''Not a P2PK proof''
          else if \<not> isRecord body then Some ''Malformed P2PK proof''
          else if lock_pubkeys body = [] then Some ''No lock pubkeys in P2PK proof''
          else if Option.bind nSigs (\<lambda>t. hd_opt (drop 1 t)) \<noteq> Some ''2''
          then Some ''FROST P2PK lock must require 2 signatures''
          else if \<not> list_ex (\<lambda>pk. sameXOnlyPubkey pk provider_pubkey) (lock_pubkeys body)
          then Some ''Provider pubkey not in P2PK lock''
          else if \<not> list_ex (\<lambda>pk. sameXOnlyPubkey pk groupPubkey) (lock_pubkeys body)
          then Some ''Group pubkey not in P2PK lock''
          else None
     | Some _ \<Rightarrow> Some ''Not a P2PK proof'')"

fun frost_check_proofs :: "string \<Rightarrow> Proof list \<Rightarrow> string \<Rightarrow> EscrowTokenLockResult option" where
  "frost_check_proofs groupPubkey [] pk = lock_accepted"
| "frost_check_proofs groupPubkey (p # ps) pk =
    (case frost_check_proof groupPubkey p pk of
       Some m \<Rightarrow> lock_refused m
     | None \<Rightarrow> frost_check_proofs groupPubkey ps pk)"

definition frost_verifyLock ::
    "'opt cashu \<Rightarrow> string \<Rightarrow> frost_provider \<Rightarrow> string \<Rightarrow> string \<Rightarrow> string \<Rightarrow> EscrowTokenLockResult option" where
  "frost_verifyLock lib groupPubkey st escrow_ref payment_hash provider_pubkey =
    (case map_get (fp_tokenMap st) escrow_ref of
       None \<Rightarrow> Some \<lparr> el_ok = False, el_message = Some unknown_ref \<rparr>
     | Some entry \<Rightarrow>
       (case c_decode lib (fe_token entry) of
          None \<Rightarrow> lock_refused ''P2PK verification failed''
        | Some (_, proofs) \<Rightarrow> frost_check_proofs groupPubkey proofs provider_pubkey))"

definition frost_settle :: "string \<Rightarrow> string \<Rightarrow> bool \<times> msg" where
  "frost_settle escrow_ref preimage =
    (False, plain ''settle() is not wired through EscrowProvider for FROST mode; provider must coordinate threshold signing directly'')"

definition frost_cancel :: "string \<Rightarrow> frost_provider \<Rightarrow> bool \<times> frost_provider" where
  "frost_cancel escrow_ref st =
    (map_has (fp_tokenMap st) escrow_ref, st\<lparr> fp_tokenMap := map_delete escrow_ref (fp_tokenMap st) \<rparr>)"

section \<open>Redeeming with a group signature\<close>

fun parseWitness :: "jsval \<Rightarrow> jsval" where
  "parseWitness (String s) =
    (case jparse s of None \<Rightarrow> Object [] | Some v \<Rightarrow> if isRecord v then v else Object [])"
| "parseWitness v = (if isRecord v then v else Object [])"

definition getWitnessSignatures :: "jsval \<Rightarrow> string list" where
  "getWitnessSignatures witness =
    (case opt_prop witness ''signatures'' of Array vs \<Rightarrow> List.map_filter string_of vs | _ \<Rightarrow> [])"

text \<open>Spreading a parsed witness into an object literal.\<close>

fun spread_object :: "jsval \<Rightarrow> (string, jsval) jsmap" where
  "spread_object (Object ms) = ms"
| "spread_object (Array vs) = map (\<lambda>i. (nat_str i, vs ! i)) [0..<length vs]"
| "spread_object _ = []"

definition add_group_signature :: "(rat \<Rightarrow> string) \<Rightarrow> Proof \<Rightarrow> string \<Rightarrow> Proof" where
  "add_group_signature fstr proof groupSignature =
    (let witness = parseWitness (p_witness proof);
         signatures = getWitnessSignatures witness
     in proof\<lparr> p_witness := String (jprint fstr (Object
          (map_set ''signatures'' (Array (map String (signatures @ [groupSignature]))) (spread_object witness)))) \<rparr>)"

definition appendFrostP2PKGroupSignatures ::
    "(rat \<Rightarrow> string) \<Rightarrow> Proof list \<Rightarrow> string list \<Rightarrow> Proof list option" where
  "appendFrostP2PKGroupSignatures fstr proofs groupSignatures =
    (if length proofs \<noteq> length groupSignatures then None
     else Some (map2 (add_group_signature fstr) proofs groupSignatures))"

definition redeemFrostP2PKToken ::
    "'opt cashu \<Rightarrow> CashuRedeemWallet \<Rightarrow> (rat \<Rightarrow> string) \<Rightarrow> string \<Rightarrow> string \<Rightarrow> string list \<Rightarrow>
     (string \<times> Proof list \<times> jsnum) option option" where
  "redeemFrostP2PKToken lib wallet fstr encodedToken providerPrivateKey groupSignatures =
    (case getWalletAndConfig lib of
       None \<Rightarrow> None
     | Some None \<Rightarrow> Some None
     | Some (Some mintUrl) \<Rightarrow>
       (case c_decode lib encodedToken of
          None \<Rightarrow> None
        | Some (_, proofs) \<Rightarrow>
          (case c_signP2PK lib proofs providerPrivateKey of
             None \<Rightarrow> None
           | Some providerSigned \<Rightarrow>
             (case appendFrostP2PKGroupSignatures fstr providerSigned groupSignatures of
                None \<Rightarrow> None
              | Some signedProofs \<Rightarrow>
                (case redeemSignedProofs wallet signedProofs (Some providerPrivateKey) of
                   Redeem_ok proofs amountSats _ \<Rightarrow>
                     Some (Some (encodeProofs lib mintUrl proofs, proofs, amountSats))
                 | Redeem_failed _ _ uncertain \<Rightarrow> if uncertain then None else Some None)))))"

end
