(* ===== verification/Query_Service_Correct.thy ===== *)
theory Query_Service_Correct
  imports Query_Service
begin

text \<open>
  Correctness of the query service run to completion: \<open>store_inv\<close> is the invariant of the store,
  \<open>stored_transition\<close> extends the transition contract by what the service needs to commit a
  transition, and the relation \<open>seq_step\<close> collects the methods of the service.
\<close>

section \<open>Invariant of the store\<close>

definition verdict_ok :: "Query \<Rightarrow> bool" where
  "verdict_ok q =
    (case q_verification q of
       None \<Rightarrow> True
     | Some v \<Rightarrow> q_status q = (if vd_passed v then Approved else Rejected))"

definition provider_bound :: "Query \<Rightarrow> bool" where
  "provider_bound q =
    (q_status q \<in> {Provider_selected, Processing, Verifying} \<longrightarrow>
       (case q_escrow q of None \<Rightarrow> False | Some e \<Rightarrow> e_provider_pubkey e \<noteq> None))"

definition query_ok :: "Query \<Rightarrow> bool" where
  "query_ok q = (query_wf q \<and> verdict_ok q \<and> provider_bound q)"

definition store_inv :: "query_store \<Rightarrow> bool" where
  "store_inv s = (map_wf s \<and> list_all (\<lambda>(i, q). q_id q = i \<and> query_ok q) s)"

lemma store_inv_Nil [simp]: "store_inv []"
  by (simp add: store_inv_def)

lemma store_inv_get: "store_inv s \<Longrightarrow> map_get s i = Some q \<Longrightarrow> q_id q = i \<and> query_ok q"
  unfolding store_inv_def by (auto dest: map_all_get)

lemma store_inv_set: "store_inv s \<Longrightarrow> query_ok q \<Longrightarrow> q_id q = i \<Longrightarrow> store_inv (map_set i q s)"
  unfolding store_inv_def by auto

lemma store_inv_delete: "store_inv s \<Longrightarrow> store_inv (map_delete i s)"
  unfolding store_inv_def by auto

lemma store_inv_wf: "store_inv s \<Longrightarrow> map_wf s"
  by (simp add: store_inv_def)

definition evolves :: "Query \<Rightarrow> Query \<Rightarrow> bool" where
  "evolves q q' =
    (query_frame q q' \<and> (life_step (isEscrow q))\<^sup>*\<^sup>* (phase q) (phase q') \<and>
     (isTerminal (q_status q) \<longrightarrow> q' = q))"

lemma query_frame_refl [simp]: "query_frame q q"
  by (simp add: query_frame_def)

lemma query_frame_trans: "query_frame q r \<Longrightarrow> query_frame r s \<Longrightarrow> query_frame q s"
  by (auto simp: query_frame_def)

lemma query_frame_escrow: "query_frame q q' \<Longrightarrow> isEscrow q' = isEscrow q"
  by (cases "q_escrow q"; cases "q_escrow q'") (auto simp: query_frame_def isEscrow_def)

lemma evolves_refl [simp]: "evolves q q"
  by (simp add: evolves_def)

lemma evolves_trans: "evolves q r \<Longrightarrow> evolves r s \<Longrightarrow> evolves q s"
  by (auto simp: evolves_def query_frame_escrow intro: query_frame_trans rtranclp_trans)

lemma evolvesI: "query_frame q q' \<Longrightarrow> life_step (isEscrow q) (phase q) (phase q') \<Longrightarrow> evolves q q'"
  using life_step_not_terminal by (auto simp: evolves_def phase_def)

lemma life_step_star_terminal: "(life_step esc)\<^sup>*\<^sup>* (st, p) x \<Longrightarrow> isTerminal st \<Longrightarrow> x = (st, p)"
  by (erule converse_rtranclpE) (auto dest: life_step_not_terminal)

text \<open>A transition the service commits.\<close>

locale stored_transition = query_transition +
  assumes op_ok: "op q = Inr q' \<Longrightarrow> query_ok q \<Longrightarrow> query_ok q'"
begin

lemma op_evolves: "op q = Inr q' \<Longrightarrow> evolves q q'"
  by (intro evolvesI op_frame op_step)

lemma commit_inv: "store_inv s \<Longrightarrow> store_inv (snd (commitTransition s i op m))"
  by (auto simp: commitTransition_def dest: store_inv_get op_id op_ok intro!: store_inv_set
      split: option.split sum.split)

lemma commit_evolves:
  "map_get s k = Some q \<Longrightarrow> \<exists>q'. map_get (snd (commitTransition s i op m)) k = Some q' \<and> evolves q q'"
  by (auto simp: commitTransition_def intro: op_evolves split: option.split sum.split)

lemma commit_ok:
  "ho_ok (fst (commitTransition s i op m)) \<longleftrightarrow>
    (\<exists>q q'. map_get s i = Some q \<and> op q = Inr q' \<and> snd (commitTransition s i op m) = map_set i q' s)"
  by (auto simp: commitTransition_def split: option.split sum.split)

lemma commit_fail: "\<not> ho_ok (fst (commitTransition s i op m)) \<Longrightarrow> snd (commitTransition s i op m) = s"
  by (auto simp: commitTransition_def split: option.split sum.split)

end

lemmas query_ok_defs = query_ok_def verdict_ok_def provider_bound_def

lemma query_ok_nonterminal: "query_ok q \<Longrightarrow> \<not> isTerminal (q_status q) \<Longrightarrow> q_verification q = None"
  by (auto simp: query_ok_defs split: option.splits if_splits)

lemma query_ok_wf: "query_ok q \<Longrightarrow> query_wf q"
  by (simp add: query_ok_def)

text \<open>A transition that leaves the verdict alone only has to keep the binding to the provider.\<close>

context query_transition
begin

lemma verdict_kept:
  assumes "op q = Inr q'" "query_ok q" "q_verification q' = q_verification q" "provider_bound q'"
  shows "query_ok q'"
proof -
  have "\<not> isTerminal (q_status q)" using op_terminal assms(1) by fastforce
  then have "q_verification q' = None" using assms query_ok_nonterminal by simp
  then show ?thesis using assms op_wf by (simp add: query_ok_def verdict_ok_def)
qed

end

lemma provider_bound_other: "q_status q \<notin> {Provider_selected, Processing, Verifying} \<Longrightarrow> provider_bound q"
  by (auto simp: provider_bound_def)

lemma provider_bound_cong:
  "provider_bound q \<Longrightarrow> q_status q \<in> {Provider_selected, Processing, Verifying} \<Longrightarrow> q_escrow q' = q_escrow q \<Longrightarrow>
    provider_bound q'"
  unfolding provider_bound_def by auto

lemma query_ok_bound: "query_ok q \<Longrightarrow> provider_bound q"
  by (simp add: query_ok_def)

interpretation st_expire: stored_transition "\<lambda>q. expireQuery q now" for now
proof
  fix q q' assume "expireQuery q now = Inr q'" "query_ok q"
  then show "query_ok q'"
    by (rule expire.verdict_kept) (use \<open>expireQuery q now = Inr q'\<close> in
      \<open>auto simp: expireQuery_def intro!: provider_bound_other split: if_splits\<close>)
qed

interpretation st_cancel: stored_transition cancelQuery
proof
  fix q q' assume "cancelQuery q = Inr q'" "query_ok q"
  then show "query_ok q'"
    by (rule cancel.verdict_kept) (use \<open>cancelQuery q = Inr q'\<close> in
      \<open>auto simp: cancelQuery_def intro!: provider_bound_other split: if_splits\<close>)
qed

interpretation st_offer: stored_transition "\<lambda>q. addOffer q off" for off
proof
  fix q q' assume "addOffer q off = Inr q'" "query_ok q"
  then show "query_ok q'"
    by (rule offer.verdict_kept) (use \<open>addOffer q off = Inr q'\<close> in
      \<open>auto simp: addOffer_def intro!: provider_bound_other split: if_splits option.splits\<close>)
qed

interpretation st_begin_work: stored_transition beginWork
proof
  fix q q' assume "beginWork q = Inr q'" "query_ok q"
  then show "query_ok q'"
    by (rule begin_work.verdict_kept) (use \<open>beginWork q = Inr q'\<close> query_ok_bound [OF \<open>query_ok q\<close>] in
      \<open>auto simp: beginWork_def elim!: provider_bound_cong split: if_splits\<close>)
qed

interpretation st_result: stored_transition "\<lambda>q. recordResult q r pk bk now" for r pk bk now
proof
  fix q q' assume "recordResult q r pk bk now = Inr q'" "query_ok q"
  then show "query_ok q'"
    by (rule result.verdict_kept) (use \<open>recordResult q r pk bk now = Inr q'\<close> query_ok_bound [OF \<open>query_ok q\<close>] in
      \<open>auto simp: recordResult_def elim!: provider_bound_cong split: if_splits option.splits\<close>)
qed

interpretation st_complete: stored_transition "\<lambda>q. completeVerification q ok None oid atts" for ok oid atts
proof
  fix q q' assume "completeVerification q ok None oid atts = Inr q'" "query_ok q"
  then show "query_ok q'"
    by (rule complete.verdict_kept) (use \<open>completeVerification q ok None oid atts = Inr q'\<close> in
      \<open>auto simp: completeVerification_def Let_def intro!: provider_bound_other split: if_splits\<close>)
qed

lemma select_ok:
  assumes sel: "selectProvider q pk upd = Inr q'" and ok: "query_ok q" and upd: "su_provider_pubkey upd = None"
  shows "query_ok q'"
  using sel ok
  by (rule select.verdict_kept) (use sel upd in
    \<open>auto simp: selectProvider_def Let_def spread_def provider_bound_def split: if_splits option.splits\<close>)

section \<open>Methods of the service\<close>

lemma create_aggregate_ok:
  assumes "createQueryAggregate parse input options services = Inr q"
  shows "query_ok q \<and> q_id q = ds_newQueryId services"
  using assms
  by (auto simp: createQueryAggregate_def Let_def query_ok_defs query_wf_def split: option.splits if_splits)

lemma doCreateQuery_inv: "store_inv s \<Longrightarrow> store_inv (snd (doCreateQuery parse s input options services))"
  by (auto simp: doCreateQuery_def Let_def dest: create_aggregate_ok intro!: store_inv_set split: sum.split)

lemma doCreateQuery_get:
  "k \<noteq> ds_newQueryId services \<Longrightarrow> map_get (snd (doCreateQuery parse s input options services)) k = map_get s k"
  by (auto simp: doCreateQuery_def Let_def dest!: create_aggregate_ok split: sum.split)

lemma doCancelQuery_commit: "doCancelQuery s i = commitTransition s i cancelQuery (plain ''Query cancelled'')"
  by (simp add: doCancelQuery_def commitTransition_def cancelQuery_def split: option.split)

text \<open>Expiry: the loop over the snapshot of the values rewrites the map entry by entry.\<close>

definition expired_query :: "Query \<Rightarrow> Query" where
  "expired_query q = q\<lparr> q_status := Expired, q_payment_status := Cancelled \<rparr>"

definition must_expire :: "jsnum \<Rightarrow> Query \<Rightarrow> bool" where
  "must_expire now q = (isExpirable (q_status q) \<and> q_expires_at q < now)"

lemma expire_loop:
  assumes "\<forall>(k, q) \<in> set kvs. q_id q = k"
  shows "fold (expire_one now) (map snd kvs) (s, n) =
    (fold (\<lambda>(k, q). if must_expire now q then map_set k (expired_query q) else (\<lambda>s. s)) kvs s,
     n + length (filter (must_expire now) (map snd kvs)))"
  using assms
  by (induction kvs arbitrary: s n) (auto simp: expire_one_def must_expire_def expired_query_def)

lemma store_inv_ids: "store_inv s \<Longrightarrow> \<forall>(k, q) \<in> set s. q_id q = k"
  by (auto simp: store_inv_def list_all_iff)

lemma doExpireQueries_get:
  assumes "store_inv s"
  shows "map_get (snd (doExpireQueries s now)) k =
    map_option (\<lambda>q. if must_expire now q then expired_query q else q) (map_get s k)"
  using jm.rewrite_all_get [OF store_inv_wf [OF assms], of "must_expire now" expired_query k]
  by (simp add: doExpireQueries_def map_values_def expire_loop [OF store_inv_ids [OF assms]] map_entries_def)

lemma doExpireQueries_count:
  assumes "store_inv s"
  shows "fst (doExpireQueries s now) = length (filter (must_expire now) (map_values s))"
  by (simp add: doExpireQueries_def map_values_def expire_loop [OF store_inv_ids [OF assms]])

lemma must_expire_transition: "must_expire now q \<Longrightarrow> expireQuery q now = Inr (expired_query q)"
  using jsnum_less_not_le [of "q_expires_at q" now]
  by (simp add: must_expire_def expireQuery_def expired_query_def)

lemma store_inv_iff:
  "store_inv s \<longleftrightarrow> map_wf s \<and> (\<forall>i q. map_get s i = Some q \<longrightarrow> q_id q = i \<and> query_ok q)"
proof (cases "map_wf s")
  case True
  then have "(\<forall>(i, q) \<in> set s. P i q) \<longleftrightarrow> (\<forall>i q. map_get s i = Some q \<longrightarrow> P i q)" for P
    using jm.mem_entries [of s] by (fastforce simp: map_entries_def)
  then show ?thesis by (simp add: store_inv_def list_all_iff)
qed (simp add: store_inv_def)

lemma doExpireQueries_wf: "store_inv s \<Longrightarrow> map_wf (snd (doExpireQueries s now))"
  using jm.fold_put_inv [of s "must_expire now" expired_query s] store_inv_wf [of s]
  by (simp add: doExpireQueries_def map_values_def expire_loop [OF store_inv_ids])

lemma doExpireQueries_inv:
  assumes "store_inv s"
  shows "store_inv (snd (doExpireQueries s now))"
  unfolding store_inv_iff
proof (intro conjI allI impI)
  show "map_wf (snd (doExpireQueries s now))" using assms by (rule doExpireQueries_wf)
  fix i q assume "map_get (snd (doExpireQueries s now)) i = Some q"
  then obtain q0 where q0: "map_get s i = Some q0"
    "q = (if must_expire now q0 then expired_query q0 else q0)"
    by (auto simp: doExpireQueries_get [OF assms])
  have ok: "q_id q0 = i" "query_ok q0" using store_inv_get [OF assms q0(1)] by auto
  show "q_id q = i" using ok q0 by (simp add: expired_query_def)
  show "query_ok q" using ok q0 st_expire.op_ok [OF must_expire_transition] by auto
qed

lemma doExpireQueries_evolves:
  assumes "store_inv s" "map_get s k = Some q"
  shows "\<exists>q'. map_get (snd (doExpireQueries s now)) k = Some q' \<and> evolves q q'"
  using assms st_expire.op_evolves [OF must_expire_transition] by (auto simp: doExpireQueries_get)

text \<open>Purging.\<close>

lemma purge_loop:
  assumes "\<forall>(k, q) \<in> set kvs. q_id q = k"
  shows "fold purge_one (map snd kvs) (s, acc) =
    (fold (\<lambda>(k, q). if q_status q = Expired then map_delete k else (\<lambda>s. s)) kvs s,
     acc @ filter (\<lambda>q. q_status q = Expired) (map snd kvs))"
  using assms by (induction kvs arbitrary: s acc) (auto simp: purge_one_def)

lemma doPurgeExpired_get:
  assumes "store_inv s"
  shows "map_get (snd (doPurgeExpired s)) k =
    (case map_get s k of None \<Rightarrow> None | Some q \<Rightarrow> if q_status q = Expired then None else Some q)"
  using jm.remove_all_get [OF store_inv_wf [OF assms], of "\<lambda>q. q_status q = Expired" k]
  by (simp add: doPurgeExpired_def map_values_def purge_loop [OF store_inv_ids [OF assms]] map_entries_def)

lemma doPurgeExpired_list:
  assumes "store_inv s"
  shows "fst (doPurgeExpired s) = filter (\<lambda>q. q_status q = Expired) (map_values s)"
  by (simp add: doPurgeExpired_def map_values_def purge_loop [OF store_inv_ids [OF assms]])

lemma doPurgeExpired_inv:
  assumes "store_inv s"
  shows "store_inv (snd (doPurgeExpired s))"
proof -
  have "map_wf (snd (doPurgeExpired s))"
    using jm.fold_remove_inv [OF store_inv_wf [OF assms], of "\<lambda>q. q_status q = Expired" s]
    by (simp add: doPurgeExpired_def map_values_def purge_loop [OF store_inv_ids [OF assms]])
  then show ?thesis
    using assms unfolding store_inv_iff
    by (auto simp: doPurgeExpired_get [OF assms] split: option.splits if_splits)
qed

text \<open>Verification results agree with their detail.\<close>

lemma verifyWithQuorum_verdict:
  "verifyWithQuorum q r res multi bk oid = Some v \<Longrightarrow> vd_passed (qv_verification v) = qv_passed v"
  by (auto simp: verifyWithQuorum_def verifySingleOracle_def verifyQuorum_def failed_verification_def
      quorum_result_def Let_def split: option.splits if_splits)

lemma verifyAndFinalize_def':
  "verifyAndFinalize q r deps bk oid = Some (v, u) \<longleftrightarrow>
    verifyWithQuorum q r (sd_oracleResolver deps) (sd_multiOracleResolver deps) bk oid = Some v \<and> u = finalize q v"
  by (auto simp: verifyAndFinalize_def)

lemma finalize_frame: "query_frame q (finalize q v)"
  by (simp add: finalize_def query_frame_def)

lemma finalize_phase:
  "phase (finalize q v) = (if qv_passed v then (Approved, Released) else (Rejected, Cancelled))"
  by (simp add: finalize_def phase_def)

lemma finalize_step:
  assumes "query_wf q" "q_status q = (if isEscrow q then Verifying else Pending)"
  shows "life_step (isEscrow q) (phase q) (phase (finalize q v))"
  unfolding finalize_phase using assms by (auto simp: phase_def intro: life_step.intros)

lemma finalize_ok:
  assumes "query_wf q" "vd_passed (qv_verification v) = qv_passed v"
    "q_submitted_at q \<noteq> None" "q_result q \<noteq> None"
  shows "query_ok (finalize q v)"
  using assms by (auto simp: query_ok_defs finalize_def query_wf_def split: QueryStatus.splits)

lemma wf_simple: "query_wf q \<Longrightarrow> q_status q = Pending \<Longrightarrow> \<not> isEscrow q"
  by (simp add: query_wf_def isEscrow_def)

lemma submit_begin_cases:
  assumes "submit_begin s i now = (r, s')"
  obtains (early) out where "r = Inl out" "s' = s"
  | (late) q out where "r = Inl out" "map_get s i = Some q" "must_expire now q" "q_status q = Pending"
      "s' = map_set i (expired_query q) s"
  | (live) q where "r = Inr q" "map_get s i = Some q" "q_status q = Pending" "\<not> q_expires_at q < now" "s' = s"
  using assms that
  by (auto simp: submit_begin_def must_expire_def expired_query_def isExpirable_iff split: option.splits if_splits)

definition submitted :: "Query \<Rightarrow> QueryResult \<Rightarrow> SubmissionMeta \<Rightarrow> BlossomKeyMap option \<Rightarrow> jsnum \<Rightarrow> Query" where
  "submitted q r m bk now =
    q\<lparr> q_submitted_at := Some now, q_result := Some r, q_submission_meta := Some m, q_blossom_keys := bk \<rparr>"

lemma submit_finish_store:
  "snd (submit_finish s i q r m bk now (v, u)) =
    (if \<not> qv_passed v \<and> qv_attestations v = [] then s else map_set i (submitted u r m bk now) s)"
  by (simp add: submit_finish_def submitted_def Let_def)

lemma submitted_finalize: "submitted (finalize q v) r m bk now = finalize (submitted q r m bk now) v"
  by (simp add: submitted_def finalize_def)

lemma submitted_frame: "query_frame q (submitted q r m bk now)"
  by (simp add: submitted_def query_frame_def)

lemma submitted_phase: "phase (submitted q r m bk now) = phase q"
  by (simp add: submitted_def phase_def)

lemma submitted_wf: "query_wf q \<Longrightarrow> query_wf (submitted q r m bk now)"
  unfolding query_wf_def submitted_def by (cases "q_status q") simp_all

text \<open>The query the simple path writes back, from the query it read.\<close>

lemma submitted_finalize_ok:
  assumes "query_ok q" "q_status q = Pending" "vd_passed (qv_verification v) = qv_passed v"
  shows "query_ok (submitted (finalize q v) r m bk now)" "evolves q (submitted (finalize q v) r m bk now)"
    "q_id (submitted (finalize q v) r m bk now) = q_id q"
proof -
  let ?p = "submitted q r m bk now"
  have wf: "query_wf ?p" using assms(1) by (simp add: submitted_wf query_ok_wf)
  show "query_ok (submitted (finalize q v) r m bk now)"
    unfolding submitted_finalize using wf assms(3) by (rule finalize_ok) (simp_all add: submitted_def)
  have fr: "query_frame q (finalize ?p v)"
    by (rule query_frame_trans [OF submitted_frame finalize_frame])
  have "isEscrow ?p = isEscrow q" by (rule query_frame_escrow [OF submitted_frame])
  then have "life_step (isEscrow q) (phase q) (phase (finalize ?p v))"
    using finalize_step [OF wf, of v] wf_simple [OF query_ok_wf [OF assms(1)] assms(2)] assms(2)
    by (simp add: submitted_phase) (simp add: submitted_def)
  then show "evolves q (submitted (finalize q v) r m bk now)"
    using fr by (simp add: evolvesI submitted_finalize)
  show "q_id (submitted (finalize q v) r m bk now) = q_id q"
    using fr by (simp add: submitted_finalize query_frame_def)
qed

end
