(* ===== verification/Query_Runs.thy ===== *)
theory Query_Runs
  imports Query_Service_Correct
begin

text \<open>
  Runs of the query service.  \<open>sync_step\<close> collects the synchronous methods.  \<open>seq_step\<close> adds the
  asynchronous methods run to completion, one at a time.  \<open>async_step\<close> lets the event loop interleave
  them: an asynchronous method runs to its \<open>await\<close> and leaves a task, and any pending task may resume
  later with the store as it is then.
\<close>

section \<open>Step relations\<close>

inductive sync_step :: "url_parser \<Rightarrow> 'ps ServiceDeps \<Rightarrow> query_store \<Rightarrow> query_store \<Rightarrow> bool"
  for parse deps where
  create: "map_get s (ds_newQueryId sv) = None \<Longrightarrow>
    sync_step parse deps s (snd (doCreateQuery parse s input opts sv))"
| cancel: "sync_step parse deps s (snd (doCancelQuery s i))"
| expire: "sync_step parse deps s (snd (doExpireQueries s now))"
| purge: "sync_step parse deps s (snd (doPurgeExpired s))"
| offer: "sync_step parse deps s (snd (doRecordOffer s i off))"
| begin_work: "sync_step parse deps s (snd (doBeginWork s i))"
| record_result: "sync_step parse deps s (snd (doRecordResult deps s i r pk bk now))"
| complete: "sync_step parse deps s (snd (doCompleteVerification s i ok oid))"

inductive seq_step :: "url_parser \<Rightarrow> 'ps ServiceDeps \<Rightarrow> query_store \<times> 'ps \<Rightarrow> query_store \<times> 'ps \<Rightarrow> bool"
  for parse deps where
  sync: "sync_step parse deps s s' \<Longrightarrow> seq_step parse deps (s, ps) (s', ps)"
| submit: "seq_step parse deps (s, ps) (snd (doSubmitQueryResult deps s i r m oid bk now now'), ps)"
| select: "seq_step parse deps (s, ps) (snd (doSelectProvider deps s i pk tok), ps)"
| escrow: "seq_step parse deps (s, ps) (snd (doSubmitEscrowResult deps (s, ps) i r pk oid bk now))"

datatype task =
    Submit_task string Query QueryResult SubmissionMeta "BlossomKeyMap option" "QuorumVerificationResult \<times> Query"
  | Select_task string Query string "msg + EscrowSelectionUpdates"
  | Escrow_task string Query Query QueryResult "BlossomKeyMap option" "QuorumVerificationResult \<times> Query"

type_synonym 'ps world = "query_store \<times> 'ps \<times> task list"

inductive async_step :: "url_parser \<Rightarrow> 'ps ServiceDeps \<Rightarrow> 'ps world \<Rightarrow> 'ps world \<Rightarrow> bool"
  for parse deps where
  sync: "sync_step parse deps s s' \<Longrightarrow> async_step parse deps (s, ps, ts) (s', ps, ts)"
| submit_return: "submit_begin s i now = (Inl out, s') \<Longrightarrow> async_step parse deps (s, ps, ts) (s', ps, ts)"
| submit_await: "submit_begin s i now = (Inr q, s') \<Longrightarrow>
    verifyAndFinalize q (normalize deps r) deps bk oid = Some vu \<Longrightarrow>
    async_step parse deps (s, ps, ts) (s', ps, ts @ [Submit_task i q (normalize deps r) m bk vu])"
| submit_resume:
    "async_step parse deps (s, ps, ts @ Submit_task i q r m bk vu # ts')
       (snd (submit_finish s i q r m bk now vu), ps, ts @ ts')"
| select_await: "select_begin s i pk = Inr (q, e) \<Longrightarrow> select_checks deps q e pk tok = Some checked \<Longrightarrow>
    async_step parse deps (s, ps, ts) (s, ps, ts @ [Select_task i q pk checked])"
| select_resume:
    "async_step parse deps (s, ps, ts @ Select_task i q pk checked # ts')
       (snd (select_finish s i q pk checked), ps, ts @ ts')"
| escrow_reject: "escrow_begin deps s i r pk bk now = (Inr qs, s') \<Longrightarrow>
    async_step parse deps (s, ps, ts) (s', ps, ts)"
| escrow_await: "escrow_begin deps s i r pk bk now = (Inr (q, vq), s') \<Longrightarrow>
    verifyAndFinalize vq (normalize deps r) deps bk oid = Some vu \<Longrightarrow>
    async_step parse deps (s, ps, ts) (s', ps, ts @ [Escrow_task i q vq (normalize deps r) bk vu])"
| escrow_resume: "escrow_finish deps (s, ps) i q vq r bk vu = (out, s', ps') \<Longrightarrow>
    async_step parse deps (s, ps, ts @ Escrow_task i q vq r bk vu # ts') (s', ps', ts @ ts')"

inductive_cases sync_stepE: "sync_step parse deps s s'"
inductive_cases seq_stepE: "seq_step parse deps (s, ps) (s', ps')"

section \<open>Every method keeps the invariant and lets queries evolve along the lifecycle\<close>

definition store_evolves :: "query_store \<Rightarrow> query_store \<Rightarrow> bool" where
  "store_evolves s s' =
    (\<forall>k q. map_get s k = Some q \<longrightarrow>
       (case map_get s' k of None \<Rightarrow> q_status q = Expired | Some q' \<Rightarrow> evolves q q'))"

lemma store_evolves_refl [simp]: "store_evolves s s"
  by (simp add: store_evolves_def)

lemma store_evolvesD:
  "store_evolves s s' \<Longrightarrow> map_get s k = Some q \<Longrightarrow>
    (case map_get s' k of None \<Rightarrow> q_status q = Expired | Some q' \<Rightarrow> evolves q q')"
  by (simp add: store_evolves_def)

lemma store_evolves_set:
  "(\<And>q. map_get s i = Some q \<Longrightarrow> evolves q q') \<Longrightarrow> store_evolves s (map_set i q' s)"
  by (simp add: store_evolves_def)

lemma store_evolves_total:
  "(\<And>k q. map_get s k = Some q \<Longrightarrow> \<exists>q'. map_get s' k = Some q' \<and> evolves q q') \<Longrightarrow> store_evolves s s'"
  by (fastforce simp: store_evolves_def)

lemmas service_commit_defs = doCancelQuery_commit doRecordOffer_def doBeginWork_def doRecordResult_def
  doCompleteVerification_def

lemma sync_step_inv: "sync_step parse deps s s' \<Longrightarrow> store_inv s \<Longrightarrow> store_inv s'"
  by (induction rule: sync_step.induct)
    (simp_all only: service_commit_defs doCreateQuery_inv doExpireQueries_inv doPurgeExpired_inv
      st_cancel.commit_inv st_offer.commit_inv st_begin_work.commit_inv st_result.commit_inv
      st_complete.commit_inv)

lemma sync_step_evolves:
  assumes "sync_step parse deps s s'" "store_inv s"
  shows "store_evolves s s'"
  using assms
proof (induction rule: sync_step.induct)
  case (create s sv input opts)
  have "map_get (snd (doCreateQuery parse s input opts sv)) k = map_get s k" if "map_get s k \<noteq> None" for k
    by (rule doCreateQuery_get) (use create that in auto)
  then show ?case by (intro store_evolves_total) auto
next
  case (purge s)
  then show ?case by (simp add: store_evolves_def doPurgeExpired_get)
qed (auto intro!: store_evolves_total doExpireQueries_evolves st_cancel.commit_evolves
    st_offer.commit_evolves st_begin_work.commit_evolves st_result.commit_evolves
    st_complete.commit_evolves simp only: service_commit_defs)

text \<open>What a pending task remembers: a well-formed snapshot in the status it was read in, and a
  verdict computed from it.\<close>

fun task_ok :: "task \<Rightarrow> bool" where
  "task_ok (Submit_task i q r m bk (v, u)) =
    (query_ok q \<and> q_id q = i \<and> q_status q = Pending \<and> u = finalize q v \<and>
     vd_passed (qv_verification v) = qv_passed v)"
| "task_ok (Select_task i q pk checked) =
    (query_ok q \<and> q_id q = i \<and>
     (case checked of Inl _ \<Rightarrow> True | Inr upd \<Rightarrow> su_provider_pubkey upd = None))"
| "task_ok (Escrow_task i q vq r bk (v, u)) =
    (query_ok vq \<and> q_id vq = i \<and> q_status vq = Verifying \<and> u = finalize vq v \<and>
     vd_passed (qv_verification v) = qv_passed v)"

lemma select_checks_updates:
  "select_checks deps q e pk tok = Some (Inr upd) \<Longrightarrow> su_provider_pubkey upd = None"
  by (auto simp: select_checks_def Let_def noUpdates_def split: option.splits if_splits)

lemma select_begin_Inr:
  "select_begin s i pk = Inr (q, e) \<Longrightarrow> map_get s i = Some q \<and> q_escrow q = Some e"
  by (auto simp: select_begin_def selectProvider_def split: option.splits sum.splits if_splits)

lemma escrow_begin_Inr:
  "escrow_begin deps s i r pk bk now = (Inr (q, vq), s') \<Longrightarrow>
    map_get s i = Some q \<and> recordResult q (normalize deps r) pk bk now = Inr vq \<and> s' = map_set i vq s"
  by (auto simp: escrow_begin_def split: option.splits sum.splits if_splits)

lemma escrow_begin_Inl: "escrow_begin deps s i r pk bk now = (Inl out, s') \<Longrightarrow> s' = s"
  by (auto simp: escrow_begin_def split: option.splits sum.splits if_splits)

lemma recordResult_status: "recordResult q r pk bk now = Inr vq \<Longrightarrow> q_status vq = Verifying"
  by (auto simp: recordResult_def split: option.splits if_splits)

lemma escrow_finish_store: "fst (snd (escrow_finish deps (s, ps) i q vq r bk (v, u))) = map_set i u s"
  by (simp add: escrow_finish_def Let_def split: prod.split)

lemma submit_task_ok:
  assumes "store_inv s" "submit_begin s i now = (Inr q, s')" "verifyAndFinalize q nr deps bk oid = Some vu"
  shows "task_ok (Submit_task i q nr m bk vu)" "s' = s"
proof -
  obtain v u where vu: "vu = (v, u)" by (cases vu)
  have q: "map_get s i = Some q" "q_status q = Pending" "s' = s"
    using assms(2) by (auto elim!: submit_begin_cases)
  show "s' = s" by fact
  show "task_ok (Submit_task i q nr m bk vu)"
    using assms(3) store_inv_get [OF assms(1) q(1)] q(2) verifyWithQuorum_verdict
    by (auto simp: vu verifyAndFinalize_def')
qed

lemma submit_resume_inv:
  assumes "task_ok (Submit_task i q r m bk vu)" "store_inv s"
  shows "store_inv (snd (submit_finish s i q r m bk now vu))"
  using assms by (cases vu) (auto simp: submit_finish_store intro!: store_inv_set submitted_finalize_ok(1)
      simp del: submitted_def simp: submitted_finalize_ok(3))

lemma submit_late_inv:
  assumes "store_inv s" "submit_begin s i now = (Inl out, s')"
  shows "store_inv s' \<and> store_evolves s s'"
  using assms(2)
proof (cases rule: submit_begin_cases)
  case (late q out')
  have tr: "expireQuery q now = Inr (expired_query q)" using late by (intro must_expire_transition)
  have "query_ok (expired_query q)" "q_id (expired_query q) = i"
    using store_inv_get [OF assms(1)] late st_expire.op_ok [OF tr] expire.op_id [OF tr] by auto
  then show ?thesis
    using late assms(1) st_expire.op_evolves [OF tr] by (auto intro!: store_inv_set store_evolves_set)
qed (use assms in auto)

lemma select_resume_inv:
  assumes "task_ok (Select_task i q pk checked)" "store_inv s"
  shows "store_inv (snd (select_finish s i q pk checked))"
  using assms
  by (auto simp: select_finish_def dest: select_ok select.op_id intro!: store_inv_set split: sum.splits)

lemma escrow_begin_inv:
  assumes "store_inv s" "escrow_begin deps s i r pk bk now = (Inr (q, vq), s')"
  shows "store_inv s'" "query_ok vq" "q_id vq = i" "q_status vq = Verifying" "evolves q vq"
proof -
  note b = escrow_begin_Inr [OF assms(2)]
  have q: "query_ok q" "q_id q = i" using b store_inv_get [OF assms(1)] by auto
  show "query_ok vq" using b q st_result.op_ok by blast
  moreover show "q_id vq = i" using b q result.op_id by blast
  ultimately show "store_inv s'" using b assms(1) by (auto intro: store_inv_set)
  show "q_status vq = Verifying" using b recordResult_status by blast
  show "evolves q vq" using b st_result.op_evolves by blast
qed

lemma verifying_finalize:
  assumes "query_ok q" "q_status q = Verifying" "vd_passed (qv_verification v) = qv_passed v"
  shows "query_ok (finalize q v)" "evolves q (finalize q v)" "q_id (finalize q v) = q_id q"
proof -
  have wf: "query_wf q" "isEscrow q" "q_submitted_at q \<noteq> None" "q_result q \<noteq> None"
    using assms by (auto simp: query_ok_def query_wf_def isEscrow_def)
  show "query_ok (finalize q v)" using wf assms by (simp add: finalize_ok)
  show "evolves q (finalize q v)"
    using finalize_step [OF wf(1), of v] wf assms(2) by (intro evolvesI finalize_frame) simp
  show "q_id (finalize q v) = q_id q" using finalize_frame by (simp add: query_frame_def)
qed

lemma escrow_task_ok:
  assumes "store_inv s" "escrow_begin deps s i r pk bk now = (Inr (q, vq), s')"
    "verifyAndFinalize vq nr deps bk oid = Some vu"
  shows "task_ok (Escrow_task i q vq nr bk vu)"
  using escrow_begin_inv [OF assms(1,2)] assms(3) verifyWithQuorum_verdict
  by (cases vu) (auto simp: verifyAndFinalize_def')

lemma escrow_resume_inv:
  assumes "task_ok (Escrow_task i q vq r bk vu)" "store_inv s"
    "escrow_finish deps (s, ps) i q vq r bk vu = (out, s', ps')"
  shows "store_inv s'"
proof -
  obtain v u where vu: "vu = (v, u)" by (cases vu)
  have "s' = map_set i u s" using assms(3) escrow_finish_store [of deps s ps i q vq r bk v u] by (simp add: vu)
  then show ?thesis using assms(1,2) verifying_finalize by (auto simp: vu intro!: store_inv_set)
qed

section \<open>Sequential runs\<close>

lemma doSubmitQueryResult_ok:
  assumes inv: "store_inv s"
  shows "store_inv (snd (doSubmitQueryResult deps s i r m oid bk now now')) \<and>
    store_evolves s (snd (doSubmitQueryResult deps s i r m oid bk now now'))"
proof (cases "submit_begin s i now")
  case (Pair res s')
  show ?thesis
  proof (cases res)
    case (Inl out)
    then show ?thesis using submit_late_inv [OF inv] Pair by (simp add: doSubmitQueryResult_def)
  next
    case (Inr q)
    have q: "map_get s i = Some q" "q_status q = Pending" "s' = s"
      using Pair Inr by (auto elim!: submit_begin_cases)
    show ?thesis
    proof (cases "verifyAndFinalize q (normalize deps r) deps bk oid")
      case None
      then show ?thesis using Pair Inr q inv by (simp add: doSubmitQueryResult_def)
    next
      case (Some vu)
      obtain v u where vu: "vu = (v, u)" by (cases vu)
      have t: "task_ok (Submit_task i q (normalize deps r) m bk vu)"
        using submit_task_ok(1) [OF inv] Pair Inr Some by blast
      then have "evolves q (submitted u (normalize deps r) m bk now')"
        using submitted_finalize_ok(2) by (simp add: vu)
      then have "store_evolves s (snd (submit_finish s i q (normalize deps r) m bk now' vu))"
        using q by (auto simp: vu submit_finish_store intro!: store_evolves_set)
      moreover have "snd (doSubmitQueryResult deps s i r m oid bk now now') =
          snd (submit_finish s i q (normalize deps r) m bk now' vu)"
        using Pair Inr Some q by (simp add: doSubmitQueryResult_def split: prod.split)
      ultimately show ?thesis using submit_resume_inv [OF t inv, of now'] by simp
    qed
  qed
qed

lemma select_begin_Inl: "select_begin s i pk = Inl out \<Longrightarrow> \<not> ho_ok out"
  by (auto simp: select_begin_def split: option.splits sum.splits)

lemma doSelectProvider_cases:
  obtains (kept) "snd (doSelectProvider deps s i pk tok) = s"
      "\<And>out. fst (doSelectProvider deps s i pk tok) = Some out \<Longrightarrow> \<not> ho_ok out"
  | (selected) q e upd q' where "map_get s i = Some q" "q_escrow q = Some e"
      "select_checks deps q e pk tok = Some (Inr upd)" "selectProvider q pk upd = Inr q'"
      "doSelectProvider deps s i pk tok =
        (Some \<lparr> ho_ok = True, ho_message = plain ''Provider selected'' \<rparr>, map_set i q' s)"
proof (cases "select_begin s i pk")
  case (Inl out)
  then show ?thesis using select_begin_Inl [OF Inl] by (intro kept) (simp_all add: doSelectProvider_def)
next
  case (Inr qe)
  obtain q e where qe: "qe = (q, e)" by (cases qe)
  note b = select_begin_Inr [OF Inr [unfolded qe]]
  show ?thesis
  proof (cases "\<exists>upd q'. select_checks deps q e pk tok = Some (Inr upd) \<and> selectProvider q pk upd = Inr q'")
    case True
    then obtain upd q' where *: "select_checks deps q e pk tok = Some (Inr upd)" "selectProvider q pk upd = Inr q'"
      by blast
    show ?thesis by (rule selected [OF _ _ *]) (use b Inr qe * in \<open>simp_all add: doSelectProvider_def select_finish_def\<close>)
  next
    case False
    then show ?thesis
      by (intro kept) (auto simp: doSelectProvider_def select_finish_def Inr qe split: option.splits sum.splits)
  qed
qed

lemma doSelectProvider_ok:
  assumes inv: "store_inv s"
  shows "store_inv (snd (doSelectProvider deps s i pk tok)) \<and>
    store_evolves s (snd (doSelectProvider deps s i pk tok))"
proof (cases rule: doSelectProvider_cases [of deps s i pk tok])
  case kept
  then show ?thesis using inv by simp
next
  case (selected q e upd q')
  have "query_ok q'" "q_id q' = i"
    using store_inv_get [OF inv selected(1)] selected select_ok select_checks_updates select.op_id by blast+
  moreover have "evolves q q'"
    using select.op_frame select.op_step selected(4) by (intro evolvesI) blast+
  ultimately show ?thesis using selected inv by (auto intro!: store_inv_set store_evolves_set)
qed

lemma store_evolves_two:
  assumes "map_get s i = Some q" "evolves q q1" "evolves q1 q2"
  shows "store_evolves s (map_set i q2 (map_set i q1 s))"
  using assms evolves_trans by (auto simp: store_evolves_def)

lemma doSubmitEscrowResult_ok:
  assumes inv: "store_inv s" and step: "doSubmitEscrowResult deps (s, ps) i r pk oid bk now = (out, s', ps')"
  shows "store_inv s' \<and> store_evolves s s'"
proof (cases "escrow_begin deps s i r pk bk now")
  case (Pair res s1)
  show ?thesis
  proof (cases res)
    case (Inl o')
    then show ?thesis using Pair inv step escrow_begin_Inl [OF Pair [unfolded Inl]] by (auto simp: doSubmitEscrowResult_def)
  next
    case (Inr qs)
    obtain q vq where qs: "qs = (q, vq)" by (cases qs)
    note b = escrow_begin_Inr [OF Pair [unfolded Inr qs]] escrow_begin_inv [OF inv Pair [unfolded Inr qs]]
    show ?thesis
    proof (cases "verifyAndFinalize vq (normalize deps r) deps bk oid")
      case None
      then show ?thesis using b Pair Inr qs step by (auto simp: doSubmitEscrowResult_def intro: store_evolves_set)
    next
      case (Some vu)
      obtain v u where vu: "vu = (v, u)" by (cases vu)
      have t: "task_ok (Escrow_task i q vq (normalize deps r) bk vu)"
        using escrow_task_ok [OF inv Pair [unfolded Inr qs] Some] .
      have fin: "escrow_finish deps (s1, ps) i q vq (normalize deps r) bk vu = (the out, s', ps')"
        using Pair Inr qs Some step by (auto simp: doSubmitEscrowResult_def split: prod.splits)
      have "evolves vq u" using t verifying_finalize(2) by (simp add: vu)
      moreover have "s' = map_set i u s1"
        using fin escrow_finish_store [of deps s1 ps i q vq "normalize deps r" bk v u] by (simp add: vu)
      ultimately show ?thesis
        using escrow_resume_inv [OF t b(2) fin] b store_evolves_two by auto
    qed
  qed
qed

lemma seq_step_ok:
  assumes "seq_step parse deps (s, ps) (s', ps')" "store_inv s"
  shows "store_inv s' \<and> store_evolves s s'"
  using assms(1)
proof (rule seq_stepE)
  assume "sync_step parse deps s s'"
  then show ?thesis using sync_step_inv sync_step_evolves assms(2) by blast
next
  fix i r pk oid bk now assume "(s', ps') = snd (doSubmitEscrowResult deps (s, ps) i r pk oid bk now)"
  then show ?thesis using doSubmitEscrowResult_ok [OF assms(2)] by (metis prod.collapse)
qed (simp_all add: doSubmitQueryResult_ok doSelectProvider_ok assms(2))

lemma seq_reachable_inv:
  assumes "(seq_step parse deps)\<^sup>*\<^sup>* ([], ps0) (s, ps)"
  shows "store_inv s"
  using assms
  by (induction "(s, ps)" arbitrary: s ps rule: rtranclp_induct) (auto dest: seq_step_ok)

section \<open>Interleaved runs\<close>

lemma async_step_inv:
  assumes "async_step parse deps w w'" "store_inv (fst w)" "list_all task_ok (snd (snd w))"
  shows "store_inv (fst w') \<and> list_all task_ok (snd (snd w'))"
  using assms
proof (induction rule: async_step.induct)
  case (sync s s' ps ts)
  then show ?case using sync_step_inv by auto
next
  case (submit_return s i now out s' ps ts)
  then show ?case using submit_late_inv by auto
next
  case (submit_await s i now q s' r bk oid vu ps ts m)
  then have inv: "store_inv s" by simp
  show ?case
    using submit_task_ok [OF inv submit_await.hyps] submit_await.prems by simp
next
  case (escrow_reject s i r pk bk now qs s' ps ts)
  then show ?case using escrow_begin_inv by (cases qs) auto
next
  case (escrow_await s i r pk bk now q vq s' oid vu ps ts)
  then have inv: "store_inv s" by simp
  show ?case
    using escrow_begin_inv(1) [OF inv escrow_await.hyps(1)] escrow_task_ok [OF inv escrow_await.hyps]
      escrow_await.prems by simp
next
  case (select_await s i pk q e tok checked ps ts)
  have "query_ok q \<and> q_id q = i" using select_await select_begin_Inr store_inv_get by fastforce
  then show ?case using select_await select_checks_updates by (auto split: sum.split)
qed (auto intro: submit_resume_inv select_resume_inv escrow_resume_inv)

lemma async_reachable_inv:
  assumes "(async_step parse deps)\<^sup>*\<^sup>* ([], ps0, []) w"
  shows "store_inv (fst w) \<and> list_all task_ok (snd (snd w))"
  using assms by (induction rule: rtranclp_induct) (auto dest: async_step_inv)

end
