(* ===== verification/Query_Properties.thy ===== *)
theory Query_Properties
  imports Query_Runs
begin

text \<open>
  The properties of the query lifecycle: payment safety over interleaved runs, stability of terminal
  queries over sequential runs, the selection and verification gates, and what the interleaving of
  asynchronous methods can break.  The \<open>ex_\<dots>\<close> constants are the inputs the witnesses run on.
\<close>

section \<open>Example inputs\<close>

definition ex_info :: "string \<Rightarrow> OracleInfo" where
  "ex_info i = \<lparr> oi_id = i, oi_name = i, oi_endpoint = None, oi_fee_ppm = 0, oi_supported_schemas = None,
     oi_supported_payment_lock_types = None, oi_min_amount_sats = None, oi_max_amount_sats = None,
     oi_description = None \<rparr>"

definition ex_att :: "string \<Rightarrow> bool \<Rightarrow> Query \<Rightarrow> OracleAttestation" where
  "ex_att i ok q = \<lparr> oa_oracle_id = i, oa_query_id = q_id q, oa_passed = ok, oa_checks = [],
     oa_failures = [], oa_attested_at = 5, oa_schema_verdict = Undefined \<rparr>"

definition ex_oracle :: "string \<Rightarrow> bool \<Rightarrow> Oracle" where
  "ex_oracle i ok = \<lparr> or_info = ex_info i, or_verify = (\<lambda>q r bk. Some (ex_att i ok q)) \<rparr>"

definition ex_registry :: registry where
  "ex_registry = [(''orc'', ex_oracle ''orc'' True), (''alt'', ex_oracle ''alt'' False)]"

definition ex_port :: "preimages PreimagePort" where
  "ex_port = \<lparr> pp_getPreimage = getPreimage, pp_delete = preimage_delete \<rparr>"

definition ex_escrow_port :: "bool \<Rightarrow> EscrowPort" where
  "ex_escrow_port ok =
    \<lparr> ep_verify = (\<lambda>ref sats. Some \<lparr> ea_valid = ok, ea_amountSats = Some sats, ea_error = None \<rparr>),
      ep_verifyLock = (\<lambda>ref h pk. Some \<lparr> el_ok = ok, el_message = None \<rparr>) \<rparr>"

definition ex_deps :: "preimages ServiceDeps" where
  "ex_deps = \<lparr> sd_oracleResolver = resolve ex_registry,
     sd_multiOracleResolver = Some (resolveMultiple ex_registry), sd_preimageStore = Some ex_port,
     sd_escrowProvider = Some (ex_escrow_port True), sd_frostSignature = None, sd_normalizeResult = None \<rparr>"

definition ex_input :: QueryInput where
  "ex_input = \<lparr> qi_description = ''photo'', qi_schema = None, qi_location_hint = None,
     qi_verification_requirements = None, qi_schema_requirement = Undefined \<rparr>"

definition ex_options :: CreateQueryOptions where
  "ex_options = \<lparr> cq_ttlMs = Some 1000, cq_ttlSeconds = None, cq_customerMeta = None, cq_payment_lock = None,
     cq_oracleIds = Some [''orc''], cq_escrow = None, cq_nostrEventId = None, cq_quorum = None \<rparr>"

definition ex_services :: DomainServices where
  "ex_services = \<lparr> ds_now = 100, ds_newQueryId = ''q1'', ds_newChallengeNonce = ''ABC234'' \<rparr>"

definition ex_result :: QueryResult where
  "ex_result = \<lparr> qr_attachments = [], qr_notes = None, qr_schema_evidence = Undefined \<rparr>"

definition ex_meta :: SubmissionMeta where
  "ex_meta = \<lparr> sm_executor_type = Exec_human, sm_channel = Adapter \<rparr>"

definition ex_parse :: url_parser where
  "ex_parse s = None"

definition ex_store :: query_store where
  "ex_store = snd (doCreateQuery ex_parse [] ex_input (Some ex_options) ex_services)"

definition ex_query :: Query where
  "ex_query = the (map_get ex_store ''q1'')"

lemmas ex_defs = ex_info_def ex_att_def ex_oracle_def ex_registry_def ex_port_def ex_escrow_port_def
  ex_deps_def ex_input_def ex_options_def ex_services_def ex_result_def ex_meta_def ex_parse_def

lemma ex_store_eval:
  "ex_store = [(''q1'', ex_query)]" "q_status ex_query = Pending" "q_payment_status ex_query = Locked"
  "q_expires_at ex_query = 1100" "q_quorum ex_query = None" "q_oracle_ids ex_query = Some [''orc'']"
  "q_escrow ex_query = None" "q_id ex_query = ''q1''"
  unfolding ex_query_def ex_store_def doCreateQuery_def createQueryAggregate_def
  by (simp_all add: ex_defs Let_def validateQueryInput_def str_truthy_def trim_def ws_chars_def
      resolveTtlMs_def map_set_def map_get_def)

lemma ex_store_step: "sync_step ex_parse deps [] ex_store"
  unfolding ex_store_def by (rule sync_step.create) simp

definition ex_verdict :: QuorumVerificationResult where
  "ex_verdict = \<lparr> qv_passed = True, qv_attestations = [toAttestationRecord (ex_att ''orc'' True ex_query)],
     qv_verification = \<lparr> vd_passed = True, vd_checks = [], vd_failures = [], vd_warnings = None,
                         vd_schema_verdict = Undefined \<rparr> \<rparr>"

definition ex_task :: task where
  "ex_task = Submit_task ''q1'' ex_query ex_result ex_meta None (ex_verdict, finalize ex_query ex_verdict)"

definition ex_cancelled :: query_store where
  "ex_cancelled = snd (doCancelQuery ex_store ''q1'')"

definition ex_approved :: query_store where
  "ex_approved = snd (submit_finish ex_cancelled ''q1'' ex_query ex_result ex_meta None 200
     (ex_verdict, finalize ex_query ex_verdict))"

lemma ex_verify:
  "verifyAndFinalize ex_query (normalize ex_deps ex_result) ex_deps None None =
    Some (ex_verdict, finalize ex_query ex_verdict)"
  by (simp add: verifyAndFinalize_def verifyWithQuorum_def verifySingleOracle_def ex_store_eval ex_verdict_def
      ex_deps_def ex_registry_def ex_oracle_def ex_att_def resolve_def registry_get_def map_get_def
      nonempty_ids_def toAttestationRecord_def)

lemma ex_cancelled_get:
  "map_get ex_cancelled ''q1'' = Some (ex_query\<lparr> q_status := Rejected, q_payment_status := Cancelled \<rparr>)"
  by (simp add: ex_cancelled_def doCancelQuery_def ex_store_eval map_get_def map_set_def isOpenStatus_iff)

lemma ex_approved_get:
  "map_get ex_approved ''q1'' = Some (submitted (finalize ex_query ex_verdict) ex_result ex_meta None 200)"
  by (simp add: ex_approved_def submit_finish_store ex_verdict_def)

lemma ex_run_await: "(async_step ex_parse ex_deps)\<^sup>*\<^sup>* ([], [], []) (ex_store, [], [ex_task])"
proof -
  have "async_step ex_parse ex_deps ([], [], []) (ex_store, [], [])"
    using ex_store_step by (rule async_step.sync)
  moreover have "async_step ex_parse ex_deps (ex_store, [], []) (ex_store, [], [] @ [ex_task])"
  proof -
    have "submit_begin ex_store ''q1'' 150 = (Inr ex_query, ex_store)"
      by (simp add: submit_begin_def ex_store_eval map_get_def)
    from async_step.submit_await [OF this ex_verify, of ex_parse "[]" "[]" ex_meta] show ?thesis
      by (simp add: ex_task_def normalize_def ex_deps_def identityNormalize_def)
  qed
  ultimately show ?thesis by (simp add: converse_rtranclp_into_rtranclp)
qed

lemma ex_run_cancel: "async_step ex_parse ex_deps (ex_store, [], [ex_task]) (ex_cancelled, [], [ex_task])"
  unfolding ex_cancelled_def by (intro async_step.sync sync_step.cancel)

lemma ex_run_resume: "async_step ex_parse ex_deps (ex_cancelled, [], [ex_task]) (ex_approved, [], [])"
  using async_step.submit_resume [of ex_parse ex_deps ex_cancelled "[]" "[]" "''q1''" ex_query ex_result ex_meta
      None "(ex_verdict, finalize ex_query ex_verdict)" "[]" 200]
  by (simp add: ex_task_def ex_approved_def)

section \<open>Payment safety and stability\<close>

text \<open>C1. However the event loop interleaves the methods of the service and whatever the oracles and
  ports answer, in every reachable store a query is stored under its own identifier; its payment is
  released exactly when it is approved and cancelled exactly when it is rejected or expired; and an
  approved query has a recorded result and never carries a failed verdict.\<close>

theorem payment_safety:
  assumes "(async_step parse deps)\<^sup>*\<^sup>* ([], ps0, []) (s, ps, ts)" and "map_get s i = Some q"
  shows "q_id q = i \<and>
    (q_payment_status q = Released \<longleftrightarrow> q_status q = Approved) \<and>
    (q_payment_status q = Cancelled \<longleftrightarrow> q_status q \<in> {Rejected, Expired}) \<and>
    (q_status q = Approved \<longrightarrow>
       q_result q \<noteq> None \<and> (\<forall>v. q_verification q = Some v \<longrightarrow> vd_passed v))"
proof -
  have ok: "q_id q = i \<and> query_ok q"
    using async_reachable_inv [OF assms(1)] store_inv_get assms(2) by auto
  show ?thesis
    using ok by (cases "q_status q") (auto simp: query_ok_defs query_wf_def split: if_splits)
qed

theorem payment_safety_witness:
  "q_payment_status (submitted (finalize ex_query ex_verdict) ex_result ex_meta None 200) = Released \<longleftrightarrow>
   q_status (submitted (finalize ex_query ex_verdict) ex_result ex_meta None 200) = Approved"
proof -
  have "(async_step ex_parse ex_deps)\<^sup>*\<^sup>* ([], [], []) (ex_approved, [], [])"
    using ex_run_await ex_run_cancel ex_run_resume by (meson rtranclp.rtrancl_into_rtrancl)
  from payment_safety [OF this ex_approved_get] show ?thesis by blast
qed


lemma ex_seq_store: "seq_step ex_parse ex_deps ([], []) (ex_store, [])"
  using ex_store_step by (rule seq_step.sync)

lemma ex_seq_cancel: "seq_step ex_parse ex_deps (ex_store, []) (ex_cancelled, [])"
  unfolding ex_cancelled_def by (intro seq_step.sync sync_step.cancel)


text \<open>C7. Every method run to completion moves each stored query along the abstract lifecycle, zero
  or more steps, and never touches its identifying fields, its deadline, its payment lock, its oracle
  list or the lock of its escrow.\<close>

theorem lifecycle_refinement:
  assumes "(seq_step parse deps)\<^sup>*\<^sup>* ([], ps0) (s, ps)" and "seq_step parse deps (s, ps) (s', ps')"
    and "map_get s i = Some q" and "map_get s' i = Some q'"
  shows "(life_step (isEscrow q))\<^sup>*\<^sup>* (phase q) (phase q') \<and> query_frame q q'"
  using seq_step_ok [OF assms(2) seq_reachable_inv [OF assms(1)]] assms(3,4)
  by (auto simp: evolves_def dest: store_evolvesD)

theorem lifecycle_refinement_witness:
  "(life_step False)\<^sup>*\<^sup>* (Pending, Locked) (Rejected, Cancelled)"
proof -
  have get: "map_get ex_store ''q1'' = Some ex_query" by (simp add: ex_store_eval map_get_def)
  have "(seq_step ex_parse ex_deps)\<^sup>*\<^sup>* ([], []) (ex_store, [])" using ex_seq_store by blast
  from lifecycle_refinement [OF this ex_seq_cancel get ex_cancelled_get]
  show ?thesis by (simp add: phase_def isEscrow_def ex_store_eval)
qed


section \<open>Verification gates\<close>

lemma verifySingle_passed:
  assumes "verifySingleOracle q r res eff bk = Some v" "qv_passed v"
  shows "\<exists>o' att. res eff (q_oracle_ids q) = Some o' \<and> or_verify o' q r bk = Some att \<and> oa_passed att"
  using assms by (auto simp: verifySingleOracle_def failed_verification_def split: option.splits)

lemma those_Some: "those (map f xs) = Some ys \<longleftrightarrow> map f xs = map Some ys"
proof (induction xs arbitrary: ys)
  case (Cons x xs)
  then show ?case by (cases ys) (auto split: option.splits)
qed auto

lemma quorum_passed_oracles:
  assumes "map (\<lambda>o'. or_verify o' q r bk) os = map Some atts"
  shows "length (filter oa_passed atts) =
    length (filter (\<lambda>o'. \<exists>att. or_verify o' q r bk = Some att \<and> oa_passed att) os)"
  using assms
proof (induction os arbitrary: atts)
  case (Cons o' os)
  then show ?case by (cases atts) auto
qed simp

lemma quorum_result_passed:
  "qv_passed (quorum_result (Fin (of_nat n)) atts) \<longleftrightarrow> n \<le> length (filter oa_passed atts)"
  by (simp add: quorum_result_def Let_def of_len_def filter_map comp_def toAttestationRecord_def)

lemma verifyQuorum_passed:
  assumes "verifyQuorum q c r (Some multi) bk = Some v" "qv_passed v" "qc_min_approvals c = Fin (of_nat n)"
  defines "os \<equiv> multi (q_oracle_ids q) (qc_min_approvals c + 2)"
  shows "n \<le> length (filter (\<lambda>o'. \<exists>att. or_verify o' q r bk = Some att \<and> oa_passed att) os)"
proof -
  obtain atts where "those (map (\<lambda>o'. or_verify o' q r bk) os) = Some atts" "v = quorum_result (Fin (of_nat n)) atts"
    using assms by (auto simp: verifyQuorum_def Let_def failed_verification_def split: if_splits)
  then show ?thesis
    using assms(2) quorum_passed_oracles [of q r bk os atts] by (simp add: quorum_result_passed those_Some)
qed

text \<open>What the two verification paths guarantee with any oracle source that keeps the contract.\<close>

context oracle_resolver
begin

lemma single_gate:
  assumes "wf reg" "q_quorum q = None"
    and "verifyWithQuorum q r (single reg) multi bk oid = Some v" "qv_passed v"
  shows "\<exists>o' att. look reg (oi_id (or_info o')) = Some o' \<and>
    nonempty_ids (q_oracle_ids q) \<and> oi_id (or_info o') \<in> set (ids_of (q_oracle_ids q)) \<and>
    or_verify o' q r bk = Some att \<and> oa_passed att"
proof -
  let ?eff = "if nonempty_ids (q_oracle_ids q) then oid else None"
  have "verifySingleOracle q r (single reg) ?eff bk = Some v"
    using assms(2,3) by (simp add: verifyWithQuorum_def)
  from verifySingle_passed [OF this assms(4)] obtain o' att where o':
    "single reg ?eff (q_oracle_ids q) = Some o'" "or_verify o' q r bk = Some att" "oa_passed att" by blast
  have ids: "nonempty_ids (q_oracle_ids q)"
    using o'(1) single_unrequested by (auto split: if_splits)
  then show ?thesis
    using o' single_accepted [OF assms(1) o'(1) ids] single_registered [OF assms(1) o'(1)] by auto
qed

lemma quorum_gate:
  assumes "wf reg" "q_quorum q = Some c" "qc_min_approvals c = Fin (of_nat n)"
    and "distinct (ids_of (q_oracle_ids q))"
    and "verifyWithQuorum q r res (Some (multiple reg)) bk oid = Some v" "qv_passed v"
  shows "\<exists>ids. distinct ids \<and> n \<le> length ids \<and>
    (\<forall>i \<in> set ids. \<exists>o' att. look reg i = Some o' \<and> or_verify o' q r bk = Some att \<and> oa_passed att \<and>
       (nonempty_ids (q_oracle_ids q) \<longrightarrow> i \<in> set (ids_of (q_oracle_ids q))))"
proof -
  define os where "os = multiple reg (q_oracle_ids q) (qc_min_approvals c + 2)"
  define good where "good = filter (\<lambda>o'. \<exists>att. or_verify o' q r bk = Some att \<and> oa_passed att) os"
  have "verifyQuorum q c r (Some (multiple reg)) bk = Some v"
    using assms(2,5) by (simp add: verifyWithQuorum_def)
  from verifyQuorum_passed [OF this assms(6,3)] have n: "n \<le> length good" by (simp add: good_def os_def)
  have dist: "distinct (map (\<lambda>o'. oi_id (or_info o')) good)"
    using multiple_distinct [OF assms(1,4)] by (simp add: good_def os_def distinct_map_filter)
  have "look reg (oi_id (or_info o')) = Some o'" if "o' \<in> set os" for o'
    using that assms(1) multiple_registered unfolding os_def by blast
  then show ?thesis
    using n dist multiple_accepted [OF assms(1)]
    by (intro exI [of _ "map (\<lambda>o'. oi_id (or_info o')) good"]) (auto simp: good_def os_def)
qed

end

text \<open>C13. Without a quorum a result is approved only by a registered oracle that is on the query's
  acceptable list and whose verification passed: a query without an acceptable list is never approved,
  whatever oracle the provider asks for.\<close>

theorem approving_oracle_accepted:
  assumes "registry_wf reg" and "q_quorum q = None"
    and "verifyWithQuorum q r (resolve reg) multi bk oid = Some v" and "qv_passed v"
  shows "\<exists>o' att. map_get reg (oi_id (or_info o')) = Some o' \<and>
    nonempty_ids (q_oracle_ids q) \<and> oi_id (or_info o') \<in> set (ids_of (q_oracle_ids q)) \<and>
    or_verify o' q r bk = Some att \<and> oa_passed att"
  using assms by (rule reg.single_gate)

lemma ex_registry_wf: "registry_wf ex_registry"
  by (simp add: registry_wf_def ex_registry_def map_wf_def ex_oracle_def ex_info_def)

theorem approving_oracle_accepted_witness:
  "\<exists>o' att. map_get ex_registry (oi_id (or_info o')) = Some o' \<and>
    oi_id (or_info o') \<in> {''orc''} \<and> or_verify o' ex_query ex_result None = Some att \<and> oa_passed att"
proof -
  have "verifyWithQuorum ex_query ex_result (resolve ex_registry) None None None = Some ex_verdict"
    by (simp add: verifyWithQuorum_def verifySingleOracle_def ex_store_eval ex_verdict_def
      ex_registry_def ex_oracle_def ex_att_def resolve_def registry_get_def map_get_def
      nonempty_ids_def toAttestationRecord_def)
  from approving_oracle_accepted [OF ex_registry_wf _ this] show ?thesis
    by (simp add: ex_store_eval ex_verdict_def ids_of_def nonempty_ids_def)
qed

text \<open>C17. With a quorum of \<open>n\<close> and pairwise different acceptable identifiers, a passing verification
  means that at least \<open>n\<close> different registered oracles, all on the acceptable list if there is one,
  each verified the result successfully.\<close>

theorem quorum_distinct_oracles:
  assumes "registry_wf reg" and "q_quorum q = Some c" and "qc_min_approvals c = Fin (of_nat n)"
    and "distinct (ids_of (q_oracle_ids q))"
    and "verifyWithQuorum q r res (Some (resolveMultiple reg)) bk oid = Some v" and "qv_passed v"
  shows "\<exists>ids. distinct ids \<and> n \<le> length ids \<and>
    (\<forall>i \<in> set ids. \<exists>o' att. map_get reg i = Some o' \<and> or_verify o' q r bk = Some att \<and> oa_passed att \<and>
       (nonempty_ids (q_oracle_ids q) \<longrightarrow> i \<in> set (ids_of (q_oracle_ids q))))"
  using assms by (rule reg.quorum_gate)

definition ex_quorum_query :: "string list \<Rightarrow> jsnum \<Rightarrow> Query" where
  "ex_quorum_query ids n = ex_query\<lparr> q_oracle_ids := Some ids, q_quorum := Some \<lparr> qc_min_approvals = n \<rparr> \<rparr>"

lemma ex_quorum_eval:
  "map_option qv_passed (verifyWithQuorum (ex_quorum_query [''orc'', ''alt''] (Fin 1)) ex_result (resolve ex_registry)
     (Some (resolveMultiple ex_registry)) None None) = Some True"
  "map_option qv_passed (verifyWithQuorum (ex_quorum_query [''orc'', ''orc''] (Fin 2)) ex_result (resolve ex_registry)
     (Some (resolveMultiple ex_registry)) None None) = Some True"
  by (simp_all add: verifyWithQuorum_def verifyQuorum_def resolveMultiple_def ex_quorum_query_def ex_registry_def
      ex_oracle_def ex_att_def quorum_result_def toAttestationRecord_def nonempty_ids_def ids_of_def map_get_def
      of_len_def Let_def)

theorem quorum_distinct_oracles_witness:
  "\<exists>ids. distinct ids \<and> 1 \<le> length ids \<and>
    (\<forall>i \<in> set ids. \<exists>o' att. map_get ex_registry i = Some o' \<and>
       or_verify o' (ex_quorum_query [''orc'', ''alt''] (Fin 1)) ex_result None = Some att \<and> oa_passed att \<and>
       i \<in> {''orc'', ''alt''})"
proof -
  let ?q = "ex_quorum_query [''orc'', ''alt''] (Fin 1)"
  obtain v where v: "verifyWithQuorum ?q ex_result (resolve ex_registry) (Some (resolveMultiple ex_registry))
      None None = Some v" "qv_passed v"
    using ex_quorum_eval(1) by auto
  have q: "q_quorum ?q = Some \<lparr> qc_min_approvals = Fin 1 \<rparr>" "q_oracle_ids ?q = Some [''orc'', ''alt'']"
    by (simp_all add: ex_quorum_query_def)
  have "distinct (ids_of (q_oracle_ids ?q))" by (simp add: q ids_of_def)
  from quorum_distinct_oracles [OF ex_registry_wf q(1) _ this v, of 1] show ?thesis
    by (simp add: q nonempty_ids_def ids_of_def)
qed

text \<open>The quorum counts list entries, not oracles: with an acceptable list naming the same oracle
  twice, a quorum of two passes although only one oracle verified the result.\<close>

theorem quorum_counts_duplicates:
  "map_option qv_passed (verifyWithQuorum (ex_quorum_query [''orc'', ''orc''] (Fin 2)) ex_result (resolve ex_registry)
     (Some (resolveMultiple ex_registry)) None None) = Some True \<and>
   map (\<lambda>o'. oi_id (or_info o')) (resolveMultiple ex_registry (Some [''orc'', ''orc'']) (Fin 4)) = [''orc'', ''orc'']"
  using ex_quorum_eval(2)
  by (simp add: resolveMultiple_def ex_registry_def ex_oracle_def ex_info_def nonempty_ids_def ids_of_def map_get_def of_len_def)

section \<open>Provider selection\<close>

lemma select_checks_lock:
  assumes "select_checks deps q e pk tok = Some (Inr upd)" "escrow_ref_of e tok = Some ref" "ref \<noteq> []"
    "payment_hash_of e = Some h" "h \<noteq> []"
  shows "\<exists>port c. sd_escrowProvider deps = Some port \<and> ep_verifyLock port ref h pk = Some c \<and> el_ok c"
  using assms by (auto simp: select_checks_def verifyEscrowLock_def Let_def split: option.splits if_splits)

lemma select_checks_amount:
  assumes "select_checks deps q e pk tok = Some (Inr upd)" "escrow_ref_of e tok = Some ref" "ref \<noteq> []"
    "q_payment_lock q = Some l" "num_truthy (pl_amount_sats l)"
  shows "\<exists>port c. sd_escrowProvider deps = Some port \<and> ep_verify port ref (pl_amount_sats l) = Some c \<and> ea_valid c \<and>
    su_verified_escrow_sats upd = Some (ea_amountSats c)"
  using assms by (auto simp: select_checks_def verifyEscrowAmount_def Let_def split: option.splits if_splits)


definition ex_escrow :: "string option \<Rightarrow> EscrowInfo" where
  "ex_escrow ref = \<lparr> e_type = Htlc ''hash'', e_oracle_pubkeys = [''orc''], e_customer_pubkey = ''cust'',
     e_provider_pubkey = None, e_locktime = 5000, e_escrow_token = None, e_verified_escrow_sats = None,
     e_escrow_ref = ref \<rparr>"

definition ex_awaiting :: "string option \<Rightarrow> Query" where
  "ex_awaiting ref = ex_query\<lparr> q_status := Awaiting_offers, q_payment_status := Escrow_locked,
     q_escrow := Some (ex_escrow ref), q_offers := Some [],
     q_payment_lock := Some \<lparr> pl_amount_sats = Fin 21, pl_escrow_token = None \<rparr> \<rparr>"

lemma ex_select_eval:
  "doSelectProvider ex_deps [(''q1'', ex_awaiting (Some ''ref''))] ''q1'' ''prov'' tok =
    (Some \<lparr> ho_ok = True, ho_message = plain ''Provider selected'' \<rparr>,
     [(''q1'', (ex_awaiting (Some ''ref''))\<lparr> q_status := Provider_selected,
        q_escrow := Some ((ex_escrow (Some ''ref''))\<lparr> e_provider_pubkey := Some ''prov'',
          e_escrow_token := tok, e_verified_escrow_sats := Some (Fin 21) \<rparr>),
        q_payment_status := (if ostr_truthy tok then Escrow_swapped else Escrow_locked) \<rparr>)])"
  by (cases tok) (simp_all add: doSelectProvider_def select_begin_def select_finish_def select_checks_def
      selectProvider_def noUpdates_def spread_def ex_awaiting_def ex_escrow_def ex_deps_def ex_escrow_port_def
      escrow_ref_of_def payment_hash_of_def verifyEscrowAmount_def verifyEscrowLock_def map_get_def map_set_def
      Let_def)


lemma select_checks_token:
  assumes "e_escrow_ref e = Some ref"
  shows "select_checks deps q e pk tok =
    map_option (map_sum id (\<lambda>u. u\<lparr> su_escrow_token := map_option Some tok \<rparr>)) (select_checks deps q e pk None)"
  using assms
  by (simp add: select_checks_def escrow_ref_of_def noUpdates_def Let_def split: option.split)

lemma select_checks_token_irrelevant:
  assumes "select_checks deps q e pk tok = Some (Inr upd)" "e_escrow_ref e = Some ref"
  shows "select_checks deps q e pk (Some tok') = Some (Inr (upd\<lparr> su_escrow_token := Some (Some tok') \<rparr>))"
proof -
  obtain u where "select_checks deps q e pk None = Some (Inr u)"
      "upd = u\<lparr> su_escrow_token := map_option Some tok \<rparr>"
    using assms(1) unfolding select_checks_token [OF assms(2), of deps q pk tok]
    by (cases "select_checks deps q e pk None"; cases "the (select_checks deps q e pk None)") auto
  then show ?thesis by (simp add: select_checks_token [OF assms(2), of deps q pk "Some tok'"])
qed

text \<open>When the query's escrow carries a reference, the token handed to the selection is not what
  the port checks: if the selection succeeds with some token it succeeds with every token, and stores
  it as the escrow token of the query.\<close>

theorem selected_token_unchecked:
  assumes "doSelectProvider deps s i pk tok = (Some out, s')" and "ho_ok out"
    and "map_get s i = Some q" and "q_escrow q = Some e" and "e_escrow_ref e = Some ref"
  shows "\<exists>s'' q' e'. doSelectProvider deps s i pk (Some tok') = (Some out, s'') \<and>
    map_get s'' i = Some q' \<and> q_escrow q' = Some e' \<and> e_escrow_token e' = Some tok'"
proof (cases rule: doSelectProvider_cases [of deps s i pk tok])
  case kept
  then show ?thesis using assms(1,2) by simp
next
  case (selected q0 e0 upd q')
  then have eq: "q0 = q" "e0 = e" using assms(3,4) by auto
  note sel = selected [unfolded eq]
  have b: "select_begin s i pk = Inr (q, e)"
    using sel(1,2,4) by (auto simp: select_begin_def selectProvider_def split: if_splits)
  have c: "select_checks deps q e pk (Some tok') = Some (Inr (upd\<lparr> su_escrow_token := Some (Some tok') \<rparr>))"
    by (rule select_checks_token_irrelevant [OF sel(3) assms(5)])
  obtain q'' e'' where "selectProvider q pk (upd\<lparr> su_escrow_token := Some (Some tok') \<rparr>) = Inr q''"
    "q_escrow q'' = Some e''" "e_escrow_token e'' = Some tok'"
    using sel(2,4) by (auto simp: selectProvider_def spread_def Let_def split: if_splits)
  then show ?thesis
    using b c sel(5) assms(1) by (auto simp: doSelectProvider_def select_finish_def)
qed

theorem selected_token_unchecked_witness:
  "\<exists>s'' q' e'. doSelectProvider ex_deps [(''q1'', ex_awaiting (Some ''ref''))] ''q1'' ''prov'' (Some ''forged'') =
     (Some \<lparr> ho_ok = True, ho_message = plain ''Provider selected'' \<rparr>, s'') \<and>
    map_get s'' ''q1'' = Some q' \<and> q_escrow q' = Some e' \<and> e_escrow_token e' = Some ''forged''"
  using selected_token_unchecked [OF ex_select_eval [of None], of "ex_awaiting (Some ''ref'')"
      "ex_escrow (Some ''ref'')" "''ref''" "''forged''"]
  by (simp add: map_get_def ex_awaiting_def ex_escrow_def)

section \<open>Settlement\<close>

lemma escrow_finish_reveal:
  assumes "escrow_finish deps (s, ps) i q vq r bk (v, u) = (out, s', ps')"
    and "sd_preimageStore deps = Some \<lparr> pp_getPreimage = getPreimage, pp_delete = preimage_delete \<rparr>"
  shows "(case eo_preimage out of
      None \<Rightarrow> ps' = ps
    | Some p \<Rightarrow> qv_passed v \<and> (\<exists>h. payment_hash_of (the (q_escrow q)) = Some h \<and> getPreimage ps h = Some p \<and>
                  ps' = preimage_delete h ps))"
  using assms
  by (auto simp: escrow_finish_def escrow_outcome_def tryRevealPreimage_def Let_def
      split: if_splits option.splits prod.splits)


definition ex_processing :: Query where
  "ex_processing = (ex_awaiting None)\<lparr> q_status := Processing,
     q_escrow := Some ((ex_escrow None)\<lparr> e_provider_pubkey := Some ''prov'' \<rparr>) \<rparr>"

definition ex_preimages :: preimages where
  "ex_preimages = [(''hash'', \<lparr> pe_hash = ''hash'', pe_preimage = ''secret'', pe_created_at = 1 \<rparr>)]"

lemma ex_escrow_submit:
  "\<exists>out s'. doSubmitEscrowResult ex_deps ([(''q1'', ex_processing)], ex_preimages) ''q1'' ex_result ''prov'' None
      None 200 = (Some out, s', []) \<and> eo_preimage out = Some ''secret''"
  by (simp add: doSubmitEscrowResult_def escrow_begin_def isEscrowQuery_def recordResult_def ex_processing_def
      ex_awaiting_def ex_escrow_def verifyAndFinalize_def verifyWithQuorum_def verifySingleOracle_def ex_store_eval
      ex_deps_def ex_registry_def ex_oracle_def ex_att_def resolve_def registry_get_def nonempty_ids_def
      escrow_finish_def payment_hash_of_def tryRevealPreimage_def ex_port_def ex_preimages_def getPreimage_def
      preimage_delete_def map_get_def map_set_def map_delete_def escrow_outcome_def Let_def)


section \<open>Housekeeping\<close>

text \<open>The expiry sweep over a reachable store turns exactly the non-terminal queries whose deadline
  has passed into expired queries with a cancelled payment, leaves every other query as it is, and
  returns their number; purging afterwards removes exactly the expired queries and returns them in
  store order.\<close>

theorem expiry_sweep:
  assumes "(async_step parse deps)\<^sup>*\<^sup>* ([], ps0, []) (s, ps, ts)"
  shows "map_get (snd (doExpireQueries s now)) i =
      map_option (\<lambda>q. if \<not> isTerminal (q_status q) \<and> q_expires_at q < now
                      then q\<lparr> q_status := Expired, q_payment_status := Cancelled \<rparr> else q) (map_get s i) \<and>
    fst (doExpireQueries s now) =
      length (filter (\<lambda>q. \<not> isTerminal (q_status q) \<and> q_expires_at q < now) (map_values s)) \<and>
    map_get (snd (doPurgeExpired s)) i =
      (case map_get s i of None \<Rightarrow> None | Some q \<Rightarrow> if q_status q = Expired then None else Some q) \<and>
    fst (doPurgeExpired s) = filter (\<lambda>q. q_status q = Expired) (map_values s)"
proof -
  have inv: "store_inv s" using async_reachable_inv [OF assms] by simp
  have must: "must_expire now = (\<lambda>q. \<not> isTerminal (q_status q) \<and> q_expires_at q < now)"
    by (simp add: fun_eq_iff must_expire_def isExpirable_iff)
  have exp: "expired_query = (\<lambda>q. q\<lparr> q_status := Expired, q_payment_status := Cancelled \<rparr>)"
    by (simp add: fun_eq_iff expired_query_def)
  show ?thesis
    using doExpireQueries_get [OF inv, of now i] doExpireQueries_count [OF inv, of now]
      doPurgeExpired_get [OF inv, of i] doPurgeExpired_list [OF inv]
    unfolding must exp by (intro conjI)
qed

theorem expiry_sweep_witness:
  "map_get (snd (doExpireQueries ex_store 2000)) ''q1'' =
    Some (ex_query\<lparr> q_status := Expired, q_payment_status := Cancelled \<rparr>)"
proof -
  have "(async_step ex_parse ex_deps)\<^sup>*\<^sup>* ([], [], []) (ex_store, [], [ex_task])" by (rule ex_run_await)
  from expiry_sweep [OF this, of 2000 "''q1''"] show ?thesis
    by (simp add: ex_store_eval map_get_def)
qed

section \<open>Creation\<close>

text \<open>A created query has a description with a visible character, is pending without an escrow
  and awaits offers with one, and the lock time of its escrow is at least ten minutes away, unless it
  is zero or not a number.\<close>

theorem created_query_valid:
  assumes "createQueryAggregate parse input options services = Inr q" and "ds_now services = Fin t"
  shows "(\<exists>c \<in> set (q_description q). c \<notin> set ws_chars) \<and>
    phase q = (if isEscrow q then (Awaiting_offers, Escrow_locked) else (Pending, Locked)) \<and>
    q_expires_at q = Fin t + co_ttlMs options \<and>
    (\<forall>e. q_escrow q = Some e \<longrightarrow> e_locktime e = NaN \<or> e_locktime e = Fin 0 \<or>
       (\<exists>l. e_locktime e = Fin l \<and> of_int \<lfloor>t / 1000\<rfloor> + 600 \<le> l))"
proof -
  have d: "\<exists>c \<in> set (q_description q). c \<notin> set ws_chars"
  proof -
    have "validateQueryInput parse input = None" "q_description q = qi_description input"
      using assms(1) by (auto simp: createQueryAggregate_def Let_def split: option.splits if_splits)
    then show ?thesis using trim_eq_Nil by (auto simp: validateQueryInput_def split: if_splits)
  qed
  have l: "e_locktime e = NaN \<or> e_locktime e = Fin 0 \<or> (\<exists>l. e_locktime e = Fin l \<and> of_int \<lfloor>t / 1000\<rfloor> + 600 \<le> l)"
    if "q_escrow q = Some e" for e
    using assms that by (cases "e_locktime e") (auto simp: createQueryAggregate_def validateEscrowLocktime_def
        MIN_ESCROW_LOCKTIME_SECS_def Let_def split: option.splits if_splits)
  have "phase q = (if isEscrow q then (Awaiting_offers, Escrow_locked) else (Pending, Locked)) \<and>
      q_expires_at q = Fin t + co_ttlMs options"
    using assms by (auto simp: createQueryAggregate_def phase_def isEscrow_def Let_def split: option.splits if_splits)
  then show ?thesis using d l by blast
qed

definition ex_aggregate_options :: "EscrowInfo option \<Rightarrow> CreateQueryAggregateOptions" where
  "ex_aggregate_options e = \<lparr> co_ttlMs = Fin 1000, co_customerMeta = None, co_payment_lock = None,
     co_oracleIds = None, co_escrow = e, co_nostrEventId = None, co_quorum = None \<rparr>"

lemma ex_create_eval:
  "\<exists>q. createQueryAggregate ex_parse ex_input (ex_aggregate_options (Some (ex_escrow None))) ex_services = Inr q"
  "\<exists>q. createQueryAggregate ex_parse ex_input
     (ex_aggregate_options (Some ((ex_escrow None)\<lparr> e_locktime := Fin 0 \<rparr>))) ex_services = Inr q \<and>
     q_escrow q = Some ((ex_escrow None)\<lparr> e_locktime := Fin 0 \<rparr>)"
  by (simp_all add: createQueryAggregate_def validateQueryInput_def validateEscrowLocktime_def ex_input_def
      ex_services_def ex_aggregate_options_def ex_escrow_def str_truthy_def trim_def ws_chars_def
      MIN_ESCROW_LOCKTIME_SECS_def Let_def)

theorem created_query_valid_witness:
  "\<exists>q. createQueryAggregate ex_parse ex_input (ex_aggregate_options (Some (ex_escrow None))) ex_services = Inr q \<and>
     (\<exists>c \<in> set (q_description q). c \<notin> set ws_chars)"
proof -
  obtain q where q: "createQueryAggregate ex_parse ex_input (ex_aggregate_options (Some (ex_escrow None)))
      ex_services = Inr q" using ex_create_eval(1) by blast
  have "ds_now ex_services = Fin 100" by (simp add: ex_services_def)
  from created_query_valid [OF q this] q show ?thesis by blast
qed

end
