(* ===== verification/Escrow_Properties.thy ===== *)
theory Escrow_Properties
  imports Escrow_Providers Query_Properties
begin

text \<open>
  Correctness of the payment components: exact characterisations of token verification and of the two
  lock checks, the contract of an escrow provider and its two interpretations, the classification of an
  interrupted redemption, and the places where the escrow code does not do what it means to.
\<close>

section \<open>Amounts\<close>

lemma foldl_Fin_sum:
  assumes "list_all (\<lambda>p. is_finite (p_amount p)) ps"
  shows "\<exists>r. foldl (\<lambda>sum p. sum + p_amount p) (Fin a) ps = Fin r"
  using assms
proof (induction ps arbitrary: a)
  case (Cons p ps)
  then show ?case by (cases "p_amount p") auto
qed simp

text \<open>C27. A token verifies exactly when it decodes, its proofs add up to at least the expected amount
  when one is expected, a mint is configured and reachable, and the mint reports every proof state as
  unspent.\<close>

theorem verifyToken_valid_iff:
  "fst (verifyToken lib token expected) \<longleftrightarrow>
    (\<exists>mint proofs states. c_decode lib token = Some (mint, proofs) \<and>
       (onum_truthy expected \<longrightarrow> \<not> sumProofAmounts proofs < the expected) \<and>
       getCashuConfig lib \<noteq> None \<and> c_loadMint lib \<and>
       c_states lib proofs = Some states \<and> (\<forall>s \<in> set states. s = ''UNSPENT''))"
  by (auto simp: verifyToken_def sumProofAmounts_def Let_def filter_empty_conv split: option.splits prod.splits)

definition ex_lib :: "unit cashu" where
  "ex_lib = \<lparr> c_mintUrl = Some ''https://mint'', c_loadMint = True, c_toOptions = (\<lambda>l. ()),
     c_send = (\<lambda>a ps opt k. Some [\<lparr> p_amount = a, p_secret = ''fresh'', p_C = ''C-fresh'', p_witness = Undefined, p_id = ''k1'', p_dleq = Undefined \<rparr>]),
     c_fees = (\<lambda>ps. Fin 1), c_encode = (\<lambda>m ps. ''token''),
     c_decode = (\<lambda>t. Some (''https://mint'', [\<lparr> p_amount = Fin 8, p_secret = ''s1'', p_C = ''C1'', p_witness = Undefined, p_id = ''k1'', p_dleq = Undefined \<rparr>])),
     c_states = (\<lambda>ps. Some (map (\<lambda>p. ''UNSPENT'') ps)), c_signP2PK = (\<lambda>ps k. Some ps),
     c_htlcAuthorised = (\<lambda>p. True), c_verifyHTLCHash = (\<lambda>p h. p = h) \<rparr>"

theorem verifyToken_valid_iff_witness: "fst (verifyToken ex_lib ''t'' (Some (Fin 8)))"
  unfolding verifyToken_valid_iff
  by (simp add: ex_lib_def getCashuConfig_def trim_def ws_chars_def str_truthy_def sumProofAmounts_def)

section \<open>Lock checks\<close>

definition htlc_locked :: "string \<Rightarrow> string \<Rightarrow> Proof \<Rightarrow> bool" where
  "htlc_locked h pk p =
    (case jparse (p_secret p) of
       Some (Array vs) \<Rightarrow>
         js_index (Array vs) 0 = String ''HTLC'' \<and> opt_prop (js_index (Array vs) 1) ''data'' = String h \<and>
         (case secret_tag (Array vs) ''pubkeys'' of
            Some (Some (Array keys)) \<Rightarrow> String pk \<in> set (drop 1 keys) \<or> String (provider_hex pk) \<in> set (drop 1 keys)
          | _ \<Rightarrow> False)
     | _ \<Rightarrow> False)"

definition frost_locked :: "string \<Rightarrow> string \<Rightarrow> Proof \<Rightarrow> bool" where
  "frost_locked gk pk p =
    (case jparse (p_secret p) of
       Some (Array vs) \<Rightarrow>
         let body = js_index (Array vs) 1 in
         js_index (Array vs) 0 = String ''P2PK'' \<and> isRecord body \<and>
         Option.bind (tag_named ''n_sigs'' (readStringTags (opt_prop body ''tags''))) (\<lambda>t. hd_opt (drop 1 t)) =
           Some ''2'' \<and>
         (\<exists>k \<in> set (lock_pubkeys body). sameXOnlyPubkey k pk) \<and>
         (\<exists>k \<in> set (lock_pubkeys body). sameXOnlyPubkey k gk)
     | _ \<Rightarrow> False)"

definition accepts :: "EscrowTokenLockResult option \<Rightarrow> bool" where
  "accepts r = (case r of Some c \<Rightarrow> el_ok c | None \<Rightarrow> False)"

lemma accepts_simps [simp]: "\<not> accepts (lock_refused m)" "accepts lock_accepted" "\<not> accepts None"
  "accepts (Some c) \<longleftrightarrow> el_ok c"
  by (simp_all add: accepts_def lock_refused_def lock_accepted_def)

lemma cashu_check_proof_iff:
  "(\<exists>u. cashu_check_proof p h pk = Inr u) \<longleftrightarrow> htlc_locked h pk p"
  "cashu_check_proof p h pk = Inl r \<Longrightarrow> \<not> accepts r"
  by (auto simp: cashu_check_proof_def htlc_locked_def Let_def split: option.splits jsval.splits if_splits)

lemma cashu_check_proofs_iff:
  "accepts (cashu_check_proofs ps h pk b) \<longleftrightarrow> list_all (htlc_locked h pk) ps \<and> (b \<or> ps \<noteq> [])"
proof (induction ps arbitrary: b)
  case (Cons p ps)
  show ?case
  proof (cases "cashu_check_proof p h pk")
    case (Inl r)
    then show ?thesis using cashu_check_proof_iff [of p h pk] by auto
  next
    case (Inr u)
    then show ?thesis using cashu_check_proof_iff(1) [of p h pk] Cons by auto
  qed
qed simp

lemma frost_check_proof_iff: "frost_check_proof gk p pk = None \<longleftrightarrow> frost_locked gk pk p"
  by (auto simp: frost_check_proof_def frost_locked_def Let_def list_ex_iff split: option.splits jsval.splits if_splits)

lemma frost_check_proofs_iff: "accepts (frost_check_proofs gk ps pk) \<longleftrightarrow> list_all (frost_locked gk pk) ps"
  by (induction ps) (auto simp: frost_check_proof_iff [symmetric] split: option.split)

text \<open>C25. The Cashu provider accepts the lock of a reference exactly when the reference is known, its
  token decodes to at least one proof, and every proof is an HTLC proof whose hash is the query's payment
  hash and whose \<open>pubkeys\<close> tag names the selected provider.\<close>

theorem cashu_lock_iff:
  "accepts (cashu_verifyLock lib st ref h pk) \<longleftrightarrow>
    (\<exists>token et mint proofs. map_get (cp_tokenMap st) ref = Some (token, et) \<and>
       c_decode lib token = Some (mint, proofs) \<and> proofs \<noteq> [] \<and> (\<forall>p \<in> set proofs. htlc_locked h pk p))"
  by (auto simp: cashu_verifyLock_def cashu_check_proofs_iff list_all_iff split: option.splits)

text \<open>C26. The FROST provider accepts the lock of a reference exactly when the reference is known, its
  token decodes and every proof is a two-signature P2PK proof locked to the selected provider and to the
  group key.\<close>

theorem frost_lock_iff:
  "accepts (frost_verifyLock lib gk st ref h pk) \<longleftrightarrow>
    (\<exists>entry mint proofs. map_get (fp_tokenMap st) ref = Some entry \<and>
       c_decode lib (fe_token entry) = Some (mint, proofs) \<and> (\<forall>p \<in> set proofs. frost_locked gk pk p))"
  by (auto simp: frost_verifyLock_def frost_check_proofs_iff list_all_iff split: option.splits)

definition ex_secret_val :: "string \<Rightarrow> string \<Rightarrow> jsval list \<Rightarrow> jsval" where
  "ex_secret_val kind data tags =
    Array [String kind, Object [(''data'', String data), (''tags'', Array tags)]]"

definition ex_locked_proof :: "jsval \<Rightarrow> Proof" where
  "ex_locked_proof v = \<lparr> p_amount = Fin 21, p_secret = jprint (\<lambda>r. []) v, p_C = ''C2'', p_witness = Undefined, p_id = ''k1'', p_dleq = Undefined \<rparr>"

definition ex_htlc_secret :: jsval where
  "ex_htlc_secret = ex_secret_val ''HTLC'' ''hash'' [Array [String ''pubkeys'', String ''02prov'']]"

definition ex_frost_secret :: jsval where
  "ex_frost_secret = ex_secret_val ''P2PK'' ''prov'' [Array [String ''pubkeys'', String ''grp''], Array [String ''n_sigs'', String ''2'']]"

definition ex_locked_lib :: "Proof list \<Rightarrow> unit cashu" where
  "ex_locked_lib ps = ex_lib\<lparr> c_decode := (\<lambda>t. Some (''https://mint'', ps)) \<rparr>"

definition ex_escrow_token :: EscrowToken where
  "ex_escrow_token = \<lparr> et_token = ''token'', et_proofs = [], et_lock = None, et_amountSats = Fin 21 \<rparr>"

definition ex_cashu_state :: cashu_provider where
  "ex_cashu_state = \<lparr> cp_tokenMap = [(''ref'', ''token'', ex_escrow_token)], cp_refCounter = 1 \<rparr>"

definition ex_frost_state :: frost_provider where
  "ex_frost_state = \<lparr> fp_tokenMap = [(''ref'', \<lparr> fe_token = ''token'', fe_proofs = [],
     fe_customerRefundPubkey = ''cust'', fe_locktimeSeconds = Fin 0 \<rparr>)], fp_refCounter = 1 \<rparr>"

lemma ex_htlc_locked: "htlc_locked ''hash'' ''prov'' (ex_locked_proof ex_htlc_secret)"
proof -
  have "jparse (p_secret (ex_locked_proof ex_htlc_secret)) = Some ex_htlc_secret"
    unfolding ex_locked_proof_def Proof.simps
    by (rule jparse_print) (simp add: ex_htlc_secret_def ex_secret_val_def)
  then show ?thesis
    by (simp add: htlc_locked_def ex_htlc_secret_def ex_secret_val_def secret_tag_def map_get_def provider_hex_def)
qed

lemma ex_frost_locked: "frost_locked ''grp'' ''prov'' (ex_locked_proof ex_frost_secret)"
proof -
  have "jparse (p_secret (ex_locked_proof ex_frost_secret)) = Some ex_frost_secret"
    unfolding ex_locked_proof_def Proof.simps
    by (rule jparse_print) (simp add: ex_frost_secret_def ex_secret_val_def)
  then show ?thesis
    by (simp add: frost_locked_def ex_frost_secret_def ex_secret_val_def map_get_def Let_def lock_pubkeys_def
        tag_named_def map_filter_simps sameXOnlyPubkey_def)
qed

theorem cashu_lock_iff_witness:
  "accepts (cashu_verifyLock (ex_locked_lib [ex_locked_proof ex_htlc_secret]) ex_cashu_state ''ref'' ''hash'' ''prov'')"
  unfolding cashu_lock_iff
  using ex_htlc_locked by (auto simp: ex_locked_lib_def ex_cashu_state_def map_get_def)

theorem frost_lock_iff_witness:
  "accepts (frost_verifyLock (ex_locked_lib [ex_locked_proof ex_frost_secret]) ''grp'' ex_frost_state ''ref'' ''hash'' ''prov'')"
  unfolding frost_lock_iff
  using ex_frost_locked by (auto simp: ex_locked_lib_def ex_frost_state_def map_get_def)

text \<open>The FROST check has no counterpart of the Cashu check for an empty token: a token without any
  proof passes the FROST lock check and fails the Cashu one.\<close>

theorem frost_lock_accepts_empty_token:
  "accepts (frost_verifyLock (ex_locked_lib []) gk ex_frost_state ''ref'' h pk) \<and>
   \<not> accepts (cashu_verifyLock (ex_locked_lib []) ex_cashu_state ''ref'' h pk)"
  by (simp add: frost_verifyLock_def cashu_verifyLock_def ex_locked_lib_def ex_frost_state_def ex_cashu_state_def
      map_get_def)

section \<open>The contract of an escrow provider\<close>

locale escrow_provider =
  fixes lookup :: "'st \<Rightarrow> string \<Rightarrow> string option"
    and verify :: "'st \<Rightarrow> string \<Rightarrow> jsnum \<Rightarrow> EscrowAmountResult option"
    and verifyLock :: "'st \<Rightarrow> string \<Rightarrow> string \<Rightarrow> string \<Rightarrow> EscrowTokenLockResult option"
    and cancel :: "string \<Rightarrow> 'st \<Rightarrow> bool \<times> 'st"
  assumes unknown_verify: "lookup st ref = None \<Longrightarrow> verify st ref n = Some c \<Longrightarrow> \<not> ea_valid c"
    and unknown_lock: "lookup st ref = None \<Longrightarrow> \<not> accepts (verifyLock st ref h pk)"
    and cancel_result: "fst (cancel ref st) \<longleftrightarrow> lookup st ref \<noteq> None"
    and cancel_lookup: "lookup (snd (cancel ref st)) r = (if r = ref then None else lookup st r)"
begin

lemma cancelled_lock: "\<not> accepts (verifyLock (snd (cancel ref st)) ref h pk)"
  by (rule unknown_lock) (simp add: cancel_lookup)

lemma cancel_twice: "\<not> fst (cancel ref (snd (cancel ref st)))"
  by (simp add: cancel_result cancel_lookup)

text \<open>A selection through this port needs a reference the provider knows.\<close>

lemma select_known:
  assumes "sd_escrowProvider deps = Some \<lparr> ep_verify = verify st, ep_verifyLock = verifyLock st \<rparr>"
    "select_checks deps q e pk tok = Some (Inr upd)" "escrow_ref_of e tok = Some ref" "ref \<noteq> []"
    "payment_hash_of e = Some h" "h \<noteq> []"
  shows "lookup st ref \<noteq> None"
proof
  assume none: "lookup st ref = None"
  have "accepts (verifyLock st ref h pk)"
    using select_checks_lock [OF assms(2-6)] assms(1) by (auto simp: accepts_def)
  then show False using unknown_lock [OF none] by blast
qed

end

interpretation cashu_ep: escrow_provider "\<lambda>st r. map_option fst (map_get (cp_tokenMap st) r)" "cashu_verify lib"
  "cashu_verifyLock lib" cashu_cancel for lib
  by unfold_locales
    (auto simp: cashu_verify_def token_amount_check_def cashu_verifyLock_def cashu_cancel_def map_has_get)

interpretation frost_ep: escrow_provider "\<lambda>st r. map_option fe_token (map_get (fp_tokenMap st) r)" "frost_verify lib"
  "frost_verifyLock lib gk" frost_cancel for lib gk
  by unfold_locales
    (auto simp: frost_verify_def token_amount_check_def frost_verifyLock_def frost_cancel_def map_has_get)

section \<open>Selection through the Cashu provider\<close>

text \<open>C18. When the query service selects a provider through the Cashu escrow provider, for a query that
  states an amount and carries a hash lock, the token behind the reference was at that moment unspent at
  the mint, worth at least the amount, and locked in every proof to the query's hash and the selected
  provider.\<close>

theorem selection_through_cashu:
  assumes "sd_escrowProvider deps = Some \<lparr> ep_verify = cashu_verify lib st, ep_verifyLock = cashu_verifyLock lib st \<rparr>"
    and "doSelectProvider deps s i pk tok = (Some out, s')" and "ho_ok out"
    and "map_get s i = Some q" and "q_escrow q = Some e"
    and "escrow_ref_of e tok = Some ref" and "ref \<noteq> []" and "e_type e = Htlc h" and "h \<noteq> []"
    and "q_payment_lock q = Some l" and "num_truthy (pl_amount_sats l)"
  shows "\<exists>token et mint proofs states. map_get (cp_tokenMap st) ref = Some (token, et) \<and>
    c_decode lib token = Some (mint, proofs) \<and> proofs \<noteq> [] \<and>
    \<not> sumProofAmounts proofs < pl_amount_sats l \<and>
    (\<forall>p \<in> set proofs. htlc_locked h pk p) \<and>
    c_states lib proofs = Some states \<and> (\<forall>s \<in> set states. s = ''UNSPENT'')"
proof -
  obtain upd where checks: "select_checks deps q e pk tok = Some (Inr upd)"
  proof (cases rule: doSelectProvider_cases [of deps s i pk tok])
    case kept
    then show ?thesis using assms(2,3) by simp
  next
    case (selected q0 e0 upd0 q')
    then show ?thesis using assms(4,5) by (intro that [of upd0]) simp
  qed
  have h: "payment_hash_of e = Some h" using assms(8) by (simp add: payment_hash_of_def)
  have "accepts (cashu_verifyLock lib st ref h pk)"
    using select_checks_lock [OF checks assms(6,7) h assms(9)] assms(1) by (auto simp: accepts_def)
  then obtain token et mint proofs where tok: "map_get (cp_tokenMap st) ref = Some (token, et)"
    "c_decode lib token = Some (mint, proofs)" "proofs \<noteq> []" "\<forall>p \<in> set proofs. htlc_locked h pk p"
    by (auto simp: cashu_verifyLock_def cashu_check_proofs_iff list_all_iff split: option.splits)
  obtain c where "cashu_verify lib st ref (pl_amount_sats l) = Some c" "ea_valid c"
    using select_checks_amount [OF checks assms(6,7,10,11)] assms(1) by auto
  then have "fst (verifyToken lib token (Some (pl_amount_sats l)))"
    using tok by (auto simp: cashu_verify_def token_amount_check_def split: prod.splits)
  then show ?thesis
    using tok assms(11)
    by (auto simp: verifyToken_def sumProofAmounts_def Let_def filter_empty_conv split: option.splits if_splits)
qed

definition ex_cashu_deps :: "preimages ServiceDeps" where
  "ex_cashu_deps = ex_deps\<lparr> sd_escrowProvider := Some
     \<lparr> ep_verify = cashu_verify (ex_locked_lib [ex_locked_proof ex_htlc_secret]) ex_cashu_state,
       ep_verifyLock = cashu_verifyLock (ex_locked_lib [ex_locked_proof ex_htlc_secret]) ex_cashu_state \<rparr> \<rparr>"

lemma ex_cashu_ports:
  "cashu_verifyLock (ex_locked_lib [ex_locked_proof ex_htlc_secret]) ex_cashu_state ''ref'' ''hash'' ''prov'' = lock_accepted"
  "cashu_verify (ex_locked_lib [ex_locked_proof ex_htlc_secret]) ex_cashu_state ''ref'' (Fin 21) =
    Some \<lparr> ea_valid = True, ea_amountSats = Some (Fin 21), ea_error = None \<rparr>"
proof -
  have "\<exists>u. cashu_check_proof (ex_locked_proof ex_htlc_secret) ''hash'' ''prov'' = Inr u"
    using cashu_check_proof_iff(1) ex_htlc_locked by blast
  then show "cashu_verifyLock (ex_locked_lib [ex_locked_proof ex_htlc_secret]) ex_cashu_state ''ref'' ''hash'' ''prov'' = lock_accepted"
    by (auto simp: cashu_verifyLock_def ex_cashu_state_def ex_locked_lib_def map_get_def)
  show "cashu_verify (ex_locked_lib [ex_locked_proof ex_htlc_secret]) ex_cashu_state ''ref'' (Fin 21) =
    Some \<lparr> ea_valid = True, ea_amountSats = Some (Fin 21), ea_error = None \<rparr>"
    by (simp add: cashu_verify_def token_amount_check_def verifyToken_def ex_cashu_state_def ex_locked_lib_def
        ex_lib_def map_get_def ex_locked_proof_def getCashuConfig_def trim_def ws_chars_def str_truthy_def Let_def)
qed

lemma ex_cashu_select:
  "\<exists>s'. doSelectProvider ex_cashu_deps [(''q1'', ex_awaiting (Some ''ref''))] ''q1'' ''prov'' None =
    (Some \<lparr> ho_ok = True, ho_message = plain ''Provider selected'' \<rparr>, s')"
  by (simp add: doSelectProvider_def select_begin_def select_finish_def select_checks_def
      selectProvider_def noUpdates_def spread_def ex_awaiting_def ex_escrow_def ex_cashu_deps_def ex_cashu_ports
      lock_accepted_def escrow_ref_of_def payment_hash_of_def verifyEscrowAmount_def verifyEscrowLock_def map_get_def Let_def)

theorem selection_through_cashu_witness:
  "\<exists>proofs. proofs \<noteq> [] \<and> (\<forall>p \<in> set proofs. htlc_locked ''hash'' ''prov'' p)"
proof -
  obtain s' where sel: "doSelectProvider ex_cashu_deps [(''q1'', ex_awaiting (Some ''ref''))] ''q1'' ''prov'' None =
      (Some \<lparr> ho_ok = True, ho_message = plain ''Provider selected'' \<rparr>, s')" using ex_cashu_select by blast
  have port: "sd_escrowProvider ex_cashu_deps = Some
      \<lparr> ep_verify = cashu_verify (ex_locked_lib [ex_locked_proof ex_htlc_secret]) ex_cashu_state,
        ep_verifyLock = cashu_verifyLock (ex_locked_lib [ex_locked_proof ex_htlc_secret]) ex_cashu_state \<rparr>"
    by (simp add: ex_cashu_deps_def)
  show ?thesis
    using selection_through_cashu [OF port sel, of "ex_awaiting (Some ''ref'')" "ex_escrow (Some ''ref'')" "''ref''"
        "''hash''" "\<lparr> pl_amount_sats = Fin 21, pl_escrow_token = None \<rparr>"]
    by (simp add: map_get_def ex_awaiting_def ex_escrow_def escrow_ref_of_def) blast
qed

section \<open>Redemption\<close>


definition ex_wallet :: "string list option \<Rightarrow> CashuRedeemWallet" where
  "ex_wallet states = \<lparr> rw_getFeesForProofs = (\<lambda>ps. Fin 1), rw_keyset = None, rw_asCustom = False,
     rw_createRandomData = (\<lambda>a k. []), rw_run = (\<lambda>a ps k o'. None),
     rw_checkProofsStates = Some (\<lambda>ps. states), rw_restore = None \<rparr>"

definition ex_proof :: Proof where
  "ex_proof = \<lparr> p_amount = Fin 8, p_secret = ''s'', p_C = ''C1'', p_witness = Undefined, p_id = ''k1'', p_dleq = Undefined \<rparr>"

lemma ex_redeem_eval:
  "redeemSignedProofs (ex_wallet (Some [st])) [ex_proof] None =
    (if st = ''SPENT'' then Redeem_failed Outputs_not_registered False True else Redeem_failed Inputs_unspent True False)"
  by (simp add: redeemSignedProofs_def recoverInterruptedRedeem_def ex_wallet_def ex_proof_def sumProofAmounts_def Let_def)


text \<open>An input the mint reports as pending counts as unspent: the failed redemption is then declared
  safe to retry although a swap of that input is in progress.\<close>

theorem pending_called_retry_safe:
  "redeemSignedProofs (ex_wallet (Some [''PENDING''])) [ex_proof] None = Redeem_failed Inputs_unspent True False"
  by (simp add: ex_redeem_eval)

section \<open>Splitting and binding\<close>

lemma remaining_all:
  assumes "\<forall>p \<in> set prov. \<forall>p' \<in> set inputs. p_C p \<noteq> p_C p'"
  shows "remainingProofs inputs prov = inputs"
  using assms by (auto simp: remainingProofs_def list_ex_iff filter_id_conv)



text \<open>References are issued by counting up; \<open>refs_below\<close> says that the live references are among those
  issued so far, so that the next one is new.\<close>

definition refs_below :: "(nat \<Rightarrow> string) \<Rightarrow> nat \<Rightarrow> (string, 'v) jsmap \<Rightarrow> bool" where
  "refs_below ref n m = list_all (\<lambda>(k, v). k \<in> ref ` {1..n}) m"

lemma nat_str_inj: "nat_str m = nat_str n \<Longrightarrow> m = n"
  by (metis nat_str_val)

locale issued_refs =
  fixes ref :: "nat \<Rightarrow> string"
  assumes inj: "ref m = ref n \<Longrightarrow> m = n"
begin

lemma next_fresh: "refs_below ref n m \<Longrightarrow> map_get m (ref (Suc n)) = None"
proof (rule ccontr)
  assume below: "refs_below ref n m" and "map_get m (ref (Suc n)) \<noteq> None"
  then obtain v where "map_get m (ref (Suc n)) = Some v" by auto
  with below have "ref (Suc n) \<in> ref ` {1..n}"
    unfolding refs_below_def by (drule_tac map_all_get) auto
  then show False by (auto dest: inj)
qed

lemma issue: "refs_below ref n m \<Longrightarrow> refs_below ref (Suc n) (map_set (ref (Suc n)) v m)"
  unfolding refs_below_def by (intro map_set_all) (auto simp: list_all_iff intro: rev_image_eqI)

lemma release: "refs_below ref n m \<Longrightarrow> refs_below ref n (map_delete k m)"
  unfolding refs_below_def by (rule map_delete_all)

end

interpretation cashu_refs: issued_refs cashu_ref
  by unfold_locales (auto simp: cashu_ref_def dest: nat_str_inj)

interpretation frost_refs: issued_refs frost_ref
  by unfold_locales (auto simp: frost_ref_def dest: nat_str_inj)

definition cashu_wf :: "cashu_provider \<Rightarrow> bool" where
  "cashu_wf st = refs_below cashu_ref (cp_refCounter st) (cp_tokenMap st)"

definition frost_wf :: "frost_provider \<Rightarrow> bool" where
  "frost_wf st = refs_below frost_ref (fp_refCounter st) (fp_tokenMap st)"

lemma cashu_createHold_cases:
  assumes "cashu_createHold lib res hp st = (r, st')"
  obtains (kept) "st' = st" "\<And>ref. r \<noteq> Some (Some ref)"
  | (held) et where "r = Some (Some (cashu_ref (Suc (cp_refCounter st))))"
      "st' = \<lparr> cp_tokenMap = map_set (cashu_ref (Suc (cp_refCounter st))) (et_token et, et) (cp_tokenMap st),
               cp_refCounter = Suc (cp_refCounter st) \<rparr>"
proof (cases "\<exists>ref. r = Some (Some ref)")
  case False
  then show ?thesis using assms
    by (intro kept) (auto simp: cashu_createHold_def Let_def split: option.splits)
next
  case True
  then show ?thesis using assms held
    by (auto simp: cashu_createHold_def Let_def split: option.splits)
qed

lemma cashu_bindProvider_cases:
  assumes "cashu_bindProvider lib now ref pk st = (r, st')"
  obtains (kept) "st' = st" "\<And>ref. r \<noteq> Some (Some ref)"
  | (bound) token et mint proofs et' lt where
      "map_get (cp_tokenMap st) ref = Some (token, et)" "c_decode lib token = Some (mint, proofs)"
      "swapHtlcBindProvider lib (et_proofs et)
         \<lparr> hb_hash = hash_of (first_secret proofs), hb_providerPubkey = pk,
           hb_customerRefundPubkey = refund_key_of (first_secret proofs), hb_locktimeSeconds = lt \<rparr> = Some (Some et')"
      "r = Some (Some (cashu_ref (Suc (cp_refCounter st))))"
      "st' = \<lparr> cp_tokenMap = map_delete ref
                 (map_set (cashu_ref (Suc (cp_refCounter st))) (et_token et', et') (cp_tokenMap st)),
               cp_refCounter = Suc (cp_refCounter st) \<rparr>"
proof (cases "\<exists>ref. r = Some (Some ref)")
  case False
  then show ?thesis using assms
    by (intro kept) (auto simp: cashu_bindProvider_def Let_def split: option.splits)
next
  case True
  then show ?thesis using assms
    by (auto simp: cashu_bindProvider_def Let_def split: option.splits) (rule bound, assumption+)
qed

lemma frost_createHold_cases:
  assumes "frost_createHold lib res hp st = (r, st')"
  obtains (kept) "st' = st" "\<And>ref. r \<noteq> Some (Some ref)"
  | (held) tok send where "r = Some (Some (frost_ref (Suc (fp_refCounter st))))"
      "st' = \<lparr> fp_tokenMap = map_set (frost_ref (Suc (fp_refCounter st)))
                 \<lparr> fe_token = tok, fe_proofs = send, fe_customerRefundPubkey = hp_customer_pubkey hp,
                   fe_locktimeSeconds = hp_expiry hp \<rparr> (fp_tokenMap st),
               fp_refCounter = Suc (fp_refCounter st) \<rparr>"
proof (cases "\<exists>ref. r = Some (Some ref)")
  case False
  then show ?thesis using assms
    by (intro kept) (auto simp: frost_createHold_def Let_def split: option.splits)
next
  case True
  then show ?thesis using assms
    by (auto simp: frost_createHold_def Let_def split: option.splits) (rule held, assumption+)
qed

lemma frost_bindProvider_cases:
  assumes "frost_bindProvider lib gpk ref pk st = (r, st')"
  obtains (kept) "st' = st" "\<And>ref. r \<noteq> Some (Some ref)"
  | (bound) e send tok where "map_get (fp_tokenMap st) ref = Some e"
      "fe_customerRefundPubkey e \<noteq> []"
      "c_send lib (sumProofAmounts (fe_proofs e) - c_fees lib (fe_proofs e)) (fe_proofs e)
         (Some (c_toOptions lib [AddLockPubkey [pk, gpk], RequireLockSignatures 2,
            LockUntil (fe_locktimeSeconds e), AddRefundPubkey (String (fe_customerRefundPubkey e)),
            RequireRefundSignatures 1])) None = Some send"
      "r = Some (Some (frost_ref (Suc (fp_refCounter st))))"
      "st' = \<lparr> fp_tokenMap = map_delete ref (map_set (frost_ref (Suc (fp_refCounter st)))
                 (e\<lparr> fe_token := tok, fe_proofs := send \<rparr>) (fp_tokenMap st)),
               fp_refCounter = Suc (fp_refCounter st) \<rparr>"
proof (cases "\<exists>ref. r = Some (Some ref)")
  case False
  then show ?thesis using assms
    by (intro kept) (auto simp: frost_bindProvider_def Let_def split: option.splits)
next
  case True
  then show ?thesis using assms
    by (auto simp: frost_bindProvider_def buildFrostP2PKOptions_def computeNetAmount_def loadAndSend_def str_truthy_def
        Let_def simp del: One_nat_def split: option.splits if_splits) (rule bound, assumption+)
qed

lemma lock_proofs_lock: "lock_proofs lib mintUrl a ps lock = Some et \<Longrightarrow> et_lock et = lock"
  by (auto simp: lock_proofs_def split: option.splits)

lemma swapHtlcBindProvider_lock:
  "swapHtlcBindProvider lib ps params = Some (Some et) \<Longrightarrow> et_lock et = Some (buildHtlcFinalOptions params)"
  by (auto simp: swapHtlcBindProvider_def dest: lock_proofs_lock split: option.splits)

lemma cashu_createHold_refs:
  assumes "cashu_wf st" "cashu_createHold lib res hp st = (r, st')"
  shows "cashu_wf st' \<and> (\<forall>ref. r = Some (Some ref) \<longrightarrow> map_get (cp_tokenMap st) ref = None \<and>
      (\<exists>e. map_get (cp_tokenMap st') = (map_get (cp_tokenMap st))(ref \<mapsto> e)))"
  using assms(2)
  by (cases rule: cashu_createHold_cases)
    (use assms(1) in \<open>auto simp: cashu_wf_def cashu_refs.issue cashu_refs.next_fresh fun_eq_iff\<close>)

lemma cashu_bindProvider_refs:
  assumes "cashu_wf st" "cashu_bindProvider lib now old pk st = (r, st')"
  shows "cashu_wf st' \<and> (\<forall>ref. r = Some (Some ref) \<longrightarrow> ref \<noteq> old \<and> map_get (cp_tokenMap st) ref = None \<and>
      (\<exists>e. map_get (cp_tokenMap st') = (map_get (cp_tokenMap st))(ref \<mapsto> e, old := None)))"
  using assms(2)
  by (cases rule: cashu_bindProvider_cases)
    (use assms(1) cashu_refs.next_fresh [of "cp_refCounter st" "cp_tokenMap st"] in
      \<open>auto simp: cashu_wf_def cashu_refs.issue cashu_refs.release fun_eq_iff\<close>)

lemma cashu_cancel_refs: "cashu_wf st \<Longrightarrow> cashu_wf (snd (cashu_cancel ref st))"
  by (simp add: cashu_cancel_def cashu_wf_def cashu_refs.release)

text \<open>References of the Cashu provider never collide: when the live references were issued by the
  provider, a new hold gets a reference no live hold has and leaves every other hold in place, binding
  moves exactly one hold to a new reference, and all three operations keep this property.\<close>

theorem cashu_references:
  assumes "cashu_wf st"
  shows "(case cashu_createHold lib res hp st of (r, st') \<Rightarrow> cashu_wf st' \<and>
      (\<forall>ref. r = Some (Some ref) \<longrightarrow> map_get (cp_tokenMap st) ref = None \<and>
         (\<exists>e. map_get (cp_tokenMap st') = (map_get (cp_tokenMap st))(ref \<mapsto> e)))) \<and>
    (case cashu_bindProvider lib now old pk st of (r, st') \<Rightarrow> cashu_wf st' \<and>
      (\<forall>ref. r = Some (Some ref) \<longrightarrow> ref \<noteq> old \<and> map_get (cp_tokenMap st) ref = None \<and>
         (\<exists>e. map_get (cp_tokenMap st') = (map_get (cp_tokenMap st))(ref \<mapsto> e, old := None)))) \<and>
    cashu_wf (snd (cashu_cancel old st))"
  using cashu_createHold_refs [OF assms, of lib res hp] cashu_bindProvider_refs [OF assms, of lib now old pk]
    cashu_cancel_refs [OF assms, of old]
  by (simp split: prod.split)

definition ex_hold_state :: cashu_provider where
  "ex_hold_state = \<lparr> cp_tokenMap = [(cashu_ref 1, (''tok'', \<lparr> et_token = ''tok'', et_proofs = [ex_proof],
     et_lock = None, et_amountSats = Fin 8 \<rparr>))], cp_refCounter = 1 \<rparr>"

lemma ex_hold_wf: "cashu_wf ex_hold_state"
  by (simp add: cashu_wf_def refs_below_def ex_hold_state_def)

theorem cashu_references_witness:
  "cashu_wf (snd (cashu_cancel (cashu_ref 1) ex_hold_state)) \<and> cashu_wf ex_hold_state"
  using cashu_references [OF ex_hold_wf, where lib = ex_lib and res = None and old = "cashu_ref 1"] ex_hold_wf by blast

text \<open>The Cashu provider forgets the payment hash of a hold: the hold does not depend on it, and
  binding a provider takes the hash from the secret of the held proof, so that for a held proof with a
  plain secret the final lock is built on the empty hash and the empty refund key.\<close>

theorem cashu_hold_forgets_hash:
  assumes "cashu_wf st" and "map_get (cp_tokenMap st) ref = Some (token, et)"
    and "c_decode lib token = Some (mint, p # ps)" and "jparse (p_secret p) = None"
    and "cashu_bindProvider lib now ref pk st = (Some (Some newRef), st')"
  shows "cashu_createHold lib res (hp\<lparr> hp_payment_hash := h \<rparr>) st0 = cashu_createHold lib res hp st0 \<and>
    (\<exists>token' et' lock. map_get (cp_tokenMap st') newRef = Some (token', et') \<and> et_lock et' = Some lock \<and>
       AddHashlock (String []) \<in> set lock \<and> AddRefundPubkey (String []) \<in> set lock)"
proof
  show "cashu_createHold lib res (hp\<lparr> hp_payment_hash := h \<rparr>) st0 = cashu_createHold lib res hp st0"
    by (simp add: cashu_createHold_def createHtlcToken_def cong: option.case_cong)
  show "\<exists>token' et' lock. map_get (cp_tokenMap st') newRef = Some (token', et') \<and> et_lock et' = Some lock \<and>
       AddHashlock (String []) \<in> set lock \<and> AddRefundPubkey (String []) \<in> set lock"
    using assms(5)
  proof (cases rule: cashu_bindProvider_cases)
    case kept
    then show ?thesis by blast
  next
    case (bound token1 et1 mint1 proofs et' lt)
    have "hash_of (first_secret proofs) = String []" "refund_key_of (first_secret proofs) = String []"
      using bound(1,2) assms(2,3,4) by (auto simp: hash_of_def refund_key_of_def first_secret_def)
    moreover have "newRef \<noteq> ref" using cashu_bindProvider_refs [OF assms(1,5)] by blast
    ultimately show ?thesis
      using bound(4,5) swapHtlcBindProvider_lock [OF bound(3)] by (auto simp: buildHtlcFinalOptions_def)
  qed
qed

lemma ex_bind_eval:
  "cashu_bindProvider ex_lib (Fin 0) (cashu_ref 1) ''prov'' ex_hold_state =
    (Some (Some (cashu_ref 2)), snd (cashu_bindProvider ex_lib (Fin 0) (cashu_ref 1) ''prov'' ex_hold_state))"
  by (simp add: cashu_bindProvider_def ex_hold_state_def ex_lib_def swapHtlcBindProvider_def computeNetAmount_def
      lock_proofs_def loadAndSend_def getWalletAndConfig_def getCashuConfig_def sumProofAmounts_def ex_proof_def
      trim_def ws_chars_def str_truthy_def map_get_def Let_def numeral_2_eq_2)

lemma ex_plain_secret: "jparse ''s1'' = None"
  by code_simp

theorem cashu_hold_forgets_hash_witness:
  "\<exists>st' token' et' lock. cashu_bindProvider ex_lib (Fin 0) (cashu_ref 1) ''prov'' ex_hold_state = (Some (Some (cashu_ref 2)), st') \<and>
     map_get (cp_tokenMap st') (cashu_ref 2) = Some (token', et') \<and> et_lock et' = Some lock \<and> AddHashlock (String []) \<in> set lock"
proof -
  have "map_get (cp_tokenMap ex_hold_state) (cashu_ref 1) =
      Some (''tok'', \<lparr> et_token = ''tok'', et_proofs = [ex_proof], et_lock = None, et_amountSats = Fin 8 \<rparr>)"
    by (simp add: ex_hold_state_def map_get_def)
  moreover have "c_decode ex_lib ''tok'' =
      Some (''https://mint'', [\<lparr> p_amount = Fin 8, p_secret = ''s1'', p_C = ''C1'', p_witness = Undefined, p_id = ''k1'', p_dleq = Undefined \<rparr>])"
    by (simp add: ex_lib_def)
  ultimately show ?thesis
    using cashu_hold_forgets_hash [OF ex_hold_wf _ _ _ ex_bind_eval] ex_plain_secret ex_bind_eval by fastforce
qed

lemma frost_createHold_refs:
  assumes "frost_wf st" "frost_createHold lib res hp st = (Some (Some ref), st1)"
  shows "frost_wf st1 \<and> (\<exists>tok send. map_get (fp_tokenMap st1) ref = Some
    \<lparr> fe_token = tok, fe_proofs = send, fe_customerRefundPubkey = hp_customer_pubkey hp,
      fe_locktimeSeconds = hp_expiry hp \<rparr>)"
  using assms(2)
  by (cases rule: frost_createHold_cases) (use assms(1) in \<open>auto simp: frost_wf_def frost_refs.issue\<close>)

text \<open>The FROST provider keeps the terms of a hold until the provider is bound: whenever a hold is
  followed by a successful binding, the lock sent to the mint is the two of two lock of the provider's
  and the group's key with the locktime and the refund key the hold was created with, the refund key is
  not empty, the sent amount is the held amount less the mint fee, and the old reference is gone.\<close>

theorem frost_bind_keeps_terms:
  assumes "frost_wf st" and "frost_createHold lib res hp st = (Some (Some ref), st1)"
    and "frost_bindProvider lib gpk ref pk st1 = (Some (Some ref'), st2)"
  shows "\<exists>held send. map_get (fp_tokenMap st1) ref = Some held \<and> hp_customer_pubkey hp \<noteq> [] \<and>
    c_send lib (sumProofAmounts (fe_proofs held) - c_fees lib (fe_proofs held)) (fe_proofs held)
      (Some (c_toOptions lib [AddLockPubkey [pk, gpk], RequireLockSignatures 2, LockUntil (hp_expiry hp),
         AddRefundPubkey (String (hp_customer_pubkey hp)), RequireRefundSignatures 1])) None = Some send \<and>
    map_option fe_proofs (map_get (fp_tokenMap st2) ref') = Some send \<and>
    map_get (fp_tokenMap st2) ref = None \<and> frost_wf st2"
proof -
  note hold = frost_createHold_refs [OF assms(1,2)]
  show ?thesis
    using assms(3)
  proof (cases rule: frost_bindProvider_cases)
    case kept
    then show ?thesis by blast
  next
    case (bound e send tok)
    have "map_get (fp_tokenMap st1) ref' = None"
      using bound(4) hold frost_refs.next_fresh [of "fp_refCounter st1" "fp_tokenMap st1"] by (simp add: frost_wf_def)
    then have "ref' \<noteq> ref" using bound(1) by auto
    moreover have "frost_wf st2"
      using bound(5) hold by (simp add: frost_wf_def frost_refs.issue frost_refs.release)
    ultimately show ?thesis using bound hold by auto
  qed
qed

definition ex_hold_params :: HoldParams where
  "ex_hold_params = \<lparr> hp_amount_sats = Fin 8, hp_payment_hash = ''hash'', hp_expiry = Fin 9000, hp_customer_pubkey = ''cust'' \<rparr>"

definition ex_frost_held :: frost_provider where
  "ex_frost_held = snd (frost_createHold ex_lib (Some (\<lambda>a. Some [ex_proof])) ex_hold_params \<lparr> fp_tokenMap = [], fp_refCounter = 0 \<rparr>)"

lemma ex_frost_eval:
  "frost_createHold ex_lib (Some (\<lambda>a. Some [ex_proof])) ex_hold_params \<lparr> fp_tokenMap = [], fp_refCounter = 0 \<rparr> =
    (Some (Some (frost_ref 1)), ex_frost_held)"
  "frost_bindProvider ex_lib ''gpk'' (frost_ref 1) ''prov'' ex_frost_held =
    (Some (Some (frost_ref 2)), snd (frost_bindProvider ex_lib ''gpk'' (frost_ref 1) ''prov'' ex_frost_held))"
  by (simp_all add: frost_createHold_def frost_bindProvider_def ex_frost_held_def ex_lib_def ex_hold_params_def
      buildFrostP2PKOptions_def computeNetAmount_def loadAndSend_def getWalletAndConfig_def getCashuConfig_def
      sumProofAmounts_def ex_proof_def trim_def ws_chars_def str_truthy_def Let_def numeral_2_eq_2)

theorem frost_bind_keeps_terms_witness:
  "map_get (fp_tokenMap (snd (frost_bindProvider ex_lib ''gpk'' (frost_ref 1) ''prov'' ex_frost_held))) (frost_ref 1) = None"
  using frost_bind_keeps_terms [OF _ ex_frost_eval] by (auto simp: frost_wf_def refs_below_def)

end
