(* ===== verification/Frost_Cli.thy ===== *)
theory Frost_Cli
  imports Escrow_Providers
begin

text \<open>
  The wrapper around the \<open>frost-signer\<close> binary (\<open>payments/frost/frost-cli.ts\<close>) and the shared shapes of
  the oracle service's HTTP routes with their API key check (\<open>adapters/oracle-service/auth.ts\<close>).  The
  process executor is the record \<open>executor\<close>: \<open>None\<close> is a spawn that throws.  One call of the binary is
  one application of \<open>ex_run\<close>; every definition that calls it takes the executor of that call, so that a
  binary that answers the same arguments differently the next time is covered.
\<close>

section \<open>Dynamic values as text\<close>

definition js_num_str :: "(rat \<Rightarrow> string) \<Rightarrow> jsnum \<Rightarrow> string" where
  "js_num_str fstr x =
    (case x of Fin r \<Rightarrow> jnum_str fstr r | NaN \<Rightarrow> ''NaN'' | Infty \<Rightarrow> ''Infinity'' | NegInfty \<Rightarrow> ''-Infinity'')"

text \<open>\<open>String(v)\<close>.\<close>

fun js_to_string :: "(rat \<Rightarrow> string) \<Rightarrow> jsval \<Rightarrow> string" where
  "js_to_string fstr Undefined = ''undefined''"
| "js_to_string fstr Null = ''null''"
| "js_to_string fstr (Bool b) = (if b then ''true'' else ''false'')"
| "js_to_string fstr (Number x) = js_num_str fstr x"
| "js_to_string fstr (String s) = s"
| "js_to_string fstr (Array vs) = jsep (map (\<lambda>v. if no_props v then [] else js_to_string fstr v) vs)"
| "js_to_string fstr (Object ms) = ''[object Object]''"

text \<open>\<open>JSON.stringify(v)\<close> as a value: \<open>undefined\<close> for \<open>undefined\<close>.\<close>

definition json_value :: "(rat \<Rightarrow> string) \<Rightarrow> jsval \<Rightarrow> jsval" where
  "json_value fstr v = (case jstringify fstr v of None \<Rightarrow> Undefined | Some s \<Rightarrow> String s)"

section \<open>Running the binary (frost-cli.ts)\<close>

datatype run_outcome = Timed_out | Exited int string string

record executor =
  ex_localPaths :: "string list"
  ex_isFile :: "string \<Rightarrow> bool"
  ex_which :: "string \<Rightarrow> string option"
  ex_run :: "jsval list \<Rightarrow> run_outcome option"

record FrostCliResult =
  fc_ok :: bool
  fc_data :: jsval
  fc_error :: "string option"

definition cli_failed :: "string \<Rightarrow> FrostCliResult" where
  "cli_failed e = \<lparr> fc_ok = False, fc_data = Undefined, fc_error = Some e \<rparr>"

definition findFrostSigner :: "executor \<Rightarrow> string option" where
  "findFrostSigner executor =
    (case find (ex_isFile executor) (ex_localPaths executor) of
       Some p \<Rightarrow> Some p
     | None \<Rightarrow> ex_which executor ''frost-signer'')"

definition isFrostSignerAvailable :: "executor \<Rightarrow> bool" where
  "isFrostSignerAvailable executor = (findFrostSigner executor \<noteq> None)"

text \<open>The path argument: \<open>None\<close> is \<open>undefined\<close>, \<open>Some None\<close> is \<open>null\<close>.\<close>

definition resolveFrostSigner :: "string option option \<Rightarrow> executor \<Rightarrow> string option" where
  "resolveFrostSigner frostSignerPath executor =
    (case frostSignerPath of None \<Rightarrow> findFrostSigner executor | Some p \<Rightarrow> p)"

definition runFrostCommand ::
    "string \<Rightarrow> jsval list \<Rightarrow> string option option \<Rightarrow> executor \<Rightarrow> FrostCliResult option" where
  "runFrostCommand subcommand args frostSignerPath executor =
    (let binPath = resolveFrostSigner frostSignerPath executor in
     if \<not> ostr_truthy binPath then Some (cli_failed ''frost-signer binary not available'')
     else case ex_run executor ([String (the binPath), String subcommand] @ args) of
            None \<Rightarrow> None
          | Some Timed_out \<Rightarrow> Some (cli_failed ''frost-signer timed out after 30s'')
          | Some (Exited exitCode stdout stderr) \<Rightarrow>
            if exitCode \<noteq> 0
            then let e = take 500 (trim stderr)
                 in Some (cli_failed (if e = [] then ''frost-signer exited with error'' else e))
            else case jparse stdout of
                   None \<Rightarrow> Some (cli_failed ''failed to parse frost-signer output'')
                 | Some data \<Rightarrow> Some \<lparr> fc_ok = True, fc_data = data, fc_error = None \<rparr>)"

definition dkgRound1 ::
    "(rat \<Rightarrow> string) \<Rightarrow> jsnum \<Rightarrow> jsnum \<Rightarrow> jsnum \<Rightarrow> string option option \<Rightarrow> executor \<Rightarrow> FrostCliResult option" where
  "dkgRound1 fstr index maxSigners minSigners path executor =
    runFrostCommand ''dkg-round1''
      [String ''--index'', String (js_num_str fstr index),
       String ''--max-signers'', String (js_num_str fstr maxSigners),
       String ''--min-signers'', String (js_num_str fstr minSigners)] path executor"

definition dkgRound2 :: "jsval \<Rightarrow> jsval \<Rightarrow> string option option \<Rightarrow> executor \<Rightarrow> FrostCliResult option" where
  "dkgRound2 secretPackage round1Packages path executor =
    runFrostCommand ''dkg-round2''
      [String ''--secret-package'', secretPackage, String ''--round1-packages'', round1Packages] path executor"

definition dkgRound3 ::
    "jsval \<Rightarrow> jsval \<Rightarrow> jsval \<Rightarrow> string option option \<Rightarrow> executor \<Rightarrow> FrostCliResult option" where
  "dkgRound3 round2SecretPackage round1Packages round2Packages path executor =
    runFrostCommand ''dkg-round3''
      [String ''--round2-secret-package'', round2SecretPackage, String ''--round1-packages'', round1Packages,
       String ''--round2-packages'', round2Packages] path executor"

definition signRound1 :: "jsval \<Rightarrow> string option option \<Rightarrow> executor \<Rightarrow> FrostCliResult option" where
  "signRound1 keyPackage path executor =
    runFrostCommand ''sign-round1'' [String ''--key-package'', keyPackage] path executor"

definition signRound2 ::
    "jsval \<Rightarrow> jsval \<Rightarrow> jsval \<Rightarrow> jsval \<Rightarrow> string option option \<Rightarrow> executor \<Rightarrow> FrostCliResult option" where
  "signRound2 keyPackage nonces commitments message path executor =
    runFrostCommand ''sign-round2''
      [String ''--key-package'', keyPackage, String ''--nonces'', nonces,
       String ''--commitments'', commitments, String ''--message'', message] path executor"

definition aggregateSignatures ::
    "string \<Rightarrow> jsval \<Rightarrow> jsval \<Rightarrow> jsval \<Rightarrow> jsval \<Rightarrow> string option option \<Rightarrow> executor \<Rightarrow> FrostCliResult option" where
  "aggregateSignatures groupPubkey commitments message signatureShares pubkeyPackage path executor =
    runFrostCommand ''aggregate''
      [String ''--group-pubkey'', String groupPubkey, String ''--commitments'', commitments,
       String ''--message'', message, String ''--signature-shares'', signatureShares,
       String ''--pubkey-package'', pubkeyPackage] path executor"

definition verifySignature ::
    "string \<Rightarrow> string \<Rightarrow> string \<Rightarrow> string option option \<Rightarrow> executor \<Rightarrow> FrostCliResult option" where
  "verifySignature groupPubkey signature message path executor =
    runFrostCommand ''verify''
      [String ''--group-pubkey'', String groupPubkey, String ''--signature'', String signature,
       String ''--message'', String message] path executor"

section \<open>HTTP (auth.ts)\<close>

text \<open>A response: the status and the JSON body.\<close>

datatype http = Http nat jsval

definition http_error :: "nat \<Rightarrow> string \<Rightarrow> http" where
  "http_error status e = Http status (Object [(''error'', String e)])"

definition safeCompare :: "string \<Rightarrow> string \<Rightarrow> bool" where
  "safeCompare a b = (if length a = length b then a = b else \<not> a = a)"

text \<open>\<open>None\<close>: the request goes on to the route.\<close>

definition buildAuthMiddleware :: "string option \<Rightarrow> string option \<Rightarrow> string option \<Rightarrow> http option" where
  "buildAuthMiddleware apiKey auth key =
    (if \<not> ostr_truthy apiKey then None
     else let token = (case auth of Some a \<Rightarrow> if take 7 a = ''Bearer '' then Some (drop 7 a) else key
                                  | None \<Rightarrow> key)
          in if \<not> ostr_truthy token \<or> \<not> safeCompare (the token) (the apiKey)
             then Some (http_error 401 ''Unauthorized'') else None)"

lemma auth_passes_iff:
  assumes "ostr_truthy apiKey"
  shows "buildAuthMiddleware apiKey auth key = None \<longleftrightarrow>
    (case auth of Some a \<Rightarrow> if take 7 a = ''Bearer '' then Some (drop 7 a) = apiKey else key = apiKey
                | None \<Rightarrow> key = apiKey)"
  using assms by (auto simp: buildAuthMiddleware_def safeCompare_def Let_def ostr_truthy_def split: option.splits)

lemma runFrostCommand_ok:
  assumes "runFrostCommand sub args path ex = Some r" "fc_ok r"
  obtains bin out err where "resolveFrostSigner path ex = Some bin"
    "ex_run ex ([String bin, String sub] @ args) = Some (Exited 0 out err)" "jparse out = Some (fc_data r)"
  using assms by (auto simp: runFrostCommand_def cli_failed_def Let_def ostr_truthy_def
      split: option.splits run_outcome.splits if_splits)

end
