(* ===== verification/Frost_Signing.thy ===== *)
theory Frost_Signing
  imports Frost_Cli
begin

text \<open>
  Threshold signing: the messages a group signs (\<open>payments/frost/signing-message.ts\<close>), the signer of one
  node (\<open>frost-signer.ts\<close>) and the peer routes of the oracle service
  (\<open>adapters/oracle-service/frost-signer-routes.ts\<close>).  The hash of the UTF-8 bytes of a text, in
  hexadecimal, is the parameter \<open>sha\<close> and the token decoder the parameter \<open>decode\<close>.  A call carries the
  verdict that proof verification gives on its requirement and evidence; \<open>None\<close> is a rejected promise.

  Both signers keep the nonces of round one in a map until round two takes them out.  A call touches that
  map in one place only, after its last awaited call in round one and before the awaited call in round
  two, so a whole call is one step on the map and an interleaving of calls is a sequence of such steps.
\<close>

section \<open>Messages (signing-message.ts)\<close>

definition deriveFrostSigningMessage :: "(string \<Rightarrow> string) \<Rightarrow> string \<Rightarrow> string" where
  "deriveFrostSigningMessage sha queryId = sha (''anchr:sign:'' @ queryId)"

definition deriveFrostEscrowTokenHash :: "(string \<Rightarrow> string) \<Rightarrow> string \<Rightarrow> string" where
  "deriveFrostEscrowTokenHash sha encodedToken = sha encodedToken"

definition deriveFrostP2pkMessages ::
    "(string \<Rightarrow> string) \<Rightarrow> (string \<Rightarrow> Proof list option) \<Rightarrow> string \<Rightarrow> string list option" where
  "deriveFrostP2pkMessages sha decode encodedToken =
    map_option (map (\<lambda>proof. sha (p_secret proof))) (decode encodedToken)"

fun scan_tag :: "jsval \<Rightarrow> string list \<times> string \<Rightarrow> string list \<times> string" where
  "scan_tag tag (lockPubkeys, nSigs) =
    (case string_tag tag of
       Some (name # rest) \<Rightarrow>
         (if name = ''pubkeys'' then lockPubkeys @ rest else lockPubkeys,
          if name = ''n_sigs'' \<and> rest \<noteq> [] then hd rest else nSigs)
     | _ \<Rightarrow> (lockPubkeys, nSigs))"

definition p2pkSecretRequiresGroup :: "string \<Rightarrow> string \<Rightarrow> bool" where
  "p2pkSecretRequiresGroup secretJson groupPubkey =
    (case jparse secretJson of
       Some (Array vs) \<Rightarrow>
         let body = js_index (Array vs) 1;
             data = (case opt_prop body ''data'' of String s \<Rightarrow> [s] | _ \<Rightarrow> []);
             (lockPubkeys, nSigs) =
               (case opt_prop body ''tags'' of Array tags \<Rightarrow> fold scan_tag tags (data, []) | _ \<Rightarrow> (data, []))
         in js_index (Array vs) 0 = String ''P2PK'' \<and> isRecord body \<and> nSigs = ''2'' \<and>
            list_ex (\<lambda>pubkey. sameXOnlyPubkey pubkey groupPubkey) lockPubkeys
     | _ \<Rightarrow> False)"

definition tokenMatchesFrostP2pkLock :: "(string \<Rightarrow> Proof list option) \<Rightarrow> string \<Rightarrow> string \<Rightarrow> bool" where
  "tokenMatchesFrostP2pkLock decode encodedToken groupPubkey =
    (case decode encodedToken of
       None \<Rightarrow> False
     | Some proofs \<Rightarrow>
         proofs \<noteq> [] \<and> list_all (\<lambda>proof. p2pkSecretRequiresGroup (p_secret proof) groupPubkey) proofs)"

section \<open>The signer of a node (frost-signer.ts)\<close>

definition asJsonString :: "(rat \<Rightarrow> string) \<Rightarrow> jsval \<Rightarrow> jsval" where
  "asJsonString fstr v = (case v of String s \<Rightarrow> String s | _ \<Rightarrow> json_value fstr v)"

definition asJsonStringMap :: "(rat \<Rightarrow> string) \<Rightarrow> jsval \<Rightarrow> (string, jsval) jsmap" where
  "asJsonStringMap fstr v =
    (case v of Object ms \<Rightarrow> map (\<lambda>(key, item). (key, asJsonString fstr item)) ms | _ \<Rightarrow> [])"

record FrostSignerConfig =
  fs_signerIndex :: jsnum
  fs_keyPackage :: string
  fs_frostSignerPath :: "string option option"

record DkgRoundInput =
  di_maxSigners :: "jsnum option"
  di_minSigners :: "jsnum option"
  di_secretPackage :: "string option"
  di_round1Packages :: "string option"
  di_round2SecretPackage :: "string option"
  di_round2Packages :: "string option"

datatype DkgRoundOutput =
    Dkg_round1 jsval jsval
  | Dkg_round2 jsval "(string, jsval) jsmap"
  | Dkg_round3 jsval jsval string

definition cli_data :: "FrostCliResult \<Rightarrow> jsval option" where
  "cli_data r = (if fc_ok r \<and> jsval_truthy (fc_data r) then Some (fc_data r) else None)"

definition dkgRound ::
    "(rat \<Rightarrow> string) \<Rightarrow> FrostSignerConfig \<Rightarrow> executor \<Rightarrow> nat \<Rightarrow> DkgRoundInput \<Rightarrow> DkgRoundOutput option option" where
  "dkgRound fstr config executor round' input =
    (if round' = 1 then
       map_option (\<lambda>r. map_option (\<lambda>d. Dkg_round1 (asJsonString fstr (opt_prop d ''secret_package''))
                                            (asJsonString fstr (opt_prop d ''package''))) (cli_data r))
         (dkgRound1 fstr (fs_signerIndex config)
            (case di_maxSigners input of None \<Rightarrow> 3 | Some n \<Rightarrow> n)
            (case di_minSigners input of None \<Rightarrow> 2 | Some n \<Rightarrow> n) (fs_frostSignerPath config) executor)
     else if round' = 2 then
       (if \<not> ostr_truthy (di_secretPackage input) \<or> \<not> ostr_truthy (di_round1Packages input) then Some None
        else map_option (\<lambda>r. map_option (\<lambda>d. Dkg_round2 (asJsonString fstr (opt_prop d ''secret_package''))
                                            (asJsonStringMap fstr (opt_prop d ''packages''))) (cli_data r))
               (dkgRound2 (String (the (di_secretPackage input))) (String (the (di_round1Packages input)))
                  (fs_frostSignerPath config) executor))
     else if round' = 3 then
       (if \<not> ostr_truthy (di_round2SecretPackage input) \<or> \<not> ostr_truthy (di_round1Packages input) \<or>
           \<not> ostr_truthy (di_round2Packages input) then Some None
        else map_option (\<lambda>r. map_option (\<lambda>d. Dkg_round3 (asJsonString fstr (opt_prop d ''key_package''))
                                            (asJsonString fstr (opt_prop d ''pubkey_package''))
                                            (js_to_string fstr (opt_prop d ''group_pubkey''))) (cli_data r))
               (dkgRound3 (String (the (di_round2SecretPackage input))) (String (the (di_round1Packages input)))
                  (String (the (di_round2Packages input))) (fs_frostSignerPath config) executor))
     else Some None)"

record pending_session =
  ps_nonces :: jsval
  ps_message :: jsval

type_synonym pending_sessions = "(string, pending_session) jsmap"

datatype SignerOutput = Committed jsval string | Share jsval

record 'r sign_call =
  sc_requirement :: 'r
  sc_verdict :: "VerificationDetail option"
  sc_message :: string
  sc_commitments :: "string option"
  sc_sessionId :: "string option"
  sc_uuid :: string
  sc_executor :: executor

text \<open>One call: its arguments, the verdict of \<open>verifyProof\<close> on them, the identifier
  \<open>crypto.randomUUID()\<close> returns and the executor.\<close>

definition verifyAndSign ::
    "(rat \<Rightarrow> string) \<Rightarrow> FrostSignerConfig \<Rightarrow> 'r sign_call \<Rightarrow> pending_sessions \<Rightarrow>
     SignerOutput option option \<times> pending_sessions" where
  "verifyAndSign fstr config c pendingSessions =
    (case sc_verdict c of
       None \<Rightarrow> (None, pendingSessions)
     | Some detail \<Rightarrow>
       if \<not> vd_passed detail then (Some None, pendingSessions)
       else if \<not> ostr_truthy (sc_commitments c) then
         (case signRound1 (String (fs_keyPackage config)) (fs_frostSignerPath config) (sc_executor c) of
            None \<Rightarrow> (None, pendingSessions)
          | Some r1 \<Rightarrow>
            (case cli_data r1 of
               None \<Rightarrow> (Some None, pendingSessions)
             | Some data \<Rightarrow>
               (Some (Some (Committed (asJsonString fstr (opt_prop data ''commitments'')) (sc_uuid c))),
                map_set (sc_uuid c)
                  \<lparr> ps_nonces = asJsonString fstr (opt_prop data ''nonces''), ps_message = String (sc_message c) \<rparr>
                  pendingSessions)))
       else if \<not> ostr_truthy (sc_sessionId c) then (Some None, pendingSessions)
       else case map_get pendingSessions (the (sc_sessionId c)) of
              None \<Rightarrow> (Some None, pendingSessions)
            | Some session \<Rightarrow>
              let rest = map_delete (the (sc_sessionId c)) pendingSessions in
              if ps_message session \<noteq> String (sc_message c) then (Some None, rest)
              else case signRound2 (String (fs_keyPackage config)) (ps_nonces session)
                          (String (the (sc_commitments c))) (String (sc_message c))
                          (fs_frostSignerPath config) (sc_executor c) of
                     None \<Rightarrow> (None, rest)
                   | Some r2 \<Rightarrow>
                     (Some (map_option (\<lambda>d. Share (asJsonString fstr (opt_prop d ''signature_share''))) (cli_data r2)),
                      rest))"

section \<open>The peer routes (frost-signer-routes.ts)\<close>

record PeerConfig =
  pc_signer_index :: nat
  pc_endpoint :: string
  pc_api_key :: "string option"

record FrostNodeConfig =
  nc_signer_index :: nat
  nc_total_signers :: jsnum
  nc_threshold :: jsnum
  nc_key_package :: jsval
  nc_pubkey_package :: jsval
  nc_group_pubkey :: string
  nc_peers :: "PeerConfig list"

fun decode_value :: "(string \<Rightarrow> Proof list option) \<Rightarrow> jsval \<Rightarrow> (string \<times> Proof list) option" where
  "decode_value decode (String s) = map_option (\<lambda>ps. (s, ps)) (decode s)"
| "decode_value decode _ = None"

text \<open>The decoder rejects a token that is not a string; hashing goes through the string conversion of
  the text encoder.\<close>

definition isAllowedSigningMessage ::
    "(rat \<Rightarrow> string) \<Rightarrow> (string \<Rightarrow> string) \<Rightarrow> (string \<Rightarrow> Proof list option) \<Rightarrow>
     jsval \<Rightarrow> jsval \<Rightarrow> jsval \<Rightarrow> string \<Rightarrow> bool" where
  "isAllowedSigningMessage fstr sha decode message requirement escrowToken groupPubkey =
    (if message = String (deriveFrostSigningMessage sha (js_to_string fstr (opt_prop requirement ''id''))) then True
     else if \<not> jsval_truthy escrowToken \<or> \<not> jsval_truthy (opt_prop requirement ''escrow_token_hash'') then False
     else if String (deriveFrostEscrowTokenHash sha (js_to_string fstr escrowToken)) \<noteq>
             opt_prop requirement ''escrow_token_hash'' then False
     else case decode_value decode escrowToken of
            None \<Rightarrow> False
          | Some (token, _) \<Rightarrow>
            if \<not> tokenMatchesFrostP2pkLock decode token groupPubkey then False
            else case deriveFrostP2pkMessages sha decode token of
                   None \<Rightarrow> False
                 | Some messages \<Rightarrow> message \<in> String ` set messages)"

datatype signer_request =
    Round1 jsval "VerificationDetail option" string executor
  | Round2 jsval executor

definition msgs_value :: "(msg \<Rightarrow> string) \<Rightarrow> msg list \<Rightarrow> jsval" where
  "msgs_value render ms = Array (map (\<lambda>m. String (render m)) ms)"

definition cli_error :: "FrostCliResult \<Rightarrow> http" where
  "cli_error r = Http 500 (Object [(''error'', case fc_error r of None \<Rightarrow> Undefined | Some e \<Rightarrow> String e)])"

text \<open>\<open>body\<close> is the parsed body, \<open>Null\<close> when it does not parse.  \<open>None\<close> is an exception in the handler.\<close>

definition signer_round1 ::
    "(rat \<Rightarrow> string) \<Rightarrow> (msg \<Rightarrow> string) \<Rightarrow> (string \<Rightarrow> string) \<Rightarrow> (string \<Rightarrow> Proof list option) \<Rightarrow>
     FrostNodeConfig option \<Rightarrow> jsval \<Rightarrow> VerificationDetail option \<Rightarrow> string \<Rightarrow> executor \<Rightarrow>
     pending_sessions \<Rightarrow> http option \<times> pending_sessions" where
  "signer_round1 fstr render sha decode nodeConfig body verdict uuid executor pendingNonces =
    (if \<not> jsval_truthy (opt_prop body ''message'') \<or> \<not> jsval_truthy (opt_prop body ''requirement'') \<or>
        \<not> jsval_truthy (opt_prop body ''input'')
     then (Some (http_error 400 ''Missing message, requirement, or input''), pendingNonces)
     else case nodeConfig of
            None \<Rightarrow> (Some (http_error 503 ''FROST not configured on this node''), pendingNonces)
          | Some cfg \<Rightarrow>
            (case verdict of
               None \<Rightarrow> (None, pendingNonces)
             | Some detail \<Rightarrow>
               if \<not> vd_passed detail
               then (Some (Http 403 (Object [(''error'', String ''Verification failed''),
                       (''failures'', msgs_value render (vd_failures detail))])), pendingNonces)
               else if \<not> isAllowedSigningMessage fstr sha decode (opt_prop body ''message'')
                          (opt_prop body ''requirement'') (opt_prop body ''escrow_token'') (nc_group_pubkey cfg)
               then (Some (http_error 403 ''Message does not match the verified requirement''), pendingNonces)
               else case signRound1 (json_value fstr (nc_key_package cfg)) None executor of
                      None \<Rightarrow> (None, pendingNonces)
                    | Some result \<Rightarrow>
                      if \<not> fc_ok result then (Some (cli_error result), pendingNonces)
                      else if no_props (fc_data result) then (None, pendingNonces)
                      else (Some (Http 200 (Object [(''commitments'', opt_prop (fc_data result) ''commitments''),
                              (''nonce_id'', String uuid)])),
                            map_set uuid \<lparr> ps_nonces = json_value fstr (opt_prop (fc_data result) ''nonces''),
                                           ps_message = opt_prop body ''message'' \<rparr> pendingNonces)))"

text \<open>A map key that is not a string finds nothing: only strings were stored.\<close>

definition signer_round2 ::
    "(rat \<Rightarrow> string) \<Rightarrow> FrostNodeConfig option \<Rightarrow> jsval \<Rightarrow> executor \<Rightarrow>
     pending_sessions \<Rightarrow> http option \<times> pending_sessions" where
  "signer_round2 fstr nodeConfig body executor pendingNonces =
    (if \<not> jsval_truthy (opt_prop body ''commitments'') \<or> \<not> jsval_truthy (opt_prop body ''message'') \<or>
        \<not> jsval_truthy (opt_prop body ''nonce_id'')
     then (Some (http_error 400 ''Missing commitments, message, or nonce_id''), pendingNonces)
     else case nodeConfig of
            None \<Rightarrow> (Some (http_error 503 ''FROST not configured on this node''), pendingNonces)
          | Some cfg \<Rightarrow>
            (case Option.bind (string_of (opt_prop body ''nonce_id''))
                    (\<lambda>nonceId. map_option (Pair nonceId) (map_get pendingNonces nonceId)) of
               None \<Rightarrow> (Some (http_error 409 ''Unknown or expired nonce_id''), pendingNonces)
             | Some (nonceId, session) \<Rightarrow>
               let rest = map_delete nonceId pendingNonces in
               if opt_prop body ''message'' \<noteq> ps_message session
               then (Some (http_error 403 ''Message does not match the round-1 verified requirement''), rest)
               else case signRound2 (json_value fstr (nc_key_package cfg)) (ps_nonces session)
                           (opt_prop body ''commitments'') (opt_prop body ''message'') None executor of
                      None \<Rightarrow> (None, rest)
                    | Some result \<Rightarrow>
                      if \<not> fc_ok result then (Some (cli_error result), rest)
                      else if no_props (fc_data result) then (None, rest)
                      else (Some (Http 200 (Object [(''signature_share'',
                              opt_prop (fc_data result) ''signature_share'')])), rest)))"

definition signer_route ::
    "(rat \<Rightarrow> string) \<Rightarrow> (msg \<Rightarrow> string) \<Rightarrow> (string \<Rightarrow> string) \<Rightarrow> (string \<Rightarrow> Proof list option) \<Rightarrow>
     FrostNodeConfig option \<Rightarrow> signer_request \<Rightarrow> pending_sessions \<Rightarrow> http option \<times> pending_sessions" where
  "signer_route fstr render sha decode nodeConfig req pendingNonces =
    (case req of
       Round1 body verdict uuid executor \<Rightarrow>
         signer_round1 fstr render sha decode nodeConfig body verdict uuid executor pendingNonces
     | Round2 body executor \<Rightarrow> signer_round2 fstr nodeConfig body executor pendingNonces)"

end
