(* ===== verification/Frost_Coordination.thy ===== *)
theory Frost_Coordination
  imports Frost_Signing
begin

text \<open>
  The node that asks its peers for a group signature (\<open>payments/frost/frost-signing-coordinator.ts\<close>) and
  the adapter that connects it to the query service (\<open>frost-signature-adapter.ts\<close>, with
  \<open>requests/application/query-verifier.ts\<close>).  A peer is reached through the parameter \<open>fetch\<close>: the URL,
  the headers and the body give the status flag and the parsed JSON body, \<open>None\<close> standing for a failed or
  timed out call and for a body that does not parse.
\<close>

section \<open>Identifiers and headers\<close>

fun hex_nat :: "nat \<Rightarrow> string" where
  "hex_nat n = (if n < 16 then [hex_char n] else hex_nat (n div 16) @ [hex_char (n mod 16)])"

declare hex_nat.simps [simp del]

definition padStart :: "nat \<Rightarrow> char \<Rightarrow> string \<Rightarrow> string" where
  "padStart n c s = replicate (n - length s) c @ s"

definition identifierFromIndex :: "nat \<Rightarrow> string" where
  "identifierFromIndex index = padStart 64 (CHR ''0'') (hex_nat index)"

definition buildHeaders :: "string option \<Rightarrow> (string \<times> string) list" where
  "buildHeaders apiKey =
    [(''Content-Type'', ''application/json'')] @
    (if ostr_truthy apiKey then [(''x-api-key'', the apiKey)] else [])"

section \<open>Two rounds and aggregation (coordinateSigning)\<close>

type_synonym fetch = "string \<Rightarrow> (string \<times> string) list \<Rightarrow> string \<Rightarrow> (bool \<times> jsval option) option"

record SigningCoordinatorConfig =
  co_nodeConfig :: FrostNodeConfig
  co_requirement :: jsval
  co_input :: jsval
  co_blossomKeys :: jsval
  co_escrowToken :: jsval

record SigningCoordinatorResult =
  sg_signature :: jsval
  sg_signers_participated :: "nat list"

definition round1_body :: "(rat \<Rightarrow> string) \<Rightarrow> SigningCoordinatorConfig \<Rightarrow> string \<Rightarrow> string" where
  "round1_body fstr config messageHex = jprint fstr (Object
    [(''message'', String messageHex), (''requirement'', co_requirement config), (''input'', co_input config),
     (''blossom_keys'', co_blossomKeys config), (''escrow_token'', co_escrowToken config)])"

definition round2_body :: "(rat \<Rightarrow> string) \<Rightarrow> string \<Rightarrow> string \<Rightarrow> jsval \<Rightarrow> string" where
  "round2_body fstr commitmentsJson messageHex nonce_id = jprint fstr (Object
    [(''commitments'', String commitmentsJson), (''message'', String messageHex), (''nonce_id'', nonce_id)])"

text \<open>The answer of a peer: \<open>None\<close> when the call ends in the \<open>catch\<close>, \<open>Some None\<close> when it was refused.\<close>

definition peer_answer :: "(bool \<times> jsval option) option \<Rightarrow> jsval option option" where
  "peer_answer res =
    (case res of
       None \<Rightarrow> None
     | Some (ok, json) \<Rightarrow>
       if \<not> ok then Some None
       else case json of
              None \<Rightarrow> None
            | Some data \<Rightarrow> if no_props data then None else Some (Some data))"

fun round1_loop ::
    "(PeerConfig \<Rightarrow> jsval option option) \<Rightarrow> nat \<Rightarrow> jsnum \<Rightarrow> PeerConfig list \<Rightarrow>
     (string, jsval) jsmap \<Rightarrow> (PeerConfig \<times> jsval) list \<Rightarrow> (string, jsval) jsmap \<times> (PeerConfig \<times> jsval) list" where
  "round1_loop call self threshold [] commitments participating = (commitments, participating)"
| "round1_loop call self threshold (peer # peers) commitments participating =
    (if pc_signer_index peer = self then round1_loop call self threshold peers commitments participating
     else case call peer of
            Some None \<Rightarrow> round1_loop call self threshold peers commitments participating
          | None \<Rightarrow>
              if threshold \<le> of_len commitments then (commitments, participating)
              else round1_loop call self threshold peers commitments participating
          | Some (Some data) \<Rightarrow>
              let commitments' = map_set (identifierFromIndex (pc_signer_index peer)) (opt_prop data ''commitments'') commitments;
                  participating' = participating @ [(peer, opt_prop data ''nonce_id'')]
              in if threshold \<le> of_len commitments' then (commitments', participating')
                 else round1_loop call self threshold peers commitments' participating')"

fun round2_loop ::
    "(PeerConfig \<times> jsval \<Rightarrow> jsval option option) \<Rightarrow> (PeerConfig \<times> jsval) list \<Rightarrow> (string, jsval) jsmap \<Rightarrow> (string, jsval) jsmap" where
  "round2_loop call [] shares = shares"
| "round2_loop call (p # ps) shares =
    round2_loop call ps
      (case call p of
         Some (Some data) \<Rightarrow>
           map_set (identifierFromIndex (pc_signer_index (fst p))) (opt_prop data ''signature_share'') shares
       | _ \<Rightarrow> shares)"

definition call_round1 ::
    "(rat \<Rightarrow> string) \<Rightarrow> fetch \<Rightarrow> SigningCoordinatorConfig \<Rightarrow> string \<Rightarrow> PeerConfig \<Rightarrow> jsval option option" where
  "call_round1 fstr fetch config messageHex peer =
    peer_answer (fetch (pc_endpoint peer @ ''/frost/signer/round1'') (buildHeaders (pc_api_key peer))
      (round1_body fstr config messageHex))"

definition call_round2 ::
    "(rat \<Rightarrow> string) \<Rightarrow> fetch \<Rightarrow> string \<Rightarrow> string \<Rightarrow> PeerConfig \<times> jsval \<Rightarrow> jsval option option" where
  "call_round2 fstr fetch commitmentsJson messageHex p =
    peer_answer (fetch (pc_endpoint (fst p) @ ''/frost/signer/round2'') (buildHeaders (pc_api_key (fst p)))
      (round2_body fstr commitmentsJson messageHex (snd p)))"

text \<open>\<open>None\<close>: the promise is rejected; \<open>Some None\<close>: it resolves to \<open>null\<close>.  The three calls of the local
  binary have the executors \<open>ex1\<close>, \<open>ex2\<close> and \<open>ex3\<close>.\<close>

definition coordinateSigning ::
    "(rat \<Rightarrow> string) \<Rightarrow> executor \<Rightarrow> executor \<Rightarrow> executor \<Rightarrow> fetch \<Rightarrow> SigningCoordinatorConfig \<Rightarrow> string \<Rightarrow>
     SigningCoordinatorResult option option" where
  "coordinateSigning fstr ex1 ex2 ex3 fetch config messageHex =
    (let node = co_nodeConfig config; keyPackageJson = json_value fstr (nc_key_package node) in
     case signRound1 keyPackageJson None ex1 of
       None \<Rightarrow> None
     | Some localR1 \<Rightarrow>
       (case cli_data localR1 of
          None \<Rightarrow> Some None
        | Some data1 \<Rightarrow>
          let localId = identifierFromIndex (nc_signer_index node);
              (commitments, participating) =
                round1_loop (call_round1 fstr fetch config messageHex) (nc_signer_index node) (nc_threshold node)
                  (nc_peers node) [(localId, opt_prop data1 ''commitments'')] [];
              commitmentsJson = jprint fstr (Object commitments)
          in if of_len commitments < nc_threshold node then Some None
             else case signRound2 keyPackageJson (json_value fstr (opt_prop data1 ''nonces'')) (String commitmentsJson)
                         (String messageHex) None ex2 of
                    None \<Rightarrow> None
                  | Some localR2 \<Rightarrow>
                    (case cli_data localR2 of
                       None \<Rightarrow> Some None
                     | Some data2 \<Rightarrow>
                       let shares = round2_loop (call_round2 fstr fetch commitmentsJson messageHex) participating
                                      [(localId, opt_prop data2 ''signature_share'')]
                       in if of_len shares < nc_threshold node then Some None
                          else case aggregateSignatures (nc_group_pubkey node) (String commitmentsJson) (String messageHex)
                                      (String (jprint fstr (Object shares))) (json_value fstr (nc_pubkey_package node)) None ex3 of
                                 None \<Rightarrow> None
                               | Some agg \<Rightarrow>
                                 if \<not> fc_ok agg \<or> \<not> jsval_truthy (opt_prop (fc_data agg) ''signature'') then Some None
                                 else Some (Some \<lparr> sg_signature = opt_prop (fc_data agg) ''signature'',
                                        sg_signers_participated =
                                          nc_signer_index node # map (\<lambda>p. pc_signer_index (fst p)) participating \<rparr>))))"

section \<open>Requirements and evidence (query-verifier.ts)\<close>

record VerificationRequirement =
  vr_id :: string
  vr_schema :: "string option"
  vr_factors :: "string list"
  vr_description :: "string option"
  vr_challenge_nonce :: "string option"
  vr_schema_requirement :: jsval
  vr_escrow_token_hash :: "string option"

record VerificationInput =
  vi_attachments :: "AttachmentRef list"
  vi_schema_evidence :: jsval

definition requestToRequirement :: "(string \<Rightarrow> string) \<Rightarrow> Query \<Rightarrow> VerificationRequirement" where
  "requestToRequirement sha request =
    \<lparr> vr_id = q_id request,
      vr_schema = Some (case q_schema request of None \<Rightarrow> DEFAULT_QUERY_SCHEMA | Some s \<Rightarrow> s),
      vr_factors = q_verification_requirements request,
      vr_description = Some (q_description request),
      vr_challenge_nonce = q_challenge_nonce request,
      vr_schema_requirement = q_schema_requirement request,
      vr_escrow_token_hash =
        (case q_escrow request of
           Some e \<Rightarrow>
             (case e_type e of
                P2pk_frost _ \<Rightarrow> if ostr_truthy (e_escrow_token e) then Some (sha (the (e_escrow_token e))) else None
              | Htlc _ \<Rightarrow> None)
         | None \<Rightarrow> None) \<rparr>"

definition resultToVerificationInput :: "QueryResult \<Rightarrow> VerificationInput" where
  "resultToVerificationInput result =
    \<lparr> vi_attachments = qr_attachments result, vi_schema_evidence = qr_schema_evidence result \<rparr>"

text \<open>The object forms that are sent to the peers.\<close>

definition ostr_value :: "string option \<Rightarrow> jsval" where
  "ostr_value s = (case s of None \<Rightarrow> Undefined | Some t \<Rightarrow> String t)"

definition requirement_value :: "VerificationRequirement \<Rightarrow> jsval" where
  "requirement_value r = Object
    [(''id'', String (vr_id r)), (''schema'', ostr_value (vr_schema r)), (''factors'', Array (map String (vr_factors r))),
     (''description'', ostr_value (vr_description r)), (''challenge_nonce'', ostr_value (vr_challenge_nonce r)),
     (''schema_requirement'', vr_schema_requirement r), (''escrow_token_hash'', ostr_value (vr_escrow_token_hash r))]"

definition attachment_value :: "AttachmentRef \<Rightarrow> jsval" where
  "attachment_value a = Object
    [(''id'', String (at_id a)), (''uri'', String (at_uri a)), (''mime_type'', String (at_mime_type a)),
     (''storage_kind'', String (case at_storage_kind a of Blossom \<Rightarrow> ''blossom'' | External \<Rightarrow> ''external'')),
     (''filename'', ostr_value (at_filename a)),
     (''size_bytes'', case at_size_bytes a of None \<Rightarrow> Undefined | Some n \<Rightarrow> Number n),
     (''blossom_hash'', ostr_value (at_blossom_hash a)),
     (''blossom_servers'', case at_blossom_servers a of None \<Rightarrow> Undefined | Some ss \<Rightarrow> Array (map String ss))]"

definition input_value :: "VerificationInput \<Rightarrow> jsval" where
  "input_value i = Object
    [(''attachments'', Array (map attachment_value (vi_attachments i))), (''schema_evidence'', vi_schema_evidence i)]"

definition keys_value :: "BlossomKeyMap option \<Rightarrow> jsval" where
  "keys_value ks =
    (case ks of
       None \<Rightarrow> Undefined
     | Some m \<Rightarrow> Object (map (\<lambda>(i, k). (i, Object [(''encrypt_key'', String (bk_encrypt_key k)),
                                                     (''encrypt_iv'', String (bk_encrypt_iv k))])) m))"

section \<open>The signature port (frost-signature-adapter.ts)\<close>

definition adapter_token :: "Query \<Rightarrow> string option" where
  "adapter_token query =
    (case q_escrow query of
       Some e \<Rightarrow> (case e_type e of P2pk_frost _ \<Rightarrow> e_escrow_token e | Htlc _ \<Rightarrow> None)
     | None \<Rightarrow> None)"

definition adapter_messages ::
    "(string \<Rightarrow> string) \<Rightarrow> (string \<Rightarrow> Proof list option) \<Rightarrow> Query \<Rightarrow> string list option" where
  "adapter_messages sha decode query =
    (if ostr_truthy (adapter_token query) then deriveFrostP2pkMessages sha decode (the (adapter_token query))
     else Some [deriveFrostSigningMessage sha (q_id query)])"

definition adapter_config ::
    "(string \<Rightarrow> string) \<Rightarrow> FrostNodeConfig \<Rightarrow> Query \<Rightarrow> QueryResult \<Rightarrow> BlossomKeyMap option \<Rightarrow> SigningCoordinatorConfig" where
  "adapter_config sha nodeConfig query result blossomKeys =
    \<lparr> co_nodeConfig = nodeConfig, co_requirement = requirement_value (requestToRequirement sha query),
      co_input = input_value (resultToVerificationInput result), co_blossomKeys = keys_value blossomKeys,
      co_escrowToken = ostr_value (adapter_token query) \<rparr>"

text \<open>\<open>coordinate\<close> is \<open>coordinateSigning\<close> with the executors and peers of the call for one message.\<close>

fun sign_messages ::
    "(string \<Rightarrow> SigningCoordinatorResult option option) \<Rightarrow> string list \<Rightarrow> jsval list \<Rightarrow> jsval list option option" where
  "sign_messages coordinate [] signatures = Some (Some signatures)"
| "sign_messages coordinate (messageHex # ms) signatures =
    (case coordinate messageHex of
       None \<Rightarrow> None
     | Some None \<Rightarrow> Some None
     | Some (Some r) \<Rightarrow> sign_messages coordinate ms (signatures @ [sg_signature r]))"

definition requestSignature ::
    "(string \<Rightarrow> string) \<Rightarrow> (string \<Rightarrow> Proof list option) \<Rightarrow>
     (SigningCoordinatorConfig \<Rightarrow> string \<Rightarrow> SigningCoordinatorResult option option) \<Rightarrow> FrostNodeConfig \<Rightarrow>
     Query \<Rightarrow> QueryResult \<Rightarrow> BlossomKeyMap option \<Rightarrow> jsval list option option" where
  "requestSignature sha decode coordinate nodeConfig query result blossomKeys =
    (case adapter_messages sha decode query of
       None \<Rightarrow> None
     | Some messages \<Rightarrow>
       sign_messages (coordinate (adapter_config sha nodeConfig query result blossomKeys)) messages [])"

end
