(* ===== verification/Frost_Signing_Correct.thy ===== *)
theory Frost_Signing_Correct
  imports Frost_Signing
begin

text \<open>
  Correctness of the two signers.  The abstract specification is a pool of single use sessions
  (\<open>pool_step\<close>); the locale \<open>nonce_signer\<close> says that a handler acts on its map as the pool does, produces
  a share only for a session it takes from the pool under the same message, and opens a session only when
  its gate holds.  Both the signer of a node and the peer routes are interpretations.
\<close>

section \<open>Sequences of calls\<close>

fun run_calls :: "('c \<Rightarrow> 's \<Rightarrow> 'o \<times> 's) \<Rightarrow> 'c list \<Rightarrow> 's \<Rightarrow> 'o list \<times> 's" where
  "run_calls step [] st = ([], st)"
| "run_calls step (c # cs) st =
    (let (o', st1) = step c st; (os, st2) = run_calls step cs st1 in (o' # os, st2))"

lemma run_calls_length: "length (fst (run_calls step cs st)) = length cs"
  by (induction cs arbitrary: st) (simp_all add: split_def Let_def)

lemma run_calls_state:
  "k < length cs \<Longrightarrow>
    snd (run_calls step (take (Suc k) cs) st) = snd (step (cs ! k) (snd (run_calls step (take k cs) st)))"
proof (induction cs arbitrary: st k)
  case (Cons c cs)
  then show ?case by (cases k) (simp_all add: split_def Let_def)
qed simp

lemma run_calls_out:
  "k < length cs \<Longrightarrow> fst (run_calls step cs st) ! k = fst (step (cs ! k) (snd (run_calls step (take k cs) st)))"
proof (induction cs arbitrary: st k)
  case (Cons c cs)
  then show ?case by (cases k) (simp_all add: split_def Let_def)
qed simp

lemma distinct_map_filter_index:
  assumes "distinct (List.map_filter f xs)" "j < length xs" "j' < length xs" "f (xs ! j) = Some i" "f (xs ! j') = Some i"
  shows "j = j'"
  using assms
proof (induction xs arbitrary: j j')
  case (Cons x xs)
  have mem: "i \<in> set (List.map_filter f xs)" if "f (xs ! n) = Some i" "n < length xs" for n
    using that by (auto simp: List.map_filter_def image_iff) (metis nth_mem option.sel option.simps(3))
  show ?case
    using Cons.prems Cons.IH mem
    by (cases j; cases j') (auto simp: List.map_filter_simps split: option.splits)
qed simp

section \<open>The single use pool\<close>

datatype pool_op = Issue string pending_session | Take string jsval

fun pool_step :: "pool_op option \<Rightarrow> pending_sessions \<Rightarrow> pending_sessions" where
  "pool_step None st = st"
| "pool_step (Some (Issue i p)) st = map_set i p st"
| "pool_step (Some (Take i m)) st = map_delete i st"

fun issued_id :: "pool_op option \<Rightarrow> string option" where
  "issued_id (Some (Issue i p)) = Some i"
| "issued_id _ = None"

fun taken_id :: "pool_op option \<Rightarrow> string option" where
  "taken_id (Some (Take i m)) = Some i"
| "taken_id _ = None"

lemma issued_idD: "issued_id x = Some i \<Longrightarrow> \<exists>p. x = Some (Issue i p)"
  by (cases x rule: issued_id.cases) auto

lemma taken_idD: "taken_id x = Some i \<Longrightarrow> \<exists>m. x = Some (Take i m)"
  by (cases x rule: taken_id.cases) auto

locale nonce_signer =
  fixes step :: "'c \<Rightarrow> pending_sessions \<Rightarrow> 'o \<times> pending_sessions"
    and pool_op_of :: "'c \<Rightarrow> pool_op option"
    and yields_share :: "'o \<Rightarrow> bool"
    and gate :: "'c \<Rightarrow> bool"
  assumes step_pool: "snd (step c st) = pool_step (pool_op_of c) st"
    and share_taken: "yields_share (fst (step c st)) \<Longrightarrow>
      \<exists>i m p. pool_op_of c = Some (Take i m) \<and> map_get st i = Some p \<and> ps_message p = m"
    and issue_gate: "pool_op_of c = Some (Issue i p) \<Longrightarrow> gate c"
begin

lemma pooled_origin:
  assumes "k \<le> length cs" "map_get (snd (run_calls step (take k cs) [])) i = Some p"
  shows "\<exists>j < k. pool_op_of (cs ! j) = Some (Issue i p) \<and>
    (\<forall>n. j < n \<longrightarrow> n < k \<longrightarrow> taken_id (pool_op_of (cs ! n)) \<noteq> Some i)"
  using assms
proof (induction k)
  case (Suc k)
  let ?st = "snd (run_calls step (take k cs) [])"
  have now: "map_get (pool_step (pool_op_of (cs ! k)) ?st) i = Some p"
    using Suc.prems by (simp add: run_calls_state step_pool)
  show ?case
  proof (cases "pool_op_of (cs ! k) = Some (Issue i p)")
    case True
    then show ?thesis by (intro exI [of _ k]) auto
  next
    case False
    then have "map_get ?st i = Some p" "taken_id (pool_op_of (cs ! k)) \<noteq> Some i"
      using now by (cases "pool_op_of (cs ! k)" rule: taken_id.cases; auto split: if_splits)+
    with Suc show ?thesis by (fastforce simp: less_Suc_eq)
  qed
qed simp

lemma share_origin:
  assumes "k < length cs" "yields_share (fst (run_calls step cs []) ! k)"
  obtains i m j p where "pool_op_of (cs ! k) = Some (Take i m)" "j < k" "pool_op_of (cs ! j) = Some (Issue i p)"
    "ps_message p = m" "\<And>n. j < n \<Longrightarrow> n < k \<Longrightarrow> taken_id (pool_op_of (cs ! n)) \<noteq> Some i"
proof -
  let ?st = "snd (run_calls step (take k cs) [])"
  obtain i m p where take: "pool_op_of (cs ! k) = Some (Take i m)" "map_get ?st i = Some p" "ps_message p = m"
    using share_taken [of "cs ! k" ?st] assms by (auto simp: run_calls_out)
  show thesis using pooled_origin [OF less_imp_le [OF assms(1)] take(2)] take that by blast
qed

text \<open>A session gives at most one share.\<close>

lemma single_use:
  assumes fresh: "distinct (List.map_filter (\<lambda>c. issued_id (pool_op_of c)) cs)"
    and "k < k'" "k' < length cs" "yields_share (fst (run_calls step cs []) ! k)"
      "yields_share (fst (run_calls step cs []) ! k')"
  shows "taken_id (pool_op_of (cs ! k)) \<noteq> taken_id (pool_op_of (cs ! k'))"
proof
  assume same: "taken_id (pool_op_of (cs ! k)) = taken_id (pool_op_of (cs ! k'))"
  have kl: "k < length cs" using assms(2,3) by simp
  obtain i m j p where a: "pool_op_of (cs ! k) = Some (Take i m)" "j < k" "pool_op_of (cs ! j) = Some (Issue i p)"
    using share_origin [OF kl assms(4)] by metis
  obtain i' m' j' p' where b: "pool_op_of (cs ! k') = Some (Take i' m')" "j' < k'"
    "pool_op_of (cs ! j') = Some (Issue i' p')" "\<And>n. j' < n \<Longrightarrow> n < k' \<Longrightarrow> taken_id (pool_op_of (cs ! n)) \<noteq> Some i'"
    using share_origin [OF assms(3,5)] by metis
  have "i' = i" using same a(1) b(1) by simp
  then have "j = j'"
    using distinct_map_filter_index [OF fresh, of j j' i] a b assms(2,3) by simp
  then show False using b(4) [of k] a assms(2) \<open>i' = i\<close> by simp
qed

lemma share_authorised:
  assumes "distinct (List.map_filter (\<lambda>c. issued_id (pool_op_of c)) cs)"
    and "k < length cs" "yields_share (fst (run_calls step cs []) ! k)"
  shows "\<exists>i m j p. pool_op_of (cs ! k) = Some (Take i m) \<and> j < k \<and> pool_op_of (cs ! j) = Some (Issue i p) \<and>
    ps_message p = m \<and> gate (cs ! j) \<and>
    (\<forall>k' < length cs. k' \<noteq> k \<longrightarrow> yields_share (fst (run_calls step cs []) ! k') \<longrightarrow>
       taken_id (pool_op_of (cs ! k')) \<noteq> Some i)"
proof -
  obtain i m j p where s: "pool_op_of (cs ! k) = Some (Take i m)" "j < k" "pool_op_of (cs ! j) = Some (Issue i p)"
    "ps_message p = m" using share_origin [OF assms(2,3)] by metis
  have "taken_id (pool_op_of (cs ! k')) \<noteq> Some i"
    if "k' < length cs" "k' \<noteq> k" "yields_share (fst (run_calls step cs []) ! k')" for k'
    using single_use [OF assms(1), of k k'] single_use [OF assms(1), of k' k] that assms(2,3) s(1)
    by (cases k k' rule: linorder_cases) auto
  then show ?thesis using s issue_gate [OF s(3)] by blast
qed

end

end
