(* ===== verification/Frost_Signing_Properties.thy ===== *)
theory Frost_Signing_Properties
  imports Frost_Signing_Correct Escrow_Properties
begin

text \<open>
  The two signers as instances of the single use pool, and the properties of threshold signing that
  follow: which messages a node signs, that nonces are used once, and how the signing check relates to
  the lock check of the escrow provider.
\<close>

section \<open>The signer of a node\<close>

definition call_op :: "(rat \<Rightarrow> string) \<Rightarrow> FrostSignerConfig \<Rightarrow> 'r sign_call \<Rightarrow> pool_op option" where
  "call_op fstr config c =
    (case sc_verdict c of
       None \<Rightarrow> None
     | Some detail \<Rightarrow>
       if \<not> vd_passed detail then None
       else if \<not> ostr_truthy (sc_commitments c) then
         (case Option.bind (signRound1 (String (fs_keyPackage config)) (fs_frostSignerPath config) (sc_executor c)) cli_data of
            None \<Rightarrow> None
          | Some data \<Rightarrow> Some (Issue (sc_uuid c)
              \<lparr> ps_nonces = asJsonString fstr (opt_prop data ''nonces''), ps_message = String (sc_message c) \<rparr>))
       else if \<not> ostr_truthy (sc_sessionId c) then None
       else Some (Take (the (sc_sessionId c)) (String (sc_message c))))"

definition call_share :: "SignerOutput option option \<Rightarrow> bool" where
  "call_share out = (case out of Some (Some (Share v)) \<Rightarrow> True | _ \<Rightarrow> False)"

definition call_verified :: "'r sign_call \<Rightarrow> bool" where
  "call_verified c = (case sc_verdict c of Some d \<Rightarrow> vd_passed d | None \<Rightarrow> False)"

lemma map_delete_absent: "map_get m k = None \<Longrightarrow> map_delete k m = m"
  by (simp add: map_get_def map_delete_def delete_idem map_of_eq_None_iff)

interpretation node: nonce_signer "verifyAndSign fstr config" "call_op fstr config" call_share call_verified
proof
  fix c :: "'r sign_call" and st
  show "snd (verifyAndSign fstr config c st) = pool_step (call_op fstr config c) st"
    by (auto simp: verifyAndSign_def call_op_def Let_def map_delete_absent split: option.splits)
  show "\<exists>i m p. call_op fstr config c = Some (Take i m) \<and> map_get st i = Some p \<and> ps_message p = m"
    if "call_share (fst (verifyAndSign fstr config c st))"
    using that by (auto simp: verifyAndSign_def call_op_def call_share_def Let_def split: option.splits if_splits)
  show "call_verified c" if "call_op fstr config c = Some (Issue i p)" for i p
    using that by (auto simp: call_op_def call_verified_def split: option.splits if_splits)
qed

section \<open>The peer routes\<close>

definition request_op :: "(rat \<Rightarrow> string) \<Rightarrow> (string \<Rightarrow> string) \<Rightarrow> (string \<Rightarrow> Proof list option) \<Rightarrow>
    FrostNodeConfig option \<Rightarrow> signer_request \<Rightarrow> pool_op option" where
  "request_op fstr sha decode nodeConfig req =
    (case (nodeConfig, req) of
       (None, _) \<Rightarrow> None
     | (Some cfg, Round1 body verdict uuid executor) \<Rightarrow>
       if jsval_truthy (opt_prop body ''message'') \<and> jsval_truthy (opt_prop body ''requirement'') \<and>
          jsval_truthy (opt_prop body ''input'') \<and> (case verdict of Some d \<Rightarrow> vd_passed d | None \<Rightarrow> False) \<and>
          isAllowedSigningMessage fstr sha decode (opt_prop body ''message'') (opt_prop body ''requirement'')
            (opt_prop body ''escrow_token'') (nc_group_pubkey cfg)
       then (case signRound1 (json_value fstr (nc_key_package cfg)) None executor of
               None \<Rightarrow> None
             | Some r \<Rightarrow> if fc_ok r \<and> \<not> no_props (fc_data r)
                         then Some (Issue uuid \<lparr> ps_nonces = json_value fstr (opt_prop (fc_data r) ''nonces''),
                                                 ps_message = opt_prop body ''message'' \<rparr>)
                         else None)
       else None
     | (Some cfg, Round2 body executor) \<Rightarrow>
       if jsval_truthy (opt_prop body ''commitments'') \<and> jsval_truthy (opt_prop body ''message'') \<and>
          jsval_truthy (opt_prop body ''nonce_id'')
       then map_option (\<lambda>i. Take i (opt_prop body ''message'')) (string_of (opt_prop body ''nonce_id''))
       else None)"

fun is_share :: "http option \<Rightarrow> bool" where
  "is_share (Some (Http status (Object [(k, v)]))) = (status = 200 \<and> k = ''signature_share'')"
| "is_share _ = False"

definition request_allowed :: "(rat \<Rightarrow> string) \<Rightarrow> (string \<Rightarrow> string) \<Rightarrow> (string \<Rightarrow> Proof list option) \<Rightarrow>
    FrostNodeConfig option \<Rightarrow> signer_request \<Rightarrow> bool" where
  "request_allowed fstr sha decode nodeConfig req =
    (case req of
       Round1 body verdict uuid executor \<Rightarrow>
         (case verdict of Some d \<Rightarrow> vd_passed d | None \<Rightarrow> False) \<and>
         (case nodeConfig of None \<Rightarrow> False | Some cfg \<Rightarrow>
            isAllowedSigningMessage fstr sha decode (opt_prop body ''message'') (opt_prop body ''requirement'')
              (opt_prop body ''escrow_token'') (nc_group_pubkey cfg))
     | Round2 _ _ \<Rightarrow> False)"

lemma is_share_errors [simp]: "\<not> is_share (Some (http_error n e))" "\<not> is_share (Some (cli_error r))" "\<not> is_share None"
  by (simp_all add: http_error_def cli_error_def)

lemma signer_round2_pool:
  "snd (signer_round2 fstr cfg body ex st) = pool_step (request_op fstr sha decode cfg (Round2 body ex)) st"
  by (cases "string_of (opt_prop body ''nonce_id'')")
    (auto simp: signer_round2_def request_op_def Let_def map_delete_absent split: option.splits)

lemma signer_round1_pool:
  "snd (signer_round1 fstr render sha decode cfg body v uuid ex st) =
    pool_step (request_op fstr sha decode cfg (Round1 body v uuid ex)) st"
  by (auto simp: signer_round1_def request_op_def split: option.splits)

lemma signer_round1_no_share: "\<not> is_share (fst (signer_round1 fstr render sha decode cfg body v uuid ex st))"
  by (auto simp: signer_round1_def split: option.splits)

lemma signer_round2_share:
  assumes "is_share (fst (signer_round2 fstr cfg body ex st))"
  shows "\<exists>i p. request_op fstr sha decode cfg (Round2 body ex) = Some (Take i (opt_prop body ''message'')) \<and>
    map_get st i = Some p \<and> ps_message p = opt_prop body ''message''"
  using assms by (auto simp: signer_round2_def request_op_def Let_def bind_eq_Some_conv split: option.splits if_splits)

interpretation peer: nonce_signer "signer_route fstr render sha decode cfg" "request_op fstr sha decode cfg" is_share
  "request_allowed fstr sha decode cfg"
proof
  fix c st
  show "snd (signer_route fstr render sha decode cfg c st) = pool_step (request_op fstr sha decode cfg c) st"
    by (cases c) (simp_all add: signer_route_def signer_round1_pool signer_round2_pool)
  show "\<exists>i m p. request_op fstr sha decode cfg c = Some (Take i m) \<and> map_get st i = Some p \<and> ps_message p = m"
    if "is_share (fst (signer_route fstr render sha decode cfg c st))"
  proof (cases c)
    case (Round2 body ex)
    then show ?thesis using that signer_round2_share [of fstr cfg body ex st sha decode] by (auto simp: signer_route_def)
  qed (use that in \<open>simp add: signer_route_def signer_round1_no_share\<close>)
  show "request_allowed fstr sha decode cfg c" if "request_op fstr sha decode cfg c = Some (Issue i p)" for i p
    using that by (auto simp: request_op_def request_allowed_def split: option.splits signer_request.splits if_splits)
qed

section \<open>What is signed\<close>

lemma map_filter_distinct_weaken:
  assumes "distinct (List.map_filter g xs)" "\<And>x i. f x = Some i \<Longrightarrow> g x = Some i"
  shows "distinct (List.map_filter f xs)"
  using assms
proof (induction xs)
  case (Cons x xs)
  have sub: "set (List.map_filter f xs) \<subseteq> set (List.map_filter g xs)"
    using assms(2) by (force simp: List.map_filter_def)
  show ?case
    using Cons sub assms(2) [of x] by (cases "f x"; cases "g x") (auto simp: List.map_filter_simps)
qed (simp add: List.map_filter_simps)

lemma string_of_Some: "string_of v = Some s \<longleftrightarrow> v = String s"
  by (cases v) auto

lemma request_op_Take:
  assumes "request_op fstr sha decode cfg r = Some (Take i m)"
  obtains body ex where "r = Round2 body ex" "opt_prop body ''nonce_id'' = String i" "m = opt_prop body ''message''"
  using assms by (auto simp: request_op_def string_of_Some split: option.splits signer_request.splits if_splits)

lemma request_op_Issue:
  assumes "request_op fstr sha decode cfg r = Some (Issue i p)"
  obtains body d ex where "r = Round1 body (Some d) i ex" "vd_passed d" "ps_message p = opt_prop body ''message''"
  using assms by (auto simp: request_op_def split: option.splits signer_request.splits if_splits)

lemma share_is_round2:
  assumes "is_share (fst (signer_route fstr render sha decode cfg (Round2 body ex) st))"
  shows "\<exists>i. opt_prop body ''nonce_id'' = String i \<and>
    request_op fstr sha decode cfg (Round2 body ex) = Some (Take i (opt_prop body ''message''))"
proof -
  obtain i where i: "request_op fstr sha decode cfg (Round2 body ex) = Some (Take i (opt_prop body ''message''))"
    using assms signer_round2_share [of fstr cfg body ex st sha decode] by (auto simp: signer_route_def)
  then show ?thesis by (auto elim: request_op_Take)
qed

text \<open>C12. However requests to the peer routes are interleaved, a node that draws a new session identifier
  each time releases a signature share only as the answer to a second round request whose session was
  opened by an earlier first round request with the same message, whose evidence was verified and whose
  message follows from the verified requirement; and no two released shares use the same session, so
  nonces are never reused.\<close>

theorem peer_share_authorised:
  assumes "distinct (List.map_filter (\<lambda>r. case r of Round1 _ _ uuid _ \<Rightarrow> Some uuid | Round2 _ _ \<Rightarrow> None) rs)"
    and "k < length rs" and "is_share (fst (run_calls (signer_route fstr render sha decode (Some cfg)) rs []) ! k)"
  shows "\<exists>body ex j body1 detail nonceId ex1.
    rs ! k = Round2 body ex \<and> opt_prop body ''nonce_id'' = String nonceId \<and>
    j < k \<and> rs ! j = Round1 body1 (Some detail) nonceId ex1 \<and> vd_passed detail \<and>
    opt_prop body1 ''message'' = opt_prop body ''message'' \<and>
    isAllowedSigningMessage fstr sha decode (opt_prop body ''message'') (opt_prop body1 ''requirement'')
      (opt_prop body1 ''escrow_token'') (nc_group_pubkey cfg) \<and>
    (\<forall>k' < length rs. \<forall>body' ex'. k' \<noteq> k \<longrightarrow> rs ! k' = Round2 body' ex' \<longrightarrow>
       is_share (fst (run_calls (signer_route fstr render sha decode (Some cfg)) rs []) ! k') \<longrightarrow>
       opt_prop body' ''nonce_id'' \<noteq> String nonceId)"
proof -
  let ?step = "signer_route fstr render sha decode (Some cfg)"
  let ?op = "request_op fstr sha decode (Some cfg)"
  have fresh: "distinct (List.map_filter (\<lambda>r. issued_id (?op r)) rs)"
    by (rule map_filter_distinct_weaken [OF assms(1)])
      (auto elim!: request_op_Issue dest!: issued_idD)
  obtain i m j p where s: "?op (rs ! k) = Some (Take i m)" "j < k" "?op (rs ! j) = Some (Issue i p)" "ps_message p = m"
    "request_allowed fstr sha decode (Some cfg) (rs ! j)"
    and once: "\<And>k'. k' < length rs \<Longrightarrow> k' \<noteq> k \<Longrightarrow> is_share (fst (run_calls ?step rs []) ! k') \<Longrightarrow>
        taken_id (?op (rs ! k')) \<noteq> Some i"
    using peer.share_authorised [OF fresh assms(2,3)] by blast
  obtain body ex where two: "rs ! k = Round2 body ex" "opt_prop body ''nonce_id'' = String i" "m = opt_prop body ''message''"
    using s(1) by (rule request_op_Take)
  obtain body1 d ex1 where one: "rs ! j = Round1 body1 (Some d) i ex1" "vd_passed d" "ps_message p = opt_prop body1 ''message''"
    using s(3) by (rule request_op_Issue)
  have "opt_prop body' ''nonce_id'' \<noteq> String i"
    if "k' < length rs" "k' \<noteq> k" "rs ! k' = Round2 body' ex'" "is_share (fst (run_calls ?step rs []) ! k')" for k' body' ex'
    using once [OF that(1,2,4)] share_is_round2 that by (fastforce simp: run_calls_out)
  moreover have "isAllowedSigningMessage fstr sha decode (opt_prop body ''message'') (opt_prop body1 ''requirement'')
      (opt_prop body1 ''escrow_token'') (nc_group_pubkey cfg)" "opt_prop body1 ''message'' = opt_prop body ''message''"
    using s(4,5) one two by (auto simp: request_allowed_def)
  ultimately show ?thesis
    using s(2) two(1,2) one(1,2)
    by (intro exI [of _ body] exI [of _ ex] exI [of _ j] exI [of _ body1] exI [of _ d] exI [of _ i] exI [of _ ex1]) blast
qed

definition ex_frost_executor :: executor where
  "ex_frost_executor = \<lparr> ex_localPaths = [''/bin/frost''], ex_isFile = (\<lambda>p. True), ex_which = (\<lambda>b. None),
     ex_run = (\<lambda>args. Some (Exited 0 (jprint (\<lambda>r. []) (Object [(''nonces'', String ''n''), (''commitments'', String ''c''), (''signature_share'', String ''s'')])) [])) \<rparr>"

definition ex_round_trip :: "signer_request list" where
  "ex_round_trip =
    [Round1 (Object [(''message'', String ''anchr:sign:q1''), (''requirement'', Object [(''id'', String ''q1'')]),
                     (''input'', Object [])])
       (Some \<lparr> vd_passed = True, vd_checks = [], vd_failures = [], vd_warnings = None, vd_schema_verdict = Undefined \<rparr>)
       ''u1'' ex_frost_executor,
     Round2 (Object [(''commitments'', String ''cs''), (''message'', String ''anchr:sign:q1''), (''nonce_id'', String ''u1'')])
       ex_frost_executor]"

definition ex_node :: FrostNodeConfig where
  "ex_node = \<lparr> nc_signer_index = 1, nc_total_signers = Fin 3, nc_threshold = Fin 2, nc_key_package = String ''key'',
     nc_pubkey_package = String ''pub'', nc_group_pubkey = ''group'', nc_peers = [] \<rparr>"

lemma ex_frost_run:
  "runFrostCommand sub args None ex_frost_executor = Some \<lparr> fc_ok = True, fc_data =
     Object [(''nonces'', String ''n''), (''commitments'', String ''c''), (''signature_share'', String ''s'')], fc_error = None \<rparr>"
  by (simp add: runFrostCommand_def ex_frost_executor_def resolveFrostSigner_def findFrostSigner_def jparse_print Let_def
      del: jprint.simps)

lemma ex_round_trip_eval:
  "is_share (fst (run_calls (signer_route (\<lambda>r. []) (\<lambda>m. []) (\<lambda>t. t) (\<lambda>t. None) (Some ex_node)) ex_round_trip []) ! 1)"
  by (simp add: ex_round_trip_def signer_route_def signer_round1_def signer_round2_def signRound1_def signRound2_def
      ex_frost_run isAllowedSigningMessage_def deriveFrostSigningMessage_def map_get_def map_set_def Let_def)

theorem peer_share_authorised_witness:
  "\<exists>j < 1. \<exists>body d i ex. ex_round_trip ! j = Round1 body (Some d) i ex \<and> vd_passed d \<and>
     opt_prop body ''message'' = String ''anchr:sign:q1''"
proof -
  have "distinct (List.map_filter (\<lambda>r. case r of Round1 _ _ uuid _ \<Rightarrow> Some uuid | Round2 _ _ \<Rightarrow> None) ex_round_trip)"
    by (simp add: ex_round_trip_def List.map_filter_simps)
  from peer_share_authorised [OF this _ ex_round_trip_eval] show ?thesis
    by (auto simp: ex_round_trip_def map_get_def)
qed

end
