(* ===== verification/Frost_Coordination_Properties.thy ===== *)
theory Frost_Coordination_Properties
  imports Frost_Coordination Frost_Signing_Properties
begin

text \<open>
  Correctness of the signing coordination: participant identifiers are injective, a returned signature
  aggregates the shares of exactly the reported participants, and the messages the adapter asks the
  peers to sign pass the peers' own checks.
\<close>

section \<open>Identifiers\<close>

definition hex_number :: "string \<Rightarrow> nat" where
  "hex_number s = foldl (\<lambda>a c. a * 16 + the (jhex c)) 0 s"

lemma hex_number_snoc: "hex_number (s @ [c]) = hex_number s * 16 + the (jhex c)"
  by (simp add: hex_number_def)

lemma hex_number_nat: "hex_number (hex_nat n) = n"
proof (induction n rule: hex_nat.induct)
  case (1 n)
  then show ?case
    by (subst hex_nat.simps) (simp add: hex_number_snoc jhex_hex_char, simp add: hex_number_def jhex_hex_char)
qed

lemma hex_number_zeros: "hex_number (replicate k (CHR ''0'') @ s) = hex_number s"
  by (induction k) (simp_all add: hex_number_def jhex_def)

lemma identifier_inj: "identifierFromIndex m = identifierFromIndex n \<Longrightarrow> m = n"
  by (metis hex_number_nat hex_number_zeros identifierFromIndex_def padStart_def)

lemma identifier_eq [simp]: "identifierFromIndex m = identifierFromIndex n \<longleftrightarrow> m = n"
  using identifier_inj by blast

section \<open>The two rounds\<close>

lemma map_set_length: "length (map_set k v m) \<le> Suc (length m)"
  unfolding map_set_def by (induction m) auto

lemma map_set_keys: "fst ` set (map_set k v m) = insert k (fst ` set m)"
  unfolding map_set_def by (induction m) auto

abbreviation participant_ids :: "nat \<Rightarrow> (PeerConfig \<times> jsval) list \<Rightarrow> string list" where
  "participant_ids self ps \<equiv> identifierFromIndex self # map (\<lambda>p. identifierFromIndex (pc_signer_index (fst p))) ps"

text \<open>After round one the commitments belong to this node and the participating peers, in order, each of
  which answered; the loop stops as soon as the threshold is reached.\<close>

lemma round1_loop_keys:
  assumes "round1_loop call self threshold peers cs ps = (cs', ps')"
    and "map fst cs = participant_ids self ps"
    and "distinct (map pc_signer_index peers)"
    and "\<forall>p \<in> set ps. pc_signer_index (fst p) \<notin> pc_signer_index ` set peers"
  shows "map fst cs' = participant_ids self ps' \<and>
    (\<forall>p \<in> set ps'. p \<in> set ps \<or> (fst p \<in> set peers \<and> pc_signer_index (fst p) \<noteq> self \<and>
       (\<exists>data. call (fst p) = Some (Some data) \<and> snd p = opt_prop data ''nonce_id'')))"
  using assms
proof (induction call self threshold peers cs ps arbitrary: cs' ps' rule: round1_loop.induct)
  case (1 call self threshold cs ps)
  then show ?case by simp
next
  case (2 call self threshold peer peers cs ps)
  note later = 2(1-4) and loop = 2(5) and keys = 2(6) and dist = 2(7) and old = 2(8)
  have rest: "distinct (map pc_signer_index peers)" "\<forall>p \<in> set ps. pc_signer_index (fst p) \<notin> pc_signer_index ` set peers"
    using dist old by auto
  show ?case
  proof (cases "pc_signer_index peer = self")
    case True
    then show ?thesis using later(1) [OF True _ keys rest] loop by auto
  next
    case other: False
    show ?thesis
    proof (cases "call peer")
      case None
      then show ?thesis using later(2) [OF other None _ _ keys rest] loop other keys by (auto split: if_splits)
    next
      case (Some a)
      show ?thesis
      proof (cases a)
        case None
        then show ?thesis using later(3) [OF other _ None _ keys rest] Some loop other by auto
      next
        case data: (Some data)
        let ?i = "identifierFromIndex (pc_signer_index peer)"
        let ?cs = "map_set ?i (opt_prop data ''commitments'') cs" and ?ps = "ps @ [(peer, opt_prop data ''nonce_id'')]"
        have "?i \<notin> set (map fst cs)" using keys old other by auto
        then have "map_get cs ?i = None" by (simp add: map_get_def map_of_eq_None_iff)
        then have keys': "map fst ?cs = participant_ids self ?ps" using keys by (simp add: map_set_fresh)
        have old': "\<forall>p \<in> set ?ps. pc_signer_index (fst p) \<notin> pc_signer_index ` set peers" using dist old by auto
        show ?thesis
        proof (cases "threshold \<le> of_len ?cs")
          case True
          then show ?thesis using loop other Some data keys' by (auto simp: Let_def)
        next
          case False
          have "round1_loop call self threshold peers ?cs ?ps = (cs', ps')"
            using loop other Some data False by (simp add: Let_def)
          from later(4) [OF other Some data refl refl False this keys' rest(1) old'] show ?thesis
            using other Some data by auto
        qed
      qed
    qed
  qed
qed

lemma round1_loop_bound:
  assumes "round1_loop call self (Fin (of_nat n)) peers cs ps = (cs', ps')" "length cs < n"
  shows "length cs' \<le> n"
  using assms
proof (induction call self "Fin (of_nat n)" peers cs ps arbitrary: cs' ps' rule: round1_loop.induct)
  case (2 call self peer peers cs ps)
  have "length (map_set k v cs) \<le> n" for k :: string and v
    using map_set_length [of k v cs] 2(6) by simp
  with 2 show ?case
    by (auto simp: Let_def of_len_def not_le intro: le_antisym split: if_splits option.splits)
qed simp

lemma round2_loop_keys:
  "fst ` set (round2_loop call ps shares) =
    fst ` set shares \<union> (\<lambda>p. identifierFromIndex (pc_signer_index (fst p))) ` {p \<in> set ps. \<exists>data. call p = Some (Some data)}"
proof (induction ps arbitrary: shares)
  case (Cons p ps)
  then show ?case by (auto simp: map_set_keys split: option.splits)
qed simp

lemma round2_loop_distinct: "distinct (map fst shares) \<Longrightarrow> distinct (map fst (round2_loop call ps shares))"
  by (induction ps arbitrary: shares) (auto simp: map_set_def intro: distinct_update split: option.splits)

lemma round1_loop_distinct:
  "distinct (map fst cs) \<Longrightarrow> distinct (map fst (fst (round1_loop call self threshold peers cs ps)))"
proof (induction call self threshold peers cs ps rule: round1_loop.induct)
  case (2 call self threshold peer peers cs ps)
  have "distinct (map fst (map_set k v cs))" for k :: string and v
    using 2(5) map_set_wf [of cs k v] by (simp add: map_wf_def)
  with 2 show ?case by (auto simp: Let_def split: option.split)
qed simp

text \<open>When the shares are as many as the participants, every participant answered.\<close>

lemma all_answered:
  assumes "distinct (self # map (\<lambda>p. pc_signer_index (fst p)) ps)"
    and "length ps < length (round2_loop call ps [(identifierFromIndex self, v)])"
  shows "fst ` set (round2_loop call ps [(identifierFromIndex self, v)]) = set (participant_ids self ps) \<and>
    (\<forall>p \<in> set ps. \<exists>data. call p = Some (Some data))"
proof -
  let ?sh = "round2_loop call ps [(identifierFromIndex self, v)]"
  let ?id = "\<lambda>p. identifierFromIndex (pc_signer_index (fst p))"
  have keys: "fst ` set ?sh = insert (identifierFromIndex self) (?id ` {p \<in> set ps. \<exists>data. call p = Some (Some data)})"
    by (simp add: round2_loop_keys)
  have "distinct (map fst ?sh)" by (rule round2_loop_distinct) simp
  then have "card (fst ` set ?sh) = length ?sh" by (metis distinct_card length_map set_map)
  moreover have "card (set (participant_ids self ps)) \<le> Suc (length ps)"
    using card_length [of "participant_ids self ps"] by simp
  moreover have "fst ` set ?sh \<subseteq> set (participant_ids self ps)" using keys by auto
  ultimately have eq: "fst ` set ?sh = set (participant_ids self ps)"
    using assms(2) by (intro card_seteq) simp_all
  have "\<exists>data. call p = Some (Some data)" if "p \<in> set ps" for p
  proof -
    have "?id p \<in> fst ` set ?sh" unfolding eq using that by simp
    moreover have "?id p \<noteq> identifierFromIndex self" using assms(1) that by auto
    ultimately have "?id p \<in> ?id ` {p \<in> set ps. \<exists>data. call p = Some (Some data)}" unfolding keys by blast
    then obtain p' where "p' \<in> set ps" "\<exists>data. call p' = Some (Some data)" "pc_signer_index (fst p') = pc_signer_index (fst p)"
      by auto
    then show ?thesis using assms(1) that by (metis distinct.simps(2) distinct_map inj_onD)
  qed
  then show ?thesis using eq by blast
qed


definition ex_agg_executor :: executor where
  "ex_agg_executor = ex_frost_executor\<lparr>
     ex_run := (\<lambda>args. Some (Exited 0 (jprint (\<lambda>r. []) (Object [(''signature'', String ''sig'')])) [])) \<rparr>"

definition ex_peer :: PeerConfig where
  "ex_peer = \<lparr> pc_signer_index = 2, pc_endpoint = ''http://p2'', pc_api_key = None \<rparr>"

definition ex_coordination :: SigningCoordinatorConfig where
  "ex_coordination = \<lparr> co_nodeConfig = ex_node\<lparr> nc_peers := [ex_peer] \<rparr>, co_requirement = Object [], co_input = Object [],
     co_blossomKeys = Undefined, co_escrowToken = Undefined \<rparr>"

definition ex_fetch :: fetch where
  "ex_fetch url headers body = Some (True, Some (Object [(''commitments'', String ''c2''), (''nonce_id'', String ''u2''),
     (''signature_share'', String ''s2'')]))"

lemma ex_agg_run:
  "runFrostCommand sub args None ex_agg_executor =
    Some \<lparr> fc_ok = True, fc_data = Object [(''signature'', String ''sig'')], fc_error = None \<rparr>"
  by (simp add: runFrostCommand_def ex_agg_executor_def ex_frost_executor_def resolveFrostSigner_def findFrostSigner_def
      jparse_print Let_def del: jprint.simps)

lemma ex_coordination_eval:
  "coordinateSigning (\<lambda>r. []) ex_frost_executor ex_frost_executor ex_agg_executor ex_fetch ex_coordination ''m'' =
    Some (Some \<lparr> sg_signature = String ''sig'', sg_signers_participated = [1, 2] \<rparr>)"
  by (simp add: coordinateSigning_def ex_coordination_def ex_node_def ex_peer_def signRound1_def signRound2_def
      aggregateSignatures_def ex_frost_run ex_agg_run cli_data_def call_round1_def call_round2_def peer_answer_def ex_fetch_def
      map_get_def map_set_def of_len_def Let_def del: jprint.simps)


section \<open>The messages the peers are asked to sign\<close>

lemma string_tags_mem: "t \<in> set (readStringTags v) \<longleftrightarrow> (\<exists>vs tag. v = Array vs \<and> tag \<in> set vs \<and> string_tag tag = Some t)"
  by (cases v) (auto simp: List.map_filter_def image_iff)

lemma scan_keeps: "pk \<in> set ks \<Longrightarrow> pk \<in> set (fst (fold scan_tag tags (ks, n)))"
proof (induction tags arbitrary: ks n)
  case (Cons tag tags)
  then show ?case by (auto split: option.splits list.splits)
qed simp

lemma scan_pubkeys:
  "tag \<in> set tags \<Longrightarrow> string_tag tag = Some (''pubkeys'' # rest) \<Longrightarrow> pk \<in> set rest \<Longrightarrow>
    pk \<in> set (fst (fold scan_tag tags (ks, n)))"
proof (induction tags arbitrary: ks n)
  case (Cons t tags)
  show ?case
  proof (cases "t = tag")
    case True
    then show ?thesis using Cons.prems by (auto intro: scan_keeps)
  next
    case False
    then show ?thesis using Cons by (cases "scan_tag t (ks, n)") auto
  qed
qed simp

lemma scan_n_sigs:
  "snd (fold scan_tag tags (ks, n)) =
    (let ns = filter (\<lambda>t. hd_opt t = Some ''n_sigs'' \<and> tl t \<noteq> []) (List.map_filter string_tag tags)
     in if ns = [] then n else hd (tl (last ns)))"
proof (induction tags arbitrary: ks n)
  case (Cons t tags)
  show ?case
    using Cons by (auto simp: List.map_filter_simps Let_def split: option.splits list.splits)
qed (simp add: List.map_filter_simps)

text \<open>The proof states its number of signatures once.\<close>

definition n_sigs_once :: "Proof \<Rightarrow> bool" where
  "n_sigs_once p =
    (case jparse (p_secret p) of
       Some v \<Rightarrow> length (filter (\<lambda>t. hd_opt t = Some ''n_sigs'') (readStringTags (opt_prop (js_index v 1) ''tags''))) \<le> 1
     | None \<Rightarrow> True)"

lemma find_filter: "find P xs = hd_opt (filter P xs)"
  by (induction xs) auto

lemma lock_check_signable:
  assumes "frost_check_proof gpk p pk = None" "n_sigs_once p"
  shows "p2pkSecretRequiresGroup (p_secret p) gpk"
proof -
  obtain vs where parsed: "jparse (p_secret p) = Some (Array vs)"
    using assms(1) by (auto simp: frost_check_proof_def split: option.splits jsval.splits)
  define body where "body = js_index (Array vs) 1"
  define tags where "tags = readStringTags (opt_prop body ''tags'')"
  let ?data = "case opt_prop body ''data'' of String s \<Rightarrow> [s] | _ \<Rightarrow> []"
  have ok: "js_index (Array vs) 0 = String ''P2PK''" "isRecord body"
    "Option.bind (tag_named ''n_sigs'' tags) (\<lambda>t. hd_opt (drop 1 t)) = Some ''2''"
    "list_ex (\<lambda>k. sameXOnlyPubkey k gpk) (lock_pubkeys body)"
    using assms(1) parsed by (auto simp: frost_check_proof_def Let_def body_def tags_def split: if_splits)
  obtain t where t: "filter (\<lambda>t. hd_opt t = Some ''n_sigs'') tags = [t]" "hd_opt (drop 1 t) = Some ''2''"
    using ok(3) assms(2) parsed
    by (cases "filter (\<lambda>t. hd_opt t = Some ''n_sigs'') tags")
      (auto simp: tag_named_def find_filter n_sigs_once_def body_def tags_def)
  then have "tags \<noteq> []" by auto
  then obtain ts where ts: "opt_prop body ''tags'' = Array ts" "tags = List.map_filter string_tag ts"
    unfolding tags_def by (cases "opt_prop body ''tags''") auto
  have "filter (\<lambda>t. hd_opt t = Some ''n_sigs'' \<and> tl t \<noteq> []) tags = [t]"
  proof -
    have "filter (\<lambda>t. tl t \<noteq> []) (filter (\<lambda>t. hd_opt t = Some ''n_sigs'') tags) = [t]"
      using t by (cases t) auto
    then show ?thesis by (simp add: conj_commute)
  qed
  moreover have "hd (tl t) = ''2''" using t(2) by (cases t; cases "tl t") auto
  ultimately have n: "snd (fold scan_tag ts (?data, [])) = ''2''"
    unfolding scan_n_sigs ts(2) [symmetric] by (simp add: Let_def)
  obtain k where k: "k \<in> set (lock_pubkeys body)" "sameXOnlyPubkey k gpk" using ok(4) by (auto simp: list_ex_iff)
  have "k \<in> set (fst (fold scan_tag ts (?data, [])))"
  proof (cases "k \<in> set ?data")
    case True
    then show ?thesis by (rule scan_keeps)
  next
    case False
    then have "k \<in> set (case tag_named ''pubkeys'' tags of None \<Rightarrow> [] | Some t \<Rightarrow> drop 1 t)"
      using k(1) unfolding lock_pubkeys_def tags_def [symmetric] by (simp only: set_append Un_iff) blast
    then obtain u where "tag_named ''pubkeys'' tags = Some u" "k \<in> set (drop 1 u)"
      by (cases "tag_named ''pubkeys'' tags") auto
    then have "hd_opt u = Some ''pubkeys''" "u \<in> set tags"
      unfolding tag_named_def by (auto simp: find_Some_iff)
    then obtain rest where rest: "u = ''pubkeys'' # rest" by (cases u) auto
    obtain tag where "tag \<in> set ts" "string_tag tag = Some u"
      using \<open>u \<in> set tags\<close> ts(1) unfolding tags_def string_tags_mem by auto
    then show ?thesis using \<open>k \<in> set (drop 1 u)\<close> rest by (intro scan_pubkeys) auto
  qed
  then show ?thesis
    using parsed ok(1,2) ts(1) n k(2)
    by (auto simp: p2pkSecretRequiresGroup_def Let_def body_def list_ex_iff split: prod.splits)
qed

definition token_proofs :: "'opt cashu \<Rightarrow> string \<Rightarrow> Proof list option" where
  "token_proofs lib token = map_option snd (c_decode lib token)"

lemma allowed_token_message:
  assumes "decode token = Some proofs" "token \<noteq> []" "tokenMatchesFrostP2pkLock decode token gpk"
    and "opt_prop req ''escrow_token_hash'' = String (sha token)" "sha token \<noteq> []" "p \<in> set proofs"
  shows "isAllowedSigningMessage fstr sha decode (String (sha (p_secret p))) req (String token) gpk"
  using assms by (auto simp: isAllowedSigningMessage_def deriveFrostEscrowTokenHash_def deriveFrostP2pkMessages_def)

lemma adapter_fields:
  "opt_prop (co_requirement (adapter_config sha node q r bk)) ''id'' = String (q_id q)"
  "opt_prop (co_requirement (adapter_config sha node q r bk)) ''escrow_token_hash'' =
    ostr_value (vr_escrow_token_hash (requestToRequirement sha q))"
  "co_escrowToken (adapter_config sha node q r bk) = ostr_value (adapter_token q)"
  by (simp_all add: adapter_config_def requirement_value_def requestToRequirement_def map_get_def)


definition ex_frost_query :: Query where
  "ex_frost_query = ex_query\<lparr> q_escrow := Some ((ex_escrow None)\<lparr> e_type := P2pk_frost ''grp'', e_escrow_token := Some ''token'' \<rparr>) \<rparr>"

lemma ex_n_sigs_once: "n_sigs_once (ex_locked_proof ex_frost_secret)"
proof -
  have "jparse (p_secret (ex_locked_proof ex_frost_secret)) = Some ex_frost_secret"
    unfolding ex_locked_proof_def Proof.simps
    by (rule jparse_print) (simp add: ex_frost_secret_def ex_secret_val_def)
  then show ?thesis
    by (simp add: n_sigs_once_def ex_frost_secret_def ex_secret_val_def map_get_def map_filter_simps)
qed


lemma sign_messages_all:
  "sign_messages coordinate ms acc = Some (Some sigs) \<Longrightarrow>
    \<exists>rs. sigs = acc @ map sg_signature rs \<and> map coordinate ms = map (\<lambda>r. Some (Some r)) rs"
proof (induction ms arbitrary: acc)
  case (Cons m ms)
  then obtain r where r: "coordinate m = Some (Some r)" "sign_messages coordinate ms (acc @ [sg_signature r]) = Some (Some sigs)"
    by (auto split: option.splits)
  from Cons.IH [OF this(2)] obtain rs where "sigs = (acc @ [sg_signature r]) @ map sg_signature rs"
    "map coordinate ms = map (\<lambda>r. Some (Some r)) rs" by blast
  then show ?case using r(1) by (intro exI [of _ "r # rs"]) simp
qed simp

text \<open>The signatures the adapter returns fit the token: there is one for each message in order, each
  the result of a signing coordination over that message, and for a FROST escrow they are as many as the
  token has proofs, so that appending them to the proofs of the token succeeds.\<close>

theorem requested_signatures_fit:
  assumes "requestSignature sha decode coordinate node q r bk = Some (Some sigs)"
  shows "\<exists>ms rs. adapter_messages sha decode q = Some ms \<and> sigs = map sg_signature rs \<and>
    map (coordinate (adapter_config sha node q r bk)) ms = map (\<lambda>r. Some (Some r)) rs \<and>
    (\<forall>token proofs. adapter_token q = Some token \<and> token \<noteq> [] \<and> decode token = Some proofs \<longrightarrow>
       (\<forall>strs. sigs = map String strs \<longrightarrow> appendFrostP2PKGroupSignatures fstr proofs strs \<noteq> None))"
proof -
  obtain ms where ms: "adapter_messages sha decode q = Some ms"
    "sign_messages (coordinate (adapter_config sha node q r bk)) ms [] = Some (Some sigs)"
    using assms by (auto simp: requestSignature_def split: option.splits)
  from sign_messages_all [OF this(2)] obtain rs where rs: "sigs = map sg_signature rs"
    "map (coordinate (adapter_config sha node q r bk)) ms = map (\<lambda>r. Some (Some r)) rs" by auto
  have "length ms = length rs" using rs(2) by (metis length_map)
  then have "length proofs = length strs"
    if "adapter_token q = Some token" "token \<noteq> []" "decode token = Some proofs" "sigs = map String strs" for token proofs strs
    using that ms(1) rs(1) by (auto simp: adapter_messages_def deriveFrostP2pkMessages_def dest: arg_cong [of _ _ length])
  then show ?thesis using ms(1) rs by (auto simp: appendFrostP2PKGroupSignatures_def)
qed

theorem requested_signatures_fit_witness:
  "appendFrostP2PKGroupSignatures (\<lambda>r. []) [ex_locked_proof ex_frost_secret] [''sig''] \<noteq> None"
proof -
  have req: "requestSignature (\<lambda>t. t) (token_proofs (ex_locked_lib [ex_locked_proof ex_frost_secret]))
      (\<lambda>c m. Some (Some \<lparr> sg_signature = String ''sig'', sg_signers_participated = [1, 2] \<rparr>)) ex_node ex_frost_query
      ex_result None = Some (Some [String ''sig''])"
    by (simp add: requestSignature_def adapter_messages_def adapter_token_def ex_frost_query_def token_proofs_def
        ex_locked_lib_def deriveFrostP2pkMessages_def)
  have tok: "adapter_token ex_frost_query = Some ''token''" "''token'' \<noteq> []"
    "token_proofs (ex_locked_lib [ex_locked_proof ex_frost_secret]) ''token'' = Some [ex_locked_proof ex_frost_secret]"
    "[String ''sig''] = map String [''sig'']"
    by (simp_all add: adapter_token_def ex_frost_query_def token_proofs_def ex_locked_lib_def)
  have fit: "\<forall>token proofs. adapter_token ex_frost_query = Some token \<and> token \<noteq> [] \<and>
        token_proofs (ex_locked_lib [ex_locked_proof ex_frost_secret]) token = Some proofs \<longrightarrow>
       (\<forall>strs. [String ''sig''] = map String strs \<longrightarrow> appendFrostP2PKGroupSignatures (\<lambda>r. []) proofs strs \<noteq> None)"
    using requested_signatures_fit [OF req, where fstr = "\<lambda>r. []"] by (elim exE conjE)
  show ?thesis using fit [rule_format, OF conjI [OF tok(1) conjI [OF tok(2,3)]] tok(4)] .
qed

end
