(* ===== verification/Frost_Coordinator.thy ===== *)
theory Frost_Coordinator
  imports Frost_Signing Preimage_Store
begin

text \<open>
  The coordinator of key generation and signing sessions (\<open>payments/frost/frost-coordinator.ts\<close>,
  \<open>frost-types.ts\<close>) and its HTTP routes (\<open>adapters/oracle-service/frost-sign-routes.ts\<close>,
  \<open>frost-dkg-routes.ts\<close>).  A session is a mutable object shared through the maps; since a session is
  entered into its map once, under a new identifier, the model keeps the object in the map entry.  A
  synchronous call reads the clock once.  Request bodies are taken at their declared types, an absent
  field or a body that does not parse being \<open>None\<close>.
\<close>

section \<open>Sessions (frost-types.ts)\<close>

record ThresholdOracleConfig =
  tc_threshold :: jsnum
  tc_total_signers :: jsnum
  tc_signer_pubkeys :: "string list"
  tc_group_pubkey :: string

record FrostSigningSession =
  ss_session_id :: string
  ss_query_id :: string
  ss_config :: ThresholdOracleConfig
  ss_message :: string
  ss_nonce_commitments :: "(string, string) jsmap"
  ss_signature_shares :: "(string, string) jsmap"
  ss_group_signature :: jsval
  ss_finalized :: bool
  ss_created_at :: jsnum

record DkgSession =
  dk_session_id :: string
  dk_threshold :: jsnum
  dk_total_signers :: jsnum
  dk_current_round :: nat
  dk_round1_packages :: "(jsnum, string) jsmap"
  dk_round1_secret_packages :: "(jsnum, string) jsmap"
  dk_round2_packages :: "(jsnum, (jsnum, jsval) jsmap) jsmap"
  dk_round2_secret_packages :: "(jsnum, string) jsmap"
  dk_key_packages :: "(jsnum, string) jsmap"
  dk_pubkey_package :: jsval
  dk_group_pubkey :: jsval
  dk_created_at :: jsnum

record DkgRoundResult =
  dr_round :: nat
  dr_complete :: bool
  dr_group_pubkey :: jsval
  dr_pubkey_package :: jsval

definition toThresholdOracleConfig :: "FrostNodeConfig \<Rightarrow> ThresholdOracleConfig" where
  "toThresholdOracleConfig config =
    \<lparr> tc_threshold = nc_threshold config, tc_total_signers = nc_total_signers config,
      tc_signer_pubkeys = map (\<lambda>p. nat_str (pc_signer_index p)) (nc_peers config),
      tc_group_pubkey = nc_group_pubkey config \<rparr>"

section \<open>The coordinator (frost-coordinator.ts)\<close>

record frost_coordinator =
  fk_dkgSessions :: "(string, DkgSession) jsmap"
  fk_signingSessions :: "(string, FrostSigningSession) jsmap"
  fk_querySessionMap :: "(string, string) jsmap"

definition generateSessionId :: "(rat \<Rightarrow> string) \<Rightarrow> jsnum \<Rightarrow> 8 word list \<Rightarrow> string" where
  "generateSessionId fstr now random = ''frost_'' @ js_num_str fstr now @ ''_'' @ hex_string random"

definition FROST_SESSION_TTL_MS :: jsnum where
  "FROST_SESSION_TTL_MS = 1800000"

definition FROST_FINALIZED_RETENTION_MS :: jsnum where
  "FROST_FINALIZED_RETENTION_MS = 60000"

definition stale :: "jsnum \<Rightarrow> FrostSigningSession \<Rightarrow> bool" where
  "stale now session =
    (ss_created_at session < now - FROST_SESSION_TTL_MS \<or>
     (ss_finalized session \<and> ss_created_at session < now - FROST_FINALIZED_RETENTION_MS))"

definition evict_dkg :: "jsnum \<Rightarrow> string \<times> DkgSession \<Rightarrow> (string, DkgSession) jsmap \<Rightarrow> (string, DkgSession) jsmap" where
  "evict_dkg now e m =
    (case e of (i, session) \<Rightarrow> if dk_created_at session < now - FROST_SESSION_TTL_MS then map_delete i m else m)"

definition evict_signing ::
    "jsnum \<Rightarrow> string \<times> FrostSigningSession \<Rightarrow> (string, FrostSigningSession) jsmap \<times> (string, string) jsmap \<Rightarrow>
     (string, FrostSigningSession) jsmap \<times> (string, string) jsmap" where
  "evict_signing now e st =
    (case (e, st) of ((i, session), (sessions, queries)) \<Rightarrow>
       if stale now session
       then (map_delete i sessions,
             if map_get queries (ss_query_id session) = Some i then map_delete (ss_query_id session) queries else queries)
       else (sessions, queries))"

definition evictStaleSessions :: "jsnum \<Rightarrow> frost_coordinator \<Rightarrow> frost_coordinator" where
  "evictStaleSessions now st =
    (let dkg = fold (evict_dkg now) (map_entries (fk_dkgSessions st)) (fk_dkgSessions st);
         (sessions, queries) = fold (evict_signing now) (map_entries (fk_signingSessions st))
                                 (fk_signingSessions st, fk_querySessionMap st)
     in \<lparr> fk_dkgSessions = dkg, fk_signingSessions = sessions, fk_querySessionMap = queries \<rparr>)"

definition initDkg :: "jsnum \<Rightarrow> string \<Rightarrow> jsnum \<Rightarrow> jsnum \<Rightarrow> frost_coordinator \<Rightarrow> DkgSession \<times> frost_coordinator" where
  "initDkg now sid threshold totalSigners st =
    (let st1 = evictStaleSessions now st;
         session = \<lparr> dk_session_id = sid, dk_threshold = threshold, dk_total_signers = totalSigners, dk_current_round = 0,
           dk_round1_packages = [], dk_round1_secret_packages = [], dk_round2_packages = [],
           dk_round2_secret_packages = [], dk_key_packages = [], dk_pubkey_package = Undefined,
           dk_group_pubkey = Undefined, dk_created_at = now \<rparr>
     in (session, st1\<lparr> fk_dkgSessions := map_set sid session (fk_dkgSessions st1) \<rparr>))"

text \<open>\<open>Object.entries(v)\<close>; \<open>None\<close> is the exception on \<open>null\<close>.\<close>

fun js_entries :: "jsval \<Rightarrow> (string \<times> jsval) list option" where
  "js_entries Undefined = None"
| "js_entries Null = None"
| "js_entries (Object ms) = Some ms"
| "js_entries (Array vs) = Some (map (\<lambda>i. (nat_str i, vs ! i)) [0..<length vs])"
| "js_entries (String s) = Some (map (\<lambda>i. (nat_str i, String [s ! i])) [0..<length s])"
| "js_entries _ = Some []"

definition set_secret :: "jsnum \<Rightarrow> string option \<Rightarrow> (jsnum, string) jsmap \<Rightarrow> (jsnum, string) jsmap" where
  "set_secret signerIndex secret m = (if ostr_truthy secret then map_set signerIndex (the secret) m else m)"

definition dkg_incomplete :: "nat \<Rightarrow> DkgRoundResult" where
  "dkg_incomplete round' =
    \<lparr> dr_round = round', dr_complete = False, dr_group_pubkey = Undefined, dr_pubkey_package = Undefined \<rparr>"

definition dkg_round1 :: "jsnum \<Rightarrow> string \<Rightarrow> string option \<Rightarrow> DkgSession \<Rightarrow> DkgRoundResult \<times> DkgSession" where
  "dkg_round1 signerIndex packageJson secret session =
    (let s1 = session\<lparr> dk_round1_packages := map_set signerIndex packageJson (dk_round1_packages session),
                       dk_round1_secret_packages := set_secret signerIndex secret (dk_round1_secret_packages session) \<rparr>
     in if dk_total_signers s1 \<le> of_len (dk_round1_packages s1)
        then ((dkg_incomplete 1)\<lparr> dr_complete := True \<rparr>, s1\<lparr> dk_current_round := 1 \<rparr>)
        else (dkg_incomplete 1, s1))"

definition dkg_round2 ::
    "jsnum \<Rightarrow> (string \<times> jsval) list \<Rightarrow> string option \<Rightarrow> DkgSession \<Rightarrow> DkgRoundResult \<times> DkgSession" where
  "dkg_round2 signerIndex entries secret session =
    (let pkgMap = fold (\<lambda>(idx, pkg). map_set (js_to_number (String idx)) pkg) entries [];
         s1 = session\<lparr> dk_round2_packages := map_set signerIndex pkgMap (dk_round2_packages session),
                       dk_round2_secret_packages := set_secret signerIndex secret (dk_round2_secret_packages session) \<rparr>
     in if dk_total_signers s1 \<le> of_len (dk_round2_packages s1)
        then ((dkg_incomplete 2)\<lparr> dr_complete := True \<rparr>, s1\<lparr> dk_current_round := 2 \<rparr>)
        else (dkg_incomplete 2, s1))"

definition first_value :: "jsval \<Rightarrow> jsval \<Rightarrow> jsval" where
  "first_value new old = (if jsval_truthy new \<and> \<not> jsval_truthy old then new else old)"

definition dkg_round3 :: "jsnum \<Rightarrow> string \<Rightarrow> DkgSession \<Rightarrow> DkgRoundResult \<times> DkgSession" where
  "dkg_round3 signerIndex packageJson session =
    (let s1 = session\<lparr> dk_key_packages := map_set signerIndex packageJson (dk_key_packages session) \<rparr>;
         s2 = (case jparse packageJson of
                 None \<Rightarrow> s1
               | Some parsed \<Rightarrow>
                 if no_props parsed then s1
                 else s1\<lparr> dk_group_pubkey := first_value (opt_prop parsed ''group_pubkey'') (dk_group_pubkey s1),
                          dk_pubkey_package := first_value (opt_prop parsed ''pubkey_package'') (dk_pubkey_package s1) \<rparr>)
     in if dk_total_signers s2 \<le> of_len (dk_key_packages s2)
        then (\<lparr> dr_round = 3, dr_complete = True, dr_group_pubkey = dk_group_pubkey s2,
                dr_pubkey_package = dk_pubkey_package s2 \<rparr>, s2\<lparr> dk_current_round := 3 \<rparr>)
        else (dkg_incomplete 3, s2))"

text \<open>\<open>None\<close>: the promise is rejected; \<open>Some None\<close>: it resolves to \<open>null\<close>.\<close>

definition submitDkgPackage ::
    "string \<Rightarrow> nat \<Rightarrow> jsnum \<Rightarrow> string \<Rightarrow> string option \<Rightarrow> frost_coordinator \<Rightarrow>
     DkgRoundResult option option \<times> frost_coordinator" where
  "submitDkgPackage sessionId round' signerIndex packageJson secret st =
    (case map_get (fk_dkgSessions st) sessionId of
       None \<Rightarrow> (Some None, st)
     | Some session \<Rightarrow>
       let put = (\<lambda>(r, s). (Some (Some r), st\<lparr> fk_dkgSessions := map_set sessionId s (fk_dkgSessions st) \<rparr>)) in
       if round' = 1 then put (dkg_round1 signerIndex packageJson secret session)
       else if round' = 2 then
         (case Option.bind (jparse packageJson) js_entries of
            None \<Rightarrow> (None, st)
          | Some entries \<Rightarrow> put (dkg_round2 signerIndex entries secret session))
       else if round' = 3 then put (dkg_round3 signerIndex packageJson session)
       else (Some None, st))"

definition getDkgSession :: "frost_coordinator \<Rightarrow> string \<Rightarrow> DkgSession option" where
  "getDkgSession st sessionId = map_get (fk_dkgSessions st) sessionId"

definition startSigning ::
    "jsnum \<Rightarrow> string \<Rightarrow> string \<Rightarrow> string \<Rightarrow> ThresholdOracleConfig \<Rightarrow> frost_coordinator \<Rightarrow>
     FrostSigningSession \<times> frost_coordinator" where
  "startSigning now sid queryId message config st =
    (let st1 = evictStaleSessions now st;
         session = \<lparr> ss_session_id = sid, ss_query_id = queryId, ss_config = config, ss_message = message,
           ss_nonce_commitments = [], ss_signature_shares = [], ss_group_signature = Undefined,
           ss_finalized = False, ss_created_at = now \<rparr>
     in (session, st1\<lparr> fk_signingSessions := map_set sid session (fk_signingSessions st1),
                       fk_querySessionMap := map_set queryId sid (fk_querySessionMap st1) \<rparr>))"

definition open_session :: "frost_coordinator \<Rightarrow> string \<Rightarrow> FrostSigningSession option" where
  "open_session st sessionId =
    (case map_get (fk_signingSessions st) sessionId of
       None \<Rightarrow> None
     | Some session \<Rightarrow> if ss_finalized session then None else Some session)"

definition put_session :: "string \<Rightarrow> FrostSigningSession \<Rightarrow> frost_coordinator \<Rightarrow> frost_coordinator" where
  "put_session sessionId session st =
    st\<lparr> fk_signingSessions := map_set sessionId session (fk_signingSessions st) \<rparr>"

definition submitNonceCommitment :: "string \<Rightarrow> string \<Rightarrow> string \<Rightarrow> frost_coordinator \<Rightarrow> frost_coordinator" where
  "submitNonceCommitment sessionId signerPubkey commitment st =
    (case open_session st sessionId of
       None \<Rightarrow> st
     | Some session \<Rightarrow> put_session sessionId
         (session\<lparr> ss_nonce_commitments := map_set signerPubkey commitment (ss_nonce_commitments session) \<rparr>) st)"

definition submitSignatureShare :: "string \<Rightarrow> string \<Rightarrow> string \<Rightarrow> frost_coordinator \<Rightarrow> frost_coordinator" where
  "submitSignatureShare sessionId signerPubkey share st =
    (case open_session st sessionId of
       None \<Rightarrow> st
     | Some session \<Rightarrow> put_session sessionId
         (session\<lparr> ss_signature_shares := map_set signerPubkey share (ss_signature_shares session) \<rparr>) st)"

definition strings_object :: "(string, string) jsmap \<Rightarrow> jsval" where
  "strings_object m = Object (map (\<lambda>(k, v). (k, String v)) m)"

text \<open>\<open>tryAggregate\<close> up to its awaited call: the session to aggregate; and after it.\<close>

definition aggregate_begin :: "string \<Rightarrow> frost_coordinator \<Rightarrow> FrostSigningSession option" where
  "aggregate_begin sessionId st =
    (case open_session st sessionId of
       None \<Rightarrow> None
     | Some session \<Rightarrow>
         if of_len (ss_signature_shares session) < tc_threshold (ss_config session) then None else Some session)"

definition aggregate_call ::
    "(rat \<Rightarrow> string) \<Rightarrow> executor \<Rightarrow> FrostSigningSession \<Rightarrow> string option \<Rightarrow> FrostCliResult option" where
  "aggregate_call fstr executor session pubkeyPackage =
    aggregateSignatures (tc_group_pubkey (ss_config session))
      (String (jprint fstr (strings_object (ss_nonce_commitments session)))) (String (ss_message session))
      (String (jprint fstr (strings_object (ss_signature_shares session))))
      (String (case pubkeyPackage of None \<Rightarrow> [] | Some p \<Rightarrow> p)) None executor"

definition aggregate_finish ::
    "string \<Rightarrow> FrostCliResult \<Rightarrow> frost_coordinator \<Rightarrow> jsval option \<times> frost_coordinator" where
  "aggregate_finish sessionId result st =
    (let signature = opt_prop (fc_data result) ''signature'' in
     if \<not> fc_ok result \<or> \<not> jsval_truthy signature then (None, st)
     else (Some signature,
           case map_get (fk_signingSessions st) sessionId of
             None \<Rightarrow> st
           | Some session \<Rightarrow>
               put_session sessionId (session\<lparr> ss_group_signature := signature, ss_finalized := True \<rparr>) st))"

definition tryAggregate ::
    "(rat \<Rightarrow> string) \<Rightarrow> executor \<Rightarrow> string \<Rightarrow> string option \<Rightarrow> frost_coordinator \<Rightarrow>
     jsval option option \<times> frost_coordinator" where
  "tryAggregate fstr executor sessionId pubkeyPackage st =
    (case aggregate_begin sessionId st of
       None \<Rightarrow> (Some None, st)
     | Some session \<Rightarrow>
       (case aggregate_call fstr executor session pubkeyPackage of
          None \<Rightarrow> (None, st)
        | Some result \<Rightarrow> (case aggregate_finish sessionId result st of (r, st') \<Rightarrow> (Some r, st'))))"

definition getSigningSession :: "frost_coordinator \<Rightarrow> string \<Rightarrow> FrostSigningSession option" where
  "getSigningSession st sessionId = map_get (fk_signingSessions st) sessionId"

section \<open>Signing routes (frost-sign-routes.ts)\<close>

definition num_value :: "'a list \<Rightarrow> jsval" where
  "num_value xs = Number (of_len xs)"

definition sign_start ::
    "ThresholdOracleConfig option \<Rightarrow> jsnum \<Rightarrow> string \<Rightarrow> string \<Rightarrow> string option \<Rightarrow> frost_coordinator \<Rightarrow> http \<times> frost_coordinator" where
  "sign_start frostConfig now sid queryId message st =
    (if \<not> ostr_truthy message then (http_error 400 ''Missing message'', st)
     else case frostConfig of
            None \<Rightarrow> (http_error 503 ''FROST not configured'', st)
          | Some config \<Rightarrow>
            (case startSigning now sid queryId (the message) config st of
               (session, st') \<Rightarrow>
                 (Http 201 (Object [(''session_id'', String (ss_session_id session)), (''query_id'', String (ss_query_id session)),
                     (''message'', String (ss_message session)), (''threshold'', Number (tc_threshold (ss_config session)))]), st')))"

record sign_body =
  sb_session_id :: "string option"
  sb_signer_pubkey :: "string option"
  sb_payload :: "string option"

definition body_complete :: "sign_body \<Rightarrow> bool" where
  "body_complete b = (ostr_truthy (sb_session_id b) \<and> ostr_truthy (sb_signer_pubkey b) \<and> ostr_truthy (sb_payload b))"

definition session_threshold :: "FrostSigningSession option \<Rightarrow> jsval" where
  "session_threshold session = Number (case session of None \<Rightarrow> 0 | Some s \<Rightarrow> tc_threshold (ss_config s))"

definition sign_commitments :: "sign_body \<Rightarrow> frost_coordinator \<Rightarrow> http \<times> frost_coordinator" where
  "sign_commitments b st =
    (if \<not> body_complete b then (http_error 400 ''Missing session_id, signer_pubkey, or commitment'', st)
     else let st' = submitNonceCommitment (the (sb_session_id b)) (the (sb_signer_pubkey b)) (the (sb_payload b)) st;
              session = getSigningSession st' (the (sb_session_id b))
          in (Http 200 (Object
               [(''commitments_count'', case session of None \<Rightarrow> Number 0 | Some s \<Rightarrow> num_value (ss_nonce_commitments s)),
                (''threshold'', session_threshold session)]), st'))"

definition shares_count :: "FrostSigningSession option \<Rightarrow> jsval" where
  "shares_count session = (case session of None \<Rightarrow> Number 0 | Some s \<Rightarrow> num_value (ss_signature_shares s))"

text \<open>\<open>None\<close>: the aggregation rejects and the handler throws.\<close>

definition sign_shares ::
    "(rat \<Rightarrow> string) \<Rightarrow> executor \<Rightarrow> sign_body \<Rightarrow> frost_coordinator \<Rightarrow> http option \<times> frost_coordinator" where
  "sign_shares fstr executor b st =
    (if \<not> body_complete b then (Some (http_error 400 ''Missing session_id, signer_pubkey, or share''), st)
     else let sid = the (sb_session_id b);
              st1 = submitSignatureShare sid (the (sb_signer_pubkey b)) (the (sb_payload b)) st;
              session = getSigningSession st1 sid;
              pending = Http 200 (Object [(''shares_count'', shares_count session), (''threshold'', session_threshold session),
                                          (''finalized'', Bool False)])
          in case session of
               None \<Rightarrow> (Some pending, st1)
             | Some s \<Rightarrow>
               if tc_threshold (ss_config s) \<le> of_len (ss_signature_shares s)
               then (case tryAggregate fstr executor sid None st1 of
                       (None, st2) \<Rightarrow> (None, st2)
                     | (Some None, st2) \<Rightarrow> (Some pending, st2)
                     | (Some (Some signature), st2) \<Rightarrow>
                         (Some (Http 200 (Object [(''shares_count'', shares_count session), (''threshold'', session_threshold session),
                            (''finalized'', Bool True), (''signature'', signature)])), st2))
               else (Some pending, st1))"

definition sign_get :: "string \<Rightarrow> frost_coordinator \<Rightarrow> http" where
  "sign_get queryId st =
    (case getSigningSession st queryId of
       None \<Rightarrow> http_error 404 ''Signing session not found''
     | Some found \<Rightarrow> Http 200 (Object
         [(''session_id'', String (ss_session_id found)), (''query_id'', String (ss_query_id found)),
          (''message'', String (ss_message found)), (''threshold'', Number (tc_threshold (ss_config found))),
          (''commitments_count'', num_value (ss_nonce_commitments found)),
          (''shares_count'', num_value (ss_signature_shares found)), (''finalized'', Bool (ss_finalized found)),
          (''signature'', ss_group_signature found)]))"

section \<open>Key generation routes (frost-dkg-routes.ts)\<close>

definition dkg_init :: "jsnum \<Rightarrow> string \<Rightarrow> jsnum option \<Rightarrow> jsnum option \<Rightarrow> frost_coordinator \<Rightarrow> http \<times> frost_coordinator" where
  "dkg_init now sid threshold totalSigners st =
    (if \<not> onum_truthy threshold \<or> \<not> onum_truthy totalSigners then (http_error 400 ''Missing threshold or total'', st)
     else if the totalSigners < the threshold then (http_error 400 ''threshold cannot exceed total'', st)
     else case initDkg now sid (the threshold) (the totalSigners) st of
            (session, st') \<Rightarrow>
              (Http 201 (Object [(''session_id'', String (dk_session_id session)), (''threshold'', Number (dk_threshold session)),
                 (''total_signers'', Number (dk_total_signers session)),
                 (''current_round'', Number (Fin (of_nat (dk_current_round session))))]), st'))"

definition dkg_result_value :: "DkgRoundResult \<Rightarrow> jsval" where
  "dkg_result_value r = Object
    [(''round'', Number (Fin (of_nat (dr_round r)))), (''complete'', Bool (dr_complete r)),
     (''group_pubkey'', dr_group_pubkey r), (''pubkey_package'', dr_pubkey_package r)]"

definition dkg_round ::
    "string \<Rightarrow> string \<Rightarrow> jsnum option \<Rightarrow> string option \<Rightarrow> string option \<Rightarrow> frost_coordinator \<Rightarrow> http option \<times> frost_coordinator" where
  "dkg_round sessionId n signer_index package secret_package st =
    (case find (\<lambda>r. num_eq (js_to_number (String n)) (Fin (of_nat r))) [1, 2, 3] of
       None \<Rightarrow> (Some (http_error 400 ''Round must be 1, 2, or 3''), st)
     | Some round' \<Rightarrow>
       if \<not> onum_truthy signer_index \<or> \<not> ostr_truthy package
       then (Some (http_error 400 ''Missing signer_index or package''), st)
       else case submitDkgPackage sessionId round' (the signer_index) (the package) secret_package st of
              (None, st') \<Rightarrow> (None, st')
            | (Some None, st') \<Rightarrow> (Some (http_error 404 ''DKG session not found''), st')
            | (Some (Some result), st') \<Rightarrow> (Some (Http 200 (dkg_result_value result)), st'))"

definition dkg_get :: "string \<Rightarrow> frost_coordinator \<Rightarrow> http" where
  "dkg_get sessionId st =
    (case getDkgSession st sessionId of
       None \<Rightarrow> http_error 404 ''Session not found''
     | Some session \<Rightarrow> Http 200 (Object
         [(''session_id'', String (dk_session_id session)), (''threshold'', Number (dk_threshold session)),
          (''total_signers'', Number (dk_total_signers session)),
          (''current_round'', Number (Fin (of_nat (dk_current_round session)))),
          (''group_pubkey'', dk_group_pubkey session), (''round1_count'', num_value (dk_round1_packages session)),
          (''round2_count'', num_value (dk_round2_packages session)),
          (''key_packages_count'', num_value (dk_key_packages session))]))"

end
