(* ===== verification/Frost_Coordinator_Properties.thy ===== *)
theory Frost_Coordinator_Properties
  imports Frost_Coordinator
begin

text \<open>
  The coordinator as a state machine: its calls are steps, an aggregation being split at its awaited call
  so that other calls come between.  Shown are the invariant of the session maps, what eviction removes,
  and that a finalized session is frozen.
\<close>

section \<open>Eviction\<close>

lemma map_get_Cons: "map_get ((j, v) # m) k = (if k = j then Some v else map_get m k)"
  by (simp add: map_get_def)

lemma evict_signing_fold:
  assumes "distinct (map fst es)"
  shows "map_get (fst (fold (evict_signing now) es (ss, qs))) i =
      (case map_get es i of Some s \<Rightarrow> if stale now s then None else map_get ss i | None \<Rightarrow> map_get ss i) \<and>
    map_get (snd (fold (evict_signing now) es (ss, qs))) q =
      (case map_get qs q of
         None \<Rightarrow> None
       | Some j \<Rightarrow> (case map_get es j of
                      Some s \<Rightarrow> if stale now s \<and> ss_query_id s = q then None else Some j
                    | None \<Rightarrow> Some j))"
  using assms
proof (induction es arbitrary: ss qs)
  case (Cons e es)
  obtain j s where e: "e = (j, s)" by (cases e)
  have fresh: "map_get es j = None" "distinct (map fst es)"
    using Cons.prems e by (simp_all add: map_get_def map_of_eq_None_iff)
  show ?case
    using fresh Cons.IH
    by (cases "stale now s") (auto simp: e evict_signing_def map_get_Cons split: option.splits)
qed (simp split: option.split)

lemma evict_signing_wf:
  assumes "map_wf ss" "map_wf qs"
  shows "map_wf (fst (fold (evict_signing now) es (ss, qs))) \<and> map_wf (snd (fold (evict_signing now) es (ss, qs)))"
  using assms
proof (induction es arbitrary: ss qs)
  case (Cons e es)
  then show ?case by (cases e) (simp add: evict_signing_def)
qed simp

lemma evict_fields:
  "fk_signingSessions (evictStaleSessions now st) =
    fst (fold (evict_signing now) (fk_signingSessions st) (fk_signingSessions st, fk_querySessionMap st))"
  "fk_querySessionMap (evictStaleSessions now st) =
    snd (fold (evict_signing now) (fk_signingSessions st) (fk_signingSessions st, fk_querySessionMap st))"
  by (simp_all add: evictStaleSessions_def Let_def map_entries_def split_def)

lemma evict_get:
  assumes "map_wf (fk_signingSessions st)"
  shows "map_get (fk_signingSessions (evictStaleSessions now st)) i =
      (case map_get (fk_signingSessions st) i of Some s \<Rightarrow> if stale now s then None else Some s | None \<Rightarrow> None)"
    and "map_get (fk_querySessionMap (evictStaleSessions now st)) q =
      (case map_get (fk_querySessionMap st) q of
         None \<Rightarrow> None
       | Some j \<Rightarrow> (case map_get (fk_signingSessions st) j of
                      Some s \<Rightarrow> if stale now s \<and> ss_query_id s = q then None else Some j
                    | None \<Rightarrow> Some j))"
  using assms evict_signing_fold [of "fk_signingSessions st" now "fk_signingSessions st" "fk_querySessionMap st" i q]
  by (simp_all add: evict_fields map_wf_def split: option.splits)

section \<open>Steps\<close>

inductive coord_step :: "frost_coordinator \<times> string list \<Rightarrow> frost_coordinator \<times> string list \<Rightarrow> bool" where
  start: "map_get (fk_signingSessions st) sid = None \<Longrightarrow> sid \<notin> set fl \<Longrightarrow>
    coord_step (st, fl) (snd (startSigning now sid queryId message config st), fl)"
| commit: "coord_step (st, fl) (submitNonceCommitment sid pk c st, fl)"
| share: "coord_step (st, fl) (submitSignatureShare sid pk c st, fl)"
| aggregate: "aggregate_begin sid st = Some session \<Longrightarrow> coord_step (st, fl) (st, sid # fl)"
| aggregated: "sid \<in> set fl \<Longrightarrow> coord_step (st, fl) (snd (aggregate_finish sid result st), remove1 sid fl)"
| dkg_start: "coord_step (st, fl) (snd (initDkg now sid threshold n st), fl)"
| dkg_package: "coord_step (st, fl) (snd (submitDkgPackage sid r i p secret st), fl)"

definition session_ok :: "string list \<Rightarrow> string \<Rightarrow> FrostSigningSession \<Rightarrow> bool" where
  "session_ok fl sid s =
    (ss_session_id s = sid \<and>
     (ss_finalized s \<longrightarrow> jsval_truthy (ss_group_signature s)) \<and>
     (ss_finalized s \<or> sid \<in> set fl \<longrightarrow> \<not> of_len (ss_signature_shares s) < tc_threshold (ss_config s)))"

definition coord_inv :: "frost_coordinator \<times> string list \<Rightarrow> bool" where
  "coord_inv c = (case c of (st, fl) \<Rightarrow>
     map_wf (fk_signingSessions st) \<and> map_wf (fk_querySessionMap st) \<and>
     (\<forall>sid s. map_get (fk_signingSessions st) sid = Some s \<longrightarrow> session_ok fl sid s) \<and>
     (\<forall>q sid. map_get (fk_querySessionMap st) q = Some sid \<longrightarrow>
        (\<exists>s. map_get (fk_signingSessions st) sid = Some s \<and> ss_query_id s = q)))"

lemma map_set_size: "length m \<le> length (map_set k v m)"
  unfolding map_set_def by (induction m) auto

lemma of_len_mono: "length xs \<le> length ys \<Longrightarrow> of_len ys < t \<Longrightarrow> of_len xs < t"
  by (cases t) (auto simp: of_len_def)

lemma of_len_map_set: "\<not> of_len m < t \<Longrightarrow> \<not> of_len (map_set k v m) < t"
  by (erule contrapos_nn) (rule of_len_mono [OF map_set_size])

lemma coord_inv_put:
  assumes "coord_inv (st, fl)" "map_get (fk_signingSessions st) sid = Some s"
    and "session_ok fl' sid s'" "ss_query_id s' = ss_query_id s" "set fl' \<subseteq> set fl"
  shows "coord_inv (put_session sid s' st, fl')"
  using assms by (fastforce simp: coord_inv_def put_session_def session_ok_def)

lemma coord_inv_tasks: "coord_inv (st, fl) \<Longrightarrow> set fl' \<subseteq> set fl \<Longrightarrow> coord_inv (st, fl')"
  unfolding coord_inv_def session_ok_def by (fastforce split: prod.splits)

lemma coord_inv_sessions:
  assumes "coord_inv (st, fl)" "fk_signingSessions st' = fk_signingSessions st" "fk_querySessionMap st' = fk_querySessionMap st"
  shows "coord_inv (st', fl)"
  using assms by (simp add: coord_inv_def)

lemma coord_inv_evict:
  assumes "coord_inv (st, fl)"
  shows "coord_inv (evictStaleSessions now st, fl)"
proof -
  have wf: "map_wf (fk_signingSessions st)" "map_wf (fk_querySessionMap st)" using assms by (simp_all add: coord_inv_def)
  have "map_wf (fk_signingSessions (evictStaleSessions now st)) \<and> map_wf (fk_querySessionMap (evictStaleSessions now st))"
    using evict_signing_wf [OF wf, of now] by (simp add: evict_fields)
  then show ?thesis
    using assms unfolding coord_inv_def by (fastforce simp: evict_get [OF wf(1)] split: option.splits if_splits)
qed

lemma open_session_Some:
  "open_session st sid = Some s \<longleftrightarrow> map_get (fk_signingSessions st) sid = Some s \<and> \<not> ss_finalized s"
  by (auto simp: open_session_def split: option.splits if_splits)

lemma aggregate_begin_Some:
  "aggregate_begin sid st = Some s \<longleftrightarrow> open_session st sid = Some s \<and>
    \<not> of_len (ss_signature_shares s) < tc_threshold (ss_config s)"
  by (auto simp: aggregate_begin_def split: option.splits if_splits)

lemma dkg_keeps_sessions:
  "fk_signingSessions (snd (submitDkgPackage sid r i p secret st)) = fk_signingSessions st"
  "fk_querySessionMap (snd (submitDkgPackage sid r i p secret st)) = fk_querySessionMap st"
  by (simp_all add: submitDkgPackage_def Let_def split_def split: option.split)

lemma initDkg_sessions:
  "fk_signingSessions (snd (initDkg now sid t n st)) = fk_signingSessions (evictStaleSessions now st)"
  "fk_querySessionMap (snd (initDkg now sid t n st)) = fk_querySessionMap (evictStaleSessions now st)"
  by (simp_all add: initDkg_def Let_def)

lemma coord_inv_new:
  assumes "coord_inv (st, fl)" "map_get (fk_signingSessions st) sid = None" "session_ok fl sid s" "ss_query_id s = q"
  shows "coord_inv (st\<lparr> fk_signingSessions := map_set sid s (fk_signingSessions st),
    fk_querySessionMap := map_set q sid (fk_querySessionMap st) \<rparr>, fl)"
proof -
  have "sid' \<noteq> sid" if "map_get (fk_querySessionMap st) q' = Some sid'" for q' sid'
    using that assms(1,2) by (fastforce simp: coord_inv_def)
  then show ?thesis using assms by (simp add: coord_inv_def)
qed

lemma coord_inv_start:
  assumes "coord_inv (st, fl)" "map_get (fk_signingSessions st) sid = None" "sid \<notin> set fl"
  shows "coord_inv (snd (startSigning now sid q m c st), fl)"
proof -
  have inv: "coord_inv (evictStaleSessions now st, fl)" using assms(1) by (rule coord_inv_evict)
  have new: "map_get (fk_signingSessions (evictStaleSessions now st)) sid = None"
    using assms(1,2) by (simp add: coord_inv_def evict_get)
  show ?thesis
    using coord_inv_new [OF inv new] assms(3) by (simp add: startSigning_def Let_def session_ok_def)
qed

lemma coord_step_inv:
  assumes "coord_step c c'" "coord_inv c"
  shows "coord_inv c'"
  using assms
proof (cases rule: coord_step.cases)
  case (start st sid fl now queryId message config)
  then show ?thesis using assms(2) by (simp add: coord_inv_start)
next
  case (commit st fl sid pk c)
  show ?thesis
  proof (cases "open_session st sid")
    case (Some s)
    then have get: "map_get (fk_signingSessions st) sid = Some s" "session_ok fl sid s"
      using assms(2) commit by (simp_all add: coord_inv_def open_session_Some)
    then have "coord_inv (put_session sid (s\<lparr> ss_nonce_commitments := map_set pk c (ss_nonce_commitments s) \<rparr>) st, fl)"
      using assms(2) commit by (intro coord_inv_put [OF _ get(1) _ _ subset_refl]) (auto simp: session_ok_def)
    then show ?thesis using commit Some by (simp add: submitNonceCommitment_def)
  qed (use assms(2) commit in \<open>simp add: submitNonceCommitment_def\<close>)
next
  case (share st fl sid pk c)
  show ?thesis
  proof (cases "open_session st sid")
    case (Some s)
    then have get: "map_get (fk_signingSessions st) sid = Some s" "session_ok fl sid s"
      using assms(2) share by (simp_all add: coord_inv_def open_session_Some)
    then have "coord_inv (put_session sid (s\<lparr> ss_signature_shares := map_set pk c (ss_signature_shares s) \<rparr>) st, fl)"
      using assms(2) share by (intro coord_inv_put [OF _ get(1) _ _ subset_refl]) (auto simp: session_ok_def of_len_map_set)
    then show ?thesis using share Some by (simp add: submitSignatureShare_def)
  qed (use assms(2) share in \<open>simp add: submitSignatureShare_def\<close>)
next
  case (aggregate sid st session fl)
  then show ?thesis using assms(2)
    by (auto simp: coord_inv_def session_ok_def aggregate_begin_Some open_session_Some)
next
  case (aggregated sid fl st result)
  have sub: "set (remove1 sid fl) \<subseteq> set fl" by (rule set_remove1_subset)
  show ?thesis
  proof (cases "\<exists>s. map_get (fk_signingSessions st) sid = Some s \<and> fc_ok result \<and> jsval_truthy (opt_prop (fc_data result) ''signature'')")
    case True
    then obtain s where s: "map_get (fk_signingSessions st) sid = Some s" "fc_ok result"
      "jsval_truthy (opt_prop (fc_data result) ''signature'')" by blast
    have ok: "session_ok fl sid s" using assms(2) aggregated s(1) by (simp add: coord_inv_def)
    have "coord_inv (put_session sid (s\<lparr> ss_group_signature := opt_prop (fc_data result) ''signature'', ss_finalized := True \<rparr>) st,
        remove1 sid fl)"
      using assms(2) aggregated s ok by (intro coord_inv_put [OF _ s(1) _ _ sub]) (simp_all add: session_ok_def)
    then show ?thesis using aggregated s by (simp add: aggregate_finish_def Let_def)
  next
    case False
    then have "snd (aggregate_finish sid result st) = st"
      by (auto simp: aggregate_finish_def Let_def split: option.split)
    then show ?thesis using assms(2) aggregated coord_inv_tasks [OF _ sub] by simp
  qed
next
  case (dkg_start st fl now sid threshold n)
  then show ?thesis using assms(2) coord_inv_sessions [OF coord_inv_evict] by (metis initDkg_sessions)
next
  case (dkg_package st fl sid r i p secret)
  then show ?thesis using assms(2) coord_inv_sessions by (metis dkg_keeps_sessions)
qed

lemma coord_reachable_inv: "coord_step\<^sup>*\<^sup>* c c' \<Longrightarrow> coord_inv c \<Longrightarrow> coord_inv c'"
  by (induction rule: rtranclp_induct) (auto intro: coord_step_inv)

abbreviation coord_init :: "frost_coordinator \<times> string list" where
  "coord_init \<equiv> (\<lparr> fk_dkgSessions = [], fk_signingSessions = [], fk_querySessionMap = [] \<rparr>, [])"

lemma coord_init_inv: "coord_inv coord_init"
  by (simp add: coord_inv_def)

text \<open>C29. However the calls of the coordinator interleave with pending aggregations, every signing session
  is stored under its own identifier, a finalized session has a signature and at least as many shares as
  its threshold, and the query index points only to live sessions of the query in question.\<close>

theorem coordinator_sessions:
  assumes "coord_step\<^sup>*\<^sup>* coord_init (st, fl)"
  shows "(\<forall>sid s. map_get (fk_signingSessions st) sid = Some s \<longrightarrow> ss_session_id s = sid \<and>
      (ss_finalized s \<longrightarrow> jsval_truthy (ss_group_signature s) \<and>
         \<not> of_len (ss_signature_shares s) < tc_threshold (ss_config s))) \<and>
    (\<forall>q sid. map_get (fk_querySessionMap st) q = Some sid \<longrightarrow>
      (\<exists>s. map_get (fk_signingSessions st) sid = Some s \<and> ss_query_id s = q))"
  using coord_reachable_inv [OF assms coord_init_inv] by (auto simp: coord_inv_def session_ok_def)

definition ex_threshold :: ThresholdOracleConfig where
  "ex_threshold = \<lparr> tc_threshold = Fin 1, tc_total_signers = Fin 2, tc_signer_pubkeys = [''a'', ''b''], tc_group_pubkey = ''g'' \<rparr>"

definition ex_started :: frost_coordinator where
  "ex_started = snd (startSigning (Fin 0) ''s1'' ''q1'' ''m'' ex_threshold (fst coord_init))"

definition ex_signed :: frost_coordinator where
  "ex_signed = snd (aggregate_finish ''s1'' \<lparr> fc_ok = True, fc_data = Object [(''signature'', String ''sig'')], fc_error = None \<rparr>
     (submitSignatureShare ''s1'' ''a'' ''sh'' ex_started))"

lemma ex_started_eval:
  "ex_started = \<lparr> fk_dkgSessions = [], fk_signingSessions = [(''s1'', \<lparr> ss_session_id = ''s1'', ss_query_id = ''q1'',
     ss_config = ex_threshold, ss_message = ''m'', ss_nonce_commitments = [], ss_signature_shares = [],
     ss_group_signature = Undefined, ss_finalized = False, ss_created_at = Fin 0 \<rparr>)], fk_querySessionMap = [(''q1'', ''s1'')] \<rparr>"
  by (simp add: ex_started_def startSigning_def evictStaleSessions_def map_entries_def map_set_def Let_def)

lemma ex_signed_eval:
  "map_get (fk_signingSessions ex_signed) ''s1'' = Some \<lparr> ss_session_id = ''s1'', ss_query_id = ''q1'',
     ss_config = ex_threshold, ss_message = ''m'', ss_nonce_commitments = [], ss_signature_shares = [(''a'', ''sh'')],
     ss_group_signature = String ''sig'', ss_finalized = True, ss_created_at = Fin 0 \<rparr>"
  by (simp add: ex_signed_def ex_started_eval submitSignatureShare_def open_session_def put_session_def aggregate_finish_def
      map_get_def map_set_def Let_def)

lemma ex_signed_reachable: "coord_step\<^sup>*\<^sup>* coord_init (ex_signed, [])"
proof -
  let ?sh = "submitSignatureShare ''s1'' ''a'' ''sh'' ex_started"
  have "coord_step coord_init (ex_started, [])"
    unfolding ex_started_def fst_conv by (rule coord_step.start) simp_all
  moreover have "coord_step (ex_started, []) (?sh, [])" by (rule coord_step.share)
  moreover have "\<exists>s. aggregate_begin ''s1'' ?sh = Some s"
    by (simp add: ex_started_eval aggregate_begin_def submitSignatureShare_def open_session_def put_session_def
        ex_threshold_def map_get_def map_set_def of_len_def)
  then have "coord_step (?sh, []) (?sh, [''s1''])" by (auto intro: coord_step.aggregate)
  moreover have "coord_step (?sh, [''s1'']) (ex_signed, remove1 ''s1'' [''s1''])"
    unfolding ex_signed_def by (rule coord_step.aggregated) simp
  ultimately show ?thesis by (auto intro: converse_rtranclp_into_rtranclp)
qed

theorem coordinator_sessions_witness:
  "\<exists>s. map_get (fk_signingSessions ex_signed) ''s1'' = Some s \<and> ss_finalized s \<and> jsval_truthy (ss_group_signature s)"
  using coordinator_sessions [OF ex_signed_reachable] ex_signed_eval by auto

text \<open>A finalized session is frozen: a step of the coordinator keeps its message, its configuration,
  its commitments and its shares and leaves it finalized, or removes it once it is older than its
  retention time.\<close>

theorem finalized_session_frozen:
  assumes "coord_step\<^sup>*\<^sup>* coord_init (st, fl)" and "coord_step (st, fl) (st', fl')"
    and "map_get (fk_signingSessions st) sid = Some s" and "ss_finalized s"
  shows "(\<exists>s'. map_get (fk_signingSessions st') sid = Some s' \<and> ss_finalized s' \<and>
      s' = s\<lparr> ss_group_signature := ss_group_signature s' \<rparr>) \<or>
    (map_get (fk_signingSessions st') sid = None \<and> (\<exists>now. stale now s))"
proof -
  let ?kept = "\<lambda>s'. ss_finalized s' \<and> s' = s\<lparr> ss_group_signature := ss_group_signature s' \<rparr>"
  have wf: "map_wf (fk_signingSessions st)"
    using coord_reachable_inv [OF assms(1) coord_init_inv] by (simp add: coord_inv_def)
  have same: ?thesis if "map_get (fk_signingSessions st') sid = Some s" using that assms(4) by simp
  have closed: "open_session st sid = None" using assms(3,4) by (simp add: open_session_def)
  have evicted: ?thesis
    if "map_get (fk_signingSessions st') sid = map_get (fk_signingSessions (evictStaleSessions now st)) sid" for now
    using that assms(3,4) by (auto simp: evict_get [OF wf] split: if_splits)
  show ?thesis
    using assms(2)
  proof (cases rule: coord_step.cases)
    case (start i now q m c)
    then show ?thesis using assms(3) by (intro evicted [of now]) (auto simp: startSigning_def Let_def)
  next
    case (commit i pk c)
    then show ?thesis using closed assms(3)
      by (intro same) (auto simp: submitNonceCommitment_def put_session_def split: option.split)
  next
    case (share i pk c)
    then show ?thesis using closed assms(3)
      by (intro same) (auto simp: submitSignatureShare_def put_session_def split: option.split)
  next
    case (aggregate i session)
    then show ?thesis using assms(3) by (intro same) simp
  next
    case (aggregated i r)
    then show ?thesis using assms(3,4)
      by (cases "i = sid") (auto simp: aggregate_finish_def put_session_def Let_def split: option.splits)
  next
    case (dkg_start now i t n)
    then show ?thesis by (intro evicted [of now]) (simp add: initDkg_sessions)
  next
    case (dkg_package i r j p secret)
    then show ?thesis using assms(3) by (intro same) (simp add: dkg_keeps_sessions)
  qed
qed

theorem finalized_session_frozen_witness:
  "\<exists>s'. map_get (fk_signingSessions (submitSignatureShare ''s1'' ''b'' ''late'' ex_signed)) ''s1'' = Some s' \<and>
     ss_finalized s'"
proof -
  have step: "coord_step (ex_signed, []) (submitSignatureShare ''s1'' ''b'' ''late'' ex_signed, [])" by (rule coord_step.share)
  have "map_get (fk_signingSessions (submitSignatureShare ''s1'' ''b'' ''late'' ex_signed)) ''s1'' \<noteq> None"
    using ex_signed_eval by (simp add: submitSignatureShare_def open_session_def)
  then show ?thesis using finalized_session_frozen [OF ex_signed_reachable step ex_signed_eval] by auto
qed

text \<open>A share that arrives after the group signature was formed is answered as if signing were still
  under way: the response says that the session is not finalized and carries no signature.\<close>

theorem late_share_answer:
  assumes "map_get (fk_signingSessions st) sid = Some s" and "ss_finalized s"
    and "sid \<noteq> []" and "pk \<noteq> []" and "share \<noteq> []"
  shows "sign_shares fstr executor \<lparr> sb_session_id = Some sid, sb_signer_pubkey = Some pk, sb_payload = Some share \<rparr> st =
    (Some (Http 200 (Object [(''shares_count'', num_value (ss_signature_shares s)),
       (''threshold'', Number (tc_threshold (ss_config s))), (''finalized'', Bool False)])), st)"
proof -
  have closed: "open_session st sid = None" using assms(1,2) by (simp add: open_session_def)
  then have "submitSignatureShare sid pk share st = st" "aggregate_begin sid st = None"
    by (simp_all add: submitSignatureShare_def aggregate_begin_def)
  then show ?thesis
    using assms by (simp add: sign_shares_def body_complete_def getSigningSession_def tryAggregate_def shares_count_def
        session_threshold_def Let_def)
qed

definition ex_no_executor :: executor where
  "ex_no_executor = \<lparr> ex_localPaths = [], ex_isFile = (\<lambda>p. False), ex_which = (\<lambda>b. None), ex_run = (\<lambda>a. None) \<rparr>"

theorem late_share_answer_witness:
  "\<exists>v t. fst (sign_shares (\<lambda>r. []) ex_no_executor \<lparr> sb_session_id = Some ''s1'', sb_signer_pubkey = Some ''b'', sb_payload = Some ''late'' \<rparr> ex_signed) =
     Some (Http 200 (Object [(''shares_count'', v), (''threshold'', t), (''finalized'', Bool False)]))"
  using late_share_answer [OF ex_signed_eval, of "''b''" "''late''"] by simp

end
