(* ===== verification/Protocol_Nostr.thy ===== *)
theory Protocol_Nostr
  imports Escrow_Providers Preimage_Store
begin

text \<open>
  The Nostr helpers of the protocol package (\<open>packages/protocol/src/nostr.ts\<close>).  The library behind them
  is the record \<open>nostr\<close>: key derivation, NIP-44 conversation keys and encryption, event finalization and
  bech32 decoding; \<open>None\<close> is a call that throws.  \<open>nostr_ok\<close> states what their specifications promise and
  what the round trips rely on.
\<close>

section \<open>Events and the library\<close>

record Event =
  ev_id :: string
  ev_pubkey :: string
  ev_created_at :: jsnum
  ev_kind :: nat
  ev_tags :: "string list list"
  ev_content :: string
  ev_sig :: string

record EventTemplate =
  tm_kind :: nat
  tm_created_at :: jsnum
  tm_content :: string
  tm_tags :: "string list list"

type_synonym secret_key = bytes

record 'k nostr =
  n_publicKey :: "secret_key \<Rightarrow> string"
  n_conversationKey :: "secret_key \<Rightarrow> string \<Rightarrow> 'k option"
  n_encrypt :: "string \<Rightarrow> 'k \<Rightarrow> string option"
  n_decrypt :: "string \<Rightarrow> 'k \<Rightarrow> string option"
  n_finalize :: "EventTemplate \<Rightarrow> secret_key \<Rightarrow> Event option"
  n_decodeBech32 :: "string \<Rightarrow> (string \<times> bytes) option"

record Keypair =
  kp_secretKey :: secret_key
  kp_publicKey :: string

text \<open>Documented behaviour: conversation keys are symmetric and decryption inverts encryption, whose payload
  is never empty (NIP-44),
  and finalizing keeps the template and records the signer's public key (NIP-01).\<close>

definition nostr_ok :: "'k nostr \<Rightarrow> bool" where
  "nostr_ok lib =
    ((\<forall>a b. n_conversationKey lib a (n_publicKey lib b) = n_conversationKey lib b (n_publicKey lib a)) \<and>
     (\<forall>m k c. n_encrypt lib m k = Some c \<longrightarrow> c \<noteq> [] \<and> n_decrypt lib c k = Some m) \<and>
     (\<forall>t sk e. n_finalize lib t sk = Some e \<longrightarrow>
        ev_kind e = tm_kind t \<and> ev_content e = tm_content t \<and> ev_tags e = tm_tags t \<and>
        ev_created_at e = tm_created_at t \<and> ev_pubkey e = n_publicKey lib sk))"

section \<open>Kinds\<close>

definition KIND_QUERY_REQUEST :: nat where "KIND_QUERY_REQUEST = 5300"
definition KIND_QUERY_RESPONSE :: nat where "KIND_QUERY_RESPONSE = 6300"
definition KIND_QUERY_FEEDBACK :: nat where "KIND_QUERY_FEEDBACK = 7000"
definition KIND_DIRECT_MESSAGE :: nat where "KIND_DIRECT_MESSAGE = 4"

lemmas kind_defs = KIND_QUERY_REQUEST_def KIND_QUERY_RESPONSE_def KIND_QUERY_FEEDBACK_def KIND_DIRECT_MESSAGE_def

section \<open>Keys\<close>

definition hex64 :: "string \<Rightarrow> bool" where
  "hex64 s = (length s = 64 \<and> list_all (\<lambda>c. hex_value c \<noteq> None) s)"

text \<open>A loop over the pairs of characters; \<open>None\<close> is the error for an odd length.\<close>

fun hex_pairs :: "string \<Rightarrow> bytes" where
  "hex_pairs (a # b # cs) = to_uint8 (parse_hex [a, b]) # hex_pairs cs"
| "hex_pairs _ = []"

definition hexToBytes :: "string \<Rightarrow> bytes option" where
  "hexToBytes hex = (if length hex mod 2 \<noteq> 0 then None else Some (hex_pairs hex))"

text \<open>For \<open>npub\<close> the decoded data is the public key in hexadecimal, for \<open>nsec\<close> it is the key itself.\<close>

definition normalizePubkey :: "'k nostr \<Rightarrow> string \<Rightarrow> string option" where
  "normalizePubkey lib input =
    (if hex64 input then Some (to_lower input)
     else if take 5 input = ''npub1'' then
       (case n_decodeBech32 lib input of
          None \<Rightarrow> None
        | Some (type, data) \<Rightarrow> if type \<noteq> ''npub'' then None else Some (hex_string data))
     else None)"

definition normalizeSecretKey :: "'k nostr \<Rightarrow> string \<Rightarrow> secret_key option" where
  "normalizeSecretKey lib input =
    (if hex64 input then hexToBytes input
     else if take 5 input = ''nsec1'' then
       (case n_decodeBech32 lib input of
          None \<Rightarrow> None
        | Some (type, data) \<Rightarrow> if type \<noteq> ''nsec'' then None else Some data)
     else None)"

section \<open>Encryption, signing and tags\<close>

definition encryptNip44 :: "'k nostr \<Rightarrow> string \<Rightarrow> secret_key \<Rightarrow> string \<Rightarrow> string option" where
  "encryptNip44 lib content senderSecretKey recipientPubkey =
    Option.bind (n_conversationKey lib senderSecretKey recipientPubkey) (n_encrypt lib content)"

definition decryptNip44 :: "'k nostr \<Rightarrow> string \<Rightarrow> secret_key \<Rightarrow> string \<Rightarrow> string option" where
  "decryptNip44 lib ciphertext recipientSecretKey senderPubkey =
    Option.bind (n_conversationKey lib recipientSecretKey senderPubkey) (n_decrypt lib ciphertext)"

definition signEvent :: "'k nostr \<Rightarrow> EventTemplate \<Rightarrow> secret_key \<Rightarrow> Event option" where
  "signEvent lib template secretKey = n_finalize lib template secretKey"

fun findTagValue :: "string list list \<Rightarrow> string \<Rightarrow> string option" where
  "findTagValue [] key = None"
| "findTagValue (t # ts) key =
    (if hd_opt t = Some key then (case t of _ # v # _ \<Rightarrow> Some v | _ \<Rightarrow> None) else findTagValue ts key)"

fun findAllTagValues :: "string list list \<Rightarrow> string \<Rightarrow> string list" where
  "findAllTagValues [] key = []"
| "findAllTagValues (t # ts) key =
    (case t of
       k # v # _ \<Rightarrow> if k = key then v # findAllTagValues ts key else findAllTagValues ts key
     | _ \<Rightarrow> findAllTagValues ts key)"

text \<open>\<open>tags.find((t) => t[0] === key && t[1])?.[1]\<close>.\<close>

fun findSetTagValue :: "string list list \<Rightarrow> string \<Rightarrow> string option" where
  "findSetTagValue [] key = None"
| "findSetTagValue (t # ts) key =
    (case t of
       k # v # _ \<Rightarrow> if k = key \<and> v \<noteq> [] then Some v else findSetTagValue ts key
     | _ \<Rightarrow> findSetTagValue ts key)"

section \<open>Lemmas\<close>

lemma encrypted_readable:
  assumes "nostr_ok lib" "encryptNip44 lib m sk (n_publicKey lib rk) = Some c"
  shows "decryptNip44 lib c rk (n_publicKey lib sk) = Some m"
  using assms by (auto simp: nostr_ok_def encryptNip44_def decryptNip44_def bind_eq_Some_conv)

lemma encrypted_nonempty: "nostr_ok lib \<Longrightarrow> encryptNip44 lib m sk pk = Some c \<Longrightarrow> c \<noteq> []"
  unfolding nostr_ok_def encryptNip44_def bind_eq_Some_conv by blast

lemma signed_event:
  assumes "nostr_ok lib" "signEvent lib t sk = Some e"
  shows "ev_kind e = tm_kind t" "ev_content e = tm_content t" "ev_tags e = tm_tags t" "ev_pubkey e = n_publicKey lib sk"
  using assms by (auto simp: nostr_ok_def signEvent_def)

lemma findSetTagValue_nonempty: "findSetTagValue ts k = Some v \<Longrightarrow> v \<noteq> []"
  by (induction ts k rule: findSetTagValue.induct) (auto split: list.splits if_splits)

lemma hex_pairs_string: "hex_pairs (hex_string bs) = bs"
  by (induction bs) (simp_all add: hex_string_def hex_byte_def parse_hex_byte [unfolded hex_byte_def])

lemma hex_string_length: "length (hex_string bs) = 2 * length bs"
  by (induction bs) (simp_all add: hex_string_def hex_byte_def)

lemma hexToBytes_hex_string: "hexToBytes (hex_string bs) = Some bs"
  by (simp add: hexToBytes_def hex_string_length hex_pairs_string)

end
