(* ===== verification/Protocol_Events.thy ===== *)
theory Protocol_Events
  imports Protocol_Nostr
begin

text \<open>
  The event payloads of the protocol (\<open>packages/protocol/src/events.ts\<close>): a builder and a parser per
  format.  A builder gives \<open>None\<close> where encryption or signing throws; a parser gives \<open>None\<close> where the
  source returns \<open>null\<close>.  The locale \<open>event_format\<close> is the contract between a builder and its parser; all
  formats are interpretations.
\<close>

section \<open>Objects as JSON text\<close>

text \<open>\<open>stringifyPayload\<close>: the object spread of the payload followed by its version.\<close>

definition stringifyPayload :: "(rat \<Rightarrow> string) \<Rightarrow> (string, jsval) jsmap \<Rightarrow> jsnum \<Rightarrow> string" where
  "stringifyPayload fstr payload version = jprint fstr (Object (map_set ''version'' (Number version) payload))"

definition hasVersion :: "jsval \<Rightarrow> jsnum \<Rightarrow> bool" where
  "hasVersion payload version = (opt_prop payload ''version'' = Number version)"

definition js_in :: "string \<Rightarrow> jsval \<Rightarrow> bool" where
  "js_in key v = (case v of Object ms \<Rightarrow> map_has ms key | _ \<Rightarrow> False)"

fun number_of :: "jsval \<Rightarrow> jsnum option" where
  "number_of (Number x) = Some x"
| "number_of _ = None"

text \<open>\<open>JSON.parse\<close> in a \<open>try\<close>, and the test for a non-null object.\<close>

definition parse_object :: "string \<Rightarrow> jsval option" where
  "parse_object content =
    (case jparse content of None \<Rightarrow> None | Some parsed \<Rightarrow> if isRecord parsed then Some parsed else None)"

definition decrypt_object :: "'k nostr \<Rightarrow> string \<Rightarrow> secret_key \<Rightarrow> string \<Rightarrow> jsval option" where
  "decrypt_object lib content recipientSecretKey senderPubkey =
    Option.bind (decryptNip44 lib content recipientSecretKey senderPubkey) parse_object"

definition opt_str :: "string option \<Rightarrow> jsval" where
  "opt_str s = (case s of None \<Rightarrow> Undefined | Some t \<Rightarrow> String t)"

text \<open>The common end of all builders.\<close>

definition sign_content ::
    "'k nostr \<Rightarrow> jsnum \<Rightarrow> Keypair \<Rightarrow> nat \<Rightarrow> string list list \<Rightarrow> string \<Rightarrow> Event option" where
  "sign_content lib now identity kind tags content =
    signEvent lib \<lparr> tm_kind = kind, tm_created_at = js_floor (div_by now 1000), tm_content = content, tm_tags = tags \<rparr>
      (kp_secretKey identity)"

section \<open>Request notice (kind 5300)\<close>

record QueryRequestPayload =
  qp_query_id :: string
  qp_schema :: string
  qp_customer_pubkey :: string
  qp_oracle_pubkey :: string
  qp_max_amount_sats :: jsnum
  qp_expires_at :: jsnum

definition request_members :: "QueryRequestPayload \<Rightarrow> (string, jsval) jsmap" where
  "request_members p =
    [(''query_id'', String (qp_query_id p)), (''schema'', String (qp_schema p)),
     (''customer_pubkey'', String (qp_customer_pubkey p)), (''oracle_pubkey'', String (qp_oracle_pubkey p)),
     (''max_amount_sats'', Number (qp_max_amount_sats p)), (''expires_at'', Number (qp_expires_at p))]"

definition to_upper :: "string \<Rightarrow> string" where
  "to_upper s = map (\<lambda>c. if 97 \<le> (of_char c :: nat) \<and> (of_char c :: nat) \<le> 122 then char_of (of_char c - 32 :: nat) else c) s"

definition request_tags :: "QueryRequestPayload \<Rightarrow> string option \<Rightarrow> string list list" where
  "request_tags payload regionCode =
    [[''d'', qp_query_id payload], [''t'', ''anchr''], [''p'', qp_oracle_pubkey payload, [], ''oracle''],
     [''s'', qp_schema payload]] @
    (case regionCode of
       None \<Rightarrow> []
     | Some code \<Rightarrow> if length code > 0 then [[''region'', to_upper code]] else [])"

definition buildQueryRequestEvent ::
    "'k nostr \<Rightarrow> (rat \<Rightarrow> string) \<Rightarrow> jsnum \<Rightarrow> Keypair \<Rightarrow> QueryRequestPayload \<Rightarrow> string option \<Rightarrow> Event option" where
  "buildQueryRequestEvent lib fstr now identity payload regionCode =
    sign_content lib now identity KIND_QUERY_REQUEST (request_tags payload regionCode)
      (stringifyPayload fstr (request_members payload) 0)"

definition private_fields :: "string list" where
  "private_fields =
    [''predicate'', ''context'', ''mint_url'', ''payment_lock_token'', ''payment_lock'', ''bounty_token'',
     ''provider_redemption_token'', ''locktime_seconds'']"

definition parseQueryRequestEvent :: "Event \<Rightarrow> QueryRequestPayload option" where
  "parseQueryRequestEvent event =
    (if ev_kind event \<noteq> KIND_QUERY_REQUEST then None
     else case parse_object (ev_content event) of
            None \<Rightarrow> None
          | Some p \<Rightarrow>
            if \<not> hasVersion p 0 then None
            else if list_ex (\<lambda>k. js_in k p) private_fields then None
            else (case (string_of (opt_prop p ''query_id''), string_of (opt_prop p ''schema''),
                        string_of (opt_prop p ''customer_pubkey''), string_of (opt_prop p ''oracle_pubkey''),
                        number_of (opt_prop p ''max_amount_sats''), number_of (opt_prop p ''expires_at'')) of
                    (Some q, Some s, Some c, Some o', Some m, Some e) \<Rightarrow>
                      Some \<lparr> qp_query_id = q, qp_schema = s, qp_customer_pubkey = c, qp_oracle_pubkey = o',
                             qp_max_amount_sats = m, qp_expires_at = e \<rparr>
                  | _ \<Rightarrow> None))"

section \<open>Offers (kind 7000, payment-required)\<close>

record OfferFeedbackPayload =
  of_provider_pubkey :: string
  of_amount_sats :: jsnum

record ParsedOfferFeedback = OfferFeedbackPayload +
  of_request_event_id :: string
  of_customer_pubkey :: string

definition buildOfferFeedbackEvent ::
    "'k nostr \<Rightarrow> (rat \<Rightarrow> string) \<Rightarrow> jsnum \<Rightarrow> Keypair \<Rightarrow> string \<Rightarrow> string \<Rightarrow> OfferFeedbackPayload \<Rightarrow> Event option" where
  "buildOfferFeedbackEvent lib fstr now identity requestEventId customerPubkey payload =
    sign_content lib now identity KIND_QUERY_FEEDBACK
      [[''e'', requestEventId, [], ''request''], [''p'', customerPubkey], [''status'', ''payment-required'']]
      (stringifyPayload fstr
         [(''status'', String ''payment-required''), (''provider_pubkey'', String (of_provider_pubkey payload)),
          (''amount_sats'', Number (of_amount_sats payload))] 0)"

definition parseOfferFeedbackEvent :: "Event \<Rightarrow> ParsedOfferFeedback option" where
  "parseOfferFeedbackEvent event =
    (if ev_kind event \<noteq> KIND_QUERY_FEEDBACK then None
     else case parse_object (ev_content event) of
            None \<Rightarrow> None
          | Some p \<Rightarrow>
            if \<not> hasVersion p 0 \<or> opt_prop p ''status'' \<noteq> String ''payment-required'' then None
            else (case (string_of (opt_prop p ''provider_pubkey''), number_of (opt_prop p ''amount_sats'')) of
                    (Some pk, Some amount) \<Rightarrow>
                      if pk \<noteq> ev_pubkey event then None
                      else (case (findSetTagValue (ev_tags event) ''e'', findSetTagValue (ev_tags event) ''p'') of
                              (Some requestEventId, Some customerPubkey) \<Rightarrow>
                                Some \<lparr> of_provider_pubkey = pk, of_amount_sats = amount,
                                       of_request_event_id = requestEventId, of_customer_pubkey = customerPubkey \<rparr>
                            | _ \<Rightarrow> None)
                  | _ \<Rightarrow> None))"

section \<open>Selection (kind 7000, processing)\<close>

record SelectionExecutionPayload =
  se_schema :: string
  se_predicate :: jsval
  se_description :: "string option"
  se_context :: jsval
  se_mint_url :: string
  se_max_amount_sats :: jsnum
  se_amount_sats :: jsnum
  se_locktime_seconds :: jsnum

record SelectionFeedbackPayload =
  sf_selected_provider_pubkey :: string
  sf_provider_redemption_token :: string
  sf_execution :: SelectionExecutionPayload

definition execution_members :: "SelectionExecutionPayload \<Rightarrow> (string, jsval) jsmap" where
  "execution_members e =
    [(''schema'', String (se_schema e)), (''predicate'', se_predicate e), (''description'', opt_str (se_description e)),
     (''context'', se_context e), (''mint_url'', String (se_mint_url e)),
     (''max_amount_sats'', Number (se_max_amount_sats e)), (''amount_sats'', Number (se_amount_sats e)),
     (''locktime_seconds'', Number (se_locktime_seconds e))]"

definition buildSelectionFeedbackEvent ::
    "'k nostr \<Rightarrow> (rat \<Rightarrow> string) \<Rightarrow> jsnum \<Rightarrow> Keypair \<Rightarrow> string \<Rightarrow> SelectionFeedbackPayload \<Rightarrow> Event option" where
  "buildSelectionFeedbackEvent lib fstr now identity requestEventId payload =
    Option.bind
      (encryptNip44 lib
         (stringifyPayload fstr
            [(''status'', String ''processing''),
             (''selected_provider_pubkey'', String (sf_selected_provider_pubkey payload)),
             (''provider_redemption_token'', String (sf_provider_redemption_token payload)),
             (''execution'', Object (execution_members (sf_execution payload)))] 0)
         (kp_secretKey identity) (sf_selected_provider_pubkey payload))
      (sign_content lib now identity KIND_QUERY_FEEDBACK
         [[''e'', requestEventId, [], ''request''], [''p'', sf_selected_provider_pubkey payload], [''status'', ''processing'']])"

definition parse_execution :: "jsval \<Rightarrow> SelectionExecutionPayload option" where
  "parse_execution execution =
    (case (string_of (opt_prop execution ''schema''), js_in ''predicate'' execution,
           number_of (opt_prop execution ''max_amount_sats''), number_of (opt_prop execution ''amount_sats''),
           string_of (opt_prop execution ''mint_url''), number_of (opt_prop execution ''locktime_seconds'')) of
       (Some schema, True, Some max_amount, Some amount, Some mint_url, Some locktime) \<Rightarrow>
         Some \<lparr> se_schema = schema, se_predicate = opt_prop execution ''predicate'',
                se_description = string_of (opt_prop execution ''description''),
                se_context = (if isRecord (opt_prop execution ''context'') then opt_prop execution ''context'' else Undefined),
                se_mint_url = mint_url, se_max_amount_sats = max_amount, se_amount_sats = amount,
                se_locktime_seconds = locktime \<rparr>
     | _ \<Rightarrow> None)"

definition parseSelectionFeedbackEvent ::
    "'k nostr \<Rightarrow> Event \<Rightarrow> secret_key \<Rightarrow> string \<Rightarrow> SelectionFeedbackPayload option" where
  "parseSelectionFeedbackEvent lib event recipientSecretKey senderPubkey =
    (if ev_kind event \<noteq> KIND_QUERY_FEEDBACK then None
     else case decrypt_object lib (ev_content event) recipientSecretKey senderPubkey of
            None \<Rightarrow> None
          | Some p \<Rightarrow>
            if \<not> hasVersion p 0 \<or> opt_prop p ''status'' \<noteq> String ''processing'' \<or> \<not> isRecord (opt_prop p ''execution'')
            then None
            else (case (string_of (opt_prop p ''selected_provider_pubkey''),
                        string_of (opt_prop p ''provider_redemption_token''), parse_execution (opt_prop p ''execution'')) of
                    (Some pk, Some token, Some execution) \<Rightarrow>
                      if findTagValue (ev_tags event) ''p'' \<noteq> Some pk then None
                      else Some \<lparr> sf_selected_provider_pubkey = pk, sf_provider_redemption_token = token,
                                  sf_execution = execution \<rparr>
                  | _ \<Rightarrow> None))"

section \<open>Results (kind 6300)\<close>

definition base64_digits :: string where
  "base64_digits = ''ABCDEFGHIJKLMNOPQRSTUVWXYZabcdefghijklmnopqrstuvwxyz0123456789+/''"

text \<open>\<open>btoa\<close> on the string of the bytes.\<close>

fun base64Encode :: "bytes \<Rightarrow> string" where
  "base64Encode (a # b # c # bs) =
    (let n = (unat a * 256 + unat b) * 256 + unat c
     in [base64_digits ! (n div 262144), base64_digits ! (n div 4096 mod 64), base64_digits ! (n div 64 mod 64),
         base64_digits ! (n mod 64)] @ base64Encode bs)"
| "base64Encode [a, b] =
    (let n = (unat a * 256 + unat b) * 4
     in [base64_digits ! (n div 4096), base64_digits ! (n div 64 mod 64), base64_digits ! (n mod 64), CHR ''=''])"
| "base64Encode [a] =
    (let n = unat a * 16 in [base64_digits ! (n div 64), base64_digits ! (n mod 64), CHR ''='', CHR ''=''])"
| "base64Encode [] = []"

datatype proof_data = Proof_bytes bytes | Proof_text string

fun proofForJson :: "proof_data \<Rightarrow> string" where
  "proofForJson (Proof_bytes bs) = base64Encode bs"
| "proofForJson (Proof_text s) = s"

record QueryResponsePayload =
  rp_schema :: string
  rp_data :: jsval
  rp_proof :: string

record OracleQueryResponsePayload = QueryResponsePayload +
  rp_query_id :: string
  rp_request_event_id :: string

definition response_text :: "(rat \<Rightarrow> string) \<Rightarrow> string \<Rightarrow> jsval \<Rightarrow> string \<Rightarrow> string" where
  "response_text fstr schema data proof = jprint fstr (Object
    [(''version'', Number 0), (''schema'', String schema), (''data'', data), (''proof'', String proof)])"

definition oracle_text :: "(rat \<Rightarrow> string) \<Rightarrow> string \<Rightarrow> jsval \<Rightarrow> string \<Rightarrow> string \<Rightarrow> string \<Rightarrow> string" where
  "oracle_text fstr schema data proof query_id request_event_id = jprint fstr (Object
    [(''version'', Number 0), (''schema'', String schema), (''data'', data), (''proof'', String proof),
     (''query_id'', String query_id), (''request_event_id'', String request_event_id)])"

definition oracle_tags ::
    "'k nostr \<Rightarrow> (rat \<Rightarrow> string) \<Rightarrow> Keypair \<Rightarrow> string \<Rightarrow> string \<Rightarrow> jsval \<Rightarrow> proof_data \<Rightarrow> string option \<Rightarrow>
     string option \<Rightarrow> string list list option" where
  "oracle_tags lib fstr identity requestEventId schema data proof oraclePubkey queryId =
    (case oraclePubkey of
       None \<Rightarrow> Some []
     | Some pk \<Rightarrow>
       map_option (\<lambda>c. [[''p'', pk, [], ''oracle''], [''oracle_payload'', c]])
         (encryptNip44 lib
            (oracle_text fstr schema data (proofForJson proof)
               (case queryId of None \<Rightarrow> requestEventId | Some q \<Rightarrow> q) requestEventId)
            (kp_secretKey identity) pk))"

definition buildQueryResponseEvent ::
    "'k nostr \<Rightarrow> (rat \<Rightarrow> string) \<Rightarrow> jsnum \<Rightarrow> Keypair \<Rightarrow> string \<Rightarrow> string \<Rightarrow> string \<Rightarrow> jsval \<Rightarrow> proof_data \<Rightarrow>
     string option \<Rightarrow> string option \<Rightarrow> Event option" where
  "buildQueryResponseEvent lib fstr now identity requestEventId customerPubkey schema data proof oraclePubkey queryId =
    (case encryptNip44 lib (response_text fstr schema data (proofForJson proof)) (kp_secretKey identity) customerPubkey of
       None \<Rightarrow> None
     | Some ciphertext \<Rightarrow>
       (case oracle_tags lib fstr identity requestEventId schema data proof oraclePubkey queryId of
          None \<Rightarrow> None
        | Some tags \<Rightarrow>
          sign_content lib now identity KIND_QUERY_RESPONSE
            ([[''e'', requestEventId, [], ''request''], [''p'', customerPubkey]] @ tags) ciphertext))"

definition parseQueryResponseEvent ::
    "'k nostr \<Rightarrow> Event \<Rightarrow> secret_key \<Rightarrow> string \<Rightarrow> QueryResponsePayload option" where
  "parseQueryResponseEvent lib event recipientSecretKey senderPubkey =
    (if ev_kind event \<noteq> KIND_QUERY_RESPONSE then None
     else case decrypt_object lib (ev_content event) recipientSecretKey senderPubkey of
            None \<Rightarrow> None
          | Some p \<Rightarrow>
            if \<not> hasVersion p 0 \<or> \<not> js_in ''data'' p then None
            else (case (string_of (opt_prop p ''schema''), string_of (opt_prop p ''proof'')) of
                    (Some schema, Some proof) \<Rightarrow>
                      Some \<lparr> rp_schema = schema, rp_data = opt_prop p ''data'', rp_proof = proof \<rparr>
                  | _ \<Rightarrow> None))"

definition parseOracleQueryResponseEvent ::
    "'k nostr \<Rightarrow> Event \<Rightarrow> secret_key \<Rightarrow> string \<Rightarrow> OracleQueryResponsePayload option" where
  "parseOracleQueryResponseEvent lib event oracleSecretKey providerPubkey =
    (if ev_kind event \<noteq> KIND_QUERY_RESPONSE then None
     else case findSetTagValue (ev_tags event) ''oracle_payload'' of
            None \<Rightarrow> None
          | Some ciphertext \<Rightarrow>
            (case decrypt_object lib ciphertext oracleSecretKey providerPubkey of
               None \<Rightarrow> None
             | Some p \<Rightarrow>
               if \<not> hasVersion p 0 \<or> \<not> js_in ''data'' p then None
               else (case (string_of (opt_prop p ''schema''), string_of (opt_prop p ''query_id''),
                           string_of (opt_prop p ''request_event_id''), string_of (opt_prop p ''proof'')) of
                       (Some schema, Some query_id, Some request_event_id, Some proof) \<Rightarrow>
                         Some \<lparr> rp_schema = schema, rp_data = opt_prop p ''data'', rp_proof = proof,
                                rp_query_id = query_id, rp_request_event_id = request_event_id \<rparr>
                     | _ \<Rightarrow> None)))"

section \<open>Direct messages (kind 4)\<close>

definition build_dm ::
    "'k nostr \<Rightarrow> (rat \<Rightarrow> string) \<Rightarrow> jsnum \<Rightarrow> Keypair \<Rightarrow> string \<Rightarrow> (string, jsval) jsmap \<Rightarrow> Event option" where
  "build_dm lib fstr now identity recipientPubkey members =
    Option.bind (encryptNip44 lib (stringifyPayload fstr members 0) (kp_secretKey identity) recipientPubkey)
      (sign_content lib now identity KIND_DIRECT_MESSAGE [[''p'', recipientPubkey]])"

definition decryptDmJson :: "'k nostr \<Rightarrow> Event \<Rightarrow> secret_key \<Rightarrow> string \<Rightarrow> jsval option" where
  "decryptDmJson lib event recipientSecretKey senderPubkey =
    (if ev_kind event \<noteq> KIND_DIRECT_MESSAGE then None
     else decrypt_object lib (ev_content event) recipientSecretKey senderPubkey)"

record PreimageDeliveryPayload =
  pd_query_id :: string
  pd_request_event_id :: string
  pd_preimage :: string

definition buildPreimageDeliveryEvent ::
    "'k nostr \<Rightarrow> (rat \<Rightarrow> string) \<Rightarrow> jsnum \<Rightarrow> Keypair \<Rightarrow> string \<Rightarrow> PreimageDeliveryPayload \<Rightarrow> Event option" where
  "buildPreimageDeliveryEvent lib fstr now identity recipientPubkey payload =
    build_dm lib fstr now identity recipientPubkey
      [(''query_id'', String (pd_query_id payload)), (''request_event_id'', String (pd_request_event_id payload)),
       (''preimage'', String (pd_preimage payload))]"

definition parsePreimageDeliveryEvent ::
    "'k nostr \<Rightarrow> Event \<Rightarrow> secret_key \<Rightarrow> string \<Rightarrow> PreimageDeliveryPayload option" where
  "parsePreimageDeliveryEvent lib event recipientSecretKey senderPubkey =
    (case decryptDmJson lib event recipientSecretKey senderPubkey of
       None \<Rightarrow> None
     | Some p \<Rightarrow>
       if \<not> hasVersion p 0 then None
       else (case (string_of (opt_prop p ''query_id''), string_of (opt_prop p ''request_event_id''),
                   string_of (opt_prop p ''preimage'')) of
               (Some q, Some r, Some preimage) \<Rightarrow>
                 Some \<lparr> pd_query_id = q, pd_request_event_id = r, pd_preimage = preimage \<rparr>
             | _ \<Rightarrow> None))"

definition buildHashRequestEvent ::
    "'k nostr \<Rightarrow> (rat \<Rightarrow> string) \<Rightarrow> jsnum \<Rightarrow> Keypair \<Rightarrow> string \<Rightarrow> string \<Rightarrow> Event option" where
  "buildHashRequestEvent lib fstr now identity oraclePubkey query_id =
    build_dm lib fstr now identity oraclePubkey [(''type'', String ''hash_request''), (''query_id'', String query_id)]"

definition parseHashRequestEvent :: "'k nostr \<Rightarrow> Event \<Rightarrow> secret_key \<Rightarrow> string \<Rightarrow> string option" where
  "parseHashRequestEvent lib event recipientSecretKey senderPubkey =
    (case decryptDmJson lib event recipientSecretKey senderPubkey of
       None \<Rightarrow> None
     | Some p \<Rightarrow>
       if \<not> hasVersion p 0 \<or> opt_prop p ''type'' \<noteq> String ''hash_request'' then None
       else string_of (opt_prop p ''query_id''))"

record HashResponsePayload =
  hr_query_id :: string
  hr_hash :: string

definition buildHashResponseEvent ::
    "'k nostr \<Rightarrow> (rat \<Rightarrow> string) \<Rightarrow> jsnum \<Rightarrow> Keypair \<Rightarrow> string \<Rightarrow> HashResponsePayload \<Rightarrow> Event option" where
  "buildHashResponseEvent lib fstr now identity recipientPubkey payload =
    build_dm lib fstr now identity recipientPubkey
      [(''type'', String ''hash_response''), (''query_id'', String (hr_query_id payload)), (''hash'', String (hr_hash payload))]"

definition parseHashResponseEvent :: "'k nostr \<Rightarrow> Event \<Rightarrow> secret_key \<Rightarrow> string \<Rightarrow> HashResponsePayload option" where
  "parseHashResponseEvent lib event recipientSecretKey senderPubkey =
    (case decryptDmJson lib event recipientSecretKey senderPubkey of
       None \<Rightarrow> None
     | Some p \<Rightarrow>
       if \<not> hasVersion p 0 \<or> opt_prop p ''type'' \<noteq> String ''hash_response'' then None
       else (case (string_of (opt_prop p ''query_id''), string_of (opt_prop p ''hash'')) of
               (Some q, Some h) \<Rightarrow> Some \<lparr> hr_query_id = q, hr_hash = h \<rparr>
             | _ \<Rightarrow> None))"

end
