(* ===== verification/Protocol_Formats.thy ===== *)
theory Protocol_Formats
  imports Protocol_Events
begin

text \<open>
  What the event formats of the protocol promise.  \<open>event_format\<close> is the contract between the builder
  and the parser of a format, over the channel (library, clock, sender's key pair, recipient's key) both
  sides share; it is interpreted on all eight formats of \<open>events.ts\<close>.
\<close>

section \<open>JSON text with absent members\<close>

text \<open>What \<open>JSON.parse(JSON.stringify(v))\<close> returns: members that are undefined are dropped.\<close>

fun json_norm :: "jsval \<Rightarrow> jsval" where
  "json_norm Undefined = Null"
| "json_norm (Number x) = (case x of Fin r \<Rightarrow> Number x | _ \<Rightarrow> Null)"
| "json_norm (Array vs) = Array (map json_norm vs)"
| "json_norm (Object ms) =
    Object (map (\<lambda>(k, absent, v). (k, v)) (filter (\<lambda>(k, absent, v). \<not> absent)
      (map (\<lambda>(k, v). (k, v = Undefined, json_norm v)) ms)))"
| "json_norm v = v"

lemma json_norm_not_undefined: "json_norm v \<noteq> Undefined"
  by (cases v) (auto split: jsnum.splits)

lemma jprint_norm: "jprint fstr (json_norm v) = jprint fstr v"
proof (induction v rule: json_norm.induct)
  case (2 x)
  then show ?case by (cases x) auto
next
  case (3 vs)
  then have "map (jprint fstr \<circ> json_norm) vs = map (jprint fstr) vs" by simp
  then show ?case by (simp del: map_map add: map_map [symmetric])
next
  case (4 ms)
  then have "map (\<lambda>(k, absent, t). jquote k @ '':'' @ t) (filter (\<lambda>(k, absent, t). \<not> absent)
      (map (\<lambda>(k, v). (k, v = Undefined, jprint fstr v))
        (map (\<lambda>(k, absent, v). (k, v)) (filter (\<lambda>(k, absent, v). \<not> absent)
          (map (\<lambda>(k, v). (k, v = Undefined, json_norm v)) ms))))) =
    map (\<lambda>(k, absent, t). jquote k @ '':'' @ t) (filter (\<lambda>(k, absent, t). \<not> absent)
      (map (\<lambda>(k, v). (k, v = Undefined, jprint fstr v)) ms))"
    by (induction ms) (auto simp: json_norm_not_undefined)
  then show ?case by simp
qed simp_all

lemma jparse_print_norm: "jok (json_norm v) \<Longrightarrow> jparse (jprint fstr v) = Some (json_norm v)"
  using jparse_print [of "json_norm v" fstr] by (simp only: jprint_norm)

lemma json_norm_ok: "jok v \<Longrightarrow> json_norm v = v"
proof (induction v rule: jok.induct)
  case (7 ms)
  then have "map (\<lambda>(k, absent, v). (k, v)) (filter (\<lambda>(k, absent, v). \<not> absent)
      (map (\<lambda>(k, v). (k, v = Undefined, json_norm v)) ms)) = ms"
    by (induction ms) auto
  then show ?case by simp
qed (auto split: jsnum.splits simp: list_all_iff map_idI)


section \<open>The contract of a format\<close>

locale event_format =
  fixes kind :: nat
    and build :: "'c \<Rightarrow> 'p \<Rightarrow> Event option"
    and parse :: "'c \<Rightarrow> Event \<Rightarrow> 'r option"
    and ok :: "'c \<Rightarrow> 'p \<Rightarrow> bool"
    and seen :: "'p \<Rightarrow> 'r"
  assumes built_kind: "ok c p \<Longrightarrow> build c p = Some e \<Longrightarrow> ev_kind e = kind"
    and parsed_kind: "parse c e = Some r \<Longrightarrow> ev_kind e = kind"
    and read_back: "ok c p \<Longrightarrow> build c p = Some e \<Longrightarrow> parse c e = Some (seen p)"
begin

lemma foreign_kind: "ev_kind e \<noteq> kind \<Longrightarrow> parse c e = None"
  using parsed_kind by fastforce

lemma unambiguous:
  assumes "ok c p" "ok c q" "build c p = Some e" "build c q = Some e"
  shows "seen p = seen q"
  using read_back [OF assms(1,3)] read_back [OF assms(2,4)] by simp

end

text \<open>Two formats of different kinds are never confused.\<close>

locale two_formats =
  a: event_format kind_a build_a parse_a ok_a seen_a + b: event_format kind_b build_b parse_b ok_b seen_b
  for kind_a :: nat and build_a :: "'c \<Rightarrow> 'p \<Rightarrow> Event option" and parse_a :: "'c \<Rightarrow> Event \<Rightarrow> 'r option"
    and ok_a seen_a and kind_b :: nat and build_b :: "'c \<Rightarrow> 'q \<Rightarrow> Event option"
    and parse_b :: "'c \<Rightarrow> Event \<Rightarrow> 's option" and ok_b seen_b +
  assumes kinds_differ: "kind_a \<noteq> kind_b"
begin

lemma not_both: "parse_a c e = Some r \<Longrightarrow> parse_b c e = None"
  using a.parsed_kind b.foreign_kind kinds_differ by metis

end

section \<open>The channel of a format\<close>

record 'k channel =
  ch_lib :: "'k nostr"
  ch_fstr :: "rat \<Rightarrow> string"
  ch_now :: jsnum
  ch_identity :: Keypair
  ch_recipient :: secret_key

definition sender_key :: "'k channel \<Rightarrow> string" where
  "sender_key ch = n_publicKey (ch_lib ch) (kp_secretKey (ch_identity ch))"

definition recipient_key :: "'k channel \<Rightarrow> string" where
  "recipient_key ch = n_publicKey (ch_lib ch) (ch_recipient ch)"

definition channel_ok :: "'k channel \<Rightarrow> bool" where
  "channel_ok ch = nostr_ok (ch_lib ch)"

lemma sign_content_event:
  assumes "nostr_ok lib" "sign_content lib now identity kind tags content = Some e"
  shows "ev_kind e = kind" "ev_content e = content" "ev_tags e = tags" "ev_pubkey e = n_publicKey lib (kp_secretKey identity)"
  using signed_event [OF assms(1) assms(2) [unfolded sign_content_def]] by simp_all

lemma parse_object_print:
  "jok (json_norm v) \<Longrightarrow> isRecord (json_norm v) \<Longrightarrow> parse_object (jprint fstr v) = Some (json_norm v)"
  by (simp add: parse_object_def jparse_print_norm del: jprint.simps)

lemma decrypt_object_encrypted:
  assumes "nostr_ok lib" "encryptNip44 lib (jprint fstr v) sk (n_publicKey lib rk) = Some c"
    "jok (json_norm v)" "isRecord (json_norm v)"
  shows "decrypt_object lib c rk (n_publicKey lib sk) = Some (json_norm v)"
  using encrypted_readable [OF assms(1,2)] parse_object_print [OF assms(3,4)] by (simp add: decrypt_object_def)

lemma decrypt_object_plain:
  assumes "nostr_ok lib" "encryptNip44 lib (jprint fstr v) sk (n_publicKey lib rk) = Some c" "jok v" "isRecord v"
  shows "decrypt_object lib c rk (n_publicKey lib sk) = Some v"
  using decrypt_object_encrypted [OF assms(1,2)] json_norm_ok [OF assms(3)] assms(3,4) by simp

definition whole :: "jsnum \<Rightarrow> bool" where
  "whole x = jok (Number x)"

lemma whole_norm [simp]: "whole x \<Longrightarrow> json_norm (Number x) = Number x" "whole x \<Longrightarrow> jok (Number x)"
  by (auto simp: whole_def split: jsnum.splits)

lemmas event_lib =
  stringifyPayload_def map_set_def hasVersion_def js_in_def map_get_def map_has_def opt_str_def


lemma norm_Fin [simp]: "json_norm (Number (Fin r)) = Number (Fin r)"
  by simp

lemma jok_zero [simp]: "jok (Number (Fin 0))"
  by simp

declare json_norm.simps(2) [simp del] jok.simps(4) [simp del]

text \<open>Every parser looks at the kind first.\<close>

lemma parsed_kinds:
  "parseQueryRequestEvent e = Some r1 \<Longrightarrow> ev_kind e = KIND_QUERY_REQUEST"
  "parseOfferFeedbackEvent e = Some r2 \<Longrightarrow> ev_kind e = KIND_QUERY_FEEDBACK"
  "parseSelectionFeedbackEvent lib e sk pk = Some r3 \<Longrightarrow> ev_kind e = KIND_QUERY_FEEDBACK"
  "parseQueryResponseEvent lib e sk pk = Some r4 \<Longrightarrow> ev_kind e = KIND_QUERY_RESPONSE"
  "parseOracleQueryResponseEvent lib e sk pk = Some r5 \<Longrightarrow> ev_kind e = KIND_QUERY_RESPONSE"
  by (simp_all add: parseQueryRequestEvent_def parseOfferFeedbackEvent_def parseSelectionFeedbackEvent_def
        parseQueryResponseEvent_def parseOracleQueryResponseEvent_def split: if_splits)

lemma dm_kind: "decryptDmJson lib e sk pk = Some p \<Longrightarrow> ev_kind e = KIND_DIRECT_MESSAGE"
  by (simp add: decryptDmJson_def split: if_splits)

lemma dm_parsed_kinds:
  "parsePreimageDeliveryEvent lib e sk pk = Some r1 \<Longrightarrow> ev_kind e = KIND_DIRECT_MESSAGE"
  "parseHashRequestEvent lib e sk pk = Some r2 \<Longrightarrow> ev_kind e = KIND_DIRECT_MESSAGE"
  "parseHashResponseEvent lib e sk pk = Some r3 \<Longrightarrow> ev_kind e = KIND_DIRECT_MESSAGE"
  by (auto simp: parsePreimageDeliveryEvent_def parseHashRequestEvent_def parseHashResponseEvent_def
        dest: dm_kind split: option.splits)

section \<open>The public formats\<close>

definition request_ok :: "'k channel \<Rightarrow> QueryRequestPayload \<times> string option \<Rightarrow> bool" where
  "request_ok ch p = (channel_ok ch \<and> whole (qp_max_amount_sats (fst p)) \<and> whole (qp_expires_at (fst p)))"

lemma request_read_back:
  assumes "nostr_ok lib" "whole (qp_max_amount_sats p)" "whole (qp_expires_at p)"
    "buildQueryRequestEvent lib fstr now identity p region = Some e"
  shows "ev_kind e = KIND_QUERY_REQUEST" "parseQueryRequestEvent e = Some p"
proof -
  note ev = sign_content_event [OF assms(1) assms(4) [unfolded buildQueryRequestEvent_def]]
  then show "ev_kind e = KIND_QUERY_REQUEST" by simp
  have "parse_object (ev_content e) = Some (Object (request_members p @ [(''version'', Number 0)]))"
    using ev(2) assms(2,3)
    by (subst ev(2), unfold stringifyPayload_def, subst parse_object_print) (auto simp: request_members_def map_set_def)
  then show "parseQueryRequestEvent e = Some p"
    using ev(1) by (simp add: parseQueryRequestEvent_def request_members_def event_lib private_fields_def)
qed

interpretation request_fmt: event_format KIND_QUERY_REQUEST
  "\<lambda>ch p. buildQueryRequestEvent (ch_lib ch) (ch_fstr ch) (ch_now ch) (ch_identity ch) (fst p) (snd p)"
  "\<lambda>ch. parseQueryRequestEvent" request_ok fst
  by unfold_locales
    (auto simp: request_ok_def channel_ok_def intro: request_read_back parsed_kinds)

definition offer_ok :: "'k channel \<Rightarrow> string \<times> string \<times> OfferFeedbackPayload \<Rightarrow> bool" where
  "offer_ok ch p =
    (channel_ok ch \<and> fst p \<noteq> [] \<and> fst (snd p) \<noteq> [] \<and> whole (of_amount_sats (snd (snd p))) \<and>
     of_provider_pubkey (snd (snd p)) = sender_key ch)"

definition offer_seen :: "string \<times> string \<times> OfferFeedbackPayload \<Rightarrow> ParsedOfferFeedback" where
  "offer_seen p =
    \<lparr> of_provider_pubkey = of_provider_pubkey (snd (snd p)), of_amount_sats = of_amount_sats (snd (snd p)),
      of_request_event_id = fst p, of_customer_pubkey = fst (snd p) \<rparr>"

lemma offer_read_back:
  assumes "nostr_ok lib" "whole (of_amount_sats p)" "of_provider_pubkey p = n_publicKey lib (kp_secretKey identity)"
    "req \<noteq> []" "cust \<noteq> []" "buildOfferFeedbackEvent lib fstr now identity req cust p = Some e"
  shows "ev_kind e = KIND_QUERY_FEEDBACK" "parseOfferFeedbackEvent e = Some (offer_seen (req, cust, p))"
proof -
  note ev = sign_content_event [OF assms(1) assms(6) [unfolded buildOfferFeedbackEvent_def]]
  then show "ev_kind e = KIND_QUERY_FEEDBACK" by simp
  have "parse_object (ev_content e) = Some (Object
    [(''status'', String ''payment-required''), (''provider_pubkey'', String (of_provider_pubkey p)),
     (''amount_sats'', Number (of_amount_sats p)), (''version'', Number 0)])"
    using assms(2) by (subst ev(2), unfold stringifyPayload_def, subst parse_object_print) (auto simp: map_set_def)
  then show "parseOfferFeedbackEvent e = Some (offer_seen (req, cust, p))"
    using ev(1,3,4) assms(3-5) by (simp add: parseOfferFeedbackEvent_def event_lib offer_seen_def)
qed

interpretation offer_fmt: event_format KIND_QUERY_FEEDBACK
  "\<lambda>ch p. buildOfferFeedbackEvent (ch_lib ch) (ch_fstr ch) (ch_now ch) (ch_identity ch) (fst p) (fst (snd p)) (snd (snd p))"
  "\<lambda>ch. parseOfferFeedbackEvent" offer_ok offer_seen
  by unfold_locales
    (auto simp: offer_ok_def channel_ok_def sender_key_def intro: offer_read_back parsed_kinds)

section \<open>The encrypted formats\<close>

definition selection_ok :: "'k channel \<Rightarrow> string \<times> SelectionFeedbackPayload \<Rightarrow> bool" where
  "selection_ok ch p =
    (let s = snd p; e = sf_execution s
     in channel_ok ch \<and> sf_selected_provider_pubkey s = recipient_key ch \<and> jok (se_predicate e) \<and>
        (se_context e = Undefined \<or> isRecord (se_context e) \<and> jok (se_context e)) \<and>
        whole (se_max_amount_sats e) \<and> whole (se_amount_sats e) \<and> whole (se_locktime_seconds e))"

text \<open>The members of the execution that survive, as the recipient reads them.\<close>

definition execution_sent :: "SelectionExecutionPayload \<Rightarrow> (string, jsval) jsmap" where
  "execution_sent e = filter (\<lambda>(k, v). v \<noteq> Undefined) (execution_members e)"

lemma execution_sent_norm:
  assumes "jok (se_predicate e)" "se_context e = Undefined \<or> jok (se_context e)" "whole (se_max_amount_sats e)"
    "whole (se_amount_sats e)" "whole (se_locktime_seconds e)"
  shows "json_norm (Object (execution_members e)) = Object (execution_sent e)" "jok (Object (execution_sent e))"
  using assms
  by (cases "se_description e"; auto simp: execution_sent_def execution_members_def opt_str_def json_norm_ok)+

lemma parse_execution_sent:
  assumes "jok (se_predicate e)" "se_context e = Undefined \<or> isRecord (se_context e)"
  shows "parse_execution (Object (execution_sent e)) = Some e"
  using assms
  by (cases "se_description e")
    (auto simp: parse_execution_def execution_sent_def execution_members_def event_lib)


lemma selection_read_back:
  assumes lib: "nostr_ok lib" and "sf_selected_provider_pubkey s = n_publicKey lib rk"
    and ex: "jok (se_predicate (sf_execution s))"
      "se_context (sf_execution s) = Undefined \<or> isRecord (se_context (sf_execution s)) \<and> jok (se_context (sf_execution s))"
      "whole (se_max_amount_sats (sf_execution s))" "whole (se_amount_sats (sf_execution s))"
      "whole (se_locktime_seconds (sf_execution s))"
    and built: "buildSelectionFeedbackEvent lib fstr now identity req s = Some e"
  shows "ev_kind e = KIND_QUERY_FEEDBACK"
    "parseSelectionFeedbackEvent lib e rk (n_publicKey lib (kp_secretKey identity)) = Some s"
proof -
  let ?v = "Object [(''status'', String ''processing''), (''selected_provider_pubkey'', String (n_publicKey lib rk)),
    (''provider_redemption_token'', String (sf_provider_redemption_token s)),
    (''execution'', Object (execution_members (sf_execution s))), (''version'', Number 0)]"
  obtain c where c: "encryptNip44 lib (jprint fstr ?v) (kp_secretKey identity) (n_publicKey lib rk) = Some c"
    and sgn: "sign_content lib now identity KIND_QUERY_FEEDBACK [[''e'', req, [], ''request''],
      [''p'', n_publicKey lib rk], [''status'', ''processing'']] c = Some e"
    using built assms(2) by (auto simp: buildSelectionFeedbackEvent_def stringifyPayload_def map_set_def
      bind_eq_Some_conv simp del: jprint.simps)
  note ev = sign_content_event [OF lib sgn]
  then show "ev_kind e = KIND_QUERY_FEEDBACK" by simp
  have norm: "json_norm ?v = Object [(''status'', String ''processing''),
    (''selected_provider_pubkey'', String (n_publicKey lib rk)),
    (''provider_redemption_token'', String (sf_provider_redemption_token s)),
    (''execution'', Object (execution_sent (sf_execution s))), (''version'', Number 0)]"
    "jok (Object (execution_sent (sf_execution s)))"
    using execution_sent_norm [of "sf_execution s"] ex by (auto simp del: json_norm.simps(4) simp: json_norm.simps(4) [of "_ # _"])
  have "decrypt_object lib c rk (n_publicKey lib (kp_secretKey identity)) = Some (json_norm ?v)"
    by (rule decrypt_object_encrypted [OF lib c]) (use norm in simp_all)
  then show "parseSelectionFeedbackEvent lib e rk (n_publicKey lib (kp_secretKey identity)) = Some s"
    using ev assms(2) norm(1) parse_execution_sent [of "sf_execution s"] ex
    by (auto simp: parseSelectionFeedbackEvent_def event_lib)
qed

interpretation selection_fmt: event_format KIND_QUERY_FEEDBACK
  "\<lambda>ch p. buildSelectionFeedbackEvent (ch_lib ch) (ch_fstr ch) (ch_now ch) (ch_identity ch) (fst p) (snd p)"
  "\<lambda>ch e. parseSelectionFeedbackEvent (ch_lib ch) e (ch_recipient ch) (sender_key ch)" selection_ok snd
  by unfold_locales
    (auto simp: selection_ok_def Let_def channel_ok_def recipient_key_def sender_key_def
       intro: selection_read_back parsed_kinds)

text \<open>The result, for the customer and for the oracle.\<close>

definition response_seen :: "string \<Rightarrow> jsval \<Rightarrow> proof_data \<Rightarrow> QueryResponsePayload" where
  "response_seen schema data proof = \<lparr> rp_schema = schema, rp_data = data, rp_proof = proofForJson proof \<rparr>"

definition oracle_seen :: "string \<Rightarrow> string \<Rightarrow> jsval \<Rightarrow> proof_data \<Rightarrow> string option \<Rightarrow> OracleQueryResponsePayload" where
  "oracle_seen req schema data proof queryId =
    \<lparr> rp_schema = schema, rp_data = data, rp_proof = proofForJson proof,
      rp_query_id = (case queryId of None \<Rightarrow> req | Some q \<Rightarrow> q), rp_request_event_id = req \<rparr>"

lemma response_read_back:
  assumes lib: "nostr_ok lib" and data: "jok data"
    and built: "buildQueryResponseEvent lib fstr now identity req (n_publicKey lib rk) schema data proof oraclePk qid = Some e"
  shows "ev_kind e = KIND_QUERY_RESPONSE"
    "parseQueryResponseEvent lib e rk (n_publicKey lib (kp_secretKey identity)) = Some (response_seen schema data proof)"
proof -
  let ?v = "Object [(''version'', Number 0), (''schema'', String schema), (''data'', data), (''proof'', String (proofForJson proof))]"
  obtain c tags where c: "encryptNip44 lib (jprint fstr ?v) (kp_secretKey identity) (n_publicKey lib rk) = Some c"
    and sgn: "sign_content lib now identity KIND_QUERY_RESPONSE tags c = Some e"
    using built by (auto simp: buildQueryResponseEvent_def response_text_def simp del: jprint.simps split: option.splits)
  note ev = sign_content_event [OF lib sgn]
  then show "ev_kind e = KIND_QUERY_RESPONSE" by simp
  have "decrypt_object lib c rk (n_publicKey lib (kp_secretKey identity)) = Some ?v"
    using decrypt_object_plain [OF lib c] data by simp
  then show "parseQueryResponseEvent lib e rk (n_publicKey lib (kp_secretKey identity)) = Some (response_seen schema data proof)"
    using ev by (simp add: parseQueryResponseEvent_def event_lib response_seen_def)
qed

lemma oracle_read_back:
  assumes lib: "nostr_ok lib" and data: "jok data"
    and built: "buildQueryResponseEvent lib fstr now identity req cust schema data proof (Some (n_publicKey lib ok)) qid = Some e"
  shows "parseOracleQueryResponseEvent lib e ok (n_publicKey lib (kp_secretKey identity)) =
    Some (oracle_seen req schema data proof qid)"
proof -
  let ?q = "case qid of None \<Rightarrow> req | Some q \<Rightarrow> q"
  let ?v = "Object [(''version'', Number 0), (''schema'', String schema), (''data'', data),
    (''proof'', String (proofForJson proof)), (''query_id'', String ?q), (''request_event_id'', String req)]"
  obtain c c' where c: "encryptNip44 lib (jprint fstr ?v) (kp_secretKey identity) (n_publicKey lib ok) = Some c"
    and sgn: "sign_content lib now identity KIND_QUERY_RESPONSE ([[''e'', req, [], ''request''], [''p'', cust]] @
      [[''p'', n_publicKey lib ok, [], ''oracle''], [''oracle_payload'', c]]) c' = Some e"
    using built by (auto simp: buildQueryResponseEvent_def oracle_tags_def oracle_text_def simp del: jprint.simps split: option.splits)
  note ev = sign_content_event [OF lib sgn]
  have "c \<noteq> []" by (rule encrypted_nonempty [OF lib c])
  then have tag: "findSetTagValue (ev_tags e) ''oracle_payload'' = Some c" using ev(3) by simp
  have "decrypt_object lib c ok (n_publicKey lib (kp_secretKey identity)) = Some ?v"
    using decrypt_object_plain [OF lib c] data by simp
  then show ?thesis
    using ev(1) tag by (simp add: parseOracleQueryResponseEvent_def event_lib oracle_seen_def)
qed


text \<open>What a provider answers with: request event, schema, data, proof, the oracle's key and the query id.\<close>

record answer =
  an_request :: string
  an_schema :: string
  an_data :: jsval
  an_proof :: proof_data
  an_query :: "string option"

definition answer_ok :: "'k channel \<Rightarrow> string \<times> answer \<Rightarrow> bool" where
  "answer_ok ch p = (channel_ok ch \<and> jok (an_data (snd p)))"

interpretation response_fmt: event_format KIND_QUERY_RESPONSE
  "\<lambda>ch p. buildQueryResponseEvent (ch_lib ch) (ch_fstr ch) (ch_now ch) (ch_identity ch) (an_request (snd p))
     (recipient_key ch) (an_schema (snd p)) (an_data (snd p)) (an_proof (snd p)) (Some (fst p)) (an_query (snd p))"
  "\<lambda>ch e. parseQueryResponseEvent (ch_lib ch) e (ch_recipient ch) (sender_key ch)" answer_ok
  "\<lambda>p. response_seen (an_schema (snd p)) (an_data (snd p)) (an_proof (snd p))"
  by unfold_locales
    (auto simp: answer_ok_def channel_ok_def recipient_key_def sender_key_def intro: response_read_back parsed_kinds)

interpretation oracle_fmt: event_format KIND_QUERY_RESPONSE
  "\<lambda>ch p. buildQueryResponseEvent (ch_lib ch) (ch_fstr ch) (ch_now ch) (ch_identity ch) (an_request (snd p))
     (fst p) (an_schema (snd p)) (an_data (snd p)) (an_proof (snd p)) (Some (recipient_key ch)) (an_query (snd p))"
  "\<lambda>ch e. parseOracleQueryResponseEvent (ch_lib ch) e (ch_recipient ch) (sender_key ch)" answer_ok
  "\<lambda>p. oracle_seen (an_request (snd p)) (an_schema (snd p)) (an_data (snd p)) (an_proof (snd p)) (an_query (snd p))"
  by unfold_locales
    (auto simp: answer_ok_def channel_ok_def recipient_key_def sender_key_def
       intro: oracle_read_back parsed_kinds parsed_kinds(5) [OF oracle_read_back])

section \<open>Direct messages\<close>

lemma dm_read_back:
  assumes lib: "nostr_ok lib" and ms: "jok (Object (map_set ''version'' (Number 0) ms))"
    and built: "build_dm lib fstr now identity (n_publicKey lib rk) ms = Some e"
  shows "ev_kind e = KIND_DIRECT_MESSAGE"
    "decryptDmJson lib e rk (n_publicKey lib (kp_secretKey identity)) = Some (Object (map_set ''version'' (Number 0) ms))"
proof -
  let ?v = "Object (map_set ''version'' (Number 0) ms)"
  obtain c where c: "encryptNip44 lib (jprint fstr ?v) (kp_secretKey identity) (n_publicKey lib rk) = Some c"
    and sgn: "sign_content lib now identity KIND_DIRECT_MESSAGE [[''p'', n_publicKey lib rk]] c = Some e"
    using built by (auto simp: build_dm_def stringifyPayload_def bind_eq_Some_conv simp del: jprint.simps)
  note ev = sign_content_event [OF lib sgn]
  then show "ev_kind e = KIND_DIRECT_MESSAGE" by simp
  show "decryptDmJson lib e rk (n_publicKey lib (kp_secretKey identity)) = Some ?v"
    using ev decrypt_object_plain [OF lib c ms] by (simp add: decryptDmJson_def)
qed

definition dm_ok :: "'k channel \<Rightarrow> 'p \<Rightarrow> bool" where
  "dm_ok ch p = channel_ok ch"

lemma preimage_read_back:
  assumes "nostr_ok lib" "buildPreimageDeliveryEvent lib fstr now identity (n_publicKey lib rk) p = Some e"
  shows "ev_kind e = KIND_DIRECT_MESSAGE"
    "parsePreimageDeliveryEvent lib e rk (n_publicKey lib (kp_secretKey identity)) = Some p"
    "parseHashRequestEvent lib e rk (n_publicKey lib (kp_secretKey identity)) = None"
    "parseHashResponseEvent lib e rk (n_publicKey lib (kp_secretKey identity)) = None"
  using dm_read_back [OF assms(1) _ assms(2) [unfolded buildPreimageDeliveryEvent_def]]
  by (simp_all add: parsePreimageDeliveryEvent_def parseHashRequestEvent_def parseHashResponseEvent_def event_lib)

lemma hash_request_read_back:
  assumes "nostr_ok lib" "buildHashRequestEvent lib fstr now identity (n_publicKey lib rk) q = Some e"
  shows "ev_kind e = KIND_DIRECT_MESSAGE"
    "parseHashRequestEvent lib e rk (n_publicKey lib (kp_secretKey identity)) = Some q"
    "parsePreimageDeliveryEvent lib e rk (n_publicKey lib (kp_secretKey identity)) = None"
    "parseHashResponseEvent lib e rk (n_publicKey lib (kp_secretKey identity)) = None"
  using dm_read_back [OF assms(1) _ assms(2) [unfolded buildHashRequestEvent_def]]
  by (simp_all add: parsePreimageDeliveryEvent_def parseHashRequestEvent_def parseHashResponseEvent_def event_lib)

lemma hash_response_read_back:
  assumes "nostr_ok lib" "buildHashResponseEvent lib fstr now identity (n_publicKey lib rk) p = Some e"
  shows "ev_kind e = KIND_DIRECT_MESSAGE"
    "parseHashResponseEvent lib e rk (n_publicKey lib (kp_secretKey identity)) = Some p"
    "parsePreimageDeliveryEvent lib e rk (n_publicKey lib (kp_secretKey identity)) = None"
    "parseHashRequestEvent lib e rk (n_publicKey lib (kp_secretKey identity)) = None"
  using dm_read_back [OF assms(1) _ assms(2) [unfolded buildHashResponseEvent_def]]
  by (simp_all add: parsePreimageDeliveryEvent_def parseHashRequestEvent_def parseHashResponseEvent_def event_lib)

interpretation preimage_fmt: event_format KIND_DIRECT_MESSAGE
  "\<lambda>ch. buildPreimageDeliveryEvent (ch_lib ch) (ch_fstr ch) (ch_now ch) (ch_identity ch) (recipient_key ch)"
  "\<lambda>ch e. parsePreimageDeliveryEvent (ch_lib ch) e (ch_recipient ch) (sender_key ch)" dm_ok id
  by unfold_locales
    (auto simp: dm_ok_def channel_ok_def recipient_key_def sender_key_def intro: preimage_read_back dm_parsed_kinds)

interpretation hash_request_fmt: event_format KIND_DIRECT_MESSAGE
  "\<lambda>ch. buildHashRequestEvent (ch_lib ch) (ch_fstr ch) (ch_now ch) (ch_identity ch) (recipient_key ch)"
  "\<lambda>ch e. parseHashRequestEvent (ch_lib ch) e (ch_recipient ch) (sender_key ch)" dm_ok id
  by unfold_locales
    (auto simp: dm_ok_def channel_ok_def recipient_key_def sender_key_def intro: hash_request_read_back dm_parsed_kinds)

interpretation hash_response_fmt: event_format KIND_DIRECT_MESSAGE
  "\<lambda>ch. buildHashResponseEvent (ch_lib ch) (ch_fstr ch) (ch_now ch) (ch_identity ch) (recipient_key ch)"
  "\<lambda>ch e. parseHashResponseEvent (ch_lib ch) e (ch_recipient ch) (sender_key ch)" dm_ok id
  by unfold_locales
    (auto simp: dm_ok_def channel_ok_def recipient_key_def sender_key_def intro: hash_response_read_back dm_parsed_kinds)

text \<open>A selection is never read as a preimage delivery, whoever sent it.\<close>

interpretation selection_or_preimage: two_formats KIND_QUERY_FEEDBACK
  "\<lambda>ch p. buildSelectionFeedbackEvent (ch_lib ch) (ch_fstr ch) (ch_now ch) (ch_identity ch) (fst p) (snd p)"
  "\<lambda>ch e. parseSelectionFeedbackEvent (ch_lib ch) e (ch_recipient ch) (sender_key ch)" selection_ok snd
  KIND_DIRECT_MESSAGE
  "\<lambda>ch. buildPreimageDeliveryEvent (ch_lib ch) (ch_fstr ch) (ch_now ch) (ch_identity ch) (recipient_key ch)"
  "\<lambda>ch e. parsePreimageDeliveryEvent (ch_lib ch) e (ch_recipient ch) (sender_key ch)" dm_ok id
  by unfold_locales (simp add: kind_defs)


lemma version_object: "hasVersion v n \<Longrightarrow> \<exists>ms. v = Object ms \<and> map_get ms ''version'' = Some (Number n)"
  by (cases v) (auto simp: hasVersion_def split: option.splits)

lemma opt_prop_values:
  "string_of (opt_prop (Object ms) k) = Some s \<longleftrightarrow> map_get ms k = Some (String s)"
  "number_of (opt_prop (Object ms) k) = Some x \<longleftrightarrow> map_get ms k = Some (Number x)"
proof -
  have "string_of v = Some s \<longleftrightarrow> v = String s" "number_of v = Some x \<longleftrightarrow> v = Number x" for v
    by (cases v; auto)+
  then show "string_of (opt_prop (Object ms) k) = Some s \<longleftrightarrow> map_get ms k = Some (String s)"
    "number_of (opt_prop (Object ms) k) = Some x \<longleftrightarrow> map_get ms k = Some (Number x)"
    by (auto split: option.splits)
qed

lemma request_accepted:
  "parseQueryRequestEvent e = Some r \<longleftrightarrow>
    ev_kind e = 5300 \<and> (\<exists>ms. jparse (ev_content e) = Some (Object ms) \<and>
      list_all (\<lambda>k. map_get ms k = None) private_fields \<and> map_get ms ''version'' = Some (Number 0) \<and>
      map_get ms ''query_id'' = Some (String (qp_query_id r)) \<and> map_get ms ''schema'' = Some (String (qp_schema r)) \<and>
      map_get ms ''customer_pubkey'' = Some (String (qp_customer_pubkey r)) \<and>
      map_get ms ''oracle_pubkey'' = Some (String (qp_oracle_pubkey r)) \<and>
      map_get ms ''max_amount_sats'' = Some (Number (qp_max_amount_sats r)) \<and>
      map_get ms ''expires_at'' = Some (Number (qp_expires_at r)))"
  (is "?L \<longleftrightarrow> ?R")
proof
  assume L: ?L
  then obtain p where p: "ev_kind e = KIND_QUERY_REQUEST" "jparse (ev_content e) = Some p" "hasVersion p 0"
    "\<not> list_ex (\<lambda>k. js_in k p) private_fields"
    by (auto simp: parseQueryRequestEvent_def parse_object_def split: if_splits option.splits)
  from version_object [OF p(3)] obtain ms where ms: "p = Object ms" "map_get ms ''version'' = Some (Number 0)" by blast
  have "list_all (\<lambda>k. map_get ms k = None) private_fields"
    using p(4) ms(1) by (auto simp: js_in_def map_has_def map_get_def list_ex_iff list_all_iff)
  moreover have "(case (string_of (opt_prop p ''query_id''), string_of (opt_prop p ''schema''),
      string_of (opt_prop p ''customer_pubkey''), string_of (opt_prop p ''oracle_pubkey''),
      number_of (opt_prop p ''max_amount_sats''), number_of (opt_prop p ''expires_at'')) of
        (Some q, Some s, Some c, Some o', Some m, Some e) \<Rightarrow>
          Some \<lparr> qp_query_id = q, qp_schema = s, qp_customer_pubkey = c, qp_oracle_pubkey = o',
                 qp_max_amount_sats = m, qp_expires_at = e \<rparr>
      | _ \<Rightarrow> None) = Some r"
    using L p by (auto simp: parseQueryRequestEvent_def parse_object_def split: if_splits)
  ultimately show ?R
    using p(1,2) ms unfolding ms(1)
    by (intro conjI exI [of _ ms])
      (auto simp: kind_defs opt_prop_values simp del: opt_prop.simps split: option.splits)
next
  assume ?R
  then obtain ms where ms: "ev_kind e = 5300" "jparse (ev_content e) = Some (Object ms)"
    "list_all (\<lambda>k. map_get ms k = None) private_fields" "map_get ms ''version'' = Some (Number 0)"
    "map_get ms ''query_id'' = Some (String (qp_query_id r))" "map_get ms ''schema'' = Some (String (qp_schema r))"
    "map_get ms ''customer_pubkey'' = Some (String (qp_customer_pubkey r))"
    "map_get ms ''oracle_pubkey'' = Some (String (qp_oracle_pubkey r))"
    "map_get ms ''max_amount_sats'' = Some (Number (qp_max_amount_sats r))"
    "map_get ms ''expires_at'' = Some (Number (qp_expires_at r))" by blast
  have "\<not> list_ex (\<lambda>k. js_in k (Object ms)) private_fields"
    using ms(3) by (auto simp: js_in_def map_has_def map_get_def list_ex_iff list_all_iff)
  with ms show ?L by (simp add: parseQueryRequestEvent_def parse_object_def kind_defs hasVersion_def)
qed

end
