(* ===== verification/Protocol_Properties.thy ===== *)
theory Protocol_Properties
  imports Protocol_Formats
begin

text \<open>
  The properties of the protocol's event formats.  \<open>ex_nostr\<close> is a library that satisfies \<open>nostr_ok\<close>
  (a public key is the key in hexadecimal, a conversation key is the pair of public keys).
\<close>

section \<open>A library for the examples\<close>

definition ex_nostr :: "string set nostr" where
  "ex_nostr =
    \<lparr> n_publicKey = hex_string, n_conversationKey = (\<lambda>sk pk. Some {hex_string sk, pk}),
      n_encrypt = (\<lambda>m k. Some (CHR ''#'' # m)), n_decrypt = (\<lambda>c k. case c of [] \<Rightarrow> None | _ # m \<Rightarrow> Some m),
      n_finalize = (\<lambda>t sk. Some \<lparr> ev_id = ''id'', ev_pubkey = hex_string sk, ev_created_at = tm_created_at t,
        ev_kind = tm_kind t, ev_tags = tm_tags t, ev_content = tm_content t, ev_sig = ''sig'' \<rparr>),
      n_decodeBech32 = (\<lambda>_. None) \<rparr>"

lemma ex_nostr_ok: "nostr_ok ex_nostr"
  by (auto simp: nostr_ok_def ex_nostr_def)

definition ex_identity :: Keypair where
  "ex_identity = \<lparr> kp_secretKey = [1], kp_publicKey = ''01'' \<rparr>"

definition ex_execution :: SelectionExecutionPayload where
  "ex_execution =
    \<lparr> se_schema = ''https://anchr.dev/s'', se_predicate = Object [(''min'', Number (Fin 3))], se_description = None,
      se_context = Undefined, se_mint_url = ''https://mint'', se_max_amount_sats = Fin 100, se_amount_sats = Fin 80,
      se_locktime_seconds = Fin 1700000000 \<rparr>"

definition ex_selection :: SelectionFeedbackPayload where
  "ex_selection =
    \<lparr> sf_selected_provider_pubkey = hex_string [2], sf_provider_redemption_token = ''cashuB'', sf_execution = ex_execution \<rparr>"

definition ex_request :: QueryRequestPayload where
  "ex_request =
    \<lparr> qp_query_id = ''q1'', qp_schema = ''https://anchr.dev/s'', qp_customer_pubkey = ''01'', qp_oracle_pubkey = ''03'',
      qp_max_amount_sats = Fin 100, qp_expires_at = Fin 1700000000000 \<rparr>"

lemma ex_encrypt: "encryptNip44 ex_nostr m sk pk = Some (CHR ''#'' # m)"
  by (simp add: encryptNip44_def ex_nostr_def)

lemma ex_sign: "\<exists>e. sign_content ex_nostr now ident k tags content = Some e"
  by (simp add: sign_content_def signEvent_def ex_nostr_def)

lemma ex_built:
  "\<exists>e. buildSelectionFeedbackEvent ex_nostr fstr now ident req s = Some e"
  "\<exists>e. buildQueryResponseEvent ex_nostr fstr now ident req cust schema data prf (Some ok) qid = Some e"
  "\<exists>e. buildQueryRequestEvent ex_nostr fstr now ident r region = Some e"
  unfolding buildSelectionFeedbackEvent_def buildQueryResponseEvent_def oracle_tags_def ex_encrypt
    buildQueryRequestEvent_def by (simp_all add: ex_sign)

lemma ex_keys: "n_publicKey ex_nostr = hex_string" "kp_secretKey ex_identity = [1]"
  by (simp_all add: ex_nostr_def ex_identity_def)

section \<open>Claims\<close>

text \<open>A selection the customer builds for a provider is read back by that provider, from the event alone and
  the customer's public key, as exactly the payload the customer wrote: the redemption token, the selected key and
  the whole execution context, its optional description and context included.  It holds for every predicate and
  context that is plain JSON and for whole amounts.\<close>

theorem selection_roundtrip:
  assumes "nostr_ok lib" "sf_selected_provider_pubkey s = n_publicKey lib rk"
    "jok (se_predicate (sf_execution s))"
    "se_context (sf_execution s) = Undefined \<or> isRecord (se_context (sf_execution s)) \<and> jok (se_context (sf_execution s))"
    "whole (se_max_amount_sats (sf_execution s))" "whole (se_amount_sats (sf_execution s))"
    "whole (se_locktime_seconds (sf_execution s))"
    "buildSelectionFeedbackEvent lib fstr now identity req s = Some e"
  shows "parseSelectionFeedbackEvent lib e rk (n_publicKey lib (kp_secretKey identity)) = Some s"
  using assms
    selection_fmt.read_back [of "\<lparr> ch_lib = lib, ch_fstr = fstr, ch_now = now, ch_identity = identity, ch_recipient = rk \<rparr>" "(req, s)" e]
  by (simp add: selection_ok_def channel_ok_def recipient_key_def sender_key_def)

theorem selection_roundtrip_witness:
  "\<exists>e. buildSelectionFeedbackEvent ex_nostr (\<lambda>_. []) (Fin 5000) ex_identity ''req'' ex_selection = Some e \<and>
     parseSelectionFeedbackEvent ex_nostr e [2] (n_publicKey ex_nostr (kp_secretKey ex_identity)) = Some ex_selection"
proof -
  obtain e where e: "buildSelectionFeedbackEvent ex_nostr (\<lambda>_. []) (Fin 5000) ex_identity ''req'' ex_selection = Some e"
    using ex_built(1) by blast
  have "parseSelectionFeedbackEvent ex_nostr e [2] (n_publicKey ex_nostr (kp_secretKey ex_identity)) = Some ex_selection"
    by (rule selection_roundtrip [OF ex_nostr_ok _ _ _ _ _ _ e])
      (simp_all add: ex_selection_def ex_execution_def ex_keys whole_def jok.simps)
  with e show ?thesis by blast
qed

text \<open>The customer and the oracle read the same result.  From one result event the customer reads, with its
  own key, the schema, data and proof the provider sent, and the oracle reads the same three from the
  \<open>oracle_payload\<close> tag together with the request event and the query id (the request event id where the provider
  names no query).\<close>

theorem result_seen_by_both:
  assumes "nostr_ok lib" "jok data"
    "buildQueryResponseEvent lib fstr now identity req (n_publicKey lib ck) schema data proof (Some (n_publicKey lib ok)) qid = Some e"
  shows "parseQueryResponseEvent lib e ck (n_publicKey lib (kp_secretKey identity)) =
      Some \<lparr> rp_schema = schema, rp_data = data, rp_proof = proofForJson proof \<rparr>"
    "parseOracleQueryResponseEvent lib e ok (n_publicKey lib (kp_secretKey identity)) =
      Some \<lparr> rp_schema = schema, rp_data = data, rp_proof = proofForJson proof,
             rp_query_id = (case qid of None \<Rightarrow> req | Some q \<Rightarrow> q), rp_request_event_id = req \<rparr>"
  using response_read_back(2) [OF assms] oracle_read_back [OF assms] by (simp_all add: response_seen_def oracle_seen_def)

theorem result_seen_by_both_witness:
  "\<exists>e. buildQueryResponseEvent ex_nostr (\<lambda>_. []) (Fin 5000) ex_identity ''req'' (n_publicKey ex_nostr [2]) ''s''
        (Bool True) (Proof_bytes [77, 97]) (Some (n_publicKey ex_nostr [3])) None = Some e \<and>
     parseQueryResponseEvent ex_nostr e [2] (n_publicKey ex_nostr (kp_secretKey ex_identity)) =
       Some \<lparr> rp_schema = ''s'', rp_data = Bool True, rp_proof = ''TWE='' \<rparr> \<and>
     parseOracleQueryResponseEvent ex_nostr e [3] (n_publicKey ex_nostr (kp_secretKey ex_identity)) =
       Some \<lparr> rp_schema = ''s'', rp_data = Bool True, rp_proof = ''TWE='', rp_query_id = ''req'', rp_request_event_id = ''req'' \<rparr>"
proof -
  obtain e where e: "buildQueryResponseEvent ex_nostr (\<lambda>_. []) (Fin 5000) ex_identity ''req'' (n_publicKey ex_nostr [2]) ''s''
        (Bool True) (Proof_bytes [77, 97]) (Some (n_publicKey ex_nostr [3])) None = Some e"
    using ex_built(2) by blast
  have b64: "proofForJson (Proof_bytes [77, 97]) = ''TWE=''" by (simp add: base64_digits_def)
  have "jok (Bool True)" by simp
  note seen = result_seen_by_both [OF ex_nostr_ok this e, unfolded b64 option.case]
  from e seen(1,2) show ?thesis by blast
qed

text \<open>The public request notice carries no payment material.  A notice the customer builds is read back
  unchanged; and an event from anyone is accepted exactly if it is of kind 5300 and its content is an object of
  version 0 without any of the eight execution and payment members that holds the six values returned.\<close>

theorem request_notice_public:
  assumes "nostr_ok lib" "whole (qp_max_amount_sats p)" "whole (qp_expires_at p)"
    "buildQueryRequestEvent lib fstr now identity p region = Some e"
  shows "parseQueryRequestEvent e = Some p"
    "parseQueryRequestEvent e' = Some r \<longleftrightarrow>
      ev_kind e' = 5300 \<and> (\<exists>ms. jparse (ev_content e') = Some (Object ms) \<and>
        list_all (\<lambda>k. map_get ms k = None) private_fields \<and> map_get ms ''version'' = Some (Number 0) \<and>
        map_get ms ''query_id'' = Some (String (qp_query_id r)) \<and> map_get ms ''schema'' = Some (String (qp_schema r)) \<and>
        map_get ms ''customer_pubkey'' = Some (String (qp_customer_pubkey r)) \<and>
        map_get ms ''oracle_pubkey'' = Some (String (qp_oracle_pubkey r)) \<and>
        map_get ms ''max_amount_sats'' = Some (Number (qp_max_amount_sats r)) \<and>
        map_get ms ''expires_at'' = Some (Number (qp_expires_at r)))"
  by (rule request_read_back [OF assms], rule request_accepted)

theorem request_notice_public_witness:
  "\<exists>e. buildQueryRequestEvent ex_nostr (\<lambda>_. []) (Fin 5000) ex_identity ex_request (Some ''jp'') = Some e \<and>
     parseQueryRequestEvent e = Some ex_request"
proof -
  obtain e where e: "buildQueryRequestEvent ex_nostr (\<lambda>_. []) (Fin 5000) ex_identity ex_request (Some ''jp'') = Some e"
    using ex_built(3) by blast
  have "parseQueryRequestEvent e = Some ex_request"
    by (rule request_notice_public(1) [OF ex_nostr_ok _ _ e]) (simp_all add: ex_request_def whole_def jok.simps)
  with e show ?thesis by blast
qed

end
