(* ===== verification/Replay_Guard.thy ===== *)
theory Replay_Guard
  imports Anchr_Prelude
begin

text \<open>
  The bounded replay-detection set (\<open>proofs/replay-guard.ts\<close>): its eviction by age and by size and what it
  remembers.  The clock of a call is an argument.
\<close>

section \<open>Operations\<close>

record replay_guard =
  rg_retentionMs :: jsnum
  rg_maxEntries :: jsnum
  rg_seen :: "(string, jsnum) jsmap"

definition DEFAULT_RETENTION_MS :: jsnum where "DEFAULT_RETENTION_MS = Fin (7 * 24 * 60 * 60 * 1000)"
definition DEFAULT_MAX_ENTRIES :: jsnum where "DEFAULT_MAX_ENTRIES = Fin 100000"

definition createReplayGuard :: "jsnum option \<Rightarrow> jsnum option \<Rightarrow> replay_guard" where
  "createReplayGuard retentionMs maxEntries =
    \<lparr> rg_retentionMs = (case retentionMs of None \<Rightarrow> DEFAULT_RETENTION_MS | Some r \<Rightarrow> r),
      rg_maxEntries = (case maxEntries of None \<Rightarrow> DEFAULT_MAX_ENTRIES | Some n \<Rightarrow> n), rg_seen = [] \<rparr>"

text \<open>The two loops of \<open>evict\<close>, both from the oldest entry.\<close>

fun evict_old :: "jsnum \<Rightarrow> (string, jsnum) jsmap \<Rightarrow> (string, jsnum) jsmap" where
  "evict_old cutoff [] = []"
| "evict_old cutoff ((key, insertedAt) # m) =
    (if cutoff \<le> insertedAt then (key, insertedAt) # m else evict_old cutoff m)"

fun evict_over :: "jsnum \<Rightarrow> (string, jsnum) jsmap \<Rightarrow> (string, jsnum) jsmap" where
  "evict_over maxEntries [] = []"
| "evict_over maxEntries (e # m) = (if maxEntries < of_len (e # m) then evict_over maxEntries m else e # m)"

definition evict :: "jsnum \<Rightarrow> replay_guard \<Rightarrow> replay_guard" where
  "evict now g =
    g\<lparr> rg_seen := evict_over (rg_maxEntries g) (evict_old (now - rg_retentionMs g) (rg_seen g)) \<rparr>"

definition guard_has :: "jsnum \<Rightarrow> replay_guard \<Rightarrow> string \<Rightarrow> bool \<times> replay_guard" where
  "guard_has now g key = (map_has (rg_seen (evict now g)) key, evict now g)"

definition guard_add :: "jsnum \<Rightarrow> replay_guard \<Rightarrow> string \<Rightarrow> replay_guard" where
  "guard_add now g key = evict now (g\<lparr> rg_seen := map_set key now (rg_seen g) \<rparr>)"

definition guard_clear :: "replay_guard \<Rightarrow> replay_guard" where
  "guard_clear g = g\<lparr> rg_seen := [] \<rparr>"

definition guard_size :: "replay_guard \<Rightarrow> nat" where
  "guard_size g = length (rg_seen g)"

section \<open>Runs of the guard\<close>

text \<open>A use of the guard at a time of the clock.\<close>

datatype guard_call = Has jsnum string | Add jsnum string

fun use_time :: "guard_call \<Rightarrow> jsnum" where
  "use_time (Has t k) = t"
| "use_time (Add t k) = t"

fun is_add :: "guard_call \<Rightarrow> bool" where
  "is_add (Add t k) = True"
| "is_add (Has t k) = False"

fun guard_use :: "replay_guard \<Rightarrow> guard_call \<Rightarrow> replay_guard" where
  "guard_use g (Has t k) = snd (guard_has t g k)"
| "guard_use g (Add t k) = guard_add t g k"

definition guard_run :: "replay_guard \<Rightarrow> guard_call list \<Rightarrow> replay_guard" where
  "guard_run g us = foldl guard_use g us"

section \<open>Lemmas\<close>

lemma guard_evict_fields [simp]:
  "rg_retentionMs (evict t g) = rg_retentionMs g" "rg_maxEntries (evict t g) = rg_maxEntries g"
  by (simp_all add: evict_def)

lemma guard_use_fields [simp]:
  "rg_retentionMs (guard_use g u) = rg_retentionMs g" "rg_maxEntries (guard_use g u) = rg_maxEntries g"
  by (cases u; simp add: guard_has_def guard_add_def)+

lemma guard_run_fields [simp]:
  "rg_retentionMs (guard_run g us) = rg_retentionMs g" "rg_maxEntries (guard_run g us) = rg_maxEntries g"
  unfolding guard_run_def by (induction us arbitrary: g) simp_all

lemma evict_over_bound: "0 \<le> n \<Longrightarrow> of_nat (length (evict_over (Fin n) m)) \<le> n"
  by (induction "Fin n" m rule: evict_over.induct) (auto simp: of_len_def)

lemma evict_bound: "rg_maxEntries g = Fin n \<Longrightarrow> 0 \<le> n \<Longrightarrow> of_nat (length (rg_seen (evict t g))) \<le> n"
  by (simp add: evict_def evict_over_bound)

lemma guard_use_bound: "rg_maxEntries g = Fin n \<Longrightarrow> 0 \<le> n \<Longrightarrow> of_nat (guard_size (guard_use g u)) \<le> n"
  by (cases u) (simp_all add: guard_has_def guard_add_def guard_size_def evict_bound)

lemma guard_run_bound:
  assumes "rg_maxEntries g = Fin n" "0 \<le> n" "of_nat (guard_size g) \<le> n"
  shows "of_nat (guard_size (guard_run g us)) \<le> n"
  using assms unfolding guard_run_def by (induction us arbitrary: g) (simp_all add: guard_use_bound)

text \<open>\<open>kept g k t n\<close>: the key is remembered since \<open>t\<close> or later and at most \<open>n\<close> entries are younger.\<close>

definition kept :: "replay_guard \<Rightarrow> string \<Rightarrow> rat \<Rightarrow> nat \<Rightarrow> bool" where
  "kept g k t n =
    (\<exists>pre s post. rg_seen g = pre @ (k, Fin s) # post \<and> t \<le> s \<and> length post \<le> n)"

lemma evict_old_keeps: "cutoff \<le> s \<Longrightarrow> \<exists>pre'. evict_old cutoff (pre @ (k, s) # post) = pre' @ (k, s) # post"
proof (induction pre)
  case (Cons e pre)
  then obtain pre' where "evict_old cutoff (pre @ (k, s) # post) = pre' @ (k, s) # post" by auto
  then show ?case by (cases e) (auto intro: exI [of _ "e # pre"])
qed (auto intro: exI [of _ "[]"])

lemma evict_over_keeps:
  "of_nat (Suc (length post)) \<le> n \<Longrightarrow> \<exists>pre'. evict_over (Fin n) (pre @ e # post) = pre' @ e # post"
proof (induction pre)
  case (Cons e' pre)
  then obtain pre' where "evict_over (Fin n) (pre @ e # post) = pre' @ e # post" by auto
  then show ?case by (auto intro: exI [of _ "e' # pre"])
qed (auto simp: of_len_def intro: exI [of _ "[]"])

lemma map_set_middle:
  "map_set k v (pre @ (k0, v0) # post) =
    (if k \<in> fst ` set pre then map_set k v pre @ (k0, v0) # post
     else if k = k0 then pre @ (k0, v) # post
     else pre @ (k0, v0) # map_set k v post)"
  unfolding map_set_def by (cases "k = k0"; induction pre) simp_all

lemma map_set_grows: "length (map_set k v m) \<le> Suc (length m)"
  unfolding map_set_def by (induction m) auto

lemma kept_evict:
  assumes "kept g k t n" "rg_maxEntries g = Fin cap" "of_nat (Suc n) \<le> cap" "rg_retentionMs g = Fin R" "tm - R \<le> t"
  shows "kept (evict (Fin tm) g) k t n"
proof -
  from assms(1) obtain pre s post where g: "rg_seen g = pre @ (k, Fin s) # post" "t \<le> s" "length post \<le> n"
    by (auto simp: kept_def)
  have "Fin tm - Fin R \<le> Fin s" using assms(5) g(2) by simp
  from evict_old_keeps [OF this] obtain pre1
    where 1: "evict_old (Fin tm - Fin R) (rg_seen g) = pre1 @ (k, Fin s) # post" using g(1) by metis
  have "of_nat (Suc (length post)) \<le> cap" using g(3) assms(3) by (meson Suc_le_mono of_nat_le_iff order_trans)
  from evict_over_keeps [OF this] obtain pre2
    where "evict_over (Fin cap) (pre1 @ (k, Fin s) # post) = pre2 @ (k, Fin s) # post" by blast
  with 1 g(2,3) show ?thesis unfolding kept_def evict_def assms(2,4) by auto
qed

lemma kept_set:
  assumes "kept g k t n" "t \<le> tm"
  shows "kept (g\<lparr> rg_seen := map_set k' (Fin tm) (rg_seen g) \<rparr>) k t (Suc n)"
proof -
  from assms(1) obtain pre s post where g: "rg_seen g = pre @ (k, Fin s) # post" "t \<le> s" "length post \<le> n"
    by (auto simp: kept_def)
  have "length (map_set k' (Fin tm) post) \<le> Suc n" using map_set_grows [of k' "Fin tm" post] g(3) by simp
  with g assms(2) show ?thesis
    by (auto simp: kept_def map_set_middle intro: exI [of _ "map_set k' (Fin tm) pre"] exI [of _ pre])
qed

text \<open>Uses of the guard at times between the insertion and the end of the retention.\<close>

definition in_window :: "rat \<Rightarrow> rat \<Rightarrow> guard_call \<Rightarrow> bool" where
  "in_window t R u = (case use_time u of Fin tm \<Rightarrow> t \<le> tm \<and> tm \<le> t + R | _ \<Rightarrow> False)"

lemma kept_use:
  assumes "kept g k t n" "rg_maxEntries g = Fin cap" "rg_retentionMs g = Fin R" "in_window t R u"
    "of_nat (Suc (if is_add u then Suc n else n)) \<le> cap"
  shows "kept (guard_use g u) k t (if is_add u then Suc n else n)"
proof (cases u)
  case (Has tm' k')
  with assms(4) obtain tm where "tm' = Fin tm" "tm - R \<le> t" by (auto simp: in_window_def split: jsnum.splits)
  with Has kept_evict [OF assms(1,2) _ assms(3)] assms(5) show ?thesis by (simp add: guard_has_def)
next
  case (Add tm' k')
  with assms(4) obtain tm where tm: "tm' = Fin tm" "tm - R \<le> t" "t \<le> tm" by (auto simp: in_window_def split: jsnum.splits)
  show ?thesis
    using kept_evict [OF kept_set [OF assms(1) tm(3), of k'], of cap R tm] assms(2,3,5) Add tm by (simp add: guard_add_def)
qed

lemma kept_run:
  assumes "kept g k t n" "rg_maxEntries g = Fin cap" "rg_retentionMs g = Fin R" "list_all (in_window t R) us"
    "of_nat (Suc (n + length (filter is_add us))) \<le> cap"
  shows "kept (guard_run g us) k t (n + length (filter is_add us))"
  using assms
proof (induction us arbitrary: g n)
  case Nil
  then show ?case by (simp add: guard_run_def)
next
  case (Cons u us)
  let ?n = "if is_add u then Suc n else n"
  have n: "?n + length (filter is_add us) = n + length (filter is_add (u # us))" by simp
  have "of_nat (Suc ?n) \<le> cap"
    using Cons.prems(5) by (smt (verit) n Suc_le_mono le_add1 of_nat_le_iff order_trans)
  then have "kept (guard_use g u) k t ?n" using kept_use [OF Cons.prems(1-3)] Cons.prems(4) by simp
  from Cons.IH [OF this, of ] Cons.prems(2-5) n show ?case by (simp add: guard_run_def)
qed

lemma kept_has:
  assumes "kept g k t n"
  shows "map_has (rg_seen g) k"
  using assms by (auto simp: kept_def map_has_def map_of_eq_None_iff)

lemma kept_add:
  assumes "\<not> map_has (rg_seen g) k" "rg_maxEntries g = Fin cap" "1 \<le> cap" "rg_retentionMs g = Fin R" "0 \<le> R"
  shows "kept (guard_add (Fin t) g k) k t 0"
proof -
  have "map_set k (Fin t) (rg_seen g) = rg_seen g @ [(k, Fin t)]"
    using assms(1) by (intro map_set_fresh) (simp add: map_has_get)
  then have "kept (g\<lparr> rg_seen := map_set k (Fin t) (rg_seen g) \<rparr>) k t 0" by (auto simp: kept_def)
  from kept_evict [OF this, of cap R t] assms show ?thesis by (simp add: guard_add_def)
qed

end
