(* ===== verification/Tlsn_Validation.thy ===== *)
theory Tlsn_Validation
  imports Replay_Guard Frost_Cli Protocol_Nostr
begin

text \<open>
  TLSNotary presentations (\<open>proofs/tlsn-types.ts\<close>, \<open>proofs/tlsn-validation.ts\<close>): the shapes of requirement
  and evidence, the conditions, and the validation.  Arguments of the model: the verifier binary
  (\<open>tv_run\<close>, on the decoded bytes of the presentation), SHA-256, base64 decoding of the runtime, the URL
  parser and the regular expression engine.  The validation awaits the binary; it is \<open>tlsn_begin\<close> before
  and \<open>tlsn_finish\<close> after, and the replay guard of the module is passed through.
\<close>

section \<open>Shapes (tlsn-types.ts)\<close>

record TlsnCondition =
  tc_type :: string
  tc_expression :: string
  tc_expected :: "string option"
  tc_description :: "string option"

record TlsnRequirement =
  tr_target_url :: string
  tr_method :: "string option"
  tr_conditions :: "TlsnCondition list option"
  tr_max_age :: "jsnum option"
  tr_domain_hint :: "string option"

record TlsnVerifiedData =
  vd_server_name :: jsval
  vd_revealed_body :: jsval
  vd_revealed_headers :: jsval
  vd_session_timestamp :: jsval

fun is_string :: "jsval \<Rightarrow> bool" where
  "is_string (String s) = True"
| "is_string _ = False"

fun is_number :: "jsval \<Rightarrow> bool" where
  "is_number (Number x) = True"
| "is_number _ = False"

text \<open>\<open>v === undefined || typeof v === "string"\<close>.\<close>

definition opt_string :: "jsval \<Rightarrow> bool" where
  "opt_string v = (v = Undefined \<or> is_string v)"

definition isTlsnCondition :: "jsval \<Rightarrow> bool" where
  "isTlsnCondition value =
    (isRecord value \<and>
     opt_prop value ''type'' \<in> {String ''contains'', String ''regex'', String ''jsonpath''} \<and>
     is_string (opt_prop value ''expression'') \<and> opt_string (opt_prop value ''expected'') \<and>
     opt_string (opt_prop value ''description''))"

definition isTlsnRequirement :: "jsval \<Rightarrow> bool" where
  "isTlsnRequirement value =
    (isRecord value \<and> is_string (opt_prop value ''target_url'') \<and>
     opt_prop value ''method'' \<in> {Undefined, String ''GET'', String ''POST''} \<and>
     (case opt_prop value ''conditions'' of
        Undefined \<Rightarrow> True | Array vs \<Rightarrow> list_all isTlsnCondition vs | _ \<Rightarrow> False) \<and>
     (opt_prop value ''max_attestation_age_seconds'' = Undefined \<or>
      is_number (opt_prop value ''max_attestation_age_seconds'')) \<and>
     opt_string (opt_prop value ''domain_hint''))"

definition isTlsnAttestation :: "jsval \<Rightarrow> bool" where
  "isTlsnAttestation value = (isRecord value \<and> is_string (opt_prop value ''presentation''))"

definition isTlsnExtensionResultEntry :: "jsval \<Rightarrow> bool" where
  "isTlsnExtensionResultEntry value =
    (isRecord value \<and> is_string (opt_prop value ''type'') \<and> is_string (opt_prop value ''part'') \<and>
     is_string (opt_prop value ''value''))"

definition isTlsnExtensionResult :: "jsval \<Rightarrow> bool" where
  "isTlsnExtensionResult value =
    (isRecord value \<and> opt_string (opt_prop value ''presentation'') \<and>
     (case opt_prop value ''results'' of
        Undefined \<Rightarrow> True | Array vs \<Rightarrow> list_all isTlsnExtensionResultEntry vs | _ \<Rightarrow> False) \<and>
     (opt_prop value ''presentation'' \<noteq> Undefined \<or> opt_prop value ''results'' \<noteq> Undefined))"

definition isTlsnVerifiedData :: "jsval \<Rightarrow> bool" where
  "isTlsnVerifiedData value =
    (isRecord value \<and> is_string (opt_prop value ''server_name'') \<and> is_string (opt_prop value ''revealed_body'') \<and>
     opt_string (opt_prop value ''revealed_headers'') \<and> is_number (opt_prop value ''session_timestamp''))"

text \<open>The values under the types the guards establish.\<close>

definition as_condition :: "jsval \<Rightarrow> TlsnCondition" where
  "as_condition value =
    \<lparr> tc_type = the (string_of (opt_prop value ''type'')), tc_expression = the (string_of (opt_prop value ''expression'')),
      tc_expected = string_of (opt_prop value ''expected''), tc_description = string_of (opt_prop value ''description'') \<rparr>"

definition as_requirement :: "jsval \<Rightarrow> TlsnRequirement" where
  "as_requirement value =
    \<lparr> tr_target_url = the (string_of (opt_prop value ''target_url'')), tr_method = string_of (opt_prop value ''method''),
      tr_conditions = (case opt_prop value ''conditions'' of Array vs \<Rightarrow> Some (map as_condition vs) | _ \<Rightarrow> None),
      tr_max_age = (case opt_prop value ''max_attestation_age_seconds'' of Number x \<Rightarrow> Some x | _ \<Rightarrow> None),
      tr_domain_hint = string_of (opt_prop value ''domain_hint'') \<rparr>"

section \<open>Patterns that may backtrack (isSuspiciousRegex)\<close>

text \<open>The rest after a character class whose opening bracket has been read: an unescaped closing bracket;
  a backslash escapes any character but a line terminator.\<close>

fun class_end :: "string \<Rightarrow> string option" where
  "class_end [] = None"
| "class_end (c # cs) =
    (if c = CHR '']'' then Some cs
     else if c = CHR 0x5C then
       (case cs of [] \<Rightarrow> None | d # ds \<Rightarrow> if d = CHR 0x0A \<or> d = CHR 0x0D then None else class_end ds)
     else class_end cs)"

lemma class_end_length: "class_end cs = Some r \<Longrightarrow> length r < length cs"
  by (induction cs arbitrary: r rule: class_end.induct) (auto split: if_splits list.splits intro: less_SucI)

function strip_classes :: "string \<Rightarrow> string" where
  "strip_classes [] = []"
| "strip_classes (c # cs) =
    (if c = CHR ''['' then
       (case class_end cs of Some r \<Rightarrow> CHR ''X'' # strip_classes r | None \<Rightarrow> c # strip_classes cs)
     else c # strip_classes cs)"
  by pat_completeness auto

termination
  by (relation "measure length") (auto dest: class_end_length)

definition quantified :: "string \<Rightarrow> bool" where
  "quantified r = (case r of [] \<Rightarrow> False | c # _ \<Rightarrow> c = CHR ''+'' \<or> c = CHR ''*'' \<or> c = CHR ''{'')"

text \<open>\<open>/\([^)]*\|[^)]*\)[+*{]/\<close> and \<open>/[+*}]\)+[+*{]/\<close>, searched from every position.\<close>

fun quantified_alternation :: "string \<Rightarrow> bool" where
  "quantified_alternation [] = False"
| "quantified_alternation (c # cs) =
    (c = CHR ''('' \<and> CHR ''|'' \<in> set (takeWhile (\<lambda>d. d \<noteq> CHR '')'') cs) \<and>
       dropWhile (\<lambda>d. d \<noteq> CHR '')'') cs \<noteq> [] \<and> quantified (tl (dropWhile (\<lambda>d. d \<noteq> CHR '')'') cs)) \<or>
     quantified_alternation cs)"

fun nested_quantifier :: "string \<Rightarrow> bool" where
  "nested_quantifier [] = False"
| "nested_quantifier (c # cs) =
    ((c = CHR ''+'' \<or> c = CHR ''*'' \<or> c = CHR ''}'') \<and> takeWhile (\<lambda>d. d = CHR '')'') cs \<noteq> [] \<and>
       quantified (dropWhile (\<lambda>d. d = CHR '')'') cs) \<or>
     nested_quantifier cs)"

definition isSuspiciousRegex :: "string \<Rightarrow> bool" where
  "isSuspiciousRegex pattern =
    (let stripped = strip_classes pattern in quantified_alternation stripped \<or> nested_quantifier stripped)"

section \<open>Conditions\<close>

fun split_dot :: "string \<Rightarrow> string list" where
  "split_dot [] = [[]]"
| "split_dot (c # cs) =
    (if c = CHR ''.'' then [] # split_dot cs
     else case split_dot cs of [] \<Rightarrow> [[c]] | p # ps \<Rightarrow> (c # p) # ps)"

text \<open>\<open>Object.prototype.hasOwnProperty\<close> and the value, on a non-null object.\<close>

fun own_prop :: "jsval \<Rightarrow> string \<Rightarrow> jsval option" where
  "own_prop (Object ms) part = map_get ms part"
| "own_prop (Array vs) part =
    (if part = ''length'' then Some (Number (of_len vs))
     else map_option (\<lambda>i. vs ! i) (find (\<lambda>i. nat_str i = part) [0..<length vs]))"
| "own_prop _ part = None"

definition BLOCKED_PROPS :: "string list" where
  "BLOCKED_PROPS = [''__proto__'', ''constructor'', ''prototype'']"

fun resolve_parts :: "jsval \<Rightarrow> string list \<Rightarrow> jsval" where
  "resolve_parts current [] = current"
| "resolve_parts current (part # parts) =
    (if \<not> isRecord current then Undefined
     else if part \<in> set BLOCKED_PROPS then Undefined
     else case own_prop current part of None \<Rightarrow> Undefined | Some v \<Rightarrow> resolve_parts v parts)"

definition resolveDotPath :: "jsval \<Rightarrow> string \<Rightarrow> jsval" where
  "resolveDotPath obj path = resolve_parts obj (split_dot path)"

text \<open>\<open>String(v)\<close> throws on an object whose own \<open>toString\<close> is not a function.\<close>

fun string_throws :: "jsval \<Rightarrow> bool" where
  "string_throws (Object ms) = map_has ms ''toString''"
| "string_throws (Array vs) = list_ex string_throws vs"
| "string_throws _ = False"

type_synonym regex_engine = "string \<Rightarrow> string \<Rightarrow> string option option"

fun str_includes :: "string \<Rightarrow> string \<Rightarrow> bool" where
  "str_includes s e = (take (length e) s = e \<or> (case s of [] \<Rightarrow> False | _ # r \<Rightarrow> str_includes r e))"

declare str_includes.simps [simp del]

text \<open>\<open>body.includes(e)\<close>; \<open>None\<close> is the error on a value without such a method.\<close>

fun body_includes :: "jsval \<Rightarrow> string \<Rightarrow> bool option" where
  "body_includes (String s) e = Some (str_includes s e)"
| "body_includes (Array vs) e = Some (String e \<in> set vs)"
| "body_includes _ e = None"

definition evaluateCondition ::
    "regex_engine \<Rightarrow> (rat \<Rightarrow> string) \<Rightarrow> TlsnCondition \<Rightarrow> jsval \<Rightarrow> (bool \<times> string option) option" where
  "evaluateCondition exec fstr condition body =
    (if tc_type condition = ''contains'' then
       map_option (\<lambda>passed. (passed, if passed then Some (tc_expression condition) else None))
         (body_includes body (tc_expression condition))
     else if tc_type condition = ''regex'' then
       (if length (tc_expression condition) > 500 then Some (False, Some ''regex pattern too long (max 500 chars)'')
        else if isSuspiciousRegex (tc_expression condition)
        then Some (False, Some ''regex rejected: potential ReDoS pattern detected'')
        else if string_throws body then Some (False, Some ''invalid regex pattern'')
        else case exec (tc_expression condition) (js_to_string fstr body) of
               None \<Rightarrow> Some (False, Some ''invalid regex pattern'')
             | Some match \<Rightarrow> Some (match \<noteq> None, match))
     else if tc_type condition = ''jsonpath'' then
       (if string_throws body then Some (False, Some ''invalid JSON'')
        else case jparse (js_to_string fstr body) of
               None \<Rightarrow> Some (False, Some ''invalid JSON'')
             | Some obj \<Rightarrow>
               let value = resolveDotPath obj (tc_expression condition)
               in if value = Undefined then Some (False, None)
                  else if string_throws value then Some (False, Some ''invalid JSON'')
                  else let actual = js_to_string fstr value
                       in case tc_expected condition of
                            Some e \<Rightarrow> Some (actual = e, Some actual)
                          | None \<Rightarrow> Some (True, Some actual))
     else Some (False, None))"


section \<open>The verifier binary\<close>

record tlsn_lib =
  tl_executor :: executor
  tl_run :: "string \<Rightarrow> bytes \<Rightarrow> (string + run_outcome) option"
  tl_sha256 :: "string \<Rightarrow> string"
  tl_decode64 :: "string \<Rightarrow> bytes"
  tl_hostname :: "string \<Rightarrow> string option"
  tl_regex :: regex_engine
  tl_fstr :: "rat \<Rightarrow> string"

definition findTlsnVerifier :: "executor \<Rightarrow> string option" where
  "findTlsnVerifier executor =
    (case find (ex_isFile executor) (ex_localPaths executor) of
       Some p \<Rightarrow> Some p
     | None \<Rightarrow> ex_which executor ''tlsn-verifier'')"

definition resolveTlsnVerifier :: "string option option \<Rightarrow> executor \<Rightarrow> string option" where
  "resolveTlsnVerifier verifierPath executor =
    (case verifierPath of None \<Rightarrow> findTlsnVerifier executor | Some p \<Rightarrow> p)"

record VerifierBinaryResult =
  vb_signatureValid :: bool
  vb_serverName :: jsval
  vb_body :: jsval
  vb_headers :: jsval
  vb_time :: jsval
  vb_error :: "string option"

definition binary_failed :: "string \<Rightarrow> VerifierBinaryResult" where
  "binary_failed e =
    \<lparr> vb_signatureValid = False, vb_serverName = Undefined, vb_body = Undefined, vb_headers = Undefined,
      vb_time = Undefined, vb_error = Some e \<rparr>"

text \<open>\<open>v ?? undefined\<close>.\<close>

definition or_undefined :: "jsval \<Rightarrow> jsval" where
  "or_undefined v = (if no_props v then Undefined else v)"

definition verifier_output :: "string \<Rightarrow> VerifierBinaryResult" where
  "verifier_output stdout =
    (case jparse stdout of
       None \<Rightarrow> binary_failed ''failed to parse verifier output''
     | Some result \<Rightarrow>
       if no_props result then binary_failed ''failed to parse verifier output''
       else \<lparr> vb_signatureValid = (opt_prop result ''valid'' = Bool True),
              vb_serverName = or_undefined (opt_prop result ''server_name''),
              vb_body = or_undefined (opt_prop result ''revealed_body''),
              vb_headers = or_undefined (opt_prop result ''revealed_headers''),
              vb_time = or_undefined (opt_prop result ''time''), vb_error = None \<rparr>)"

text \<open>\<open>None\<close>: the temporary directory cannot be created or removed and the call rejects.\<close>

definition runVerifierBinary :: "tlsn_lib \<Rightarrow> string \<Rightarrow> string \<Rightarrow> VerifierBinaryResult option" where
  "runVerifierBinary lib verifierPath presentation =
    (case tl_run lib verifierPath (tl_decode64 lib presentation) of
       None \<Rightarrow> None
     | Some (Inl err) \<Rightarrow> Some (binary_failed err)
     | Some (Inr Timed_out) \<Rightarrow> Some (binary_failed ''verifier timed out after 60s'')
     | Some (Inr (Exited exitCode stdout stderr)) \<Rightarrow>
       Some (if exitCode \<noteq> 0 then binary_failed (take 200 (trim stderr)) else verifier_output stdout))"

section \<open>Validation\<close>

record condition_result =
  cr_condition :: TlsnCondition
  cr_passed :: bool
  cr_actual_value :: "string option"

record TlsnValidationResult =
  tv_available :: bool
  tv_signatureValid :: bool
  tv_serverIdentityValid :: bool
  tv_conditionResults :: "condition_result list"
  tv_attestationFresh :: bool
  tv_verifiedData :: "TlsnVerifiedData option"
  tv_checks :: "msg list"
  tv_failures :: "msg list"

definition tlsn_rejected :: "bool \<Rightarrow> msg \<Rightarrow> TlsnValidationResult" where
  "tlsn_rejected available failure =
    \<lparr> tv_available = available, tv_signatureValid = False, tv_serverIdentityValid = False, tv_conditionResults = [],
      tv_attestationFresh = False, tv_verifiedData = None, tv_checks = [], tv_failures = [failure] \<rparr>"

definition DEFAULT_MAX_AGE_SECONDS :: jsnum where "DEFAULT_MAX_AGE_SECONDS = Fin 300"

definition tlsn_begin ::
    "tlsn_lib \<Rightarrow> jsnum \<Rightarrow> replay_guard \<Rightarrow> string option option \<Rightarrow> string \<Rightarrow>
     (TlsnValidationResult + string) \<times> replay_guard" where
  "tlsn_begin lib now g verifierPath presentation =
    (let (seen, g') = guard_has now g (tl_sha256 lib presentation)
     in if seen
        then (Inl (tlsn_rejected True [T ''TLSNotary: presentation already used '', EmDash, T '' proof replay rejected'']), g')
        else let path = resolveTlsnVerifier verifierPath (tl_executor lib)
             in if \<not> ostr_truthy path
                then (Inl (tlsn_rejected False
                       [T ''TLSNotary: tlsn-verifier binary not available '', EmDash, T '' cannot verify presentation'']), g')
                else (Inr (the path), g'))"

definition expected_hostname :: "tlsn_lib \<Rightarrow> TlsnRequirement \<Rightarrow> string option" where
  "expected_hostname lib requirement =
    orElse (tr_domain_hint requirement) (tl_hostname lib (tr_target_url requirement))"

text \<open>Server identity: the flag, checks and failures.\<close>

definition check_server :: "string option \<Rightarrow> jsval \<Rightarrow> bool \<times> msg list \<times> msg list" where
  "check_server expectedHostname serverName =
    (if \<not> ostr_truthy expectedHostname then (False, [], [])
     else if serverName = String (the expectedHostname)
     then (True, [[T ''TLSNotary: server name matches target ('', T (the expectedHostname), T '')'']], [])
     else (False, [], [[T (''TLSNotary: server name '' @ [CHR 0x22]), J (if no_props serverName then String ''unknown'' else serverName),
                        T (CHR 0x22 # '' does not match target '' @ [CHR 0x22]), T (the expectedHostname), T [CHR 0x22]]]))"

fun js_round :: "jsnum \<Rightarrow> jsnum" where
  "js_round (Fin a) = Fin (of_int \<lfloor>a + 1 / 2\<rfloor>)"
| "js_round x = x"

definition age_ms :: "jsnum \<Rightarrow> jsval \<Rightarrow> jsnum" where
  "age_ms now verifiedTime = now - js_to_number verifiedTime * Fin 1000"

definition check_freshness :: "jsnum \<Rightarrow> jsval \<Rightarrow> jsnum \<Rightarrow> bool \<times> msg list \<times> msg list" where
  "check_freshness now verifiedTime maxAgeSeconds =
    (if no_props verifiedTime
     then (False, [], [[T ''TLSNotary: no timestamp in proof '', EmDash, T '' cannot verify attestation freshness'']])
     else let ageMs = age_ms now verifiedTime
          in if 0 \<le> ageMs \<and> ageMs < maxAgeSeconds * Fin 1000
             then (True, [[T ''TLSNotary: attestation fresh ('', N (js_round (div_by ageMs 1000)), T ''s old, max '',
                           N maxAgeSeconds, T ''s)'']], [])
             else (False, [], [[T ''TLSNotary: attestation too old ('', N (js_round (div_by ageMs 1000)), T ''s, max '',
                                N maxAgeSeconds, T ''s)'']]))"

fun check_conditions :: "tlsn_lib \<Rightarrow> jsval \<Rightarrow> TlsnCondition list \<Rightarrow> condition_result list option" where
  "check_conditions lib body [] = Some []"
| "check_conditions lib body (c # cs) =
    (case evaluateCondition (tl_regex lib) (tl_fstr lib) c body of
       None \<Rightarrow> None
     | Some (passed, actual) \<Rightarrow>
       map_option ((#) \<lparr> cr_condition = c, cr_passed = passed, cr_actual_value = actual \<rparr>) (check_conditions lib body cs))"

definition condition_label :: "TlsnCondition \<Rightarrow> chunk list" where
  "condition_label c =
    (case tc_description c of Some d \<Rightarrow> [T d] | None \<Rightarrow> [T (tc_type c), T '':'', T (tc_expression c)])"

definition conditions_of :: "TlsnRequirement \<Rightarrow> TlsnCondition list" where
  "conditions_of requirement = (case tr_conditions requirement of None \<Rightarrow> [] | Some cs \<Rightarrow> cs)"

definition tlsn_report ::
    "bool \<times> msg list \<times> msg list \<Rightarrow> bool \<times> msg list \<times> msg list \<Rightarrow> condition_result list \<Rightarrow> jsval \<Rightarrow> VerifierBinaryResult \<Rightarrow>
     TlsnValidationResult" where
  "tlsn_report server fresh results body crypto =
    \<lparr> tv_available = True, tv_signatureValid = True, tv_serverIdentityValid = fst server,
      tv_conditionResults = results, tv_attestationFresh = fst fresh,
      tv_verifiedData = Some
        \<lparr> vd_server_name = (if no_props (vb_serverName crypto) then String [] else vb_serverName crypto),
          vd_revealed_body = body, vd_revealed_headers = vb_headers crypto,
          vd_session_timestamp = (if no_props (vb_time crypto) then Number 0 else vb_time crypto) \<rparr>,
      tv_checks = [T ''TLSNotary: presentation signature valid (cryptographically verified)''] #
        fst (snd server) @ fst (snd fresh) @
        map (\<lambda>r. T ''TLSNotary condition passed: '' # condition_label (cr_condition r)) (filter cr_passed results),
      tv_failures = snd (snd server) @ snd (snd fresh) @
        map (\<lambda>r. T ''TLSNotary condition failed: '' # condition_label (cr_condition r)) (filter (Not \<circ> cr_passed) results) \<rparr>"

definition tlsn_finish ::
    "tlsn_lib \<Rightarrow> jsnum \<Rightarrow> replay_guard \<Rightarrow> string \<Rightarrow> TlsnRequirement \<Rightarrow> VerifierBinaryResult \<Rightarrow>
     (TlsnValidationResult \<times> replay_guard) option" where
  "tlsn_finish lib now g presentation requirement crypto =
    (if \<not> vb_signatureValid crypto
     then Some (tlsn_rejected True
            [T ''TLSNotary: presentation signature invalid '', EmDash, T '' '',
             T (case vb_error crypto of None \<Rightarrow> ''verification failed'' | Some e \<Rightarrow> e)], g)
     else let body = (if no_props (vb_body crypto) then String [] else vb_body crypto);
              maxAge = (case tr_max_age requirement of None \<Rightarrow> DEFAULT_MAX_AGE_SECONDS | Some s \<Rightarrow> s)
          in map_option
               (\<lambda>results. (tlsn_report (check_server (expected_hostname lib requirement) (vb_serverName crypto))
                             (check_freshness now (vb_time crypto) maxAge) results body crypto,
                           guard_add now g (tl_sha256 lib presentation)))
               (check_conditions lib body (conditions_of requirement)))"

text \<open>One call with nothing in between: begun at \<open>t1\<close>, answered by the binary, finished at \<open>t2\<close>.\<close>

definition validateTlsn ::
    "tlsn_lib \<Rightarrow> jsnum \<Rightarrow> jsnum \<Rightarrow> replay_guard \<Rightarrow> string option option \<Rightarrow> string \<Rightarrow> TlsnRequirement \<Rightarrow>
     (TlsnValidationResult \<times> replay_guard) option" where
  "validateTlsn lib t1 t2 g verifierPath presentation requirement =
    (case tlsn_begin lib t1 g verifierPath presentation of
       (Inl r, g') \<Rightarrow> Some (r, g')
     | (Inr path, g') \<Rightarrow>
       Option.bind (runVerifierBinary lib path presentation) (tlsn_finish lib t2 g' presentation requirement))"

end
