(* ===== verification/C2pa_Validation.thy ===== *)
theory C2pa_Validation
  imports Tlsn_Validation Protocol_Events
begin

text \<open>
  Content Credentials (\<open>proofs/c2pa-validation.ts\<close>) and the GPS distance policy (\<open>proofs/geo.ts\<close>).
  Arguments of the model: the mathematical functions of the runtime (record \<open>js_math\<close>) and the c2patool
  binary.  \<open>None\<close> is a call that throws.
\<close>

section \<open>Distance policy (geo.ts)\<close>

record js_math =
  m_PI :: jsnum
  m_sin :: "jsnum \<Rightarrow> jsnum"
  m_cos :: "jsnum \<Rightarrow> jsnum"
  m_sqrt :: "jsnum \<Rightarrow> jsnum"
  m_atan2 :: "jsnum \<Rightarrow> jsnum \<Rightarrow> jsnum"

record GpsCoord =
  gc_lat :: jsnum
  gc_lon :: jsnum

definition toRad :: "js_math \<Rightarrow> jsnum \<Rightarrow> jsnum" where
  "toRad M deg = div_by (deg * m_PI M) 180"

definition haversineKm :: "js_math \<Rightarrow> jsnum \<Rightarrow> jsnum \<Rightarrow> jsnum \<Rightarrow> jsnum \<Rightarrow> jsnum" where
  "haversineKm M lat1 lon1 lat2 lon2 =
    (let dLat = toRad M (lat2 - lat1);
         dLon = toRad M (lon2 - lon1);
         sLat = m_sin M (div_by dLat 2);
         sLon = m_sin M (div_by dLon 2);
         a = sLat * sLat + m_cos M (toRad M lat1) * m_cos M (toRad M lat2) * (sLon * sLon)
     in Fin 6371 * Fin 2 * m_atan2 M (m_sqrt M a) (m_sqrt M (Fin 1 - a)))"

definition evaluateGpsDistancePolicy :: "js_math \<Rightarrow> GpsCoord \<Rightarrow> GpsCoord \<Rightarrow> jsnum \<Rightarrow> jsnum \<times> bool" where
  "evaluateGpsDistancePolicy M gps expected maxDistanceKm =
    (let distanceKm = haversineKm M (gc_lat gps) (gc_lon gps) (gc_lat expected) (gc_lon expected)
     in (distanceKm, distanceKm \<le> maxDistanceKm))"

section \<open>Requirement and evidence\<close>

definition DEFAULT_C2PA_MAX_GPS_DISTANCE_KM :: jsnum where "DEFAULT_C2PA_MAX_GPS_DISTANCE_KM = Fin 50"

definition validateGpsCoord :: "GpsCoord \<Rightarrow> msg option" where
  "validateGpsCoord input =
    (if \<not> is_finite (gc_lat input) then Some (plain ''lat must be a finite number'')
     else if \<not> is_finite (gc_lon input) then Some (plain ''lon must be a finite number'')
     else if gc_lat input < Fin (- 90) \<or> Fin 90 < gc_lat input
     then Some [T ''lat must be between -90 and 90 (got '', N (gc_lat input), T '')'']
     else if gc_lon input < Fin (- 180) \<or> Fin 180 < gc_lon input
     then Some [T ''lon must be between -180 and 180 (got '', N (gc_lon input), T '')'']
     else None)"

definition as_gps :: "jsval \<Rightarrow> GpsCoord option" where
  "as_gps value =
    (case (opt_prop value ''lat'', opt_prop value ''lon'') of
       (Number lat, Number lon) \<Rightarrow> Some \<lparr> gc_lat = lat, gc_lon = lon \<rparr>
     | _ \<Rightarrow> None)"

definition isGpsCoord :: "jsval \<Rightarrow> bool" where
  "isGpsCoord value =
    (isRecord value \<and> (case as_gps value of None \<Rightarrow> False | Some g \<Rightarrow> validateGpsCoord g = None))"

definition isC2paImageRequirement :: "jsval \<Rightarrow> bool" where
  "isC2paImageRequirement value =
    (isRecord value \<and> (opt_prop value ''expected_gps'' = Undefined \<or> isGpsCoord (opt_prop value ''expected_gps'')) \<and>
     (case opt_prop value ''max_gps_distance_km'' of
        Undefined \<Rightarrow> True | Number x \<Rightarrow> is_finite x \<and> \<not> x \<le> 0 | _ \<Rightarrow> False))"

definition isC2paImageEvidence :: "jsval \<Rightarrow> bool" where
  "isC2paImageEvidence value =
    (isRecord value \<and> (opt_prop value ''gps'' = Undefined \<or> isGpsCoord (opt_prop value ''gps'')))"

text \<open>\<open>x.toFixed(d)\<close> as a number: half away from zero.\<close>

definition to_fixed :: "nat \<Rightarrow> jsnum \<Rightarrow> jsnum" where
  "to_fixed d x =
    (if x < 0 then 0 - div_by (js_round ((0 - x) * Fin (10 ^ d))) (10 ^ d)
     else div_by (js_round (x * Fin (10 ^ d))) (10 ^ d))"

record proximity =
  px_checks :: "msg list"
  px_failures :: "msg list"
  px_distanceKm :: "jsnum option"

definition evaluateC2paGpsProximity ::
    "js_math \<Rightarrow> GpsCoord \<Rightarrow> GpsCoord option \<Rightarrow> jsnum \<Rightarrow> string \<Rightarrow> proximity" where
  "evaluateC2paGpsProximity M gps expectedGps maxGpsDist label =
    (case expectedGps of
       None \<Rightarrow>
         \<lparr> px_checks = [[T label, T '' GPS: '', N (to_fixed 4 (gc_lat gps)), T '', '', N (to_fixed 4 (gc_lon gps))]],
           px_failures = [], px_distanceKm = None \<rparr>
     | Some expected \<Rightarrow>
       let (distanceKm, withinLimit) = evaluateGpsDistancePolicy M gps expected maxGpsDist
       in if withinLimit
          then \<lparr> px_checks = [[T label, T '' GPS within '', N maxGpsDist, T ''km of expected ('', N (to_fixed 1 distanceKm), T ''km)'']],
                 px_failures = [], px_distanceKm = Some distanceKm \<rparr>
          else \<lparr> px_checks = [],
                 px_failures = [[T label, T '' GPS '', N (to_fixed 1 distanceKm), T ''km from expected location (max '', N maxGpsDist, T ''km)'']],
                 px_distanceKm = Some distanceKm \<rparr>)"

section \<open>Binding signed GPS\<close>

record C2paManifest =
  cm_title :: jsval
  cm_claimGenerator :: jsval
  cm_assertions :: jsval
  cm_signatureInfo :: "(jsval \<times> jsval) option"

record C2paValidationResult =
  c2_available :: bool
  c2_hasManifest :: bool
  c2_signatureValid :: bool
  c2_manifest :: "C2paManifest option"
  c2_gps :: "GpsCoord option"
  c2_checks :: "msg list"
  c2_failures :: "msg list"

record C2paGpsBindingResult =
  gb_passed :: bool
  gb_distanceKm :: "jsnum option"
  gb_checks :: "msg list"
  gb_failures :: "msg list"

definition binding_signature :: "C2paValidationResult \<Rightarrow> msg list \<times> msg list" where
  "binding_signature validation =
    (if \<not> c2_available validation
     then ([], [[T ''C2PA: verifier unavailable '', EmDash, T '' cannot bind signed GPS to expected location'']])
     else if \<not> c2_hasManifest validation
     then ([], [[T ''C2PA: no signed manifest found '', EmDash, T '' cannot bind GPS to expected location'']])
     else if \<not> c2_signatureValid validation
     then ([], [[T ''C2PA: manifest signature invalid '', EmDash, T '' cannot trust GPS assertion'']])
     else ([[T ''C2PA: signed manifest verified'']], []))"

definition verifyC2paGpsBinding ::
    "js_math \<Rightarrow> C2paValidationResult \<Rightarrow> GpsCoord \<Rightarrow> jsnum \<Rightarrow> C2paGpsBindingResult" where
  "verifyC2paGpsBinding M validation expectedGps maxDistanceKm =
    (if \<not> is_finite maxDistanceKm \<or> maxDistanceKm < 0
     then \<lparr> gb_passed = False, gb_distanceKm = None, gb_checks = [],
            gb_failures = [[T ''C2PA GPS binding policy has an invalid distance limit'']] \<rparr>
     else let (checks, failures) = binding_signature validation
          in case c2_gps validation of
               None \<Rightarrow> \<lparr> gb_passed = False, gb_distanceKm = None, gb_checks = checks,
                         gb_failures = failures @ [[T ''C2PA: signed GPS assertion missing from verified manifest'']] \<rparr>
             | Some gps \<Rightarrow>
               let prox = evaluateC2paGpsProximity M gps (Some expectedGps) maxDistanceKm ''C2PA: signed'';
                   distanceKm = px_distanceKm prox
               in if failures \<noteq> []
                  then \<lparr> gb_passed = False, gb_distanceKm = distanceKm, gb_checks = checks, gb_failures = failures \<rparr>
                  else if px_failures prox = []
                  then \<lparr> gb_passed = True, gb_distanceKm = distanceKm,
                         gb_checks = checks @ [[T ''C2PA: signed GPS bound to expected location ('',
                           (case distanceKm of None \<Rightarrow> T ''unknown'' | Some d \<Rightarrow> N (to_fixed 1 d)), T ''km <= '',
                           N maxDistanceKm, T ''km)'']],
                         gb_failures = [] \<rparr>
                  else \<lparr> gb_passed = False, gb_distanceKm = distanceKm, gb_checks = checks, gb_failures = px_failures prox \<rparr>)"

section \<open>Running c2patool\<close>

record c2pa_tool =
  ct_which :: "string \<Rightarrow> string option"
  ct_run :: "string \<Rightarrow> string \<Rightarrow> bytes \<Rightarrow> (int \<times> string \<times> string) option"

definition findC2paTool :: "string option option \<Rightarrow> c2pa_tool \<Rightarrow> string option" where
  "findC2paTool override tool = (case override of Some p \<Rightarrow> p | None \<Rightarrow> ct_which tool ''c2patool'')"

definition isC2paAvailable :: "string option option \<Rightarrow> c2pa_tool \<Rightarrow> bool" where
  "isC2paAvailable override tool = (findC2paTool override tool \<noteq> None)"

definition SUPPORTED_EXTENSIONS :: "string list" where
  "SUPPORTED_EXTENSIONS = [''.jpg'', ''.jpeg'', ''.png'', ''.webp'', ''.heic'', ''.heif'', ''.mp4'', ''.mov'']"

definition noToolResult :: C2paValidationResult where
  "noToolResult =
    \<lparr> c2_available = False, c2_hasManifest = False, c2_signatureValid = False, c2_manifest = None, c2_gps = None,
      c2_checks = [[T ''c2patool not available (skipped)'']], c2_failures = [] \<rparr>"

definition noManifestResult :: "msg list \<Rightarrow> msg list \<Rightarrow> C2paValidationResult" where
  "noManifestResult checks failures =
    \<lparr> c2_available = True, c2_hasManifest = False, c2_signatureValid = False, c2_manifest = None, c2_gps = None,
      c2_checks = checks, c2_failures = failures \<rparr>"

text \<open>The report, or the checks and failures pushed where it is \<open>null\<close>.\<close>

definition runC2paTool :: "c2pa_tool \<Rightarrow> string \<Rightarrow> string \<Rightarrow> bytes \<Rightarrow> (msg list \<times> msg list + jsval) option" where
  "runC2paTool tool toolPath ext data =
    (case ct_run tool toolPath ext data of
       None \<Rightarrow> None
     | Some (exitCode, stdout, stderr) \<Rightarrow>
       Some (if exitCode \<noteq> 0 then
               (if str_includes (to_lower stderr) ''no claim found'' \<or> str_includes (to_lower stderr) ''manifestnotfound'' \<or>
                   str_includes (to_lower stderr) ''no manifest''
                then Inl ([[T ''no C2PA manifest found'']], [])
                else Inl ([], [[T ''c2patool error: '', T (take 200 (trim stderr))]]))
             else case jparse stdout of
                    None \<Rightarrow> Inl ([], [[T ''failed to parse c2patool JSON output'']])
                  | Some report \<Rightarrow> if jsval_truthy report then Inr report else Inl ([], [])))"

definition prop_at :: "(rat \<Rightarrow> string) \<Rightarrow> jsval \<Rightarrow> jsval \<Rightarrow> jsval" where
  "prop_at fstr v key = (case own_prop v (js_to_string fstr key) of None \<Rightarrow> Undefined | Some x \<Rightarrow> x)"

text \<open>The active manifest; its assertions are read from it.\<close>

definition parseActiveManifest :: "(rat \<Rightarrow> string) \<Rightarrow> jsval \<Rightarrow> jsval option" where
  "parseActiveManifest fstr report =
    (let manifests = opt_prop report ''manifests''; label = opt_prop report ''active_manifest''
     in if \<not> jsval_truthy manifests \<or> \<not> jsval_truthy label \<or> \<not> jsval_truthy (prop_at fstr manifests label) then None
        else Some (prop_at fstr manifests label))"

definition buildManifest :: "jsval \<Rightarrow> C2paManifest" where
  "buildManifest active =
    (let sigInfo = opt_prop active ''signature_info''; assertions = opt_prop active ''assertions''
     in \<lparr> cm_title = opt_prop active ''title'', cm_claimGenerator = opt_prop active ''claim_generator'',
          cm_assertions = (if jsval_truthy assertions then assertions else Undefined),
          cm_signatureInfo = (if jsval_truthy sigInfo then Some (opt_prop sigInfo ''issuer'', opt_prop sigInfo ''time'') else None) \<rparr>)"

text \<open>\<open>some\<close> and \<open>filter\<close> on the codes; reading a member of a nullish entry throws.\<close>

fun some_code :: "string \<Rightarrow> jsval list \<Rightarrow> bool option" where
  "some_code c [] = Some False"
| "some_code c (v # vs) =
    (if no_props v then None else if opt_prop v ''code'' = String c then Some True else some_code c vs)"

definition code_list :: "jsval \<Rightarrow> jsval list option" where
  "code_list v = (case v of Array vs \<Rightarrow> Some vs | _ \<Rightarrow> if no_props v then Some [] else None)"

definition evaluateSignature :: "jsval \<Rightarrow> bool option" where
  "evaluateSignature report =
    (let active = opt_prop (opt_prop report ''validation_results'') ''activeManifest''
     in case (code_list (opt_prop active ''success''), code_list (opt_prop active ''failure'')) of
          (Some successes, Some failures) \<Rightarrow>
            (case some_code ''claimSignature.validated'' successes of
               None \<Rightarrow> None
             | Some claimSignatureOk \<Rightarrow>
               if list_ex no_props failures then None else Some (claimSignatureOk \<and> failures = []))
        | _ \<Rightarrow> None)"


section \<open>GPS of the manifest\<close>

text \<open>\<open>parseFloat\<close>: the longest prefix that is a decimal literal.\<close>

definition exponent_of :: "string \<Rightarrow> int" where
  "exponent_of s =
    (case s of
       c # r \<Rightarrow>
         if c = CHR ''e'' \<or> c = CHR ''E'' then
           (case r of
              d # ds \<Rightarrow>
                if d = CHR ''-'' then - int (digits_val (takeWhile is_digit ds))
                else if d = CHR ''+'' then int (digits_val (takeWhile is_digit ds))
                else int (digits_val (takeWhile is_digit r))
            | [] \<Rightarrow> 0)
         else 0
     | [] \<Rightarrow> 0)"

definition unsigned_float :: "string \<Rightarrow> jsnum" where
  "unsigned_float s =
    (let ip = takeWhile is_digit s; r = dropWhile is_digit s;
         fp = (case r of c # cs \<Rightarrow> if c = CHR ''.'' then takeWhile is_digit cs else [] | [] \<Rightarrow> []);
         rest = (case r of c # cs \<Rightarrow> if c = CHR ''.'' then dropWhile is_digit cs else r | [] \<Rightarrow> []);
         mant = of_nat (digits_val (ip @ fp)) / 10 ^ length fp; e = exponent_of rest
     in if take 8 s = ''Infinity'' then Infty
        else if ip = [] \<and> fp = [] then NaN
        else Fin (if 0 \<le> e then mant * 10 ^ nat e else mant / 10 ^ nat (- e)))"

definition parseFloat :: "string \<Rightarrow> jsnum" where
  "parseFloat s =
    (case dropWhile (\<lambda>c. c \<in> set ws_chars) s of
       [] \<Rightarrow> NaN
     | c # cs \<Rightarrow>
       if c = CHR ''-'' then 0 - unsigned_float cs
       else if c = CHR ''+'' then unsigned_float cs else unsigned_float (c # cs))"

fun split_comma :: "string \<Rightarrow> string list" where
  "split_comma [] = [[]]"
| "split_comma (c # cs) =
    (if c = CHR '','' then [] # split_comma cs
     else case split_comma cs of [] \<Rightarrow> [[c]] | p # ps \<Rightarrow> (c # p) # ps)"

definition drop_direction :: "string \<Rightarrow> string" where
  "drop_direction raw = (if raw \<noteq> [] \<and> last raw \<in> set ''NSEWnsew'' then butlast raw else raw)"

fun parseGpsValue :: "jsval \<Rightarrow> jsnum option" where
  "parseGpsValue (Number x) = Some x"
| "parseGpsValue (String raw) =
    (let cleaned = trim (drop_direction raw); decimal = parseFloat cleaned
     in if CHR '','' \<notin> set cleaned \<and> is_finite decimal then Some decimal
        else let parts = map (parseFloat \<circ> trim) (split_comma cleaned)
             in if list_ex (\<lambda>p. \<not> is_finite p) parts then None
                else case parts of
                       [d, m] \<Rightarrow> Some (d + div_by m 60)
                     | [d, m, s] \<Rightarrow> Some (d + div_by m 60 + div_by s 3600)
                     | _ \<Rightarrow> None)"
| "parseGpsValue _ = None"

definition GPS_KEY_PREFIXES :: "string list" where
  "GPS_KEY_PREFIXES = [''EXIF:'', ''exif:'', ''@exif:'']"

definition lookupGpsKeys :: "jsval \<Rightarrow> string \<Rightarrow> jsval" where
  "lookupGpsKeys data field =
    (case find (\<lambda>prefix. \<not> no_props (opt_prop data (prefix @ field))) GPS_KEY_PREFIXES of
       Some prefix \<Rightarrow> opt_prop data (prefix @ field)
     | None \<Rightarrow> Undefined)"

definition applyGpsDirection :: "jsnum \<Rightarrow> jsval \<Rightarrow> jsval \<Rightarrow> char \<Rightarrow> jsnum" where
  "applyGpsDirection val ref raw negativeChar =
    (if (case ref of String s \<Rightarrow> take 1 (to_upper s) = [negativeChar] | _ \<Rightarrow> False) then 0 - val
     else if (case raw of String s \<Rightarrow> s \<noteq> [] \<and> to_upper [last s] = [negativeChar] | _ \<Rightarrow> False)
     then (if val < 0 then val else 0 - val)
     else val)"

text \<open>One assertion: \<open>None\<close> throws, \<open>Some None\<close> goes on to the next.\<close>

definition assertion_gps :: "jsval \<Rightarrow> GpsCoord option option" where
  "assertion_gps assertion =
    (if no_props assertion then None
     else case body_includes (opt_prop assertion ''label'') ''exif'' of
            None \<Rightarrow> None
          | Some isExif \<Rightarrow>
            let data = opt_prop assertion ''data'';
                latRaw = lookupGpsKeys data ''GPSLatitude''; lonRaw = lookupGpsKeys data ''GPSLongitude''
            in if \<not> isExif \<or> \<not> jsval_truthy data then Some None
               else if no_props latRaw \<or> no_props lonRaw then Some None
               else (case (parseGpsValue latRaw, parseGpsValue lonRaw) of
                       (Some lat, Some lon) \<Rightarrow>
                         let finalLat = applyGpsDirection lat (lookupGpsKeys data ''GPSLatitudeRef'') latRaw CHR ''S'';
                             finalLon = applyGpsDirection lon (lookupGpsKeys data ''GPSLongitudeRef'') lonRaw CHR ''W''
                         in if finalLat \<noteq> 0 \<or> finalLon \<noteq> 0 then Some (Some \<lparr> gc_lat = finalLat, gc_lon = finalLon \<rparr>)
                            else Some None
                     | _ \<Rightarrow> Some None))"

fun first_gps :: "jsval list \<Rightarrow> GpsCoord option option" where
  "first_gps [] = Some None"
| "first_gps (a # as) =
    (case assertion_gps a of None \<Rightarrow> None | Some (Some g) \<Rightarrow> Some (Some g) | Some None \<Rightarrow> first_gps as)"

definition extractC2paGps :: "jsval \<Rightarrow> GpsCoord option option" where
  "extractC2paGps assertions =
    (if \<not> jsval_truthy assertions then Some None
     else case assertions of Array vs \<Rightarrow> first_gps vs | _ \<Rightarrow> None)"

section \<open>Validation\<close>

text \<open>\<open>filename.match(/\.[^.]+$/)?.[0] ?? ""\<close> in lower case.\<close>

definition extension_of :: "string \<Rightarrow> string" where
  "extension_of filename =
    (let r = takeWhile (\<lambda>c. c \<noteq> CHR ''.'') (rev filename)
     in if r = [] \<or> length r = length filename then [] else to_lower (CHR ''.'' # rev r))"

definition manifest_checks :: "C2paManifest \<Rightarrow> msg list" where
  "manifest_checks manifest =
    [[T ''C2PA manifest found'']] @
    (if jsval_truthy (cm_claimGenerator manifest) then [[T ''claim generator: '', J (cm_claimGenerator manifest)]] else []) @
    (case cm_signatureInfo manifest of
       None \<Rightarrow> []
     | Some (issuer, time) \<Rightarrow>
       (if jsval_truthy issuer then [[T ''signer: '', J issuer]] else []) @
       (if jsval_truthy time then [[T ''signed at: '', J time]] else []))"

definition c2pa_report :: "(rat \<Rightarrow> string) \<Rightarrow> jsval \<Rightarrow> C2paValidationResult option" where
  "c2pa_report fstr report =
    (case parseActiveManifest fstr report of
       None \<Rightarrow> Some (noManifestResult [[T ''C2PA data present but no active manifest'']] [])
     | Some active \<Rightarrow>
       let manifest = buildManifest active
       in case (evaluateSignature report, extractC2paGps (opt_prop active ''assertions'')) of
            (Some signatureValid, Some gps) \<Rightarrow>
              Some \<lparr> c2_available = True, c2_hasManifest = True, c2_signatureValid = signatureValid,
                     c2_manifest = Some manifest, c2_gps = gps,
                     c2_checks = manifest_checks manifest @ (if signatureValid then [[T ''C2PA signature valid'']] else []) @
                       (case gps of None \<Rightarrow> []
                        | Some g \<Rightarrow> [[T ''C2PA EXIF GPS: '', N (to_fixed 4 (gc_lat g)), T '', '', N (to_fixed 4 (gc_lon g))]]),
                     c2_failures = (if signatureValid then [] else [[T ''C2PA signature validation failed'']]) \<rparr>
          | _ \<Rightarrow> None)"

definition validateC2pa ::
    "c2pa_tool \<Rightarrow> (rat \<Rightarrow> string) \<Rightarrow> string option option \<Rightarrow> bytes \<Rightarrow> string \<Rightarrow> C2paValidationResult option" where
  "validateC2pa tool fstr override data filename =
    (let toolPath = findC2paTool override tool; ext = extension_of filename
     in if \<not> ostr_truthy toolPath then Some noToolResult
        else if ext \<notin> set SUPPORTED_EXTENSIONS
        then Some (noManifestResult [[T ''unsupported format for C2PA: '', T ext]] [])
        else case runC2paTool tool (the toolPath) ext data of
               None \<Rightarrow> None
             | Some (Inl (checks, failures)) \<Rightarrow> Some (noManifestResult checks failures)
             | Some (Inr report) \<Rightarrow> c2pa_report fstr report)"

end
