(* ===== verification/Attachment_Fetch.thy ===== *)
theory Attachment_Fetch
  imports Tlsn_Validation Query_Domain
begin

text \<open>
  The guard on attachment URIs (\<open>attachments/url-validation.ts\<close>) and the retrieval of an attachment
  (\<open>attachments/fetch-attachment.ts\<close>).  The URL parser, the download from a Blossom server with decryption
  and the HTTP client are arguments.
\<close>

section \<open>Private and loopback hosts (url-validation.ts)\<close>

record attachment_url =
  au_protocol :: string
  au_username :: string
  au_password :: string
  au_hostname :: string

text \<open>One to three digits, the rest of the input returned.\<close>

definition octet :: "string \<Rightarrow> string option" where
  "octet s =
    (let ds = takeWhile is_digit s in if ds = [] \<or> 3 < length ds then None else Some (dropWhile is_digit s))"

fun starts_with :: "string \<Rightarrow> string \<Rightarrow> string option" where
  "starts_with [] s = Some s"
| "starts_with (c # cs) [] = None"
| "starts_with (c # cs) (d # ds) = (if c = d then starts_with cs ds else None)"

text \<open>\<open>\d{1,3}\.\d{1,3}\.\d{1,3}\<close> up to the end, and with a fourth number in front.\<close>

definition three_octets :: "string \<Rightarrow> bool" where
  "three_octets s =
    (Option.bind (octet s) (\<lambda>a. Option.bind (starts_with ''.'' a) (\<lambda>b. Option.bind (octet b) (\<lambda>c.
       Option.bind (starts_with ''.'' c) octet))) = Some [])"

definition dotted_quad :: "string \<Rightarrow> bool" where
  "dotted_quad s =
    (case Option.bind (octet s) (starts_with ''.'') of None \<Rightarrow> False | Some r \<Rightarrow> three_octets r)"

text \<open>\<open>^172\.(1[6-9]|2\d|3[01])\.\<close>.\<close>

definition private_172 :: "string \<Rightarrow> bool" where
  "private_172 s =
    (case starts_with ''172.'' s of
       Some (a # b # c # _) \<Rightarrow>
         c = CHR ''.'' \<and>
         (a = CHR ''1'' \<and> b \<in> set ''6789'' \<or> a = CHR ''2'' \<and> is_digit b \<or> a = CHR ''3'' \<and> b \<in> set ''01'')
     | _ \<Rightarrow> False)"

definition private_ipv4 :: "string \<Rightarrow> bool" where
  "private_ipv4 s =
    (starts_with ''127.'' s \<noteq> None \<or> starts_with ''10.'' s \<noteq> None \<or> private_172 s \<or> starts_with ''192.168.'' s \<noteq> None \<or>
     starts_with ''169.254.'' s \<noteq> None \<or> starts_with ''0.'' s \<noteq> None)"

definition stripBrackets :: "string \<Rightarrow> string" where
  "stripBrackets hostname =
    (if hostname \<noteq> [] \<and> hd hostname = CHR ''['' \<and> last hostname = CHR '']''
     then butlast (tl hostname) else hostname)"

text \<open>\<open>[0-9a-f]{1,4}\<close> as a number, the rest of the input returned.\<close>

definition lower_hex :: "char \<Rightarrow> bool" where
  "lower_hex c = (c \<in> set ''0123456789abcdef'')"

definition hex_group :: "string \<Rightarrow> (nat \<times> string) option" where
  "hex_group s =
    (let ds = takeWhile lower_hex s
     in if ds = [] \<or> 4 < length ds then None
        else Some (foldl (\<lambda>n c. n * 16 + (case hex_value c of None \<Rightarrow> 0 | Some d \<Rightarrow> d)) 0 ds, dropWhile lower_hex s))"

definition hex_mapped :: "string \<Rightarrow> (nat \<times> nat) option" where
  "hex_mapped lower =
    Option.bind (starts_with ''::ffff:'' lower) (\<lambda>r.
    Option.bind (hex_group r) (\<lambda>(hi, r1).
    Option.bind (starts_with '':'' r1) (\<lambda>r2.
    Option.bind (hex_group r2) (\<lambda>(lo, r3). if r3 = [] then Some (hi, lo) else None))))"

definition dotted :: "nat \<Rightarrow> nat \<Rightarrow> string" where
  "dotted hi lo =
    nat_str (hi div 256 mod 256) @ ''.'' @ nat_str (hi mod 256) @ ''.'' @
    nat_str (lo div 256 mod 256) @ ''.'' @ nat_str (lo mod 256)"

definition isPrivateIp :: "string \<Rightarrow> bool" where
  "isPrivateIp hostname =
    (let raw = stripBrackets hostname; lower = to_lower raw
     in if raw = ''::1'' then True
        else if starts_with ''fe80:'' lower \<noteq> None then True
        else if starts_with ''fc00:'' lower \<noteq> None \<or> starts_with ''fd00:'' lower \<noteq> None then True
        else case starts_with ''::ffff:'' lower of
               Some v4 \<Rightarrow>
                 if dotted_quad v4 then private_ipv4 v4
                 else (case hex_mapped lower of
                         Some (hi, lo) \<Rightarrow> private_ipv4 (dotted hi lo)
                       | None \<Rightarrow> private_ipv4 raw)
             | None \<Rightarrow> private_ipv4 raw)"

text \<open>\<open>^::ffff:7f[0-9a-f]{2}:[0-9a-f]{1,4}$\<close>.\<close>

definition hex_loopback :: "string \<Rightarrow> bool" where
  "hex_loopback raw =
    (case starts_with ''::ffff:7f'' raw of
       Some (a # b # r) \<Rightarrow>
         lower_hex a \<and> lower_hex b \<and>
         (case Option.bind (starts_with '':'' r) hex_group of Some (_, []) \<Rightarrow> True | _ \<Rightarrow> False)
     | _ \<Rightarrow> False)"

definition isLoopback :: "string \<Rightarrow> bool" where
  "isLoopback hostname =
    (let raw = to_lower (stripBrackets hostname)
     in raw = ''localhost'' \<or> raw = ''::1'' \<or>
        (case starts_with ''127.'' raw of Some r \<Rightarrow> three_octets r | None \<Rightarrow> False) \<or>
        (case starts_with ''::ffff:127.'' raw of Some r \<Rightarrow> three_octets r | None \<Rightarrow> False) \<or>
        hex_loopback raw)"

definition validateAttachmentUri ::
    "(string \<Rightarrow> attachment_url option) \<Rightarrow> bool \<Rightarrow> string \<Rightarrow> string option" where
  "validateAttachmentUri parse allowLocalhostAttachments uri =
    (case parse uri of
       None \<Rightarrow> Some ''Invalid URL''
     | Some parsed \<Rightarrow>
       if au_username parsed \<noteq> [] \<or> au_password parsed \<noteq> [] then Some ''URLs with embedded credentials are not allowed''
       else let loopback = isLoopback (au_hostname parsed)
            in if loopback \<and> \<not> allowLocalhostAttachments
               then Some ''URLs pointing to localhost are not allowed (set ANCHR_ALLOW_LOCALHOST_ATTACHMENTS=1 for local development)''
               else if au_protocol parsed = ''http:'' \<and> \<not> loopback then Some ''Only HTTPS URLs are allowed''
               else if au_protocol parsed \<noteq> ''https:'' \<and> au_protocol parsed \<noteq> ''http:'' then Some ''Only HTTPS URLs are allowed''
               else if \<not> loopback \<and> isPrivateIp (au_hostname parsed)
               then Some ''URLs pointing to private/internal networks are not allowed''
               else None)"

section \<open>Retrieval (fetch-attachment.ts)\<close>

record attachment_net =
  an_parse :: "string \<Rightarrow> attachment_url option"
  an_allowLocalhost :: bool
  an_blossom :: "string \<Rightarrow> string \<Rightarrow> string \<Rightarrow> string list option \<Rightarrow> bytes option option"
  an_http :: "string \<Rightarrow> bytes option"

text \<open>\<open>None\<close>: the download rejects; \<open>Some None\<close>: there is nothing to be had.\<close>

definition fetchBlossomAttachment ::
    "attachment_net \<Rightarrow> AttachmentRef \<Rightarrow> BlossomKeyMaterial option \<Rightarrow> bytes option option" where
  "fetchBlossomAttachment net ref keyMaterial =
    (if at_storage_kind ref \<noteq> Blossom then Some None
     else if \<not> ostr_truthy (at_blossom_hash ref) then Some None
     else case keyMaterial of
            None \<Rightarrow> Some None
          | Some k \<Rightarrow>
            if bk_encrypt_key k = [] \<or> bk_encrypt_iv k = [] then Some None
            else an_blossom net (the (at_blossom_hash ref)) (bk_encrypt_key k) (bk_encrypt_iv k) (at_blossom_servers ref))"

definition fetch_uri :: "attachment_net \<Rightarrow> AttachmentRef \<Rightarrow> string + bytes" where
  "fetch_uri net ref =
    (if at_uri ref = [] then Inl ''attachment could not be retrieved''
     else case validateAttachmentUri (an_parse net) (an_allowLocalhost net) (at_uri ref) of
            Some uriError \<Rightarrow> Inl (''attachment URI rejected ('' @ uriError @ '')'')
          | None \<Rightarrow>
            (case an_http net (at_uri ref) of
               Some data \<Rightarrow> Inr data
             | None \<Rightarrow> Inl ''attachment could not be retrieved''))"

definition fetchAttachmentData ::
    "attachment_net \<Rightarrow> AttachmentRef \<Rightarrow> BlossomKeyMap option \<Rightarrow> (string + bytes) option" where
  "fetchAttachmentData net ref blossomKeys =
    (if at_storage_kind ref = Blossom then
       (case fetchBlossomAttachment net ref (Option.bind blossomKeys (\<lambda>m. map_get m (at_id ref))) of
          None \<Rightarrow> None
        | Some (Some data) \<Rightarrow> Some (Inr data)
        | Some None \<Rightarrow> Some (fetch_uri net ref))
     else Some (fetch_uri net ref))"

end
