(* ===== verification/Photo_Integrity.thy ===== *)
theory Photo_Integrity
  imports C2pa_Validation Attachment_Fetch
begin

text \<open>
  The integrity store (\<open>proofs/integrity-store.ts\<close>) and the photo check over it
  (\<open>proofs/verification/checks/photo-integrity.ts\<close>).  \<open>photo_check\<close> takes the outcome of the test of its
  options, which the source makes before it looks at the attachments.
\<close>

section \<open>Integrity store\<close>

record ExifMetadata =
  xm_make :: "string option"
  xm_model :: "string option"
  xm_dateTime :: "string option"
  xm_dateTimeOriginal :: "string option"
  xm_gps :: "GpsCoord option"

record ExifValidationResult =
  xr_hasExif :: bool
  xr_hasCameraModel :: bool
  xr_hasTimestamp :: bool
  xr_hasGps :: bool
  xr_timestampRecent :: bool
  xr_gpsNearHint :: "bool option"
  xr_metadata :: ExifMetadata
  xr_checks :: "msg list"
  xr_failures :: "msg list"

text \<open>Of the parsed proof only the location is read here.\<close>

record ProofModeIntegrity =
  pm_proof :: "GpsCoord option"
  pm_hashValid :: bool
  pm_pgpValid :: "bool option"
  pm_hasOts :: bool
  pm_hasDeviceCheck :: bool
  pm_checks :: "msg list"
  pm_failures :: "msg list"

record IntegrityMetadata =
  im_attachmentId :: string
  im_requestId :: string
  im_capturedAt :: jsnum
  im_exif :: ExifValidationResult
  im_c2pa :: C2paValidationResult
  im_proofmode :: "ProofModeIntegrity option"

type_synonym integrity_store = "(string, IntegrityMetadata) jsmap"

definition integrity_put :: "IntegrityMetadata \<Rightarrow> integrity_store \<Rightarrow> integrity_store" where
  "integrity_put metadata store = map_set (im_attachmentId metadata) metadata store"

definition integrity_get :: "integrity_store \<Rightarrow> string \<Rightarrow> IntegrityMetadata option" where
  "integrity_get store attachmentId = map_get store attachmentId"

definition getForRequest :: "integrity_store \<Rightarrow> string \<Rightarrow> IntegrityMetadata list" where
  "getForRequest store requestId = filter (\<lambda>m. im_requestId m = requestId) (map_values store)"

definition purgeStale :: "jsnum \<Rightarrow> jsnum option \<Rightarrow> integrity_store \<Rightarrow> nat \<times> integrity_store" where
  "purgeStale now maxAgeMs store =
    (let cutoff = now - (case maxAgeMs of None \<Rightarrow> Fin 7200000 | Some a \<Rightarrow> a);
         stale = filter (\<lambda>(k, m). im_capturedAt m < cutoff) store
     in (length stale, filter (\<lambda>(k, m). \<not> im_capturedAt m < cutoff) store))"

section \<open>Accumulator\<close>

record CheckAccumulator =
  ca_checks :: "msg list"
  ca_failures :: "msg list"
  ca_warnings :: "msg list"

definition add_check :: "msg \<Rightarrow> CheckAccumulator \<Rightarrow> CheckAccumulator" where
  "add_check c acc = acc\<lparr> ca_checks := ca_checks acc @ [c] \<rparr>"

definition add_failure :: "msg \<Rightarrow> CheckAccumulator \<Rightarrow> CheckAccumulator" where
  "add_failure f acc = acc\<lparr> ca_failures := ca_failures acc @ [f] \<rparr>"

definition add_all :: "msg list \<Rightarrow> msg list \<Rightarrow> CheckAccumulator \<Rightarrow> CheckAccumulator" where
  "add_all cs fs acc = acc\<lparr> ca_checks := ca_checks acc @ cs, ca_failures := ca_failures acc @ fs \<rparr>"

section \<open>The factors of a photo\<close>

definition checkC2paSignature :: "C2paValidationResult \<Rightarrow> CheckAccumulator \<Rightarrow> CheckAccumulator" where
  "checkC2paSignature c2pa acc =
    (if \<not> c2_available c2pa
     then add_failure [T ''C2PA: c2patool not available '', EmDash, T '' cannot verify Content Credentials''] acc
     else if \<not> c2_hasManifest c2pa
     then add_failure [T ''C2PA: no Content Credentials found '', EmDash, T '' use a C2PA-enabled camera''] acc
     else if c2_signatureValid c2pa then add_check [T ''C2PA: valid Content Credentials signature''] acc
     else add_failure [T ''C2PA: Content Credentials signature invalid''] acc)"

definition checkC2paGpsBinding ::
    "js_math \<Rightarrow> C2paValidationResult \<Rightarrow> GpsCoord option \<Rightarrow> jsnum \<Rightarrow> CheckAccumulator \<Rightarrow> CheckAccumulator" where
  "checkC2paGpsBinding M c2pa expectedGps maxGpsDist acc =
    (case expectedGps of
       None \<Rightarrow>
         (case c2_gps c2pa of
            None \<Rightarrow> checkC2paSignature c2pa acc
          | Some gps \<Rightarrow>
            let result = evaluateC2paGpsProximity M gps None maxGpsDist ''C2PA''
            in add_all (px_checks result) (px_failures result) (checkC2paSignature c2pa acc))
     | Some expected \<Rightarrow>
       let binding = verifyC2paGpsBinding M c2pa expected maxGpsDist
       in add_all (gb_checks binding) (gb_failures binding) acc)"

definition checkProofModeRecord ::
    "js_math \<Rightarrow> ProofModeIntegrity option \<Rightarrow> GpsCoord option \<Rightarrow> jsnum \<Rightarrow> CheckAccumulator \<Rightarrow> CheckAccumulator" where
  "checkProofModeRecord M proofmode expectedGps maxGpsDist acc =
    (case proofmode of
       None \<Rightarrow> acc
     | Some p \<Rightarrow>
       let acc' = add_all (pm_checks p) (pm_failures p) acc
       in case (pm_proof p, expectedGps) of
            (Some gps, Some expected) \<Rightarrow>
              if gc_lat gps \<noteq> 0 \<or> gc_lon gps \<noteq> 0
              then let result = evaluateC2paGpsProximity M gps (Some expected) maxGpsDist ''ProofMode''
                   in add_all (px_checks result) (px_failures result) acc'
              else acc'
          | _ \<Rightarrow> acc')"

definition camera_label :: "ExifMetadata \<Rightarrow> chunk list" where
  "camera_label m =
    (case filter (\<lambda>s. s \<noteq> []) (List.map_filter id [xm_make m, xm_model m]) of
       [] \<Rightarrow> [T []] | [a] \<Rightarrow> [T a] | a # b # _ \<Rightarrow> [T a, T '' '', T b])"

definition checkExifRecord :: "ExifValidationResult \<Rightarrow> CheckAccumulator \<Rightarrow> CheckAccumulator" where
  "checkExifRecord exif acc =
    (if \<not> xr_hasExif exif then add_check [T ''EXIF: no metadata (stripped by provider for privacy)''] acc
     else let acc1 = add_check
                (if xr_hasCameraModel exif
                 then T ''EXIF: camera identified ('' # camera_label (xr_metadata exif) @ [T '')'']
                 else [T ''EXIF: present but no camera model (screenshot or processed image)'']) acc;
              acc2 = (if xr_hasTimestamp exif
                      then add_check (if xr_timestampRecent exif then [T ''EXIF: timestamp is recent'']
                                      else [T ''EXIF: timestamp is not recent (older photo)'']) acc1
                      else acc1)
          in if \<not> xr_hasGps exif then acc2
             else let acc3 = add_check [T ''EXIF: GPS coordinates present''] acc2
                  in case xr_gpsNearHint exif of
                       Some True \<Rightarrow> add_check [T ''EXIF: GPS matches location hint''] acc3
                     | Some False \<Rightarrow> add_failure [T ''EXIF: GPS coordinates far from expected location''] acc3
                     | None \<Rightarrow> acc3)"

section \<open>The check\<close>

record photo_env =
  pe_math :: js_math
  pe_tool :: c2pa_tool
  pe_net :: attachment_net
  pe_fstr :: "rat \<Rightarrow> string"
  pe_toolPath :: "string option option"

definition is_image :: "AttachmentRef \<Rightarrow> bool" where
  "is_image att = (take 6 (at_mime_type att) = ''image/'')"

text \<open>The loop over the attachments: the accumulator and whether one was validated.\<close>

fun c2pa_attachments ::
    "photo_env \<Rightarrow> BlossomKeyMap option \<Rightarrow> GpsCoord option \<Rightarrow> jsnum \<Rightarrow> AttachmentRef list \<Rightarrow> CheckAccumulator \<times> bool \<Rightarrow>
     (CheckAccumulator \<times> bool) option" where
  "c2pa_attachments env keys expectedGps maxGpsDist [] st = Some st"
| "c2pa_attachments env keys expectedGps maxGpsDist (att # atts) (acc, validated) =
    (if \<not> is_image att then c2pa_attachments env keys expectedGps maxGpsDist atts (acc, validated)
     else case fetchAttachmentData (pe_net env) att keys of
            None \<Rightarrow> None
          | Some (Inl reason) \<Rightarrow>
            c2pa_attachments env keys expectedGps maxGpsDist atts (add_failure [T ''C2PA: '', T reason] acc, validated)
          | Some (Inr data) \<Rightarrow>
            (case validateC2pa (pe_tool env) (pe_fstr env) (pe_toolPath env) data
                    (case at_filename att of Some f \<Rightarrow> f | None \<Rightarrow> at_id att) of
               None \<Rightarrow> None
             | Some c2pa \<Rightarrow>
               c2pa_attachments env keys expectedGps maxGpsDist atts
                 (checkC2paGpsBinding (pe_math env) c2pa expectedGps maxGpsDist acc, True)))"

definition verifyC2paFromAttachments ::
    "photo_env \<Rightarrow> BlossomKeyMap option \<Rightarrow> GpsCoord option \<Rightarrow> jsnum \<Rightarrow> bool \<Rightarrow> AttachmentRef list \<Rightarrow> CheckAccumulator \<Rightarrow>
     CheckAccumulator option" where
  "verifyC2paFromAttachments env keys expectedGps maxGpsDist requiresC2pa attachments acc =
    (if attachments = [] then Some acc
     else case c2pa_attachments env keys expectedGps maxGpsDist attachments (acc, False) of
            None \<Rightarrow> None
          | Some (acc', validated) \<Rightarrow>
            Some (if validated then acc'
                  else if list_ex is_image attachments then add_failure [T ''C2PA: no image attachments could be verified''] acc'
                  else if requiresC2pa
                  then add_failure [T ''C2PA: required Content Credentials evidence missing '', EmDash, T '' no image submitted''] acc'
                  else acc'))"

definition check_record ::
    "photo_env \<Rightarrow> GpsCoord option \<Rightarrow> jsnum \<Rightarrow> IntegrityMetadata \<Rightarrow> CheckAccumulator \<Rightarrow> CheckAccumulator" where
  "check_record env expectedGps maxGpsDist record' acc =
    checkExifRecord (im_exif record')
      (checkProofModeRecord (pe_math env) (im_proofmode record') expectedGps maxGpsDist
        (checkC2paGpsBinding (pe_math env) (im_c2pa record') expectedGps maxGpsDist acc))"

definition integrity_records :: "integrity_store \<Rightarrow> string \<Rightarrow> AttachmentRef list \<Rightarrow> IntegrityMetadata list" where
  "integrity_records store requirementId attachments =
    (let found = List.map_filter (\<lambda>att. integrity_get store (at_id att)) attachments
     in if found = [] then getForRequest store requirementId else found)"

definition verifyPhotoIntegrity ::
    "photo_env \<Rightarrow> integrity_store \<Rightarrow> BlossomKeyMap option \<Rightarrow> string \<Rightarrow> GpsCoord option \<Rightarrow> jsnum \<Rightarrow> bool \<Rightarrow>
     AttachmentRef list \<Rightarrow> CheckAccumulator \<Rightarrow> CheckAccumulator option" where
  "verifyPhotoIntegrity env store keys requirementId expectedGps maxGpsDist requiresC2pa attachments acc =
    (case integrity_records store requirementId attachments of
       [] \<Rightarrow> verifyC2paFromAttachments env keys expectedGps maxGpsDist requiresC2pa attachments acc
     | records \<Rightarrow> Some (fold (check_record env expectedGps maxGpsDist) records acc))"

text \<open>\<open>undefined\<close> is the empty requirement; \<open>None\<close> is a refused one.\<close>

definition resolveC2paRequirement :: "jsval \<Rightarrow> (GpsCoord option \<times> jsnum option) option" where
  "resolveC2paRequirement payload =
    (if payload = Undefined then Some (None, None)
     else if \<not> isC2paImageRequirement payload then None
     else Some (as_gps (opt_prop payload ''expected_gps''), number_of (opt_prop payload ''max_gps_distance_km'')))"

definition resolveC2paEvidence :: "jsval \<Rightarrow> GpsCoord option option" where
  "resolveC2paEvidence payload =
    (if payload = Undefined then Some None
     else if \<not> isC2paImageEvidence payload then None
     else Some (as_gps (opt_prop payload ''gps'')))"

definition checkSchemaEvidenceGps ::
    "js_math \<Rightarrow> GpsCoord option \<Rightarrow> jsnum \<Rightarrow> GpsCoord option \<Rightarrow> CheckAccumulator \<Rightarrow> CheckAccumulator" where
  "checkSchemaEvidenceGps M expectedGps maxGpsDist evidenceGps acc =
    (case evidenceGps of
       None \<Rightarrow> acc
     | Some gps \<Rightarrow>
       let result = evaluateC2paGpsProximity M gps expectedGps maxGpsDist ''C2PA schema_evidence''
       in add_all (px_checks result) (px_failures result) acc)"

definition photo_check ::
    "photo_env \<Rightarrow> bool \<Rightarrow> integrity_store \<Rightarrow> BlossomKeyMap option \<Rightarrow> string \<Rightarrow> jsval \<Rightarrow> jsval \<Rightarrow> AttachmentRef list \<Rightarrow>
     CheckAccumulator \<Rightarrow> CheckAccumulator option" where
  "photo_check env options_ok store keys requirementId schema_requirement schema_evidence attachments acc =
    (let requirement = resolveC2paRequirement schema_requirement;
         acc1 = (if requirement = None
                 then add_failure [T ''C2PA image: query missing or invalid schema_requirement''] acc else acc);
         evidence = resolveC2paEvidence schema_evidence;
         acc2 = (if evidence = None then add_failure [T ''C2PA image: invalid schema_evidence''] acc1 else acc1)
     in case (requirement, evidence) of
          (Some (expectedGps, maxGps), Some evidenceGps) \<Rightarrow>
            let maxGpsDist = (case maxGps of None \<Rightarrow> DEFAULT_C2PA_MAX_GPS_DISTANCE_KM | Some d \<Rightarrow> d);
                acc3 = checkSchemaEvidenceGps (pe_math env) expectedGps maxGpsDist evidenceGps acc2
            in if attachments = []
               then Some (add_failure
                 [T ''C2PA: required Content Credentials evidence missing '', EmDash, T '' no image submitted''] acc3)
               else if \<not> options_ok then None
               else verifyPhotoIntegrity env store keys requirementId expectedGps maxGpsDist True attachments
                      (add_check [T ''attachment present''] acc3)
        | _ \<Rightarrow> Some acc2)"

end
