(* ===== verification/Proof_Verifier.thy ===== *)
theory Proof_Verifier
  imports Photo_Integrity Tlsn_Validation Frost_Coordination Schema_Uri
begin

text \<open>
  Proof Schema bundles (\<open>schema.ts\<close>), the reference bundles and their checks (\<open>proofs/*-schema.ts\<close>,
  \<open>proofs/verification/checks\<close>) and the verifier core (\<open>proofs/verification/verifier.ts\<close>).  A check is a
  function on the context and on what it may change, the world of type \<open>'w\<close>; \<open>None\<close> is a rejected promise.
\<close>

section \<open>Checks and bundles\<close>

record FactorCheckContext =
  fx_requirement :: VerificationRequirement
  fx_input :: VerificationInput
  fx_acc :: CheckAccumulator
  fx_blossomKeys :: "BlossomKeyMap option"
  fx_schemaOptions :: jsval
  fx_schemaVerdict :: jsval

record 'w FactorCheck =
  fk_name :: string
  fk_run :: "'w \<Rightarrow> FactorCheckContext \<Rightarrow> (FactorCheckContext \<times> 'w) option"

text \<open>\<open>sb_ref\<close> is the identity of the bundle object.\<close>

record ('w, 'p, 'v) SchemaBundle =
  sb_ref :: nat
  sb_uri :: string
  sb_producer :: "'p option"
  sb_verifier :: "'v option"
  sb_checks :: "'w FactorCheck list option"
  sb_configSchema :: "(jsval \<Rightarrow> jsval option) option"
  sb_resolveEvidence :: "(jsval \<Rightarrow> proof_data \<Rightarrow> jsval) option"

type_synonym ('w, 'p, 'v) schema_bundles = "(string, ('w, 'p, 'v) SchemaBundle) jsmap"

text \<open>\<open>None\<close>: the bundle is already registered and the call throws.\<close>

definition registerSchemaBundle ::
    "('w, 'p, 'v) schema_bundles \<Rightarrow> ('w, 'p, 'v) SchemaBundle \<Rightarrow> ('w, 'p, 'v) schema_bundles option" where
  "registerSchemaBundle schemaBundles bundle =
    (if map_has schemaBundles (sb_uri bundle) then None else Some (map_set (sb_uri bundle) bundle schemaBundles))"

text \<open>The function a registration returns.\<close>

definition dispose_bundle ::
    "('w, 'p, 'v) SchemaBundle \<Rightarrow> ('w, 'p, 'v) schema_bundles \<Rightarrow> ('w, 'p, 'v) schema_bundles" where
  "dispose_bundle bundle schemaBundles =
    (case map_get schemaBundles (sb_uri bundle) of
       Some current \<Rightarrow> if sb_ref current = sb_ref bundle then map_delete (sb_uri bundle) schemaBundles else schemaBundles
     | None \<Rightarrow> schemaBundles)"

definition unregisterSchemaBundle ::
    "('w, 'p, 'v) schema_bundles \<Rightarrow> string \<Rightarrow> bool \<times> ('w, 'p, 'v) schema_bundles" where
  "unregisterSchemaBundle schemaBundles uri = (map_has schemaBundles uri, map_delete uri schemaBundles)"

definition getSchemaBundle :: "('w, 'p, 'v) schema_bundles \<Rightarrow> string \<Rightarrow> ('w, 'p, 'v) SchemaBundle option" where
  "getSchemaBundle schemaBundles uri = map_get schemaBundles uri"

definition getRegisteredSchemaBundles :: "('w, 'p, 'v) schema_bundles \<Rightarrow> ('w, 'p, 'v) SchemaBundle list" where
  "getRegisteredSchemaBundles schemaBundles = map_values schemaBundles"

type_synonym options_map = "(string, jsval) jsmap"

definition resolveSchemaOptions :: "('w, 'p, 'v) SchemaBundle \<Rightarrow> options_map option \<Rightarrow> jsval option" where
  "resolveSchemaOptions bundle schemaOptions =
    (let raw = (case Option.bind schemaOptions (\<lambda>m. map_get m (sb_uri bundle)) of
                  None \<Rightarrow> Object [] | Some v \<Rightarrow> if no_props v then Object [] else v)
     in case sb_configSchema bundle of None \<Rightarrow> Some raw | Some parse \<Rightarrow> parse raw)"

definition resolveSchemaEvidence :: "('w, 'p, 'v) schema_bundles \<Rightarrow> string \<Rightarrow> jsval \<Rightarrow> proof_data \<Rightarrow> jsval" where
  "resolveSchemaEvidence schemaBundles uri data proof =
    (case Option.bind (map_get schemaBundles uri) sb_resolveEvidence of None \<Rightarrow> Undefined | Some f \<Rightarrow> f data proof)"

text \<open>A configured generator or verifier that can handle the URL comes first.\<close>

definition resolveProofGenerator ::
    "((string \<Rightarrow> bool) \<times> 'p) list \<Rightarrow> ('w, 'p, 'v) schema_bundles \<Rightarrow> string \<Rightarrow> 'p option" where
  "resolveProofGenerator generators schemaBundles uri =
    (case find (\<lambda>g. fst g uri) generators of
       Some g \<Rightarrow> Some (snd g)
     | None \<Rightarrow> Option.bind (map_get schemaBundles uri) sb_producer)"

definition resolveVerifierAdapter ::
    "((string \<Rightarrow> bool) \<times> 'v) list \<Rightarrow> ('w, 'p, 'v) schema_bundles \<Rightarrow> string \<Rightarrow> 'v option" where
  "resolveVerifierAdapter verifiers schemaBundles uri =
    (case find (\<lambda>g. fst g uri) verifiers of
       Some g \<Rightarrow> Some (snd g)
     | None \<Rightarrow> Option.bind (map_get schemaBundles uri) sb_verifier)"

section \<open>The verifier core (verifier.ts)\<close>

definition GenericMediaSchemaUri :: string where
  "GenericMediaSchemaUri = ''https://anchr-spec.org/spec/proof/photo/v1''"

fun run_checks :: "'w FactorCheck list \<Rightarrow> 'w \<Rightarrow> FactorCheckContext \<Rightarrow> (FactorCheckContext \<times> 'w) option" where
  "run_checks [] w ctx = Some (ctx, w)"
| "run_checks (c # cs) w ctx =
    (case fk_run c w ctx of None \<Rightarrow> None | Some (ctx', w') \<Rightarrow> run_checks cs w' ctx')"

definition verification_refused :: "msg \<Rightarrow> VerificationDetail" where
  "verification_refused f =
    \<lparr> vd_passed = False, vd_checks = [], vd_failures = [f], vd_warnings = None, vd_schema_verdict = Undefined \<rparr>"

definition detail_of :: "FactorCheckContext \<Rightarrow> VerificationDetail" where
  "detail_of ctx =
    (let acc = fx_acc ctx
     in \<lparr> vd_passed = (ca_failures acc = []), vd_checks = ca_checks acc, vd_failures = ca_failures acc,
          vd_warnings = (if ca_warnings acc = [] then None else Some (ca_warnings acc)),
          vd_schema_verdict = fx_schemaVerdict ctx \<rparr>)"

text \<open>\<open>verifyProof\<close> with the bundles registered.\<close>

definition verify_with_bundles ::
    "('w, 'p, 'v) schema_bundles \<Rightarrow> VerificationRequirement \<Rightarrow> VerificationInput \<Rightarrow> BlossomKeyMap option \<Rightarrow>
     options_map option \<Rightarrow> 'w \<Rightarrow> (VerificationDetail \<times> 'w) option" where
  "verify_with_bundles schemaBundles requirement input blossomKeys schemaOptions w =
    (let schema = (case vr_schema requirement of None \<Rightarrow> GenericMediaSchemaUri | Some s \<Rightarrow> s)
     in case getSchemaBundle schemaBundles schema of
          None \<Rightarrow> Some (verification_refused [T ''Unknown Proof Schema URL: '', T schema], w)
        | Some bundle \<Rightarrow>
          let checks = (case sb_checks bundle of None \<Rightarrow> [] | Some cs \<Rightarrow> cs)
          in if checks = [] then Some (verification_refused [T ''Proof Schema has no verification checks: '', T schema], w)
             else case resolveSchemaOptions bundle schemaOptions of
                    None \<Rightarrow> None
                  | Some opts \<Rightarrow>
                    map_option (\<lambda>(ctx, w'). (detail_of ctx, w'))
                      (run_checks checks w
                        \<lparr> fx_requirement = requirement, fx_input = input,
                          fx_acc = \<lparr> ca_checks = [], ca_failures = [], ca_warnings = [] \<rparr>,
                          fx_blossomKeys = blossomKeys, fx_schemaOptions = opts, fx_schemaVerdict = Undefined \<rparr>))"

section \<open>The reference checks\<close>

text \<open>The world of the reference checks: the replay guard, and the integrity store as they find it.\<close>

record proof_world =
  pw_guard :: replay_guard
  pw_integrity :: integrity_store

text \<open>What one verification sees of the outside; \<open>pv_begin\<close> and \<open>pv_end\<close> are the clock before and after the
  awaited run of the TLSNotary binary.\<close>

record proof_env =
  pv_tlsn :: tlsn_lib
  pv_verifierPath :: "string option option"
  pv_photo :: photo_env
  pv_begin :: jsnum
  pv_end :: jsnum

definition with_acc :: "(CheckAccumulator \<Rightarrow> CheckAccumulator) \<Rightarrow> FactorCheckContext \<Rightarrow> FactorCheckContext" where
  "with_acc f ctx = ctx\<lparr> fx_acc := f (fx_acc ctx) \<rparr>"

definition createEmptySubmissionCheck :: "(FactorCheckContext \<Rightarrow> bool) \<Rightarrow> 'w FactorCheck" where
  "createEmptySubmissionCheck requiresEvidence =
    \<lparr> fk_name = ''empty-submission'',
      fk_run = (\<lambda>w ctx.
        if vi_attachments (fx_input ctx) \<noteq> [] then Some (ctx, w)
        else if \<not> requiresEvidence ctx
        then Some (with_acc (add_check [T ''no media evidence provided (weak verification)'']) ctx, w)
        else Some (with_acc (add_failure
          [T ''no media evidence provided '', EmDash, T '' photos are required when photo-backed verification is enabled'']) ctx, w)) \<rparr>"

definition genericMediaCheck :: "'w FactorCheck" where
  "genericMediaCheck =
    \<lparr> fk_name = ''generic-media'',
      fk_run = (\<lambda>w ctx.
        Some (if vi_attachments (fx_input ctx) \<noteq> [] then with_acc (add_check [T ''attachment present'']) ctx else ctx, w)) \<rparr>"

fun hasNonEmptySchemaEvidence :: "jsval \<Rightarrow> bool" where
  "hasNonEmptySchemaEvidence Undefined = False"
| "hasNonEmptySchemaEvidence (Object ms) = (ms \<noteq> [])"
| "hasNonEmptySchemaEvidence (Array vs) = (vs \<noteq> [])"
| "hasNonEmptySchemaEvidence _ = True"

definition createGenericMediaSchemaBundle :: "nat \<Rightarrow> ('w, 'p, 'v) SchemaBundle" where
  "createGenericMediaSchemaBundle ref =
    \<lparr> sb_ref = ref, sb_uri = GenericMediaSchemaUri, sb_producer = None, sb_verifier = None,
      sb_checks = Some
        [createEmptySubmissionCheck (\<lambda>ctx. vr_schema_requirement (fx_requirement ctx) \<noteq> Undefined \<or>
           hasNonEmptySchemaEvidence (vi_schema_evidence (fx_input ctx))),
         genericMediaCheck],
      sb_configSchema = None, sb_resolveEvidence = None \<rparr>"

text \<open>Schema options given as data: executors, stores and functions among them have no counterpart, so those
  members must be absent.  \<open>None\<close>: the options are refused and the call throws.\<close>

definition opt_path :: "jsval \<Rightarrow> bool" where
  "opt_path v = (no_props v \<or> is_string v)"

definition parseTlsnSchemaOptions :: "jsval \<Rightarrow> jsval option" where
  "parseTlsnSchemaOptions value =
    (if isRecord value \<and> opt_prop value ''validateTlsn'' = Undefined \<and> opt_path (opt_prop value ''verifierPath'') \<and>
        opt_prop value ''executor'' = Undefined \<and> opt_string (opt_prop value ''notaryUrl'')
     then Some value else None)"

definition parseC2paImageSchemaOptions :: "jsval \<Rightarrow> jsval option" where
  "parseC2paImageSchemaOptions value =
    (if isRecord value \<and> opt_path (opt_prop value ''c2paToolPath'') \<and> opt_prop value ''integrityStore'' = Undefined \<and>
        opt_prop value ''executor'' = Undefined
     then Some value else None)"

text \<open>\<open>{ ...defaultOptions, ...schemaOptionsRecord(options) }\<close> at a path member.\<close>

definition merged_path :: "string option option \<Rightarrow> jsval \<Rightarrow> string \<Rightarrow> string option option" where
  "merged_path default_path options key =
    (if js_in key options
     then (case opt_prop options key of String s \<Rightarrow> Some (Some s) | Null \<Rightarrow> Some None | _ \<Rightarrow> None)
     else default_path)"

definition options_record :: "jsval \<Rightarrow> jsval" where
  "options_record value = (if isRecord value then value else Object [])"

definition verdict_of :: "TlsnVerifiedData option \<Rightarrow> jsval" where
  "verdict_of d =
    (case d of
       None \<Rightarrow> Undefined
     | Some v \<Rightarrow> Object [(''server_name'', vd_server_name v), (''revealed_body'', vd_revealed_body v),
                         (''revealed_headers'', vd_revealed_headers v), (''session_timestamp'', vd_session_timestamp v)])"

text \<open>The presentation \<open>verifyTlsn\<close> goes on with, or the failure it reports.\<close>

definition tlsn_presentation :: "VerificationRequirement \<Rightarrow> VerificationInput \<Rightarrow> msg + string" where
  "tlsn_presentation requirement input =
    (let evidence = vi_schema_evidence input
     in if \<not> isTlsnRequirement (vr_schema_requirement requirement)
        then Inl [T ''TLSNotary: query missing or invalid schema_requirement'']
        else if evidence = Undefined then Inl [T ''TLSNotary: no attestation provided'']
        else if isTlsnExtensionResult evidence then
          (case opt_prop evidence ''presentation'' of
             String (c # cs) \<Rightarrow> Inr (c # cs)
           | _ \<Rightarrow> Inl [T ''TLSNotary extension: no cryptographic presentation included '', EmDash,
                       T '' self-reported data cannot be trusted''])
        else if isTlsnAttestation evidence then Inr (the (string_of (opt_prop evidence ''presentation'')))
        else Inl [T ''TLSNotary: invalid schema_evidence''])"

definition tlsn_check :: "proof_env \<Rightarrow> proof_world FactorCheck" where
  "tlsn_check env =
    \<lparr> fk_name = ''tlsn'',
      fk_run = (\<lambda>w ctx.
        if parseTlsnSchemaOptions (options_record (fx_schemaOptions ctx)) = None then None
        else case tlsn_presentation (fx_requirement ctx) (fx_input ctx) of
          Inl failure \<Rightarrow> Some ((with_acc (add_failure failure) ctx)\<lparr> fx_schemaVerdict := Undefined \<rparr>, w)
        | Inr presentation \<Rightarrow>
          map_option
            (\<lambda>(r, g). ((with_acc (add_all (tv_checks r) (tv_failures r)) ctx)\<lparr> fx_schemaVerdict := verdict_of (tv_verifiedData r) \<rparr>,
                       w\<lparr> pw_guard := g \<rparr>))
            (validateTlsn (pv_tlsn env) (pv_begin env) (pv_end env) (pw_guard w)
               (merged_path (pv_verifierPath env) (fx_schemaOptions ctx) ''verifierPath'') presentation
               (as_requirement (vr_schema_requirement (fx_requirement ctx))))) \<rparr>"

definition createTlsnSchemaBundle :: "nat \<Rightarrow> proof_env \<Rightarrow> (proof_world, 'p, 'v) SchemaBundle" where
  "createTlsnSchemaBundle ref env =
    \<lparr> sb_ref = ref, sb_uri = TlsnV1, sb_producer = None, sb_verifier = None, sb_checks = Some [tlsn_check env],
      sb_configSchema = Some parseTlsnSchemaOptions,
      sb_resolveEvidence = Some (\<lambda>data proof.
        case proof of Proof_text (c # cs) \<Rightarrow> Object [(''presentation'', String (c # cs))] | _ \<Rightarrow> Undefined) \<rparr>"

definition photo_integrity_check :: "proof_env \<Rightarrow> proof_world FactorCheck" where
  "photo_integrity_check env =
    \<lparr> fk_name = ''photo-integrity'',
      fk_run = (\<lambda>w ctx.
        map_option (\<lambda>acc. (ctx\<lparr> fx_acc := acc \<rparr>, w))
          (photo_check ((pv_photo env)\<lparr> pe_toolPath := merged_path (pe_toolPath (pv_photo env)) (fx_schemaOptions ctx) ''c2paToolPath'' \<rparr>)
             (parseC2paImageSchemaOptions (options_record (fx_schemaOptions ctx)) \<noteq> None) (pw_integrity w) (fx_blossomKeys ctx) (vr_id (fx_requirement ctx))
             (vr_schema_requirement (fx_requirement ctx)) (vi_schema_evidence (fx_input ctx))
             (vi_attachments (fx_input ctx)) (fx_acc ctx))) \<rparr>"

definition createC2paImageSchemaBundle :: "nat \<Rightarrow> proof_env \<Rightarrow> (proof_world, 'p, 'v) SchemaBundle" where
  "createC2paImageSchemaBundle ref env =
    \<lparr> sb_ref = ref, sb_uri = C2paImageV1, sb_producer = None, sb_verifier = None,
      sb_checks = Some [createEmptySubmissionCheck (\<lambda>_. True), photo_integrity_check env],
      sb_configSchema = Some parseC2paImageSchemaOptions,
      sb_resolveEvidence = Some (\<lambda>data proof. if isRecord data then data else Undefined) \<rparr>"

section \<open>Registration of the reference bundles (registry.ts)\<close>

text \<open>The flag and the bundles; the second component says whether the call threw.\<close>

type_synonym reference_state = "bool \<times> (proof_world, unit, unit) schema_bundles"

fun register_all ::
    "(proof_world, unit, unit) SchemaBundle list \<Rightarrow> (proof_world, unit, unit) schema_bundles \<Rightarrow>
     (proof_world, unit, unit) schema_bundles \<times> bool" where
  "register_all [] m = (m, True)"
| "register_all (b # bs) m =
    (case registerSchemaBundle m b of None \<Rightarrow> (m, False) | Some m' \<Rightarrow> register_all bs m')"

definition ensureReferenceSchemaBundlesRegistered :: "proof_env \<Rightarrow> nat \<Rightarrow> reference_state \<Rightarrow> reference_state \<times> bool" where
  "ensureReferenceSchemaBundlesRegistered env ref st =
    (if fst st then (st, True)
     else let (m, ok) = register_all
                [createGenericMediaSchemaBundle ref, createTlsnSchemaBundle (ref + 1) env, createC2paImageSchemaBundle (ref + 2) env]
                (snd st)
          in ((ok, m), ok))"

definition verifyProof ::
    "proof_env \<Rightarrow> nat \<Rightarrow> VerificationRequirement \<Rightarrow> VerificationInput \<Rightarrow> BlossomKeyMap option \<Rightarrow> options_map option \<Rightarrow>
     reference_state \<times> proof_world \<Rightarrow> VerificationDetail option \<times> reference_state \<times> proof_world" where
  "verifyProof env ref requirement input blossomKeys schemaOptions st =
    (let (rs, ok) = ensureReferenceSchemaBundlesRegistered env ref (fst st)
     in if \<not> ok then (None, rs, snd st)
        else case verify_with_bundles (snd rs) requirement input blossomKeys schemaOptions (snd st) of
               None \<Rightarrow> (None, rs, snd st)
             | Some (detail, w) \<Rightarrow> (Some detail, rs, w))"

end
