(* ===== verification/Tlsn_Properties.thy ===== *)
theory Tlsn_Properties
  imports Tlsn_Validation
begin

text \<open>
  What an accepted TLSNotary presentation means, what the replay guard of the validation refuses, and where
  it does not: the guard is keyed by the base64 text while the binary reads the decoded bytes.
\<close>

section \<open>Lemmas\<close>

lemma check_server_ok: "snd (snd (check_server h v)) = [] \<longleftrightarrow> (ostr_truthy h \<longrightarrow> v = String (the h))"
  by (simp add: check_server_def)

definition fresh_time :: "jsnum \<Rightarrow> jsval \<Rightarrow> jsnum \<Rightarrow> bool" where
  "fresh_time now v maxAge = (\<not> no_props v \<and> 0 \<le> age_ms now v \<and> age_ms now v < maxAge * Fin 1000)"

lemma check_freshness_ok: "snd (snd (check_freshness now v maxAge)) = [] \<longleftrightarrow> fresh_time now v maxAge"
  by (simp add: check_freshness_def fresh_time_def Let_def)

definition condition_met :: "tlsn_lib \<Rightarrow> jsval \<Rightarrow> TlsnCondition \<Rightarrow> bool" where
  "condition_met lib body c =
    (case evaluateCondition (tl_regex lib) (tl_fstr lib) c body of Some (True, _) \<Rightarrow> True | _ \<Rightarrow> False)"

lemma check_conditions_ok:
  "check_conditions lib body cs = Some rs \<Longrightarrow> filter (Not \<circ> cr_passed) rs = [] \<longleftrightarrow> list_all (condition_met lib body) cs"
proof (induction cs arbitrary: rs)
  case (Cons c cs)
  then obtain passed actual rs' where "evaluateCondition (tl_regex lib) (tl_fstr lib) c body = Some (passed, actual)"
    "check_conditions lib body cs = Some rs'" "rs = \<lparr> cr_condition = c, cr_passed = passed, cr_actual_value = actual \<rparr> # rs'"
    by (auto split: option.splits)
  with Cons.IH show ?case by (cases passed) (simp_all add: condition_met_def)
qed simp

definition revealed :: "VerifierBinaryResult \<Rightarrow> jsval" where
  "revealed crypto = (if no_props (vb_body crypto) then String [] else vb_body crypto)"

definition max_age_of :: "TlsnRequirement \<Rightarrow> jsnum" where
  "max_age_of req = (case tr_max_age req of None \<Rightarrow> DEFAULT_MAX_AGE_SECONDS | Some s \<Rightarrow> s)"

lemma tlsn_finish_cases:
  assumes "tlsn_finish lib now g p req crypto = Some (r, g')"
  shows "tv_failures r = [] \<longleftrightarrow>
      vb_signatureValid crypto \<and> (ostr_truthy (expected_hostname lib req) \<longrightarrow> vb_serverName crypto = String (the (expected_hostname lib req))) \<and>
      fresh_time now (vb_time crypto) (max_age_of req) \<and> list_all (condition_met lib (revealed crypto)) (conditions_of req)"
    "vb_signatureValid crypto \<Longrightarrow> g' = guard_add now g (tl_sha256 lib p)"
    "tv_signatureValid r = vb_signatureValid crypto"
proof -
  have "(tv_failures r = [] \<longleftrightarrow>
      vb_signatureValid crypto \<and> (ostr_truthy (expected_hostname lib req) \<longrightarrow> vb_serverName crypto = String (the (expected_hostname lib req))) \<and>
      fresh_time now (vb_time crypto) (max_age_of req) \<and> list_all (condition_met lib (revealed crypto)) (conditions_of req)) \<and>
    (vb_signatureValid crypto \<longrightarrow> g' = guard_add now g (tl_sha256 lib p)) \<and> tv_signatureValid r = vb_signatureValid crypto"
  proof (cases "vb_signatureValid crypto")
    case True
    with assms obtain rs where rs: "check_conditions lib (revealed crypto) (conditions_of req) = Some rs"
      "r = tlsn_report (check_server (expected_hostname lib req) (vb_serverName crypto))
         (check_freshness now (vb_time crypto) (max_age_of req)) rs (revealed crypto) crypto"
      "g' = guard_add now g (tl_sha256 lib p)"
      by (auto simp: tlsn_finish_def Let_def revealed_def max_age_of_def)
    have "tv_failures r = [] \<longleftrightarrow> (ostr_truthy (expected_hostname lib req) \<longrightarrow> vb_serverName crypto = String (the (expected_hostname lib req))) \<and>
      fresh_time now (vb_time crypto) (max_age_of req) \<and> list_all (condition_met lib (revealed crypto)) (conditions_of req)"
      unfolding rs(2) tlsn_report_def
      by (simp add: check_server_ok check_freshness_ok check_conditions_ok [OF rs(1)] del: filter_empty_conv)
    with True rs(3) show ?thesis by (simp add: rs(2) tlsn_report_def)
  next
    case False
    with assms show ?thesis by (auto simp: tlsn_finish_def tlsn_rejected_def)
  qed
  then show "tv_failures r = [] \<longleftrightarrow>
      vb_signatureValid crypto \<and> (ostr_truthy (expected_hostname lib req) \<longrightarrow> vb_serverName crypto = String (the (expected_hostname lib req))) \<and>
      fresh_time now (vb_time crypto) (max_age_of req) \<and> list_all (condition_met lib (revealed crypto)) (conditions_of req)"
    "vb_signatureValid crypto \<Longrightarrow> g' = guard_add now g (tl_sha256 lib p)"
    "tv_signatureValid r = vb_signatureValid crypto" by auto
qed

lemma tlsn_begin_cases:
  "tlsn_begin lib now g vp p =
    (if map_has (rg_seen (evict now g)) (tl_sha256 lib p) then
       (Inl (tlsn_rejected True [T ''TLSNotary: presentation already used '', EmDash, T '' proof replay rejected'']), evict now g)
     else case resolveTlsnVerifier vp (tl_executor lib) of
            Some (c # cs) \<Rightarrow> (Inr (c # cs), evict now g)
          | _ \<Rightarrow> (Inl (tlsn_rejected False
                  [T ''TLSNotary: tlsn-verifier binary not available '', EmDash, T '' cannot verify presentation'']), evict now g))"
  by (auto simp: tlsn_begin_def guard_has_def Let_def split: option.splits list.splits)

lemma no_props_opt: "no_props v \<Longrightarrow> opt_prop v k = Undefined"
  by (cases v) simp_all

lemma binary_signed:
  assumes "runVerifierBinary lib path p = Some crypto"
  shows "vb_signatureValid crypto \<longleftrightarrow>
    (\<exists>out err v. tl_run lib path (tl_decode64 lib p) = Some (Inr (Exited 0 out err)) \<and> jparse out = Some v \<and>
       opt_prop v ''valid'' = Bool True)"
proof -
  have "vb_signatureValid (verifier_output out) \<longleftrightarrow> (\<exists>v. jparse out = Some v \<and> opt_prop v ''valid'' = Bool True)" for out
    by (auto simp: verifier_output_def binary_failed_def no_props_opt simp del: opt_prop.simps split: option.splits)
  then show ?thesis
    using assms by (auto simp: runVerifierBinary_def binary_failed_def split: option.splits sum.splits run_outcome.splits if_splits)
qed


lemma binary_output:
  assumes "runVerifierBinary lib path p = Some crypto" "vb_signatureValid crypto"
  obtains out err v where "tl_run lib path (tl_decode64 lib p) = Some (Inr (Exited 0 out err))" "jparse out = Some v"
    "opt_prop v ''valid'' = Bool True" "crypto = verifier_output out"
    "vb_serverName crypto = or_undefined (opt_prop v ''server_name'')" "vb_time crypto = or_undefined (opt_prop v ''time'')"
proof -
  from binary_signed [OF assms(1)] assms(2) obtain out err v where
    o: "tl_run lib path (tl_decode64 lib p) = Some (Inr (Exited 0 out err))" "jparse out = Some v" "opt_prop v ''valid'' = Bool True"
    by blast
  have "crypto = verifier_output out" using assms(1) o(1) by (simp add: runVerifierBinary_def)
  moreover have "\<not> no_props v" using o(3) no_props_opt by fastforce
  ultimately show ?thesis using that o by (simp add: verifier_output_def)
qed

lemma finish_defined:
  assumes "tlsn_finish lib now g p req crypto = Some (r, g')" "vb_signatureValid crypto"
  shows "\<exists>r'. tlsn_finish lib now' h p' req crypto = Some (r', guard_add now' h (tl_sha256 lib p'))"
  using assms by (auto simp: tlsn_finish_def Let_def)

text \<open>The answer the binary gave in a validation that reached it.\<close>

lemma validate_reached:
  assumes "validateTlsn lib t1 t2 g vp p req = Some (r, g')" "tv_signatureValid r"
  obtains path crypto where "\<not> map_has (rg_seen (evict t1 g)) (tl_sha256 lib p)"
    "resolveTlsnVerifier vp (tl_executor lib) = Some path" "path \<noteq> []" "runVerifierBinary lib path p = Some crypto"
    "vb_signatureValid crypto" "tlsn_finish lib t2 (evict t1 g) p req crypto = Some (r, g')"
proof -
  have "\<not> map_has (rg_seen (evict t1 g)) (tl_sha256 lib p)"
    using assms by (auto simp: validateTlsn_def tlsn_begin_cases tlsn_rejected_def)
  moreover from this obtain path where path: "resolveTlsnVerifier vp (tl_executor lib) = Some path" "path \<noteq> []"
    using assms by (auto simp: validateTlsn_def tlsn_begin_cases tlsn_rejected_def split: option.splits list.splits)
  ultimately have "Option.bind (runVerifierBinary lib path p) (tlsn_finish lib t2 (evict t1 g) p req) = Some (r, g')"
    using assms(1) by (auto simp: validateTlsn_def tlsn_begin_cases split: list.splits)
  then obtain crypto where "runVerifierBinary lib path p = Some crypto"
    "tlsn_finish lib t2 (evict t1 g) p req crypto = Some (r, g')" by (auto simp: bind_eq_Some_conv)
  moreover from this have "vb_signatureValid crypto" using tlsn_finish_cases(3) assms(2) by blast
  ultimately show ?thesis
    using that path \<open>\<not> map_has (rg_seen (evict t1 g)) (tl_sha256 lib p)\<close> by blast
qed

lemma validate_reaching:
  assumes "\<not> map_has (rg_seen (evict t1 g)) (tl_sha256 lib p)" "resolveTlsnVerifier vp (tl_executor lib) = Some path"
    "path \<noteq> []" "runVerifierBinary lib path p = Some crypto"
  shows "validateTlsn lib t1 t2 g vp p req = tlsn_finish lib t2 (evict t1 g) p req crypto"
  using assms by (cases path) (simp_all add: validateTlsn_def tlsn_begin_cases)

lemma accepted_signed: "tv_failures r = [] \<Longrightarrow> validateTlsn lib t1 t2 g vp p req = Some (r, g') \<Longrightarrow> tv_signatureValid r"
proof -
  assume r: "tv_failures r = []" "validateTlsn lib t1 t2 g vp p req = Some (r, g')"
  then obtain crypto where "tlsn_finish lib t2 (evict t1 g) p req crypto = Some (r, g')"
    by (auto simp: validateTlsn_def tlsn_begin_cases tlsn_rejected_def bind_eq_Some_conv
        split: if_splits option.splits list.splits)
  from tlsn_finish_cases(1,3) [OF this] r(1) show ?thesis by simp
qed

lemma evict_old_sub: "set (evict_old c m) \<subseteq> set m"
  by (induction c m rule: evict_old.induct) auto

lemma evict_over_sub: "set (evict_over c m) \<subseteq> set m"
  by (induction c m rule: evict_over.induct) auto

lemma map_has_keys: "map_has m k \<longleftrightarrow> k \<in> fst ` set m"
  by (simp add: map_has_def map_of_eq_None_iff)

lemma evict_has: "map_has (rg_seen (evict t g)) k \<Longrightarrow> map_has (rg_seen g) k"
proof -
  have "set (rg_seen (evict t g)) \<subseteq> set (rg_seen g)"
    unfolding evict_def using evict_over_sub evict_old_sub by (simp, blast intro: subset_trans)
  then show "map_has (rg_seen (evict t g)) k \<Longrightarrow> map_has (rg_seen g) k" unfolding map_has_keys by blast
qed

section \<open>An example binary\<close>

definition ex_tlsn_output :: string where
  "ex_tlsn_output = jprint (\<lambda>_. []) (Object [(''valid'', Bool True), (''server_name'', String ''api.bank''),
     (''revealed_body'', String ''ok''), (''time'', Number (Fin 100))])"

definition ex_tlsn_lib :: tlsn_lib where
  "ex_tlsn_lib =
    \<lparr> tl_executor = \<lparr> ex_localPaths = [], ex_isFile = (\<lambda>_. False), ex_which = (\<lambda>_. None), ex_run = (\<lambda>_. None) \<rparr>,
      tl_run = (\<lambda>_ _. Some (Inr (Exited 0 ex_tlsn_output []))), tl_sha256 = (\<lambda>s. s),
      tl_decode64 = (\<lambda>s. map of_char (filter (\<lambda>c. c \<noteq> CHR 0x0A) s)),
      tl_hostname = (\<lambda>u. if u = ''https://api.bank/x'' then Some ''api.bank'' else None),
      tl_regex = (\<lambda>_ _. None), tl_fstr = (\<lambda>_. []) \<rparr>"

definition ex_tlsn_requirement :: TlsnRequirement where
  "ex_tlsn_requirement =
    \<lparr> tr_target_url = ''https://api.bank/x'', tr_method = None,
      tr_conditions = Some [\<lparr> tc_type = ''contains'', tc_expression = ''ok'', tc_expected = None, tc_description = None \<rparr>],
      tr_max_age = None, tr_domain_hint = None \<rparr>"

definition ex_tlsn_answer :: VerifierBinaryResult where
  "ex_tlsn_answer =
    \<lparr> vb_signatureValid = True, vb_serverName = String ''api.bank'', vb_body = String ''ok'', vb_headers = Undefined,
      vb_time = Number (Fin 100), vb_error = None \<rparr>"

lemma ex_binary: "runVerifierBinary ex_tlsn_lib path p = Some ex_tlsn_answer"
proof -
  have "jparse ex_tlsn_output = Some (Object [(''valid'', Bool True), (''server_name'', String ''api.bank''),
     (''revealed_body'', String ''ok''), (''time'', Number (Fin 100))])"
    unfolding ex_tlsn_output_def by (rule jparse_print) simp
  then show ?thesis
    by (simp add: runVerifierBinary_def ex_tlsn_lib_def verifier_output_def ex_tlsn_answer_def or_undefined_def map_get_def)
qed

definition ex_tlsn_report :: TlsnValidationResult where
  "ex_tlsn_report = fst (the (tlsn_finish ex_tlsn_lib (Fin 200000) (createReplayGuard None None) ''p'' ex_tlsn_requirement ex_tlsn_answer))"

lemma ex_conditions: "check_conditions ex_tlsn_lib (String ''ok'') (conditions_of ex_tlsn_requirement) =
    Some [\<lparr> cr_condition = \<lparr> tc_type = ''contains'', tc_expression = ''ok'', tc_expected = None, tc_description = None \<rparr>,
            cr_passed = True, cr_actual_value = Some ''ok'' \<rparr>]"
  by (simp add: ex_tlsn_requirement_def conditions_of_def evaluateCondition_def str_includes.simps)

lemma ex_empty_guard: "rg_seen (createReplayGuard a b) = []" "evict t (createReplayGuard a b) = createReplayGuard a b"
  by (simp_all add: evict_def createReplayGuard_def)

lemma ex_finish:
  "\<exists>r. tlsn_finish ex_tlsn_lib (Fin 200000) (createReplayGuard None None) ''p'' ex_tlsn_requirement ex_tlsn_answer =
    Some (r, guard_add (Fin 200000) (createReplayGuard None None) ''p'') \<and> tv_failures r = []"
proof -
  have fin: "tlsn_finish ex_tlsn_lib (Fin 200000) (createReplayGuard None None) ''p'' ex_tlsn_requirement ex_tlsn_answer =
    Some (ex_tlsn_report, guard_add (Fin 200000) (createReplayGuard None None) ''p'')"
    by (simp add: ex_tlsn_report_def tlsn_finish_def ex_tlsn_answer_def Let_def ex_conditions ex_tlsn_lib_def [THEN arg_cong, of tl_sha256])
  have "tv_failures ex_tlsn_report = []"
    using tlsn_finish_cases(1) [OF fin]
    by (simp add: ex_tlsn_answer_def ex_tlsn_requirement_def expected_hostname_def ex_tlsn_lib_def fresh_time_def age_ms_def
        max_age_of_def DEFAULT_MAX_AGE_SECONDS_def conditions_of_def condition_met_def revealed_def evaluateCondition_def
        str_includes.simps)
  with fin show ?thesis by blast
qed

lemma ex_validate:
  "\<exists>r. validateTlsn ex_tlsn_lib (Fin 200000) (Fin 200000) (createReplayGuard None None) (Some (Some ''v'')) ''p'' ex_tlsn_requirement =
     Some (r, guard_add (Fin 200000) (createReplayGuard None None) ''p'') \<and> tv_failures r = [] \<and> tv_signatureValid r"
proof -
  obtain r where fin: "tlsn_finish ex_tlsn_lib (Fin 200000) (createReplayGuard None None) ''p'' ex_tlsn_requirement ex_tlsn_answer =
    Some (r, guard_add (Fin 200000) (createReplayGuard None None) ''p'')" "tv_failures r = []" using ex_finish by blast
  have "tv_signatureValid r" using tlsn_finish_cases(3) [OF fin(1)] by (simp add: ex_tlsn_answer_def)
  moreover have "validateTlsn ex_tlsn_lib (Fin 200000) (Fin 200000) (createReplayGuard None None) (Some (Some ''v'')) ''p''
      ex_tlsn_requirement = Some (r, guard_add (Fin 200000) (createReplayGuard None None) ''p'')"
    by (subst validate_reaching [where path = "''v''", OF _ _ _ ex_binary])
      (simp_all add: ex_empty_guard resolveTlsnVerifier_def map_has_def fin)
  ultimately show ?thesis using fin(2) by blast
qed

section \<open>Claims\<close>

text \<open>C21. A presentation is accepted (the validation reports no failure) exactly if its hash is not remembered, a
  verifier binary is available and its run on the decoded presentation exits with 0 and reports a valid signature, the
  server it names is the expected host (where there is one), the time it proves is not in the future and younger than
  the maximal age, and every condition of the requirement holds of the body it reveals.\<close>

theorem tlsn_accepted_iff:
  assumes "validateTlsn lib t1 t2 g vp p req = Some (r, g')"
  shows "tv_failures r = [] \<longleftrightarrow>
    \<not> map_has (rg_seen (evict t1 g)) (tl_sha256 lib p) \<and>
    (\<exists>path crypto out err v. resolveTlsnVerifier vp (tl_executor lib) = Some path \<and> path \<noteq> [] \<and>
       runVerifierBinary lib path p = Some crypto \<and>
       tl_run lib path (tl_decode64 lib p) = Some (Inr (Exited 0 out err)) \<and> jparse out = Some v \<and>
       opt_prop v ''valid'' = Bool True \<and>
       (ostr_truthy (expected_hostname lib req) \<longrightarrow> vb_serverName crypto = String (the (expected_hostname lib req))) \<and>
       fresh_time t2 (vb_time crypto) (max_age_of req) \<and> list_all (condition_met lib (revealed crypto)) (conditions_of req))"
    (is "?L \<longleftrightarrow> ?R")
proof
  assume L: ?L
  from validate_reached [OF assms accepted_signed [OF L assms]] obtain path crypto where
    *: "\<not> map_has (rg_seen (evict t1 g)) (tl_sha256 lib p)" "resolveTlsnVerifier vp (tl_executor lib) = Some path"
      "path \<noteq> []" "runVerifierBinary lib path p = Some crypto" "vb_signatureValid crypto"
      "tlsn_finish lib t2 (evict t1 g) p req crypto = Some (r, g')" .
  from binary_signed [OF *(4)] *(5) obtain out err v where
    "tl_run lib path (tl_decode64 lib p) = Some (Inr (Exited 0 out err))" "jparse out = Some v" "opt_prop v ''valid'' = Bool True"
    by blast
  with * L tlsn_finish_cases(1) [OF *(6)] show ?R by blast
next
  assume ?R
  then obtain path crypto out err v where *: "\<not> map_has (rg_seen (evict t1 g)) (tl_sha256 lib p)"
    "resolveTlsnVerifier vp (tl_executor lib) = Some path" "path \<noteq> []" "runVerifierBinary lib path p = Some crypto"
    "tl_run lib path (tl_decode64 lib p) = Some (Inr (Exited 0 out err))" "jparse out = Some v" "opt_prop v ''valid'' = Bool True"
    "ostr_truthy (expected_hostname lib req) \<longrightarrow> vb_serverName crypto = String (the (expected_hostname lib req))"
    "fresh_time t2 (vb_time crypto) (max_age_of req)" "list_all (condition_met lib (revealed crypto)) (conditions_of req)"
    by blast
  have "vb_signatureValid crypto" using binary_signed [OF *(4)] *(5-7) by blast
  moreover have "tlsn_finish lib t2 (evict t1 g) p req crypto = Some (r, g')"
    using validate_reaching [OF *(1-4)] assms by simp
  ultimately show ?L using tlsn_finish_cases(1) *(8-10) by blast
qed

theorem tlsn_accepted_iff_witness:
  "\<exists>r g' (crypto :: VerifierBinaryResult). validateTlsn ex_tlsn_lib (Fin 200000) (Fin 200000) (createReplayGuard None None) (Some (Some ''v'')) ''p''
      ex_tlsn_requirement = Some (r, g') \<and> tv_failures r = [] \<and> fresh_time (Fin 200000) (vb_time crypto) (max_age_of ex_tlsn_requirement)"
proof -
  obtain r where r: "validateTlsn ex_tlsn_lib (Fin 200000) (Fin 200000) (createReplayGuard None None) (Some (Some ''v'')) ''p''
      ex_tlsn_requirement = Some (r, guard_add (Fin 200000) (createReplayGuard None None) ''p'')" "tv_failures r = []"
    using ex_validate by blast
  then obtain crypto :: VerifierBinaryResult where "fresh_time (Fin 200000) (vb_time crypto) (max_age_of ex_tlsn_requirement)"
    using tlsn_accepted_iff [OF r(1)] by blast
  with r show ?thesis by blast
qed



text \<open>The guard is keyed by the base64 text, the binary reads the decoded bytes.  Decoding ignores white space,
  so an accepted presentation with a line feed appended is a different key and is accepted a second time while it is
  fresh, for any other hash.\<close>

theorem tlsn_replay_by_whitespace:
  assumes "\<And>s. tl_decode64 lib (s @ [CHR 0x0A]) = tl_decode64 lib s"
    "validateTlsn lib t1 t2 g vp p req = Some (r, g1)" "tv_failures r = []"
    "\<not> map_has (rg_seen g1) (tl_sha256 lib (p @ [CHR 0x0A]))"
    "\<And>v. fresh_time t2 v (max_age_of req) \<Longrightarrow> fresh_time t4 v (max_age_of req)"
  shows "\<exists>r' g2. validateTlsn lib t3 t4 g1 vp (p @ [CHR 0x0A]) req = Some (r', g2) \<and> tv_failures r' = []"
proof -
  from validate_reached [OF assms(2) accepted_signed [OF assms(3,2)]] obtain path crypto where
    *: "resolveTlsnVerifier vp (tl_executor lib) = Some path" "path \<noteq> []" "runVerifierBinary lib path p = Some crypto"
      "vb_signatureValid crypto" "tlsn_finish lib t2 (evict t1 g) p req crypto = Some (r, g1)" by metis
  have run: "runVerifierBinary lib path (p @ [CHR 0x0A]) = Some crypto"
    using *(3) assms(1) by (simp add: runVerifierBinary_def)
  obtain r' g2 where r': "tlsn_finish lib t4 (evict t3 g1) (p @ [CHR 0x0A]) req crypto = Some (r', g2)"
    using finish_defined [OF *(5,4)] by blast
  have "\<not> map_has (rg_seen (evict t3 g1)) (tl_sha256 lib (p @ [CHR 0x0A]))" using assms(4) evict_has by blast
  from validate_reaching [OF this *(1,2) run] r'
  have "validateTlsn lib t3 t4 g1 vp (p @ [CHR 0x0A]) req = Some (r', g2)" by simp
  moreover have "tv_failures r' = []"
    using tlsn_finish_cases(1) [OF r'] tlsn_finish_cases(1) [OF *(5)] assms(3,5) by blast
  ultimately show ?thesis by blast
qed

theorem tlsn_replay_by_whitespace_witness:
  "\<exists>r g1 r' g2. validateTlsn ex_tlsn_lib (Fin 200000) (Fin 200000) (createReplayGuard None None) (Some (Some ''v'')) ''p''
      ex_tlsn_requirement = Some (r, g1) \<and> tv_failures r = [] \<and>
    validateTlsn ex_tlsn_lib (Fin 200000) (Fin 200000) g1 (Some (Some ''v'')) (''p'' @ [CHR 0x0A]) ex_tlsn_requirement =
      Some (r', g2) \<and> tv_failures r' = []"
proof -
  let ?g = "guard_add (Fin 200000) (createReplayGuard None None) ''p''"
  obtain r where r: "validateTlsn ex_tlsn_lib (Fin 200000) (Fin 200000) (createReplayGuard None None) (Some (Some ''v'')) ''p''
      ex_tlsn_requirement = Some (r, ?g)" "tv_failures r = []"
    using ex_validate by blast
  have fresh: "\<not> map_has (rg_seen ?g) (tl_sha256 ex_tlsn_lib (''p'' @ [CHR 0x0A]))"
    by (simp add: map_has_keys guard_add_def evict_def createReplayGuard_def map_set_def DEFAULT_RETENTION_MS_def
        DEFAULT_MAX_ENTRIES_def of_len_def ex_tlsn_lib_def)
  have "\<exists>r' g2. validateTlsn ex_tlsn_lib (Fin 200000) (Fin 200000) ?g (Some (Some ''v'')) (''p'' @ [CHR 0x0A]) ex_tlsn_requirement =
      Some (r', g2) \<and> tv_failures r' = []"
    by (rule tlsn_replay_by_whitespace [OF _ r fresh]) (simp_all add: ex_tlsn_lib_def)
  with r show ?thesis by blast
qed

text \<open>C38. Two validations of one presentation that overlap are both accepted: the hash is looked up before the
  awaited run of the binary and recorded after it.\<close>

theorem tlsn_concurrent_replay:
  assumes "tlsn_begin lib t1 g vp p = (Inr path, g1)" "runVerifierBinary lib path p = Some crypto"
    "tlsn_finish lib t3 (snd (tlsn_begin lib t2 g1 vp p)) p req crypto = Some (r1, g3)" "tv_failures r1 = []"
    "fresh_time t4 (vb_time crypto) (max_age_of req)"
  shows "fst (tlsn_begin lib t2 g1 vp p) = Inr path \<and>
    (\<exists>r2 g4. tlsn_finish lib t4 g3 p req crypto = Some (r2, g4) \<and> tv_failures r2 = [])"
proof
  have g1: "g1 = evict t1 g" "\<not> map_has (rg_seen g1) (tl_sha256 lib p)" "resolveTlsnVerifier vp (tl_executor lib) = Some path" "path \<noteq> []"
    using assms(1) by (auto simp: tlsn_begin_cases split: if_splits option.splits list.splits)
  have "\<not> map_has (rg_seen (evict t2 g1)) (tl_sha256 lib p)" using g1(2) evict_has by blast
  then show "fst (tlsn_begin lib t2 g1 vp p) = Inr path" using g1(3,4) by (cases path) (simp_all add: tlsn_begin_cases)
  have sig: "vb_signatureValid crypto" using tlsn_finish_cases(1) [OF assms(3)] assms(4) by blast
  obtain r2 g4 where r2: "tlsn_finish lib t4 g3 p req crypto = Some (r2, g4)" using finish_defined [OF assms(3) sig] by blast
  moreover have "tv_failures r2 = []"
    using tlsn_finish_cases(1) [OF r2] tlsn_finish_cases(1) [OF assms(3)] assms(4,5) by blast
  ultimately show "\<exists>r2 g4. tlsn_finish lib t4 g3 p req crypto = Some (r2, g4) \<and> tv_failures r2 = []" by blast
qed

theorem tlsn_concurrent_replay_witness:
  "\<exists>r1 g3 r2 g4.
     tlsn_finish ex_tlsn_lib (Fin 200000) (createReplayGuard None None) ''p'' ex_tlsn_requirement ex_tlsn_answer = Some (r1, g3) \<and>
     tv_failures r1 = [] \<and> fst (tlsn_begin ex_tlsn_lib (Fin 200000) (createReplayGuard None None) (Some (Some ''v'')) ''p'') = Inr ''v'' \<and>
     tlsn_finish ex_tlsn_lib (Fin 210000) g3 ''p'' ex_tlsn_requirement ex_tlsn_answer = Some (r2, g4) \<and> tv_failures r2 = []"
proof -
  let ?g = "createReplayGuard None None"
  have bgn: "tlsn_begin ex_tlsn_lib (Fin 200000) ?g (Some (Some ''v'')) ''p'' = (Inr ''v'', ?g)"
    by (simp add: tlsn_begin_cases ex_empty_guard map_has_def resolveTlsnVerifier_def)
  obtain r1 where r1: "tlsn_finish ex_tlsn_lib (Fin 200000) ?g ''p'' ex_tlsn_requirement ex_tlsn_answer = Some (r1, guard_add (Fin 200000) ?g ''p'')"
    "tv_failures r1 = []" using ex_finish by blast
  have fin: "tlsn_finish ex_tlsn_lib (Fin 200000) (snd (tlsn_begin ex_tlsn_lib (Fin 200000) ?g (Some (Some ''v'')) ''p'')) ''p''
      ex_tlsn_requirement ex_tlsn_answer = Some (r1, guard_add (Fin 200000) ?g ''p'')"
    using r1(1) by (simp add: bgn)
  have "fresh_time (Fin 210000) (vb_time ex_tlsn_answer) (max_age_of ex_tlsn_requirement)"
    by (simp add: fresh_time_def age_ms_def ex_tlsn_answer_def max_age_of_def ex_tlsn_requirement_def DEFAULT_MAX_AGE_SECONDS_def)
  from tlsn_concurrent_replay [OF bgn ex_binary fin r1(2) this] r1 show ?thesis by blast
qed

text \<open>Without an expected host the server is not checked.  For a requirement without a domain hint whose target URL
  does not parse, or with an empty host, the validation accepts a presentation of any server and reports the server
  identity as not valid.\<close>

theorem tlsn_host_unchecked:
  assumes "\<not> ostr_truthy (expected_hostname lib req)" "tlsn_finish lib now g p req crypto = Some (r, g')"
    "vb_signatureValid crypto" "fresh_time now (vb_time crypto) (max_age_of req)"
    "list_all (condition_met lib (revealed crypto)) (conditions_of req)"
  shows "tv_failures r = [] \<and> \<not> tv_serverIdentityValid r"
proof
  show "tv_failures r = []" using tlsn_finish_cases(1) [OF assms(2)] assms by blast
  show "\<not> tv_serverIdentityValid r"
    using assms(1-3) by (auto simp: tlsn_finish_def Let_def tlsn_report_def check_server_def)
qed

theorem tlsn_host_unchecked_witness:
  "\<exists>r g'. tlsn_finish ex_tlsn_lib (Fin 200000) (createReplayGuard None None) ''p'' (ex_tlsn_requirement\<lparr> tr_target_url := ''bank'' \<rparr>)
     (ex_tlsn_answer\<lparr> vb_serverName := String ''evil.example'' \<rparr>) = Some (r, g') \<and> tv_failures r = [] \<and> \<not> tv_serverIdentityValid r"
proof -
  let ?req = "ex_tlsn_requirement\<lparr> tr_target_url := ''bank'' \<rparr>" and ?ans = "ex_tlsn_answer\<lparr> vb_serverName := String ''evil.example'' \<rparr>"
  have conds: "conditions_of ?req = conditions_of ex_tlsn_requirement" by (simp add: conditions_of_def)
  have "check_conditions ex_tlsn_lib (revealed ?ans) (conditions_of ?req) \<noteq> None"
    using ex_conditions by (simp add: conds revealed_def ex_tlsn_answer_def)
  then obtain r g' where r: "tlsn_finish ex_tlsn_lib (Fin 200000) (createReplayGuard None None) ''p'' ?req ?ans = Some (r, g')"
    by (auto simp: tlsn_finish_def Let_def revealed_def ex_tlsn_answer_def)
  have "tv_failures r = [] \<and> \<not> tv_serverIdentityValid r"
    by (rule tlsn_host_unchecked [OF _ r])
      (simp_all add: ex_tlsn_answer_def ex_tlsn_requirement_def expected_hostname_def ex_tlsn_lib_def fresh_time_def age_ms_def
        max_age_of_def DEFAULT_MAX_AGE_SECONDS_def conditions_of_def condition_met_def revealed_def evaluateCondition_def
        str_includes.simps)
  with r show ?thesis by blast
qed

end
