(* ===== verification/Proof_Properties.thy ===== *)
theory Proof_Properties
  imports Proof_Verifier Tlsn_Properties
begin

text \<open>
  The verifier core over the reference bundles: what a passed TLSNotary verification means from the schema URL
  down to the binary, which attachments of a photo are looked at, and what an early registration breaks.
\<close>

section \<open>Lemmas\<close>

lemma uris_distinct: "GenericMediaSchemaUri \<noteq> TlsnV1" "GenericMediaSchemaUri \<noteq> C2paImageV1" "TlsnV1 \<noteq> C2paImageV1"
  by (simp_all add: GenericMediaSchemaUri_def TlsnV1_def C2paImageV1_def)

lemma bundle_uris [simp]:
  "sb_uri (createGenericMediaSchemaBundle n) = GenericMediaSchemaUri"
  "sb_uri (createTlsnSchemaBundle n env) = TlsnV1" "sb_uri (createC2paImageSchemaBundle n env) = C2paImageV1"
  by (simp_all add: createGenericMediaSchemaBundle_def createTlsnSchemaBundle_def createC2paImageSchemaBundle_def)

lemma tlsn_bundle_checks [simp]: "sb_checks (createTlsnSchemaBundle n env) = Some [tlsn_check env]"
  by (simp add: createTlsnSchemaBundle_def)

lemma ensure_fresh:
  "ensureReferenceSchemaBundlesRegistered env ref (False, []) =
    ((True, [(GenericMediaSchemaUri, createGenericMediaSchemaBundle ref), (TlsnV1, createTlsnSchemaBundle (ref + 1) env),
             (C2paImageV1, createC2paImageSchemaBundle (ref + 2) env)]), True)"
  using uris_distinct
  by (simp add: ensureReferenceSchemaBundlesRegistered_def registerSchemaBundle_def map_has_def map_set_def)

text \<open>A verification under the TLSNotary schema is one run of its check.\<close>

lemma tlsn_bundle_verify:
  assumes "getSchemaBundle (m :: (proof_world, unit, unit) schema_bundles) TlsnV1 = Some (createTlsnSchemaBundle n env)" "vr_schema req = Some TlsnV1"
  shows "verify_with_bundles m req input keys opts w =
    (case resolveSchemaOptions (createTlsnSchemaBundle n env :: (proof_world, unit, unit) SchemaBundle) opts of
       None \<Rightarrow> None
     | Some o' \<Rightarrow>
       map_option (\<lambda>(ctx, w'). (detail_of ctx, w'))
         (fk_run (tlsn_check env) w
            \<lparr> fx_requirement = req, fx_input = input, fx_acc = \<lparr> ca_checks = [], ca_failures = [], ca_warnings = [] \<rparr>,
              fx_blossomKeys = keys, fx_schemaOptions = o', fx_schemaVerdict = Undefined \<rparr>))"
  using assms by (simp add: verify_with_bundles_def Let_def option.map_ident split: option.splits)

definition path_of :: "proof_env \<Rightarrow> jsval \<Rightarrow> string option option" where
  "path_of env o' = merged_path (pv_verifierPath env) o' ''verifierPath''"

lemma tlsn_check_passed:
  assumes "fk_run (tlsn_check env) w ctx = Some (ctx', w')" "ca_failures (fx_acc ctx) = []" "ca_failures (fx_acc ctx') = []"
  obtains p r where "tlsn_presentation (fx_requirement ctx) (fx_input ctx) = Inr p"
    "validateTlsn (pv_tlsn env) (pv_begin env) (pv_end env) (pw_guard w) (path_of env (fx_schemaOptions ctx)) p
       (as_requirement (vr_schema_requirement (fx_requirement ctx))) = Some (r, pw_guard w')"
    "tv_failures r = []" "fx_schemaVerdict ctx' = verdict_of (tv_verifiedData r)"
proof (cases "tlsn_presentation (fx_requirement ctx) (fx_input ctx)")
  case (Inl f)
  with assms show ?thesis by (auto simp: tlsn_check_def with_acc_def add_failure_def split: if_splits)
next
  case (Inr p)
  with assms(1) obtain r g where r: "validateTlsn (pv_tlsn env) (pv_begin env) (pv_end env) (pw_guard w)
      (path_of env (fx_schemaOptions ctx)) p (as_requirement (vr_schema_requirement (fx_requirement ctx))) = Some (r, g)"
    "ctx' = (with_acc (add_all (tv_checks r) (tv_failures r)) ctx)\<lparr> fx_schemaVerdict := verdict_of (tv_verifiedData r) \<rparr>"
    "w' = w\<lparr> pw_guard := g \<rparr>"
    by (auto simp: tlsn_check_def path_of_def split: if_splits)
  have "tv_failures r = []" using assms(2,3) by (simp add: r(2) with_acc_def add_all_def)
  with Inr r show ?thesis by (intro that [of p r]) simp_all
qed

lemma presentation_of:
  assumes "tlsn_presentation req input = Inr p"
  shows "isTlsnRequirement (vr_schema_requirement req)" "opt_prop (vi_schema_evidence input) ''presentation'' = String p"
proof -
  show "isTlsnRequirement (vr_schema_requirement req)"
    using assms by (simp add: tlsn_presentation_def Let_def split: if_splits)
  let ?v = "opt_prop (vi_schema_evidence input) ''presentation''"
  have "is_string ?v \<Longrightarrow> String (the (string_of ?v)) = ?v" by (cases ?v) simp_all
  then show "?v = String p"
    using assms by (auto simp: tlsn_presentation_def Let_def isTlsnAttestation_def split: if_splits jsval.splits list.splits)
qed

lemma integrity_records_skip:
  assumes "integrity_get store (at_id a) = None" "List.map_filter (\<lambda>att. integrity_get store (at_id att)) atts \<noteq> []"
  shows "integrity_records store req (a # atts) = integrity_records store req atts"
  using assms by (simp add: integrity_records_def Let_def map_filter_simps)

text \<open>A registered bundle of a reference schema stops every registration of the reference bundles.\<close>

lemma register_all_blocked:
  assumes "map_has m u" "u \<in> set (map sb_uri bs)"
  shows "\<not> snd (register_all bs m) \<and> (\<forall>k. map_has m k \<longrightarrow> map_has (fst (register_all bs m)) k)"
  using assms
proof (induction bs arbitrary: m)
  case (Cons b bs)
  show ?case
  proof (cases "map_has m (sb_uri b)")
    case True
    then show ?thesis by (simp add: registerSchemaBundle_def)
  next
    case False
    let ?m = "map_set (sb_uri b) b m"
    have keep: "map_has m k \<Longrightarrow> map_has ?m k" for k by (simp add: map_has_get)
    have "u \<in> set (map sb_uri bs)" using Cons.prems False by auto
    with Cons.IH [OF keep [OF Cons.prems(1)]] keep False show ?thesis by (auto simp: registerSchemaBundle_def)
  qed
qed simp

lemma ensure_blocked:
  assumes "map_has m u" "u \<in> {GenericMediaSchemaUri, TlsnV1, C2paImageV1}"
  shows "\<exists>m'. ensureReferenceSchemaBundlesRegistered env ref (False, m) = ((False, m'), False) \<and> map_has m' u"
proof -
  let ?bs = "[createGenericMediaSchemaBundle ref, createTlsnSchemaBundle (ref + 1) env, createC2paImageSchemaBundle (ref + 2) env]"
  have "\<not> snd (register_all ?bs m) \<and> map_has (fst (register_all ?bs m)) u"
    using register_all_blocked [OF assms(1), of ?bs] assms by auto
  then show ?thesis
    unfolding ensureReferenceSchemaBundlesRegistered_def by (cases "register_all ?bs m") simp
qed

text \<open>A run of verifications, whatever is asked.\<close>

fun verify_run ::
    "(proof_env \<times> nat \<times> VerificationRequirement \<times> VerificationInput) list \<Rightarrow> reference_state \<times> proof_world \<Rightarrow>
     VerificationDetail option list" where
  "verify_run [] st = []"
| "verify_run ((env, ref, req, input) # calls) st =
    (case verifyProof env ref req input None None st of (r, st') \<Rightarrow> r # verify_run calls st')"

section \<open>An example verification\<close>

definition ex_math :: js_math where
  "ex_math = \<lparr> m_PI = Fin 3, m_sin = (\<lambda>x. x), m_cos = (\<lambda>x. Fin 1), m_sqrt = (\<lambda>x. x), m_atan2 = (\<lambda>y x. y) \<rparr>"

definition ex_photo_env :: photo_env where
  "ex_photo_env =
    \<lparr> pe_math = ex_math, pe_tool = \<lparr> ct_which = (\<lambda>_. None), ct_run = (\<lambda>_ _ _. None) \<rparr>,
      pe_net = \<lparr> an_parse = (\<lambda>_. None), an_allowLocalhost = False, an_blossom = (\<lambda>_ _ _ _. None), an_http = (\<lambda>_. None) \<rparr>,
      pe_fstr = (\<lambda>_. []), pe_toolPath = None \<rparr>"

definition ex_proof_env :: proof_env where
  "ex_proof_env =
    \<lparr> pv_tlsn = ex_tlsn_lib, pv_verifierPath = Some (Some ''v''), pv_photo = ex_photo_env, pv_begin = Fin 200000, pv_end = Fin 200000 \<rparr>"

definition ex_proof_world :: proof_world where
  "ex_proof_world = \<lparr> pw_guard = createReplayGuard None None, pw_integrity = [] \<rparr>"

definition ex_tlsn_query :: VerificationRequirement where
  "ex_tlsn_query =
    \<lparr> vr_id = ''q'', vr_schema = Some TlsnV1, vr_factors = [], vr_description = None, vr_challenge_nonce = None,
      vr_schema_requirement = Object [(''target_url'', String ''https://api.bank/x''),
        (''conditions'', Array [Object [(''type'', String ''contains''), (''expression'', String ''ok'')]])],
      vr_escrow_token_hash = None \<rparr>"

definition ex_tlsn_input :: VerificationInput where
  "ex_tlsn_input = \<lparr> vi_attachments = [], vi_schema_evidence = Object [(''presentation'', String ''p'')] \<rparr>"

lemma ex_query_requirement: "as_requirement (vr_schema_requirement ex_tlsn_query) = ex_tlsn_requirement"
  by (simp add: ex_tlsn_query_def as_requirement_def as_condition_def ex_tlsn_requirement_def map_get_def)

lemma ex_presentation: "tlsn_presentation ex_tlsn_query ex_tlsn_input = Inr ''p''"
  by (simp add: tlsn_presentation_def Let_def ex_tlsn_query_def ex_tlsn_input_def isTlsnRequirement_def isTlsnCondition_def
      isTlsnExtensionResult_def opt_string_def map_get_def)

lemma ex_options: "resolveSchemaOptions (createTlsnSchemaBundle n env :: (proof_world, unit, unit) SchemaBundle) None = Some (Object [])"
  by (simp add: resolveSchemaOptions_def createTlsnSchemaBundle_def parseTlsnSchemaOptions_def opt_path_def opt_string_def map_get_def)

lemma ex_verified:
  "\<exists>d rs w'. verifyProof ex_proof_env 0 ex_tlsn_query ex_tlsn_input None None ((False, []), ex_proof_world) = (Some d, rs, w') \<and> vd_passed d"
proof -
  let ?ctx = "\<lparr> fx_requirement = ex_tlsn_query, fx_input = ex_tlsn_input,
    fx_acc = \<lparr> ca_checks = [], ca_failures = [], ca_warnings = [] \<rparr>,
    fx_blossomKeys = None, fx_schemaOptions = Object [], fx_schemaVerdict = Undefined \<rparr>"
  let ?m = "[(GenericMediaSchemaUri, createGenericMediaSchemaBundle 0), (TlsnV1, createTlsnSchemaBundle (0 + 1) ex_proof_env),
             (C2paImageV1, createC2paImageSchemaBundle (0 + 2) ex_proof_env)] :: (proof_world, unit, unit) schema_bundles"
  have path: "merged_path (pv_verifierPath ex_proof_env) (Object []) ''verifierPath'' = Some (Some ''v'')"
    by (simp add: merged_path_def js_in_def map_has_def ex_proof_env_def)
  have opts: "parseTlsnSchemaOptions (options_record (Object [])) \<noteq> None"
    by (simp add: parseTlsnSchemaOptions_def options_record_def opt_path_def opt_string_def map_get_def)
  have sch: "vr_schema ex_tlsn_query = Some TlsnV1" by (simp add: ex_tlsn_query_def)
  obtain r g where r: "validateTlsn (pv_tlsn ex_proof_env) (pv_begin ex_proof_env) (pv_end ex_proof_env) (pw_guard ex_proof_world)
      (Some (Some ''v'')) ''p'' ex_tlsn_requirement = Some (r, g)" "tv_failures r = []"
    using ex_validate by (auto simp: ex_proof_env_def ex_proof_world_def)
  then obtain ctx' w' where run: "fk_run (tlsn_check ex_proof_env) ex_proof_world ?ctx = Some (ctx', w')" "ca_failures (fx_acc ctx') = []"
    using opts by (auto simp: tlsn_check_def ex_presentation ex_query_requirement path with_acc_def add_all_def)
  have bdl: "getSchemaBundle ?m TlsnV1 = Some (createTlsnSchemaBundle (0 + 1) ex_proof_env)"
    using uris_distinct by (simp add: getSchemaBundle_def map_get_def)
  have "verify_with_bundles ?m ex_tlsn_query ex_tlsn_input None None ex_proof_world = Some (detail_of ctx', w')"
    unfolding tlsn_bundle_verify [OF bdl sch] ex_options using run(1) by simp
  then have "verifyProof ex_proof_env 0 ex_tlsn_query ex_tlsn_input None None ((False, []), ex_proof_world) =
      (Some (detail_of ctx'), (True, ?m), w')"
    by (simp add: verifyProof_def ensure_fresh)
  moreover have "vd_passed (detail_of ctx')" using run(2) by (simp add: detail_of_def Let_def)
  ultimately show ?thesis by blast
qed

section \<open>Claims\<close>



text \<open>An attachment without an integrity record is not looked at when another attachment of the submission has
  one: the photo check gives the same result with it as without it.\<close>

theorem unrecorded_attachment_unchecked:
  assumes "integrity_get store (at_id a) = None" "List.map_filter (\<lambda>att. integrity_get store (at_id att)) atts \<noteq> []"
  shows "verifyPhotoIntegrity env store keys req gps km c2pa (a # atts) acc =
    verifyPhotoIntegrity env store keys req gps km c2pa atts acc"
proof -
  have "integrity_records store req atts \<noteq> []" using assms(2) by (simp add: integrity_records_def Let_def)
  with integrity_records_skip [OF assms] show ?thesis
    by (auto simp: verifyPhotoIntegrity_def split: list.splits)
qed

definition ex_attachment :: "string \<Rightarrow> AttachmentRef" where
  "ex_attachment i =
    \<lparr> at_id = i, at_uri = [], at_mime_type = ''image/png'', at_storage_kind = External, at_filename = None,
      at_size_bytes = None, at_blossom_hash = None, at_blossom_servers = None \<rparr>"

definition ex_integrity :: IntegrityMetadata where
  "ex_integrity =
    \<lparr> im_attachmentId = ''a'', im_requestId = ''q'', im_capturedAt = Fin 1,
      im_exif = \<lparr> xr_hasExif = False, xr_hasCameraModel = False, xr_hasTimestamp = False, xr_hasGps = False,
        xr_timestampRecent = False, xr_gpsNearHint = None,
        xr_metadata = \<lparr> xm_make = None, xm_model = None, xm_dateTime = None, xm_dateTimeOriginal = None, xm_gps = None \<rparr>,
        xr_checks = [], xr_failures = [] \<rparr>,
      im_c2pa = \<lparr> c2_available = True, c2_hasManifest = True, c2_signatureValid = True, c2_manifest = None, c2_gps = None,
        c2_checks = [], c2_failures = [] \<rparr>,
      im_proofmode = None \<rparr>"

theorem unrecorded_attachment_unchecked_witness:
  "\<exists>acc. verifyPhotoIntegrity ex_photo_env [(''a'', ex_integrity)] None ''q'' None (Fin 50) True
      [ex_attachment ''forged'', ex_attachment ''a''] \<lparr> ca_checks = [], ca_failures = [], ca_warnings = [] \<rparr> = Some acc \<and>
    ca_failures acc = []"
proof -
  let ?acc = "\<lparr> ca_checks = [], ca_failures = [], ca_warnings = [] \<rparr>"
  have "verifyPhotoIntegrity ex_photo_env [(''a'', ex_integrity)] None ''q'' None (Fin 50) True
      [ex_attachment ''forged'', ex_attachment ''a''] ?acc =
    verifyPhotoIntegrity ex_photo_env [(''a'', ex_integrity)] None ''q'' None (Fin 50) True [ex_attachment ''a''] ?acc"
    by (rule unrecorded_attachment_unchecked) (simp_all add: integrity_get_def map_get_def ex_attachment_def map_filter_simps)
  also have "\<dots> = Some (check_record ex_photo_env None (Fin 50) ex_integrity ?acc)"
    by (simp add: verifyPhotoIntegrity_def integrity_records_def Let_def integrity_get_def map_get_def ex_attachment_def map_filter_simps)
  finally show ?thesis
    by (simp add: check_record_def checkC2paGpsBinding_def checkC2paSignature_def checkProofModeRecord_def checkExifRecord_def
        add_check_def ex_integrity_def)
qed

text \<open>A bundle registered for a reference schema before the first verification makes every verification reject:
  the reference bundles are registered one by one, the call throws at the first that is taken and is repeated, and
  throws again, on every later verification.\<close>

theorem early_registration_blocks:
  assumes "map_has m u" "u \<in> {GenericMediaSchemaUri, TlsnV1, C2paImageV1}"
  shows "verify_run calls ((False, m), w) = replicate (length calls) None"
  using assms(1)
proof (induction calls arbitrary: m)
  case (Cons c calls)
  obtain env ref req input where c: "c = (env, ref, req, input)" by (cases c) auto
  from ensure_blocked [OF Cons.prems assms(2), of env ref] obtain m'
    where m': "ensureReferenceSchemaBundlesRegistered env ref (False, m) = ((False, m'), False)" "map_has m' u" by blast
  then have "verifyProof env ref req input None None ((False, m), w) = (None, (False, m'), w)"
    by (simp add: verifyProof_def)
  with Cons.IH [OF m'(2)] c show ?case by simp
qed simp

theorem early_registration_blocks_witness:
  "verify_run [(ex_proof_env, 0, ex_tlsn_query, ex_tlsn_input), (ex_proof_env, 3, ex_tlsn_query, ex_tlsn_input)]
     ((False, [(TlsnV1, createTlsnSchemaBundle 7 ex_proof_env)]), ex_proof_world) = [None, None]"
  using early_registration_blocks [of "[(TlsnV1, createTlsnSchemaBundle 7 ex_proof_env)]" TlsnV1
      "[(ex_proof_env, 0, ex_tlsn_query, ex_tlsn_input), (ex_proof_env, 3, ex_tlsn_query, ex_tlsn_input)]" ex_proof_world]
  by (simp add: map_has_def numeral_2_eq_2)

end
