(* ===== verification/Cashu_Client.thy ===== *)
theory Cashu_Client
  imports Protocol_Nostr Frost_Cli
begin

text \<open>
  The payment adapter of customers and providers (\<open>adapters/cashu.ts\<close>): binding funding proofs to a
  provider, the provider's check of a Payment Lock, and the redemption.  The Cashu library is the record
  \<open>cashu_api\<close>, the wallet during one call the record \<open>cashu_wallet\<close>; \<open>None\<close> is a call that throws.  The
  state of a client is the memoised promise of its wallet.  The locale \<open>payment_lock\<close> is what a provider
  relies on when it produces a proof.
\<close>

section \<open>Interface types (adapters/types.ts)\<close>

record BindProviderParams =
  bp_amountSats :: jsnum
  bp_fundingProofs :: jsval
  bp_providerPubkey :: string
  bp_hashHex :: string
  bp_locktimeSeconds :: jsnum
  bp_customerPubkey :: string
  bp_customerSecretKey :: bytes

record RedeemHtlcParams =
  rh_token :: string
  rh_preimageHex :: string
  rh_providerSecretKey :: bytes

record VerifyProviderPaymentLockParams =
  vp_token :: string
  vp_amountSats :: jsnum
  vp_hashHex :: string
  vp_providerPubkey :: string
  vp_customerPubkey :: string
  vp_locktimeSeconds :: jsnum

record CashuToken =
  ck_token :: string
  ck_amountSats :: jsnum
  ck_proofs :: "Proof list"
  ck_changeProofs :: "Proof list option"

datatype client_error = CashuClientError msg | CashuMintError msg | CashuMintUncertainError msg | Library_error

record 'opt cashu_api =
  ca_toOptions :: "p2pk_lock \<Rightarrow> 'opt"
  ca_encode :: "string \<Rightarrow> Proof list \<Rightarrow> string"
  ca_decode :: "string \<Rightarrow> string list \<Rightarrow> (string \<times> Proof list) option"
  ca_verifyDleq :: "string \<Rightarrow> bytes \<times> bytes \<times> nat \<Rightarrow> string \<Rightarrow> string \<Rightarrow> bool option"
  ca_verifyHTLCHash :: "string \<Rightarrow> string \<Rightarrow> bool option"
  ca_signP2PK :: "Proof list \<Rightarrow> string \<Rightarrow> Proof list option"
  ca_numStr :: "rat \<Rightarrow> string"

text \<open>\<open>CashuWalletAdapter\<close>: the part the redemption uses, the known keysets, the optional \<open>loadMint\<close> and
  \<open>getKeyset\<close>, and the send builder (with or without \<open>includeFees\<close>).\<close>

record 'opt cashu_wallet =
  cw_redeem :: CashuRedeemWallet
  cw_keysetIds :: "string list"
  cw_loadMint :: "bool option"
  cw_getKeyset :: "(string \<Rightarrow> (jsnum \<Rightarrow> jsval) option) option"
  cw_hasIncludeFees :: bool
  cw_send :: "jsnum \<Rightarrow> Proof list \<Rightarrow> string \<Rightarrow> 'opt \<Rightarrow> bool \<Rightarrow> (Proof list option \<times> Proof list) option"

section \<open>Sequencing of calls that throw\<close>

fun andThen :: "'e + 'a \<Rightarrow> ('a \<Rightarrow> 'e + 'b) \<Rightarrow> 'e + 'b" where
  "andThen (Inl e) f = Inl e"
| "andThen (Inr a) f = f a"

definition throw_if :: "bool \<Rightarrow> 'e \<Rightarrow> 'e + unit" where
  "throw_if c e = (if c then Inl e else Inr ())"

fun each :: "('a \<Rightarrow> 'e + unit) \<Rightarrow> 'a list \<Rightarrow> 'e + unit" where
  "each f [] = Inr ()"
| "each f (x # xs) = andThen (f x) (\<lambda>_. each f xs)"

lemma andThen_Inr [simp]: "andThen m f = Inr b \<longleftrightarrow> (\<exists>a. m = Inr a \<and> f a = Inr b)"
  by (cases m) auto

lemma throw_if_Inr [simp]: "throw_if c e = Inr u \<longleftrightarrow> \<not> c"
  by (simp add: throw_if_def)

lemma each_Inr [simp]: "each f xs = Inr u \<longleftrightarrow> (\<forall>x \<in> set xs. f x = Inr ())"
  by (induction xs) auto

section \<open>Validation helpers\<close>

definition MIN_PROVIDER_PAYMENT_LOCK_REMAINING_SECONDS :: jsnum where
  "MIN_PROVIDER_PAYMENT_LOCK_REMAINING_SECONDS = 600"

definition validateHashHex :: "string \<Rightarrow> client_error + string" where
  "validateHashHex hash =
    (if hex64 hash then Inr (to_lower hash)
     else Inl (CashuClientError [T ''Invalid hash hex (expected 64-char hex): '', T hash]))"

definition validateLocktime :: "jsnum \<Rightarrow> jsnum \<Rightarrow> client_error + jsnum" where
  "validateLocktime locktimeSeconds nowSeconds =
    (if \<not> is_integer locktimeSeconds
     then Inl (CashuClientError [T ''Locktime must be an integer: '', N locktimeSeconds])
     else if locktimeSeconds \<le> nowSeconds
     then Inl (CashuClientError
            [T ''Locktime must be in the future (got '', N locktimeSeconds, T '', now '', N nowSeconds, T '')''])
     else Inr locktimeSeconds)"

text \<open>\<open>Math.floor(Date.now() / 1000)\<close>.\<close>

abbreviation seconds :: "jsnum \<Rightarrow> jsnum" where
  "seconds now \<equiv> js_floor (div_by now 1000)"

definition hexToBytesLocal :: "string \<Rightarrow> client_error + bytes" where
  "hexToBytesLocal hex =
    (if \<not> list_all (\<lambda>c. hex_value c \<noteq> None) hex \<or> length hex mod 2 \<noteq> 0
     then Inl (CashuClientError [T ''Invalid hex string: '', T hex])
     else Inr (hex_pairs hex))"

definition p2pkVariants :: "string \<Rightarrow> string list" where
  "p2pkVariants pubkey =
    (if take 2 pubkey = ''02'' \<or> take 2 pubkey = ''03'' then [pubkey] else [pubkey, ''02'' @ pubkey])"

text \<open>The first tag that is a non-empty array of strings with the name in front.\<close>

definition findSecretTag :: "jsval \<Rightarrow> string \<Rightarrow> string list option" where
  "findSecretTag tags name =
    (case tags of
       Array ts \<Rightarrow> find (\<lambda>t. hd_opt t = Some name) (List.map_filter string_tag ts)
     | _ \<Rightarrow> None)"

definition tag_value :: "string list \<Rightarrow> string option" where
  "tag_value tag = hd_opt (drop 1 tag)"

definition requireTagValue :: "jsval \<Rightarrow> string \<Rightarrow> string \<Rightarrow> string \<Rightarrow> client_error + unit" where
  "requireTagValue tags name v message =
    throw_if (Option.bind (findSecretTag tags name) tag_value \<noteq> Some v) (CashuClientError (plain message))"

definition rejectUnsupportedExtraSignatures :: "jsval \<Rightarrow> client_error + unit" where
  "rejectUnsupportedExtraSignatures tags =
    throw_if (case findSecretTag tags ''n_sigs'' of None \<Rightarrow> False | Some tag \<Rightarrow> tag_value tag \<noteq> Some ''1'')
      (CashuClientError (plain ''verifyProviderPaymentLock: token requires unsupported extra signatures''))"

definition rejectUnsupportedRefundSignatures :: "jsval \<Rightarrow> client_error + unit" where
  "rejectUnsupportedRefundSignatures tags =
    throw_if (case findSecretTag tags ''n_sigs_refund'' of None \<Rightarrow> False | Some tag \<Rightarrow> tag_value tag \<noteq> Some ''1'')
      (CashuClientError
         (plain ''verifyProviderPaymentLock: token refund path requires unsupported extra signatures''))"

definition requireSingleKeyTag :: "jsval \<Rightarrow> string \<Rightarrow> string list \<Rightarrow> string \<Rightarrow> client_error + unit" where
  "requireSingleKeyTag tags name acceptedKeys message =
    (case findSecretTag tags name of
       Some [_, k] \<Rightarrow> throw_if (k \<notin> set acceptedKeys) (CashuClientError (plain message))
     | _ \<Rightarrow> Inl (CashuClientError (plain message)))"

definition validateMinimumProviderLocktime :: "jsnum \<Rightarrow> jsnum \<Rightarrow> client_error + unit" where
  "validateMinimumProviderLocktime locktimeSeconds nowSeconds =
    andThen (validateLocktime locktimeSeconds nowSeconds) (\<lambda>_.
      throw_if (locktimeSeconds - nowSeconds < MIN_PROVIDER_PAYMENT_LOCK_REMAINING_SECONDS)
        (CashuClientError
           [T ''verifyProviderPaymentLock: token locktime has only '', N (locktimeSeconds - nowSeconds), T ''s remaining'']))"

definition rejectDuplicateProofs :: "Proof list \<Rightarrow> client_error + unit" where
  "rejectDuplicateProofs proofs =
    throw_if (\<not> distinct (map p_secret proofs))
      (CashuClientError (plain ''verifyProviderPaymentLock: token contains duplicate proofs''))"

section \<open>The checks on the proofs of a Payment Lock\<close>

text \<open>The body of the loop for proof \<open>i\<close>.\<close>

definition check_lock_proof ::
    "(rat \<Rightarrow> string) \<Rightarrow> string \<Rightarrow> VerifyProviderPaymentLockParams \<Rightarrow> nat \<times> Proof \<Rightarrow> client_error + unit" where
  "check_lock_proof numStr expectedHash params ip =
    (let i = N (Fin (of_nat (fst ip)));
         not_htlc = CashuClientError [T ''verifyProviderPaymentLock: proof '', i, T '' is not an HTLC proof'']
     in case jparse (p_secret (snd ip)) of
          None \<Rightarrow> Inl (CashuClientError [T ''verifyProviderPaymentLock: proof '', i, T '' has malformed secret''])
        | Some (Array vs) \<Rightarrow>
            let secret = Array vs; body = js_index secret 1; tags = opt_prop body ''tags'' in
            andThen (throw_if (js_index secret 0 \<noteq> String ''HTLC'') not_htlc) (\<lambda>_.
            andThen (throw_if (opt_prop body ''data'' \<noteq> String expectedHash)
                       (CashuClientError (plain ''verifyProviderPaymentLock: HTLC hash mismatch''))) (\<lambda>_.
            andThen (requireSingleKeyTag tags ''pubkeys'' (p2pkVariants (vp_providerPubkey params))
                       ''verifyProviderPaymentLock: token is not locked only to the selected provider'') (\<lambda>_.
            andThen (requireSingleKeyTag tags ''refund'' (p2pkVariants (vp_customerPubkey params))
                       ''verifyProviderPaymentLock: token refund key does not match customer'') (\<lambda>_.
            andThen (requireTagValue tags ''locktime'' (js_num_str numStr (vp_locktimeSeconds params))
                       ''verifyProviderPaymentLock: token locktime mismatch'') (\<lambda>_.
            andThen (requireTagValue tags ''sigflag'' ''SIG_ALL''
                       ''verifyProviderPaymentLock: token must require SIG_ALL'') (\<lambda>_.
            andThen (rejectUnsupportedExtraSignatures tags) (\<lambda>_.
            rejectUnsupportedRefundSignatures tags)))))))
        | Some _ \<Rightarrow> Inl not_htlc)"

definition validateProviderPaymentLockProofs ::
    "(rat \<Rightarrow> string) \<Rightarrow> jsnum \<Rightarrow> Proof list \<Rightarrow> VerifyProviderPaymentLockParams \<Rightarrow> jsnum \<Rightarrow> client_error + jsnum" where
  "validateProviderPaymentLockProofs numStr now proofs params providerRedeemFeeSats =
    andThen (throw_if (proofs = []) (CashuClientError (plain ''verifyProviderPaymentLock: token has no proofs''))) (\<lambda>_.
    andThen (validateHashHex (vp_hashHex params)) (\<lambda>expectedHash.
    andThen (validateMinimumProviderLocktime (vp_locktimeSeconds params) (seconds now)) (\<lambda>_.
    andThen (rejectDuplicateProofs proofs) (\<lambda>_.
    let redeemableAmountSats = sumProofAmounts proofs - providerRedeemFeeSats in
    andThen (throw_if (\<not> num_eq redeemableAmountSats (vp_amountSats params))
               (CashuClientError [T ''verifyProviderPaymentLock: token redeemable amount '', N redeemableAmountSats,
                                  T '' does not match '', N (vp_amountSats params)])) (\<lambda>_.
    andThen (each (check_lock_proof numStr expectedHash params) (enumerate 0 proofs)) (\<lambda>_.
    Inr redeemableAmountSats))))))"

definition requireProofsUnspent :: "'opt cashu_wallet \<Rightarrow> Proof list \<Rightarrow> client_error + unit" where
  "requireProofsUnspent wallet proofs =
    (case rw_checkProofsStates (cw_redeem wallet) of
       None \<Rightarrow> Inl (CashuClientError (plain ''verifyProviderPaymentLock: proof state check unavailable''))
     | Some checkProofsStates \<Rightarrow>
       (case checkProofsStates proofs of
          None \<Rightarrow> Inl (CashuMintError (plain ''verifyProviderPaymentLock: proof state check failed''))
        | Some states \<Rightarrow>
          if length states \<noteq> length proofs
          then Inl (CashuMintError (plain ''verifyProviderPaymentLock: proof state check returned an unexpected count''))
          else (case find (\<lambda>s. s \<noteq> ''UNSPENT'') states of
                  Some s \<Rightarrow> Inl (CashuClientError [T ''verifyProviderPaymentLock: proof state is '', T s])
                | None \<Rightarrow> Inr ())))"

definition refreshMintKeysets :: "'opt cashu_wallet \<Rightarrow> client_error + unit" where
  "refreshMintKeysets wallet =
    throw_if (cw_loadMint wallet = Some False)
      (CashuMintError (plain ''verifyProviderPaymentLock: mint keyset refresh failed''))"

text \<open>\<open>BigInt("0x" + r)\<close>: white space at the end is skipped, and without a digit the constructor throws.\<close>

definition bigint_hex :: "string \<Rightarrow> nat option" where
  "bigint_hex r =
    (let ds = drop 2 (trim (''0x'' @ r))
     in if ds = [] \<or> list_ex (\<lambda>c. hex_value c = None) ds then None
        else Some (foldl (\<lambda>a d. a * 16 + d) 0 (hex_prefix ds)))"

definition decodeProofDleq :: "Proof \<Rightarrow> client_error + bytes \<times> bytes \<times> nat" where
  "decodeProofDleq proof =
    (if \<not> isRecord (p_dleq proof)
     then Inl (CashuClientError (plain ''verifyProviderPaymentLock: proof is missing DLEQ proof''))
     else case (opt_prop (p_dleq proof) ''s'', opt_prop (p_dleq proof) ''e'') of
            (String s, String e) \<Rightarrow>
              andThen (hexToBytesLocal s) (\<lambda>sb.
              andThen (hexToBytesLocal e) (\<lambda>eb.
              case bigint_hex (case opt_prop (p_dleq proof) ''r'' of
                                 String r \<Rightarrow> if r \<noteq> [] then r else ''00'' | _ \<Rightarrow> ''00'') of
                None \<Rightarrow> Inl Library_error
              | Some r \<Rightarrow> Inr (sb, eb, r)))
          | _ \<Rightarrow> Inl (CashuClientError (plain ''verifyProviderPaymentLock: proof has malformed DLEQ proof'')))"

text \<open>The body of the loop: the key of the proof's amount, then the \<open>try\<close> around the verification.\<close>

definition check_mint_signature ::
    "'opt cashu_api \<Rightarrow> (string \<Rightarrow> (jsnum \<Rightarrow> jsval) option) \<Rightarrow> Proof \<Rightarrow> client_error + unit" where
  "check_mint_signature lib getKeyset proof =
    (case getKeyset (p_id proof) of
       None \<Rightarrow> Inl Library_error
     | Some keys \<Rightarrow>
       (case keys (p_amount proof) of
          String amountPublicKey \<Rightarrow>
            (let failed = CashuClientError (plain ''verifyProviderPaymentLock: proof signature verification failed'')
             in case decodeProofDleq proof of
                  Inl (CashuClientError m) \<Rightarrow> Inl (CashuClientError m)
                | Inl _ \<Rightarrow> Inl failed
                | Inr dleq \<Rightarrow>
                  (case ca_verifyDleq lib (p_secret proof) dleq (p_C proof) amountPublicKey of
                     None \<Rightarrow> Inl failed
                   | Some isValid \<Rightarrow>
                     throw_if (\<not> isValid)
                       (CashuClientError (plain ''verifyProviderPaymentLock: proof signature is invalid''))))
        | _ \<Rightarrow> Inl (CashuClientError (plain ''verifyProviderPaymentLock: mint key for proof amount unavailable''))))"

definition requireMintSignatureProofs ::
    "'opt cashu_api \<Rightarrow> 'opt cashu_wallet \<Rightarrow> Proof list \<Rightarrow> client_error + unit" where
  "requireMintSignatureProofs lib wallet proofs =
    (case cw_getKeyset wallet of
       None \<Rightarrow> Inl (CashuClientError (plain ''verifyProviderPaymentLock: mint keyset lookup unavailable''))
     | Some getKeyset \<Rightarrow> each (check_mint_signature lib getKeyset) proofs)"

section \<open>Funding proofs and redemption helpers\<close>

definition isValidProofShape :: "jsval \<Rightarrow> bool" where
  "isValidProofShape p =
    (isRecord p \<and>
     (case (opt_prop p ''id'', opt_prop p ''amount'', opt_prop p ''secret'', opt_prop p ''C'') of
        (String _, Number a, String _, String _) \<Rightarrow> is_finite a \<and> 0 < a
      | _ \<Rightarrow> False))"

text \<open>The cast of a value of that shape.\<close>

definition text_of :: "jsval \<Rightarrow> string" where
  "text_of v = (case string_of v of None \<Rightarrow> [] | Some s \<Rightarrow> s)"

definition as_proof :: "jsval \<Rightarrow> Proof" where
  "as_proof p =
    \<lparr> p_amount = (case opt_prop p ''amount'' of Number a \<Rightarrow> a | _ \<Rightarrow> NaN), p_secret = text_of (opt_prop p ''secret''),
      p_C = text_of (opt_prop p ''C''), p_witness = opt_prop p ''witness'', p_id = text_of (opt_prop p ''id''),
      p_dleq = opt_prop p ''dleq'' \<rparr>"

definition prepareHtlcRedemption :: "'opt cashu_api \<Rightarrow> Proof list \<Rightarrow> string \<Rightarrow> string \<Rightarrow> Proof list option" where
  "prepareHtlcRedemption lib proofs preimageHex privkeyHex =
    ca_signP2PK lib (map (\<lambda>p. p\<lparr> p_witness := String (htlc_witness preimageHex) \<rparr>) proofs) privkeyHex"

definition mapRedeemFailure :: "RedeemSwapFailureReason \<Rightarrow> jsnum \<Rightarrow> jsnum \<Rightarrow> client_error" where
  "mapRedeemFailure reason fee totalAmount =
    (case reason of
       Fee_exceeds_amount \<Rightarrow>
         CashuMintError [T ''redeemHtlc: mint fee '', N fee, T '' exceeds available '', N totalAmount, T '' sats'']
     | Mint_error \<Rightarrow> CashuMintError (plain ''redeemHtlc: mint swap failed'')
     | State_unknown \<Rightarrow> CashuMintUncertainError
         [T ''redeemHtlc: mint swap failed and the input state could not be checked '', EmDash,
          T '' keep the token and retry once the mint is reachable'']
     | Inputs_unspent \<Rightarrow> CashuMintError
         [T ''redeemHtlc: mint swap failed; inputs are unspent '', EmDash, T '' safe to retry with the same token'']
     | Outputs_not_registered \<Rightarrow> CashuMintUncertainError
         [T ''redeemHtlc: inputs are spent at the mint but no recoverable outputs were registered '', EmDash,
          T '' check the mint before retrying'']
     | Restore_failed \<Rightarrow> CashuMintUncertainError
         [T ''redeemHtlc: inputs are spent and NUT-09 restore failed '', EmDash,
          T '' outputs remain recoverable; check the mint'']
     | Restore_empty \<Rightarrow> CashuMintUncertainError
         [T ''redeemHtlc: inputs are spent but the mint returned no signatures for the registered outputs '', EmDash,
          T '' check the mint''])"

section \<open>The client\<close>

text \<open>\<open>cc_walletPromise\<close> is \<open>walletPromise\<close>: \<open>None\<close> for \<open>null\<close>, otherwise whether the promise is fulfilled;
  \<open>cc_injected\<close> says that the options carry a wallet.\<close>

record cashu_client =
  cc_mintUrl :: string
  cc_injected :: bool
  cc_walletPromise :: "bool option"

definition createCashuClient :: "jsval \<Rightarrow> bool \<Rightarrow> client_error + cashu_client" where
  "createCashuClient mintUrl injected =
    (case mintUrl of
       String u \<Rightarrow>
         if u = [] then Inl (CashuClientError (plain ''mintUrl must be a non-empty string''))
         else Inr \<lparr> cc_mintUrl = u, cc_injected = injected, cc_walletPromise = None \<rparr>
     | _ \<Rightarrow> Inl (CashuClientError (plain ''mintUrl must be a non-empty string'')))"

text \<open>\<open>loads\<close>: whether building and loading a wallet succeeds, when it is attempted.\<close>

definition getWallet :: "cashu_client \<Rightarrow> bool \<Rightarrow> (client_error + unit) \<times> cashu_client" where
  "getWallet client loads =
    (if cc_injected client then (Inr (), client)
     else case cc_walletPromise client of
            Some ok \<Rightarrow> (throw_if (\<not> ok) Library_error, client)
          | None \<Rightarrow> (throw_if (\<not> loads) Library_error, client\<lparr> cc_walletPromise := Some loads \<rparr>))"

definition with_wallet ::
    "cashu_client \<Rightarrow> bool \<Rightarrow> (unit \<Rightarrow> client_error + 'a) \<Rightarrow> (client_error + 'a) \<times> cashu_client" where
  "with_wallet client loads run = (case getWallet client loads of (r, client') \<Rightarrow> (andThen r run, client'))"

definition bind_checks :: "jsnum \<Rightarrow> BindProviderParams \<Rightarrow> client_error + Proof list" where
  "bind_checks now p =
    andThen (validateHashHex (bp_hashHex p)) (\<lambda>_.
    andThen (validateLocktime (bp_locktimeSeconds p) (seconds now)) (\<lambda>_.
    andThen (throw_if (\<not> is_finite (bp_amountSats p) \<or> \<not> is_integer (bp_amountSats p) \<or> bp_amountSats p \<le> 0)
               (CashuClientError (plain ''amountSats must be a positive integer''))) (\<lambda>_.
    andThen (throw_if (length (bp_customerSecretKey p) \<noteq> 32)
               (CashuClientError (plain ''customerSecretKey must be a 32-byte Uint8Array''))) (\<lambda>_.
    case bp_fundingProofs p of
      Array (v # vs) \<Rightarrow>
        andThen (throw_if (\<not> list_all isValidProofShape (v # vs))
                   (CashuClientError (plain ''fundingProofs contains a malformed proof'')))
          (\<lambda>_. Inr (map as_proof (v # vs)))
    | _ \<Rightarrow> Inl (CashuClientError (plain ''fundingProofs must be a non-empty array''))))))"

definition bind_swap ::
    "'opt cashu_api \<Rightarrow> 'opt cashu_wallet \<Rightarrow> string \<Rightarrow> BindProviderParams \<Rightarrow> Proof list \<Rightarrow> client_error + CashuToken" where
  "bind_swap lib wallet mintUrl p inputProofs =
    (let totalAmount = sumProofAmounts inputProofs;
         fee = rw_getFeesForProofs (cw_redeem wallet) inputProofs;
         phase2 = ca_toOptions lib (buildHtlcFinalOptions
                    \<lparr> hb_hash = String (bp_hashHex p), hb_providerPubkey = bp_providerPubkey p,
                      hb_customerRefundPubkey = String (bp_customerPubkey p), hb_locktimeSeconds = bp_locktimeSeconds p \<rparr>);
         swap_failed = CashuMintError (plain ''bindProvider: mint swap failed'')
     in andThen (throw_if (totalAmount \<le> 0)
                   (CashuClientError (plain ''fundingProofs contains no spendable proofs''))) (\<lambda>_.
        andThen (throw_if (totalAmount < bp_amountSats p + fee)
                   (CashuMintError [T ''bindProvider: mint fee '', N fee, T '' leaves '', N (totalAmount - fee),
                                    T '' sats for '', N (bp_amountSats p), T '' sat lock''])) (\<lambda>_.
        if \<not> cw_hasIncludeFees wallet \<and> 0 < fee then Inl swap_failed
        else case cw_send wallet (bp_amountSats p) inputProofs (hex_string (bp_customerSecretKey p)) phase2
                    (cw_hasIncludeFees wallet) of
               None \<Rightarrow> Inl swap_failed
             | Some (keep, send) \<Rightarrow>
               Inr \<lparr> ck_token = ca_encode lib mintUrl send,
                     ck_amountSats = sumProofAmounts send - rw_getFeesForProofs (cw_redeem wallet) send,
                     ck_proofs = send, ck_changeProofs = Some (case keep of None \<Rightarrow> [] | Some k \<Rightarrow> k) \<rparr>)))"

definition bindProvider ::
    "'opt cashu_api \<Rightarrow> 'opt cashu_wallet \<Rightarrow> bool \<Rightarrow> jsnum \<Rightarrow> BindProviderParams \<Rightarrow> cashu_client \<Rightarrow>
     (client_error + CashuToken) \<times> cashu_client" where
  "bindProvider lib wallet loads now p client =
    (case bind_checks now p of
       Inl e \<Rightarrow> (Inl e, client)
     | Inr inputProofs \<Rightarrow>
       with_wallet client loads (\<lambda>_. bind_swap lib wallet (cc_mintUrl client) p inputProofs))"

definition verifyProviderPaymentLock ::
    "'opt cashu_api \<Rightarrow> 'opt cashu_wallet \<Rightarrow> bool \<Rightarrow> jsnum \<Rightarrow> VerifyProviderPaymentLockParams \<Rightarrow> cashu_client \<Rightarrow>
     (client_error + Proof list \<times> jsnum) \<times> cashu_client" where
  "verifyProviderPaymentLock lib wallet loads now params client =
    with_wallet client loads (\<lambda>_.
      andThen (refreshMintKeysets wallet) (\<lambda>_.
      case ca_decode lib (vp_token params) (cw_keysetIds wallet) of
        None \<Rightarrow> Inl Library_error
      | Some (mint, proofs) \<Rightarrow>
        andThen (throw_if (mint \<noteq> cc_mintUrl client)
                   (CashuClientError (plain ''verifyProviderPaymentLock: token mint does not match client mint''))) (\<lambda>_.
        andThen (validateProviderPaymentLockProofs (ca_numStr lib) now proofs params
                   (rw_getFeesForProofs (cw_redeem wallet) proofs)) (\<lambda>amountSats.
        andThen (requireMintSignatureProofs lib wallet proofs) (\<lambda>_.
        andThen (requireProofsUnspent wallet proofs) (\<lambda>_.
        Inr (proofs, amountSats)))))))"

text \<open>The hashlock check of one proof before the mint is contacted.\<close>

definition check_hashlock :: "'opt cashu_api \<Rightarrow> string \<Rightarrow> nat \<times> Proof \<Rightarrow> client_error + unit" where
  "check_hashlock lib preimageHex ip =
    (let i = N (Fin (of_nat (fst ip)));
         err = (\<lambda>m. Inl (CashuClientError [T ''redeemHtlc: proof '', i, T m]))
     in case jparse (p_secret (snd ip)) of
          None \<Rightarrow> err '' has malformed secret''
        | Some (Array vs) \<Rightarrow>
          if js_index (Array vs) 0 \<noteq> String ''HTLC'' then err '' is not an HTLC proof''
          else (case opt_prop (js_index (Array vs) 1) ''data'' of
                  String expectedHash \<Rightarrow>
                    (case ca_verifyHTLCHash lib preimageHex expectedHash of
                       None \<Rightarrow> Inl Library_error
                     | Some ok \<Rightarrow>
                       throw_if (\<not> ok)
                         (CashuClientError [T ''redeemHtlc: preimage does not match proof '', i, T (CHR 0x27 # ''s hashlock'')]))
                | _ \<Rightarrow> err '' has no hashlock data'')
        | Some _ \<Rightarrow> err '' is not an HTLC proof'')"

definition redeemHtlc ::
    "'opt cashu_api \<Rightarrow> 'opt cashu_wallet \<Rightarrow> bool \<Rightarrow> RedeemHtlcParams \<Rightarrow> cashu_client \<Rightarrow>
     (client_error + Proof list \<times> jsnum) \<times> cashu_client" where
  "redeemHtlc lib wallet loads p client =
    with_wallet client loads (\<lambda>_.
      case ca_decode lib (rh_token p) (cw_keysetIds wallet) of
        None \<Rightarrow> Inl Library_error
      | Some (_, proofs) \<Rightarrow>
        andThen (throw_if (proofs = []) (CashuClientError (plain ''redeemHtlc: token has no proofs''))) (\<lambda>_.
        andThen (each (check_hashlock lib (rh_preimageHex p)) (enumerate 0 proofs)) (\<lambda>_.
        let privkeyHex = hex_string (rh_providerSecretKey p) in
        case prepareHtlcRedemption lib proofs (rh_preimageHex p) privkeyHex of
          None \<Rightarrow> Inl Library_error
        | Some signedProofs \<Rightarrow>
          (case redeemSignedProofs (cw_redeem wallet) signedProofs (Some privkeyHex) of
             Redeem_ok proofs amountSats _ \<Rightarrow> Inr (proofs, amountSats)
           | Redeem_failed reason _ _ \<Rightarrow>
             Inl (mapRedeemFailure reason (rw_getFeesForProofs (cw_redeem wallet) signedProofs)
                    (sumProofAmounts signedProofs))))))"

section \<open>What an accepted Payment Lock is\<close>

text \<open>The contract of a locked proof: the hash, one provider key, one refund key, the locktime and the flag.\<close>

definition one_key :: "jsval \<Rightarrow> string \<Rightarrow> string \<Rightarrow> bool" where
  "one_key tags name pubkey = (\<exists>k \<in> set (p2pkVariants pubkey). \<exists>x. findSecretTag tags name = Some [x, k])"

definition at_most_one_sig :: "jsval \<Rightarrow> string \<Rightarrow> bool" where
  "at_most_one_sig tags name = (\<forall>tag. findSecretTag tags name = Some tag \<longrightarrow> tag_value tag = Some ''1'')"

definition locked_tags :: "(rat \<Rightarrow> string) \<Rightarrow> VerifyProviderPaymentLockParams \<Rightarrow> jsval \<Rightarrow> bool" where
  "locked_tags numStr params tags =
    (one_key tags ''pubkeys'' (vp_providerPubkey params) \<and> one_key tags ''refund'' (vp_customerPubkey params) \<and>
     Option.bind (findSecretTag tags ''locktime'') tag_value = Some (js_num_str numStr (vp_locktimeSeconds params)) \<and>
     Option.bind (findSecretTag tags ''sigflag'') tag_value = Some ''SIG_ALL'' \<and>
     at_most_one_sig tags ''n_sigs'' \<and> at_most_one_sig tags ''n_sigs_refund'')"

definition locked_proof :: "(rat \<Rightarrow> string) \<Rightarrow> VerifyProviderPaymentLockParams \<Rightarrow> string \<Rightarrow> Proof \<Rightarrow> bool" where
  "locked_proof numStr params hash proof =
    (\<exists>vs. jparse (p_secret proof) = Some (Array vs) \<and> js_index (Array vs) 0 = String ''HTLC'' \<and>
       opt_prop (js_index (Array vs) 1) ''data'' = String hash \<and>
       locked_tags numStr params (opt_prop (js_index (Array vs) 1) ''tags''))"

lemma requireSingleKeyTag_Inr [simp]: "requireSingleKeyTag tags name (p2pkVariants pk) m = Inr u \<longleftrightarrow> one_key tags name pk"
  by (auto simp: requireSingleKeyTag_def one_key_def split: option.splits list.splits)

lemma requireTagValue_Inr [simp]:
  "requireTagValue tags name v m = Inr u \<longleftrightarrow> Option.bind (findSecretTag tags name) tag_value = Some v"
  by (simp add: requireTagValue_def)

lemma reject_signatures_Inr [simp]:
  "rejectUnsupportedExtraSignatures tags = Inr u \<longleftrightarrow> at_most_one_sig tags ''n_sigs''"
  "rejectUnsupportedRefundSignatures tags = Inr u \<longleftrightarrow> at_most_one_sig tags ''n_sigs_refund''"
  by (auto simp: rejectUnsupportedExtraSignatures_def rejectUnsupportedRefundSignatures_def at_most_one_sig_def
      split: option.splits)

lemma check_lock_proof_Inr: "check_lock_proof numStr h params ip = Inr u \<longleftrightarrow> locked_proof numStr params h (snd ip)"
proof (cases "jparse (p_secret (snd ip))")
  case (Some v)
  then show ?thesis by (cases v) (auto simp: check_lock_proof_def locked_proof_def locked_tags_def Let_def)
qed (simp add: check_lock_proof_def locked_proof_def Let_def)

lemma validateMinimumProviderLocktime_Inr [simp]:
  "validateMinimumProviderLocktime t now = Inr u \<longleftrightarrow> is_integer t \<and> \<not> t \<le> now \<and> \<not> t - now < 600"
  by (auto simp: validateMinimumProviderLocktime_def validateLocktime_def MIN_PROVIDER_PAYMENT_LOCK_REMAINING_SECONDS_def)

lemma validateHashHex_Inr [simp]: "validateHashHex h = Inr g \<longleftrightarrow> hex64 h \<and> g = to_lower h"
  by (auto simp: validateHashHex_def)

definition payment_lock_ok ::
    "(rat \<Rightarrow> string) \<Rightarrow> jsnum \<Rightarrow> VerifyProviderPaymentLockParams \<Rightarrow> jsnum \<Rightarrow> Proof list \<Rightarrow> bool" where
  "payment_lock_ok numStr now params fee proofs =
    (proofs \<noteq> [] \<and> hex64 (vp_hashHex params) \<and>
     is_integer (vp_locktimeSeconds params) \<and> \<not> vp_locktimeSeconds params \<le> seconds now \<and>
     \<not> vp_locktimeSeconds params - seconds now < 600 \<and>
     distinct (map p_secret proofs) \<and> num_eq (sumProofAmounts proofs - fee) (vp_amountSats params) \<and>
     (\<forall>proof \<in> set proofs. locked_proof numStr params (to_lower (vp_hashHex params)) proof))"

lemma validateProviderPaymentLockProofs_Inr:
  "validateProviderPaymentLockProofs numStr now proofs params fee = Inr a \<longleftrightarrow>
    payment_lock_ok numStr now params fee proofs \<and> a = sumProofAmounts proofs - fee"
proof -
  have "(\<forall>ip \<in> set (enumerate 0 proofs). locked_proof numStr params h (snd ip)) \<longleftrightarrow>
      (\<forall>p \<in> set proofs. locked_proof numStr params h p)" for h
    by (metis (no_types, lifting) image_iff list.set_map map_snd_enumerate)
  then show ?thesis
    by (auto simp: validateProviderPaymentLockProofs_def payment_lock_ok_def rejectDuplicateProofs_def Let_def
        check_lock_proof_Inr simp del: num_eq_Fin)
qed

definition wallet_ready :: "cashu_client \<Rightarrow> bool \<Rightarrow> bool" where
  "wallet_ready client loads =
    (cc_injected client \<or> (case cc_walletPromise client of None \<Rightarrow> loads | Some ok \<Rightarrow> ok))"

lemma with_wallet_Inr:
  "fst (with_wallet client loads run) = Inr a \<longleftrightarrow> wallet_ready client loads \<and> run () = Inr a"
  by (auto simp: with_wallet_def getWallet_def wallet_ready_def split: option.splits)

definition mint_signed :: "'opt cashu_api \<Rightarrow> 'opt cashu_wallet \<Rightarrow> Proof \<Rightarrow> bool" where
  "mint_signed lib wallet proof =
    (\<exists>getKeyset keys pk dleq. cw_getKeyset wallet = Some getKeyset \<and> getKeyset (p_id proof) = Some keys \<and>
       keys (p_amount proof) = String pk \<and> decodeProofDleq proof = Inr dleq \<and>
       ca_verifyDleq lib (p_secret proof) dleq (p_C proof) pk = Some True)"

lemma requireMintSignatureProofs_Inr:
  "requireMintSignatureProofs lib wallet proofs = Inr u \<longleftrightarrow>
    cw_getKeyset wallet \<noteq> None \<and> (\<forall>p \<in> set proofs. mint_signed lib wallet p)"
proof (cases "cw_getKeyset wallet")
  case (Some g)
  have "check_mint_signature lib g p = Inr () \<longleftrightarrow> mint_signed lib wallet p" for p
    by (auto simp: check_mint_signature_def mint_signed_def Some Let_def
        split: option.splits jsval.splits sum.splits client_error.splits)
  then show ?thesis by (simp add: requireMintSignatureProofs_def Some)
qed (simp add: requireMintSignatureProofs_def)

definition all_unspent :: "'opt cashu_wallet \<Rightarrow> Proof list \<Rightarrow> bool" where
  "all_unspent wallet proofs =
    (\<exists>check. rw_checkProofsStates (cw_redeem wallet) = Some check \<and>
       check proofs = Some (replicate (length proofs) ''UNSPENT''))"

lemma requireProofsUnspent_Inr: "requireProofsUnspent wallet proofs = Inr u \<longleftrightarrow> all_unspent wallet proofs"
proof -
  have "find (\<lambda>s. s \<noteq> ''UNSPENT'') states = None \<longleftrightarrow> states = replicate (length states) ''UNSPENT''" for states
    by (induction states) auto
  then show ?thesis
    by (auto simp: requireProofsUnspent_def all_unspent_def split: option.splits) (metis length_replicate option.distinct(1))+
qed

lemma verifyProviderPaymentLock_Inr:
  "fst (verifyProviderPaymentLock lib wallet loads now params client) = Inr (proofs, amount) \<longleftrightarrow>
    wallet_ready client loads \<and> cw_loadMint wallet \<noteq> Some False \<and>
    ca_decode lib (vp_token params) (cw_keysetIds wallet) = Some (cc_mintUrl client, proofs) \<and>
    payment_lock_ok (ca_numStr lib) now params (rw_getFeesForProofs (cw_redeem wallet) proofs) proofs \<and>
    amount = sumProofAmounts proofs - rw_getFeesForProofs (cw_redeem wallet) proofs \<and>
    cw_getKeyset wallet \<noteq> None \<and> (\<forall>p \<in> set proofs. mint_signed lib wallet p) \<and> all_unspent wallet proofs"
  by (auto simp: verifyProviderPaymentLock_def with_wallet_Inr refreshMintKeysets_def requireProofsUnspent_Inr
      requireMintSignatureProofs_Inr validateProviderPaymentLockProofs_Inr split: option.splits prod.splits)

section \<open>A lock that was bound is a lock that is accepted\<close>

text \<open>What the Cashu library documents of the two sides (NUT-10, NUT-11, NUT-14): decoding inverts encoding, and
  the proofs of a locked send have distinct secrets that spell out the lock, in any order of the tags and with
  compressed keys, and carry the mint's signature, which the other wallet can check.\<close>

definition secret_text :: "(rat \<Rightarrow> string) \<Rightarrow> string \<Rightarrow> string \<Rightarrow> string list list \<Rightarrow> string" where
  "secret_text numStr nonce hash tags = jprint numStr (Array [String ''HTLC'', Object
    [(''nonce'', String nonce), (''data'', String hash), (''tags'', Array (map (\<lambda>t. Array (map String t)) tags))]])"

definition lock_tags :: "(rat \<Rightarrow> string) \<Rightarrow> BindProviderParams \<Rightarrow> string \<Rightarrow> string \<Rightarrow> string list list" where
  "lock_tags numStr p k r =
    [[''pubkeys'', k], [''refund'', r], [''locktime'', js_num_str numStr (bp_locktimeSeconds p)], [''sigflag'', ''SIG_ALL'']]"

definition spells_lock :: "(rat \<Rightarrow> string) \<Rightarrow> BindProviderParams \<Rightarrow> Proof \<Rightarrow> bool" where
  "spells_lock numStr p proof =
    (\<exists>nonce tags k r. p_secret proof = secret_text numStr nonce (bp_hashHex p) tags \<and>
       k \<in> set (p2pkVariants (bp_providerPubkey p)) \<and> r \<in> set (p2pkVariants (bp_customerPubkey p)) \<and>
       set (lock_tags numStr p k r) \<subseteq> set tags \<and>
       set tags \<subseteq> set (lock_tags numStr p k r) \<union> {[''n_sigs'', ''1''], [''n_sigs_refund'', ''1'']})"

definition final_lock :: "BindProviderParams \<Rightarrow> p2pk_lock" where
  "final_lock p = buildHtlcFinalOptions
    \<lparr> hb_hash = String (bp_hashHex p), hb_providerPubkey = bp_providerPubkey p,
      hb_customerRefundPubkey = String (bp_customerPubkey p), hb_locktimeSeconds = bp_locktimeSeconds p \<rparr>"

definition cashu_ok :: "'opt cashu_api \<Rightarrow> 'opt cashu_wallet \<Rightarrow> 'opt cashu_wallet \<Rightarrow> BindProviderParams \<Rightarrow> bool" where
  "cashu_ok lib wallet other p =
    (\<forall>ins keep send. cw_send wallet (bp_amountSats p) ins (hex_string (bp_customerSecretKey p))
          (ca_toOptions lib (final_lock p)) (cw_hasIncludeFees wallet) = Some (keep, send) \<longrightarrow>
        (\<forall>mint ks. ca_decode lib (ca_encode lib mint send) ks = Some (mint, send)) \<and>
        send \<noteq> [] \<and> distinct (map p_secret send) \<and>
        (\<forall>proof \<in> set send. spells_lock (ca_numStr lib) p proof \<and> mint_signed lib other proof))"

definition verify_params :: "BindProviderParams \<Rightarrow> CashuToken \<Rightarrow> VerifyProviderPaymentLockParams" where
  "verify_params p b =
    \<lparr> vp_token = ck_token b, vp_amountSats = bp_amountSats p, vp_hashHex = bp_hashHex p,
      vp_providerPubkey = bp_providerPubkey p, vp_customerPubkey = bp_customerPubkey p,
      vp_locktimeSeconds = bp_locktimeSeconds p \<rparr>"

lemma string_tags_read: "List.map_filter string_tag (map (\<lambda>t. Array (map String t)) tags) = tags"
proof -
  have "those (map string_of (map String t)) = Some t" for t by (induction t) auto
  then show ?thesis by (induction tags) (simp_all add: map_filter_simps)
qed

lemma find_unique:
  assumes "t \<in> set tags" "P t" "\<And>u. u \<in> set tags \<Longrightarrow> P u \<Longrightarrow> u = t"
  shows "find P tags = Some t"
  using assms
proof (induction tags)
  case (Cons a tags)
  show ?case
  proof (cases "P a")
    case True
    then have "a = t" by (rule Cons.prems(3) [rotated]) simp
    with True show ?thesis by simp
  next
    case False
    then have t: "t \<in> set tags" using Cons.prems(1,2) by auto
    have "find P tags = Some t"
      by (rule Cons.IH [OF t Cons.prems(2)], rule Cons.prems(3)) simp_all
    with False show ?thesis by simp
  qed
qed simp

lemma named_tag:
  assumes "set tags \<subseteq> S" "t \<in> set tags" "hd_opt t = Some n" "\<forall>u \<in> S. hd_opt u = Some n \<longrightarrow> u = t"
  shows "find (\<lambda>t. hd_opt t = Some n) tags = Some t"
  by (rule find_unique) (use assms in blast)+

lemma spells_lock_tags:
  assumes "set (lock_tags numStr p k r) \<subseteq> set tags"
    "set tags \<subseteq> set (lock_tags numStr p k r) \<union> {[''n_sigs'', ''1''], [''n_sigs_refund'', ''1'']}"
    "k \<in> set (p2pkVariants (bp_providerPubkey p))" "r \<in> set (p2pkVariants (bp_customerPubkey p))"
  shows "locked_tags numStr (verify_params p b) (Array (map (\<lambda>t. Array (map String t)) tags))"
proof -
  have "findSecretTag (Array (map (\<lambda>t. Array (map String t)) tags)) n = find (\<lambda>t. hd_opt t = Some n) tags" for n
    by (simp add: findSecretTag_def string_tags_read)
  moreover have "find (\<lambda>t. hd_opt t = Some ''pubkeys'') tags = Some [''pubkeys'', k]"
    "find (\<lambda>t. hd_opt t = Some ''refund'') tags = Some [''refund'', r]"
    "find (\<lambda>t. hd_opt t = Some ''locktime'') tags = Some [''locktime'', js_num_str numStr (bp_locktimeSeconds p)]"
    "find (\<lambda>t. hd_opt t = Some ''sigflag'') tags = Some [''sigflag'', ''SIG_ALL'']"
    by (rule named_tag [OF assms(2)]; use assms(1) in \<open>simp add: lock_tags_def\<close>)+
  moreover have "find (\<lambda>t. hd_opt t = Some n) tags = Some u \<Longrightarrow> n = ''n_sigs'' \<or> n = ''n_sigs_refund'' \<Longrightarrow> tag_value u = Some ''1''"
    for n u
  proof -
    assume f: "find (\<lambda>t. hd_opt t = Some n) tags = Some u" and n: "n = ''n_sigs'' \<or> n = ''n_sigs_refund''"
    have "u \<in> set tags" "hd_opt u = Some n" using f by (auto simp: find_Some_iff)
    with assms(2) have "u \<in> set (lock_tags numStr p k r) \<union> {[''n_sigs'', ''1''], [''n_sigs_refund'', ''1'']}" "hd_opt u = Some n"
      by blast+
    with n show "tag_value u = Some ''1''" by (auto simp: lock_tags_def tag_value_def)
  qed
  ultimately show ?thesis
    using assms(3,4) by (auto simp: locked_tags_def one_key_def at_most_one_sig_def verify_params_def tag_value_def)
qed

lemma spells_lock_locked:
  assumes "spells_lock numStr p proof"
  shows "locked_proof numStr (verify_params p b) (bp_hashHex p) proof"
proof -
  obtain nonce tags k r where t: "p_secret proof = secret_text numStr nonce (bp_hashHex p) tags"
    "k \<in> set (p2pkVariants (bp_providerPubkey p))" "r \<in> set (p2pkVariants (bp_customerPubkey p))"
    "set (lock_tags numStr p k r) \<subseteq> set tags"
    "set tags \<subseteq> set (lock_tags numStr p k r) \<union> {[''n_sigs'', ''1''], [''n_sigs_refund'', ''1'']}"
    using assms unfolding spells_lock_def by blast
  have "jparse (p_secret proof) = Some (Array [String ''HTLC'', Object [(''nonce'', String nonce), (''data'', String (bp_hashHex p)),
      (''tags'', Array (map (\<lambda>t. Array (map String t)) tags))]])"
    unfolding t(1) secret_text_def by (rule jparse_print) (simp add: list_all_iff)
  then show ?thesis
    using spells_lock_tags [OF t(4,5,2,3), of b] by (simp add: locked_proof_def map_get_def)
qed

lemma bindProvider_Inr:
  assumes "fst (bindProvider lib wallet loads now p client) = Inr b"
  obtains ins keep where "hex64 (bp_hashHex p)" "is_integer (bp_locktimeSeconds p)"
    "cw_send wallet (bp_amountSats p) ins (hex_string (bp_customerSecretKey p)) (ca_toOptions lib (final_lock p))
       (cw_hasIncludeFees wallet) = Some (keep, ck_proofs b)"
    "ck_token b = ca_encode lib (cc_mintUrl client) (ck_proofs b)"
    "ck_amountSats b = sumProofAmounts (ck_proofs b) - rw_getFeesForProofs (cw_redeem wallet) (ck_proofs b)"
proof -
  obtain ins where ins: "bind_checks now p = Inr ins"
    using assms by (cases "bind_checks now p") (auto simp: bindProvider_def)
  have sw: "bind_swap lib wallet (cc_mintUrl client) p ins = Inr b"
    using assms ins by (simp add: bindProvider_def with_wallet_Inr)
  have "hex64 (bp_hashHex p)" "is_integer (bp_locktimeSeconds p)"
    using ins by (auto simp: bind_checks_def validateLocktime_def split: if_splits)
  with sw that [of ins] show ?thesis
    by (auto simp: bind_swap_def Let_def final_lock_def split: if_splits option.splits prod.splits)
qed

text \<open>The customer's margin of a minute and its test of the amount are what the provider's checks need.\<close>

lemma bound_lock_ok:
  assumes "cashu_ok lib wallet other p" "fst (bindProvider lib wallet loads now p client) = Inr b"
    "to_lower (bp_hashHex p) = bp_hashHex p" "num_eq (ck_amountSats b) (bp_amountSats p)"
    "rw_getFeesForProofs (cw_redeem other) (ck_proofs b) = rw_getFeesForProofs (cw_redeem wallet) (ck_proofs b)"
    "bp_locktimeSeconds p = Fin (of_int (t + d))" "660 \<le> d" "seconds now' = Fin (of_int t')" "t' \<le> t + 60"
  shows "payment_lock_ok (ca_numStr lib) now' (verify_params p b) (rw_getFeesForProofs (cw_redeem other) (ck_proofs b)) (ck_proofs b)"
    "\<forall>proof \<in> set (ck_proofs b). mint_signed lib other proof"
    "ca_decode lib (ck_token b) ks = Some (cc_mintUrl client, ck_proofs b)"
proof -
  obtain ins keep where b: "hex64 (bp_hashHex p)" "is_integer (bp_locktimeSeconds p)"
    "cw_send wallet (bp_amountSats p) ins (hex_string (bp_customerSecretKey p)) (ca_toOptions lib (final_lock p))
       (cw_hasIncludeFees wallet) = Some (keep, ck_proofs b)"
    "ck_token b = ca_encode lib (cc_mintUrl client) (ck_proofs b)"
    "ck_amountSats b = sumProofAmounts (ck_proofs b) - rw_getFeesForProofs (cw_redeem wallet) (ck_proofs b)"
    using assms(2) by (rule bindProvider_Inr)
  have send: "ck_proofs b \<noteq> []" "distinct (map p_secret (ck_proofs b))"
    "ca_decode lib (ca_encode lib (cc_mintUrl client) (ck_proofs b)) ks = Some (cc_mintUrl client, ck_proofs b)"
    "\<forall>proof \<in> set (ck_proofs b). spells_lock (ca_numStr lib) p proof \<and> mint_signed lib other proof"
    using assms(1) b(3) unfolding cashu_ok_def by blast+
  have time: "\<not> bp_locktimeSeconds p \<le> seconds now'" "\<not> bp_locktimeSeconds p - seconds now' < 600"
  proof -
    have "(of_int (t' + 600) :: rat) \<le> of_int (t + d)" using assms(7,9) by (subst of_int_le_iff) simp
    then show "\<not> bp_locktimeSeconds p \<le> seconds now'" "\<not> bp_locktimeSeconds p - seconds now' < 600"
      by (simp_all add: assms(6,8))
  qed
  show "payment_lock_ok (ca_numStr lib) now' (verify_params p b) (rw_getFeesForProofs (cw_redeem other) (ck_proofs b)) (ck_proofs b)"
    using b(1,2,5) send time assms(3,4,5) spells_lock_locked [of "ca_numStr lib" p _ b]
    by (auto simp: payment_lock_ok_def verify_params_def)
  show "\<forall>proof \<in> set (ck_proofs b). mint_signed lib other proof" using send(4) by blast
  show "ca_decode lib (ck_token b) ks = Some (cc_mintUrl client, ck_proofs b)"
    using send(3) b(4) by simp
qed

end
