(* ===== verification/Oracle_Client.thy ===== *)
theory Oracle_Client
  imports Protocol_Formats Cashu_Client
begin

text \<open>
  Waiting for relay events (\<open>relay-wait.ts\<close>), the hash bootstrap of customers and providers
  (\<open>oracle.ts\<close>) and the oracle's side of it (\<open>adapters/nostr/hash-responder.ts\<close>).  A relay is what it
  answers: the outcome of a publication, \<open>None\<close> for a rejected promise, and the events it delivers to a
  subscription before the deadline, in order and not necessarily matching the filter.
\<close>

section \<open>Subscribe with a deadline (relay-wait.ts)\<close>

text \<open>\<open>Settled\<close> is the resolved promise; \<open>settle\<close> is then cleared, so later calls of \<open>finish\<close> change nothing.\<close>

datatype 'a event_wait = Waiting | Settled "'a option"

datatype wait_input = Deliver Event | Deadline | Cancel

fun wait_step :: "(Event \<Rightarrow> 'a option) \<Rightarrow> wait_input \<Rightarrow> 'a event_wait \<Rightarrow> 'a event_wait" where
  "wait_step match i (Settled v) = Settled v"
| "wait_step match (Deliver e) Waiting = (case match e of None \<Rightarrow> Waiting | Some v \<Rightarrow> Settled (Some v))"
| "wait_step match Deadline Waiting = Settled None"
| "wait_step match Cancel Waiting = Settled None"

definition waitForFirstEvent :: "(Event \<Rightarrow> 'a option) \<Rightarrow> wait_input list \<Rightarrow> 'a event_wait" where
  "waitForFirstEvent match inputs = fold (wait_step match) inputs Waiting"

text \<open>The awaited result when the relay delivers \<open>events\<close> before the deadline.\<close>

definition wait_result :: "(Event \<Rightarrow> 'a option) \<Rightarrow> Event list \<Rightarrow> 'a option" where
  "wait_result match events =
    (case waitForFirstEvent match (map Deliver events @ [Deadline]) of Settled v \<Rightarrow> v | Waiting \<Rightarrow> None)"

lemma wait_settled [simp]: "fold (wait_step match) inputs (Settled v) = Settled v"
  by (induction inputs) auto

lemma wait_delivered:
  "fold (wait_step match) (map Deliver events) Waiting =
    (case hd_opt (List.map_filter match events) of None \<Rightarrow> Waiting | Some v \<Rightarrow> Settled (Some v))"
  by (induction events) (auto simp: map_filter_simps split: option.split)

lemma wait_result_first: "wait_result match events = hd_opt (List.map_filter match events)"
  by (simp add: wait_result_def waitForFirstEvent_def wait_delivered split: option.split)

lemma wait_result_Some: "wait_result match events = Some v \<Longrightarrow> \<exists>e \<in> set events. match e = Some v"
  unfolding wait_result_first by (induction events) (auto simp: map_filter_simps split: option.splits)

lemma wait_result_skip: "(\<And>e. e \<in> set es \<Longrightarrow> match e = None) \<Longrightarrow> wait_result match (es @ e # fs) =
    (case match e of Some v \<Rightarrow> Some v | None \<Rightarrow> wait_result match fs)"
  unfolding wait_result_first by (induction es) (auto simp: map_filter_simps split: option.split)

section \<open>The relay client of the customer and the provider (oracle.ts)\<close>

record PublishResult =
  pr_successes :: "string list"
  pr_failures :: "(string \<times> string) list"

type_synonym publisher = "Event \<Rightarrow> PublishResult option"

datatype oracle_error = OracleConfigError msg | OracleResponseError msg | OracleTimeoutError jsnum | Oracle_rejected

text \<open>The environment of one bootstrap: the fresh identity, the clock, the deadline and the relay.\<close>

record bootstrap =
  bs_identity :: Keypair
  bs_now :: jsnum
  bs_timeoutMs :: "jsnum option"
  bs_publish :: publisher
  bs_events :: "Event list"

definition match_hash :: "'k nostr \<Rightarrow> secret_key \<Rightarrow> string \<Rightarrow> string \<Rightarrow> Event \<Rightarrow> string option" where
  "match_hash lib secretKey oraclePubkey queryId event =
    (case parseHashResponseEvent lib event secretKey oraclePubkey of
       None \<Rightarrow> None
     | Some payload \<Rightarrow> if hr_query_id payload \<noteq> queryId then None else Some (hr_hash payload))"

text \<open>Construction and \<open>requestHash\<close>; the first component is what was handed to the relay.\<close>

definition nostr_requestHash ::
    "'k nostr \<Rightarrow> (rat \<Rightarrow> string) \<Rightarrow> bootstrap \<Rightarrow> string \<Rightarrow> string \<Rightarrow> Event list \<times> (oracle_error + string)" where
  "nostr_requestHash lib fstr env oraclePubkey queryId =
    (let identity = bs_identity env; timeoutMs = (case bs_timeoutMs env of None \<Rightarrow> 10000 | Some t \<Rightarrow> t)
     in if oraclePubkey = [] then ([], Inl (OracleConfigError (plain ''oraclePubkey must be a non-empty string'')))
        else case buildHashRequestEvent lib fstr (bs_now env) identity oraclePubkey queryId of
               None \<Rightarrow> ([], Inl Oracle_rejected)
             | Some request \<Rightarrow>
               (case bs_publish env request of
                  None \<Rightarrow> ([request], Inl Oracle_rejected)
                | Some published \<Rightarrow>
                  if pr_successes published = []
                  then ([request], Inl (OracleResponseError
                          (T ''no relay accepted the hash bootstrap DM: '' #
                           join_failures (map (\<lambda>f. [T (snd f)]) (pr_failures published)))))
                  else (case wait_result (match_hash lib (kp_secretKey identity) oraclePubkey queryId) (bs_events env) of
                          None \<Rightarrow> ([request], Inl (OracleTimeoutError timeoutMs))
                        | Some hash \<Rightarrow> ([request], Inr hash))))"

section \<open>The responder of the oracle (hash-responder.ts)\<close>

text \<open>The handler up to the awaited \<open>issueHash\<close>: the query asked for and the hash issued before, if any.\<close>

definition responder_begin ::
    "'k nostr \<Rightarrow> Keypair \<Rightarrow> hash_map \<Rightarrow> Event \<Rightarrow> (string \<times> string option) option" where
  "responder_begin lib identity issued event =
    map_option (\<lambda>query_id. (query_id, map_get issued query_id))
      (parseHashRequestEvent lib event (kp_secretKey identity) (ev_pubkey event))"

text \<open>The handler after it; the response is \<open>None\<close> where building it throws.\<close>

definition responder_finish ::
    "'k nostr \<Rightarrow> (rat \<Rightarrow> string) \<Rightarrow> jsnum \<Rightarrow> Keypair \<Rightarrow> Event \<Rightarrow> string \<Rightarrow> string \<Rightarrow> Event option" where
  "responder_finish lib fstr now identity event query_id hash =
    buildHashResponseEvent lib fstr now identity (ev_pubkey event) \<lparr> hr_query_id = query_id, hr_hash = hash \<rparr>"

definition serveHashRequests ::
    "'k nostr \<Rightarrow> (rat \<Rightarrow> string) \<Rightarrow> Keypair \<Rightarrow> (string \<Rightarrow> 's \<Rightarrow> string \<times> 's) \<Rightarrow> jsnum \<Rightarrow> Event \<Rightarrow> hash_map \<times> 's \<Rightarrow>
     Event option \<times> hash_map \<times> 's" where
  "serveHashRequests lib fstr identity issueHash now event st =
    (case st of (issued, s) \<Rightarrow>
      case responder_begin lib identity issued event of
        None \<Rightarrow> (None, st)
      | Some (query_id, Some hash) \<Rightarrow> (responder_finish lib fstr now identity event query_id hash, st)
      | Some (query_id, None) \<Rightarrow>
          (case issueHash query_id s of (hash, s') \<Rightarrow>
            (responder_finish lib fstr now identity event query_id hash, map_set query_id hash issued, s')))"

text \<open>\<open>issueHash\<close> of the oracle service, over the preimage store and its map of hashes.\<close>

definition issueHash ::
    "(bytes \<Rightarrow> bytes) \<Rightarrow> (bytes \<Rightarrow> string) \<Rightarrow> bytes \<Rightarrow> jsnum \<Rightarrow> string \<Rightarrow> preimages \<times> hash_map \<Rightarrow>
     string \<times> preimages \<times> hash_map" where
  "issueHash sha256 bytesToHex raw now queryId st =
    (case issueQueryHash sha256 bytesToHex raw now queryId st of ((hash, _), st') \<Rightarrow> (hash, st'))"

section \<open>Both sides together\<close>

lemma match_hash_own:
  assumes "nostr_ok lib" "kp_publicKey identity = n_publicKey lib (kp_secretKey identity)"
    "responder_finish lib fstr now oracle event q h = Some e" "ev_pubkey event = kp_publicKey identity"
  shows "match_hash lib (kp_secretKey identity) (n_publicKey lib (kp_secretKey oracle)) q e = Some h"
proof -
  have "parseHashResponseEvent lib e (kp_secretKey identity) (n_publicKey lib (kp_secretKey oracle)) =
      Some \<lparr> hr_query_id = q, hr_hash = h \<rparr>"
    using hash_response_read_back [OF assms(1) assms(3) [unfolded responder_finish_def assms(4) assms(2)]] by simp
  then show ?thesis by (simp add: match_hash_def)
qed

lemma responder_begin_own:
  assumes "nostr_ok lib"
    "buildHashRequestEvent lib fstr now identity (n_publicKey lib (kp_secretKey oracle)) q = Some e"
  shows "responder_begin lib oracle issued e = Some (q, map_get issued q)"
    "ev_pubkey e = n_publicKey lib (kp_secretKey identity)"
proof -
  have "ev_pubkey e = n_publicKey lib (kp_secretKey identity)"
    using assms by (auto simp: buildHashRequestEvent_def build_dm_def bind_eq_Some_conv dest: sign_content_event)
  then show "responder_begin lib oracle issued e = Some (q, map_get issued q)"
    "ev_pubkey e = n_publicKey lib (kp_secretKey identity)"
    using hash_request_read_back [OF assms] by (simp_all add: responder_begin_def)
qed

text \<open>The answer to a request and what the responder then remembers.\<close>

lemma serveHashRequests_own:
  assumes "nostr_ok lib"
    "buildHashRequestEvent lib fstr now identity (n_publicKey lib (kp_secretKey oracle)) q = Some e"
    "serveHashRequests lib fstr' oracle issue now' e (issued, s) = (r, issued', s')"
  obtains h where "r = responder_finish lib fstr' now' oracle e q h" "map_get issued' q = Some h"
    "\<And>h'. map_get issued q = Some h' \<Longrightarrow> h = h'"
    "\<And>q'. q' \<noteq> q \<Longrightarrow> map_get issued' q' = map_get issued q'"
  using assms(3) responder_begin_own [OF assms(1,2)]
  by (cases "map_get issued q") (auto simp: serveHashRequests_def map_simps split: prod.splits)

text \<open>A sequence of served requests; nothing issued is forgotten.\<close>

definition serve_run ::
    "'k nostr \<Rightarrow> (rat \<Rightarrow> string) \<Rightarrow> Keypair \<Rightarrow> (string \<Rightarrow> 's \<Rightarrow> string \<times> 's) \<Rightarrow> (jsnum \<times> Event) list \<Rightarrow> hash_map \<times> 's \<Rightarrow> hash_map \<times> 's" where
  "serve_run lib fstr identity issue events st = fold (\<lambda>(now, e) st. snd (serveHashRequests lib fstr identity issue now e st)) events st"

lemma serve_keeps:
  "map_get (fst st) q = Some h \<Longrightarrow> map_get (fst (snd (serveHashRequests lib fstr identity issue now e st))) q = Some h"
  by (cases st) (auto simp: serveHashRequests_def responder_begin_def split: option.splits prod.splits)

lemma serve_run_keeps:
  "map_get issued q = Some h \<Longrightarrow> map_get (fst (serve_run lib fstr identity issue events (issued, s))) q = Some h"
proof (induction events arbitrary: issued s)
  case (Cons ev events)
  obtain now e where ev: "ev = (now, e)" by (cases ev)
  have "map_get (fst (snd (serveHashRequests lib fstr identity issue now e (issued, s)))) q = Some h"
    using Cons.prems by (intro serve_keeps) simp
  with Cons.IH show ?case by (simp add: serve_run_def ev) (metis prod.collapse)
qed (simp add: serve_run_def)

end
