(* ===== verification/Provider_Job.thy ===== *)
theory Provider_Job
  imports Oracle_Client Proof_Verifier
begin

text \<open>
  The provider (\<open>provider.ts\<close>): one job, from a request notice to the redemption of the Payment Lock, and
  the subscription around the jobs.  A job is the list of its calls that leave the provider, in order, and
  how it ended: \<open>None\<close> is an early return or a rejected promise (\<open>serve\<close> drops both), \<open>Some\<close> the value of
  the stage.  The outside world of a job is the record \<open>job_env\<close>; \<open>jv_clock i\<close> is the \<open>i\<close>-th reading of
  the clock.
\<close>

section \<open>Types (provider-types.ts)\<close>

record ProviderSelectionContext =
  pc_schema :: string
  pc_predicate :: jsval
  pc_description :: "string option"
  pc_context :: jsval
  pc_mint :: string
  pc_amountSats :: jsnum
  pc_maxAmountSats :: jsnum
  pc_locktimeSeconds :: jsnum

record ProviderOffer =
  po_amountSats :: jsval
  po_produce :: "ProviderSelectionContext \<Rightarrow> (jsval \<times> proof_data) option"

record 'p ProviderRequestEvent =
  pq_customerPubkey :: string
  pq_schema :: string
  pq_maxAmountSats :: jsnum
  pq_oraclePubkey :: string
  pq_proofGenerator :: "'p option"
  pq_schemaOptions :: "options_map option"

type_synonym 'p ProviderHandler = "'p ProviderRequestEvent \<Rightarrow> ProviderOffer option option"

type_synonym oracle_client = "string \<Rightarrow> Event list \<times> (oracle_error + string)"

record 'p JobContext =
  jc_identity :: Keypair
  jc_oracles :: "string list"
  jc_mintUrl :: string
  jc_stateStore :: bool
  jc_proofGenerators :: "((string \<Rightarrow> bool) \<times> 'p) list"
  jc_schemaOptions :: "options_map option"
  jc_oracleClients :: "(string, oracle_client) jsmap"

record 'k job_env =
  jv_lib :: "'k nostr"
  jv_fstr :: "rat \<Rightarrow> string"
  jv_parse :: url_parser
  jv_clock :: "nat \<Rightarrow> jsnum"
  jv_publish :: publisher
  jv_set :: "string \<Rightarrow> string \<Rightarrow> bool"
  jv_selections :: "Event list"
  jv_bootstrap :: bootstrap
  jv_verifyLock :: "VerifyProviderPaymentLockParams \<Rightarrow> client_error + Proof list \<times> jsnum"
  jv_dms :: "Event list"
  jv_redeem :: "RedeemHtlcParams \<Rightarrow> client_error + Proof list \<times> jsnum"

datatype job_call =
    Publish Event
  | Store_set string string
  | Verify_lock VerifyProviderPaymentLockParams
  | Produce ProviderSelectionContext
  | Redeem RedeemHtlcParams

type_synonym 'a job = "job_call list \<times> 'a option"

fun job_bind :: "'a job \<Rightarrow> ('a \<Rightarrow> 'b job) \<Rightarrow> 'b job" where
  "job_bind (cs, None) f = (cs, None)"
| "job_bind (cs, Some a) f = (case f a of (ds, r) \<Rightarrow> (cs @ ds, r))"

definition pure :: "'a option \<Rightarrow> 'a job" where
  "pure r = ([], r)"

definition require :: "bool \<Rightarrow> unit job" where
  "require c = ([], if c then Some () else None)"

section \<open>The gates before an offer\<close>

definition canOfferForRequest :: "string list \<Rightarrow> string \<Rightarrow> bool" where
  "canOfferForRequest providerOracles requestOraclePubkey = (requestOraclePubkey \<in> set providerOracles)"

definition accept_request ::
    "'p JobContext \<Rightarrow> ('w, 'p, 'v) schema_bundles \<Rightarrow> url_parser \<Rightarrow> Event \<Rightarrow> (QueryRequestPayload \<times> 'p option) option" where
  "accept_request ctx bundles parse event =
    (case parseQueryRequestEvent event of
       None \<Rightarrow> None
     | Some payload \<Rightarrow>
       if \<not> canOfferForRequest (jc_oracles ctx) (qp_oracle_pubkey payload) then None
       else if \<not> isSchemaUri parse (String (qp_schema payload)) then None
       else let proofGenerator = (if jc_proofGenerators ctx = [] then None
                                  else resolveProofGenerator (jc_proofGenerators ctx) bundles (qp_schema payload))
            in if jc_proofGenerators ctx \<noteq> [] \<and> proofGenerator = None then None else Some (payload, proofGenerator))"

text \<open>The handler's offer and its amount.\<close>

definition ask_handler ::
    "'p JobContext \<Rightarrow> 'p ProviderHandler \<Rightarrow> QueryRequestPayload \<Rightarrow> 'p option \<Rightarrow> (ProviderOffer \<times> jsnum) option" where
  "ask_handler ctx handler payload proofGenerator =
    (case handler \<lparr> pq_customerPubkey = qp_customer_pubkey payload, pq_schema = qp_schema payload,
                    pq_maxAmountSats = qp_max_amount_sats payload, pq_oraclePubkey = qp_oracle_pubkey payload,
                    pq_proofGenerator = proofGenerator, pq_schemaOptions = jc_schemaOptions ctx \<rparr> of
       Some (Some offer) \<Rightarrow>
         (case po_amountSats offer of
            Number amount \<Rightarrow>
              if amount \<le> 0 then None else if qp_max_amount_sats payload < amount then None else Some (offer, amount)
          | _ \<Rightarrow> None)
     | _ \<Rightarrow> None)"

section \<open>State records\<close>

datatype ProviderStateStatus = Offer_published | Result_published | Redeemed

fun provider_status_str :: "ProviderStateStatus \<Rightarrow> string" where
  "provider_status_str Offer_published = ''offer_published''"
| "provider_status_str Result_published = ''result_published''"
| "provider_status_str Redeemed = ''redeemed''"

definition providerStateKey :: "string \<Rightarrow> string" where
  "providerStateKey requestEventId = ''provider:'' @ requestEventId"

text \<open>A response event id only appears in the later records.\<close>

definition provider_record ::
    "Event \<Rightarrow> QueryRequestPayload \<Rightarrow> ProviderStateStatus \<Rightarrow> jsnum \<Rightarrow> Event \<Rightarrow> Event option \<Rightarrow> jsnum \<Rightarrow> jsval" where
  "provider_record event payload status amountSats offerEvent responseEvent updatedAt = Object
    ([(''requestEventId'', String (ev_id event)), (''queryId'', String (qp_query_id payload)),
      (''customerPubkey'', String (qp_customer_pubkey payload)), (''schema'', String (qp_schema payload)),
      (''status'', String (provider_status_str status)), (''amountSats'', Number amountSats),
      (''offerEventId'', String (ev_id offerEvent))] @
     (case responseEvent of None \<Rightarrow> [] | Some e \<Rightarrow> [(''responseEventId'', String (ev_id e))]) @
     [(''updatedAt'', Number updatedAt)])"

definition writeProviderState :: "'k job_env \<Rightarrow> 'p JobContext \<Rightarrow> Event \<Rightarrow> jsval \<Rightarrow> unit job" where
  "writeProviderState env ctx event rec =
    (if \<not> jc_stateStore ctx then pure (Some ())
     else let key = providerStateKey (ev_id event); v = jprint (jv_fstr env) rec
          in ([Store_set key v], if jv_set env key v then Some () else None))"

definition publish_event :: "'k job_env \<Rightarrow> Event option \<Rightarrow> Event job" where
  "publish_event env e =
    (case e of
       None \<Rightarrow> ([], None)
     | Some event \<Rightarrow> ([Publish event], if jv_publish env event = None then None else Some event))"

section \<open>Waiting for the customer and the oracle\<close>

definition match_selection ::
    "'k nostr \<Rightarrow> Keypair \<Rightarrow> string \<Rightarrow> Event \<Rightarrow> (string \<times> SelectionExecutionPayload) option" where
  "match_selection lib identity customerPubkey event =
    (if findTagValue (ev_tags event) ''p'' \<noteq> Some (kp_publicKey identity) then None
     else map_option (\<lambda>s. (sf_provider_redemption_token s, sf_execution s))
            (parseSelectionFeedbackEvent lib event (kp_secretKey identity) customerPubkey))"

definition waitForSelection ::
    "'k job_env \<Rightarrow> 'p JobContext \<Rightarrow> string \<Rightarrow> (string \<times> SelectionExecutionPayload) option" where
  "waitForSelection env ctx customerPubkey =
    wait_result (match_selection (jv_lib env) (jc_identity ctx) customerPubkey) (jv_selections env)"

text \<open>Both ids are compared so that a message for another request is not replayed.\<close>

definition match_preimage :: "'k nostr \<Rightarrow> Keypair \<Rightarrow> string \<Rightarrow> string \<Rightarrow> string \<Rightarrow> Event \<Rightarrow> string option" where
  "match_preimage lib identity oraclePubkey queryId requestEventId event =
    (case parsePreimageDeliveryEvent lib event (kp_secretKey identity) oraclePubkey of
       None \<Rightarrow> None
     | Some parsed \<Rightarrow>
       if pd_query_id parsed \<noteq> queryId then None
       else if pd_request_event_id parsed \<noteq> requestEventId then None
       else Some (pd_preimage parsed))"

definition waitForPreimage :: "'k job_env \<Rightarrow> 'p JobContext \<Rightarrow> string \<Rightarrow> string \<Rightarrow> string \<Rightarrow> string option" where
  "waitForPreimage env ctx oraclePubkey queryId requestEventId =
    wait_result (match_preimage (jv_lib env) (jc_identity ctx) oraclePubkey queryId requestEventId) (jv_dms env)"

definition getOracleClient :: "'k job_env \<Rightarrow> 'p JobContext \<Rightarrow> string \<Rightarrow> oracle_client" where
  "getOracleClient env ctx oraclePubkey =
    (case map_get (jc_oracleClients ctx) oraclePubkey of
       Some client \<Rightarrow> client
     | None \<Rightarrow> nostr_requestHash (jv_lib env) (jv_fstr env) (jv_bootstrap env) oraclePubkey)"

section \<open>The job\<close>

definition offer_stage ::
    "'k job_env \<Rightarrow> 'p JobContext \<Rightarrow> Event \<Rightarrow> QueryRequestPayload \<Rightarrow> jsnum \<Rightarrow> Event job" where
  "offer_stage env ctx event payload amountSats =
    job_bind (publish_event env
        (buildOfferFeedbackEvent (jv_lib env) (jv_fstr env) (jv_clock env 0) (jc_identity ctx) (ev_id event)
           (qp_customer_pubkey payload)
           \<lparr> of_provider_pubkey = kp_publicKey (jc_identity ctx), of_amount_sats = amountSats \<rparr>)) (\<lambda>offerEvent.
    job_bind (writeProviderState env ctx event
        (provider_record event payload Offer_published amountSats offerEvent None (jv_clock env 1))) (\<lambda>_.
    pure (Some offerEvent)))"

text \<open>The selection must repeat the request and the offer; then the oracle's hash and the lock are checked.\<close>

definition selection_fits ::
    "'p JobContext \<Rightarrow> QueryRequestPayload \<Rightarrow> jsnum \<Rightarrow> SelectionExecutionPayload \<Rightarrow> bool" where
  "selection_fits ctx payload amountSats execution =
    (se_schema execution = qp_schema payload \<and> num_eq (se_max_amount_sats execution) (qp_max_amount_sats payload) \<and>
     num_eq (se_amount_sats execution) amountSats \<and> se_mint_url execution = jc_mintUrl ctx)"

definition lock_params ::
    "'p JobContext \<Rightarrow> QueryRequestPayload \<Rightarrow> jsnum \<Rightarrow> string \<Rightarrow> string \<Rightarrow> SelectionExecutionPayload \<Rightarrow>
     VerifyProviderPaymentLockParams" where
  "lock_params ctx payload amountSats hash token execution =
    \<lparr> vp_token = token, vp_amountSats = amountSats, vp_hashHex = hash, vp_providerPubkey = kp_publicKey (jc_identity ctx),
      vp_customerPubkey = qp_customer_pubkey payload, vp_locktimeSeconds = se_locktime_seconds execution \<rparr>"

definition lock_stage ::
    "'k job_env \<Rightarrow> 'p JobContext \<Rightarrow> QueryRequestPayload \<Rightarrow> jsnum \<Rightarrow> string \<times> SelectionExecutionPayload \<Rightarrow> unit job" where
  "lock_stage env ctx payload amountSats selection =
    job_bind (require (selection_fits ctx payload amountSats (snd selection))) (\<lambda>_.
    case getOracleClient env ctx (qp_oracle_pubkey payload) (qp_query_id payload) of
      (sent, Inl _) \<Rightarrow> (map Publish sent, None)
    | (sent, Inr hash) \<Rightarrow>
        let params = lock_params ctx payload amountSats hash (fst selection) (snd selection)
        in (map Publish sent @ [Verify_lock params],
            case jv_verifyLock env params of Inl _ \<Rightarrow> None | Inr _ \<Rightarrow> Some ()))"

definition selection_context :: "SelectionExecutionPayload \<Rightarrow> ProviderSelectionContext" where
  "selection_context e =
    \<lparr> pc_schema = se_schema e, pc_predicate = se_predicate e, pc_description = se_description e,
      pc_context = se_context e, pc_mint = se_mint_url e, pc_amountSats = se_amount_sats e,
      pc_maxAmountSats = se_max_amount_sats e, pc_locktimeSeconds = se_locktime_seconds e \<rparr>"

definition result_stage ::
    "'k job_env \<Rightarrow> 'p JobContext \<Rightarrow> Event \<Rightarrow> QueryRequestPayload \<Rightarrow> ProviderOffer \<Rightarrow> jsnum \<Rightarrow> Event \<Rightarrow>
     SelectionExecutionPayload \<Rightarrow> Event job" where
  "result_stage env ctx event payload offer amountSats offerEvent execution =
    job_bind ([Produce (selection_context execution)], po_produce offer (selection_context execution)) (\<lambda>(data, proof).
    job_bind (publish_event env
        (buildQueryResponseEvent (jv_lib env) (jv_fstr env) (jv_clock env 2) (jc_identity ctx) (ev_id event)
           (qp_customer_pubkey payload) (qp_schema payload) data proof (Some (qp_oracle_pubkey payload))
           (Some (qp_query_id payload)))) (\<lambda>responseEvent.
    job_bind (writeProviderState env ctx event
        (provider_record event payload Result_published amountSats offerEvent (Some responseEvent) (jv_clock env 3))) (\<lambda>_.
    pure (Some responseEvent))))"

definition redeem_stage ::
    "'k job_env \<Rightarrow> 'p JobContext \<Rightarrow> Event \<Rightarrow> QueryRequestPayload \<Rightarrow> jsnum \<Rightarrow> Event \<Rightarrow> Event \<Rightarrow> string \<Rightarrow> string \<Rightarrow> unit job" where
  "redeem_stage env ctx event payload amountSats offerEvent responseEvent token preimage =
    (let p = \<lparr> rh_token = token, rh_preimageHex = preimage, rh_providerSecretKey = kp_secretKey (jc_identity ctx) \<rparr>
     in job_bind ([Redeem p], case jv_redeem env p of Inl _ \<Rightarrow> None | Inr _ \<Rightarrow> Some ()) (\<lambda>_.
        writeProviderState env ctx event
          (provider_record event payload Redeemed amountSats offerEvent (Some responseEvent) (jv_clock env 4))))"

definition handleJob ::
    "'k job_env \<Rightarrow> 'p JobContext \<Rightarrow> ('w, 'p, 'v) schema_bundles \<Rightarrow> 'p ProviderHandler \<Rightarrow> Event \<Rightarrow> unit job" where
  "handleJob env ctx bundles handler event =
    job_bind (pure (accept_request ctx bundles (jv_parse env) event)) (\<lambda>(payload, proofGenerator).
    job_bind (pure (ask_handler ctx handler payload proofGenerator)) (\<lambda>(offer, amountSats).
    job_bind (offer_stage env ctx event payload amountSats) (\<lambda>offerEvent.
    job_bind (pure (waitForSelection env ctx (qp_customer_pubkey payload))) (\<lambda>selection.
    job_bind (lock_stage env ctx payload amountSats selection) (\<lambda>_.
    job_bind (result_stage env ctx event payload offer amountSats offerEvent (snd selection)) (\<lambda>responseEvent.
    job_bind (pure (waitForPreimage env ctx (qp_oracle_pubkey payload) (qp_query_id payload) (ev_id event))) (\<lambda>preimage.
    redeem_stage env ctx event payload amountSats offerEvent responseEvent (fst selection) preimage)))))))"

section \<open>Serving\<close>

text \<open>The subscriptions of a provider: the open ones, and the one \<open>state.stop\<close> closes.\<close>

record provider_state =
  pv_open :: "nat list"
  pv_stop :: "nat option"
  pv_next :: nat

definition serve_filter :: "string option \<Rightarrow> nat list \<times> string list option" where
  "serve_filter regionCode =
    ([5300], case regionCode of Some code \<Rightarrow> if code \<noteq> [] then Some [to_upper code] else None | None \<Rightarrow> None)"

definition serve :: "provider_state \<Rightarrow> provider_state" where
  "serve st = \<lparr> pv_open = pv_open st @ [pv_next st], pv_stop = Some (pv_next st), pv_next = Suc (pv_next st) \<rparr>"

text \<open>The result lists the calls of \<open>serve\<close> whose promise resolves.\<close>

definition stop_serving :: "provider_state \<Rightarrow> nat list \<times> provider_state" where
  "stop_serving st =
    (case pv_stop st of
       None \<Rightarrow> ([], st)
     | Some sub \<Rightarrow> ([sub], st\<lparr> pv_open := removeAll sub (pv_open st), pv_stop := None \<rparr>))"

section \<open>Sequences of calls\<close>

lemma job_bind_unfold:
  "fst (job_bind m f) = fst m @ (case snd m of None \<Rightarrow> [] | Some a \<Rightarrow> fst (f a))"
  "snd (job_bind m f) = Option.bind (snd m) (\<lambda>a. snd (f a))"
  by (cases m; cases "snd m"; simp split: prod.split)+

lemma job_bind_mem:
  "c \<in> set (fst (job_bind m f)) \<longleftrightarrow> c \<in> set (fst m) \<or> (\<exists>a. snd m = Some a \<and> c \<in> set (fst (f a)))"
  by (auto simp: job_bind_unfold split: option.splits)

lemma job_simple [simp]: "fst (pure r) = []" "snd (pure r) = r" "fst (require c) = []" "snd (require c) = Some u \<longleftrightarrow> c"
  by (simp_all add: pure_def require_def)

lemma split_at_only:
  assumes "xs @ x # ys = as @ a # bs" "P x" "\<forall>z \<in> set as \<union> set bs. \<not> P z"
  shows "xs = as \<and> x = a \<and> ys = bs"
  using assms
proof (induction xs arbitrary: as)
  case Nil
  then show ?case by (cases as) auto
next
  case (Cons z xs)
  then show ?case by (cases as) auto
qed

fun is_produce :: "job_call \<Rightarrow> bool" where
  "is_produce (Produce _) = True"
| "is_produce _ = False"

fun is_redeem :: "job_call \<Rightarrow> bool" where
  "is_redeem (Redeem _) = True"
| "is_redeem _ = False"

lemma quiet_calls:
  "c \<in> set (fst (publish_event env e)) \<Longrightarrow> \<not> is_produce c \<and> \<not> is_redeem c"
  "c \<in> set (fst (writeProviderState env ctx event r)) \<Longrightarrow> \<not> is_produce c \<and> \<not> is_redeem c"
  "c \<in> set (fst (offer_stage env ctx event payload amount)) \<Longrightarrow> \<not> is_produce c \<and> \<not> is_redeem c"
  "c \<in> set (fst (lock_stage env ctx payload amount s)) \<Longrightarrow> \<not> is_produce c \<and> \<not> is_redeem c"
proof -
  show p: "c \<in> set (fst (publish_event env e)) \<Longrightarrow> \<not> is_produce c \<and> \<not> is_redeem c" for e
    by (auto simp: publish_event_def split: option.splits)
  show w: "c \<in> set (fst (writeProviderState env ctx event r)) \<Longrightarrow> \<not> is_produce c \<and> \<not> is_redeem c" for event r
    by (auto simp: writeProviderState_def Let_def split: if_splits)
  show "c \<in> set (fst (offer_stage env ctx event payload amount)) \<Longrightarrow> \<not> is_produce c \<and> \<not> is_redeem c"
    using p w by (auto simp: offer_stage_def job_bind_mem)
  show "c \<in> set (fst (lock_stage env ctx payload amount s)) \<Longrightarrow> \<not> is_produce c \<and> \<not> is_redeem c"
    by (auto simp: lock_stage_def job_bind_mem Let_def split: prod.splits sum.splits)
qed

text \<open>The calls of the later stages: one \<open>Produce\<close> in front, one \<open>Redeem\<close> in front.\<close>

lemma result_stage_calls:
  "\<exists>cs. fst (result_stage env ctx event payload offer amount offerEvent e) = Produce (selection_context e) # cs \<and>
     (\<forall>c \<in> set cs. \<not> is_produce c \<and> \<not> is_redeem c)"
proof -
  have "fst (result_stage env ctx event payload offer amount offerEvent e) =
      Produce (selection_context e) # tl (fst (result_stage env ctx event payload offer amount offerEvent e))"
    by (simp add: result_stage_def job_bind_unfold)
  moreover have "\<forall>c \<in> set (tl (fst (result_stage env ctx event payload offer amount offerEvent e))). \<not> is_produce c \<and> \<not> is_redeem c"
    by (auto simp: result_stage_def job_bind_unfold split: option.splits dest: quiet_calls)
  ultimately show ?thesis by blast
qed

lemma redeem_stage_calls:
  "\<exists>cs. fst (redeem_stage env ctx event payload amount offerEvent responseEvent token preimage) =
     Redeem \<lparr> rh_token = token, rh_preimageHex = preimage, rh_providerSecretKey = kp_secretKey (jc_identity ctx) \<rparr> # cs \<and>
     (\<forall>c \<in> set cs. \<not> is_produce c \<and> \<not> is_redeem c)"
  by (auto simp: redeem_stage_def job_bind_unfold Let_def split: option.splits dest: quiet_calls)

text \<open>What has happened when a job produces its result.\<close>

definition job_reached ::
    "'k job_env \<Rightarrow> 'p JobContext \<Rightarrow> ('w, 'p, 'v) schema_bundles \<Rightarrow> 'p ProviderHandler \<Rightarrow> Event \<Rightarrow> QueryRequestPayload \<Rightarrow>
     ProviderOffer \<Rightarrow> jsnum \<Rightarrow> Event \<Rightarrow> string \<times> SelectionExecutionPayload \<Rightarrow> bool" where
  "job_reached env ctx bundles handler event payload offer amount offerEvent selection =
    (\<exists>gen. accept_request ctx bundles (jv_parse env) event = Some (payload, gen) \<and>
       ask_handler ctx handler payload gen = Some (offer, amount) \<and>
       snd (offer_stage env ctx event payload amount) = Some offerEvent \<and>
       waitForSelection env ctx (qp_customer_pubkey payload) = Some selection \<and>
       snd (lock_stage env ctx payload amount selection) = Some ())"

definition after_result ::
    "'k job_env \<Rightarrow> 'p JobContext \<Rightarrow> Event \<Rightarrow> QueryRequestPayload \<Rightarrow> jsnum \<Rightarrow> Event \<Rightarrow> string \<Rightarrow> Event \<Rightarrow> unit job" where
  "after_result env ctx event payload amount offerEvent token responseEvent =
    job_bind (pure (waitForPreimage env ctx (qp_oracle_pubkey payload) (qp_query_id payload) (ev_id event)))
      (redeem_stage env ctx event payload amount offerEvent responseEvent token)"

lemma handleJob_reached:
  assumes "job_reached env ctx bundles handler event payload offer amount offerEvent selection"
  shows "handleJob env ctx bundles handler event =
    job_bind (fst (offer_stage env ctx event payload amount) @ fst (lock_stage env ctx payload amount selection), Some ()) (\<lambda>_.
    job_bind (result_stage env ctx event payload offer amount offerEvent (snd selection))
      (after_result env ctx event payload amount offerEvent (fst selection)))"
  using assms by (auto intro!: prod_eqI simp: job_reached_def handleJob_def after_result_def [abs_def] job_bind_unfold
      simp del: job_bind.simps)

lemma handleJob_produces:
  assumes "c \<in> set (fst (handleJob env ctx bundles handler event))" "is_produce c \<or> is_redeem c"
  obtains payload offer amount offerEvent selection where
    "job_reached env ctx bundles handler event payload offer amount offerEvent selection"
  using assms by (auto simp: handleJob_def job_bind_mem job_reached_def dest: quiet_calls)

lemma after_result_calls:
  "fst (after_result env ctx event payload amount offerEvent token responseEvent) = [] \<or>
   (\<exists>preimage cs. waitForPreimage env ctx (qp_oracle_pubkey payload) (qp_query_id payload) (ev_id event) = Some preimage \<and>
     fst (after_result env ctx event payload amount offerEvent token responseEvent) =
       Redeem \<lparr> rh_token = token, rh_preimageHex = preimage, rh_providerSecretKey = kp_secretKey (jc_identity ctx) \<rparr> # cs \<and>
     (\<forall>c \<in> set cs. \<not> is_produce c \<and> \<not> is_redeem c))"
  using redeem_stage_calls [of env ctx event payload amount offerEvent responseEvent token]
  by (cases "waitForPreimage env ctx (qp_oracle_pubkey payload) (qp_query_id payload) (ev_id event)")
    (auto simp: after_result_def job_bind_unfold)

text \<open>The calls of a job around its \<open>Produce\<close> and its \<open>Redeem\<close>.\<close>

lemma job_around_produce:
  assumes "fst (handleJob env ctx bundles handler event) = xs @ Produce c # ys"
  obtains payload offer amount offerEvent selection where
    "job_reached env ctx bundles handler event payload offer amount offerEvent selection"
    "c = selection_context (snd selection)"
    "xs = fst (offer_stage env ctx event payload amount) @ fst (lock_stage env ctx payload amount selection)"
    "\<forall>z \<in> set ys. \<not> is_produce z"
proof -
  have "Produce c \<in> set (fst (handleJob env ctx bundles handler event))" by (simp add: assms)
  then obtain payload offer amount offerEvent selection where
    r: "job_reached env ctx bundles handler event payload offer amount offerEvent selection"
    using handleJob_produces by (metis is_produce.simps(1))
  let ?pre = "fst (offer_stage env ctx event payload amount) @ fst (lock_stage env ctx payload amount selection)"
  obtain cs where cs: "fst (result_stage env ctx event payload offer amount offerEvent (snd selection)) =
      Produce (selection_context (snd selection)) # cs" "\<forall>c \<in> set cs. \<not> is_produce c \<and> \<not> is_redeem c"
    using result_stage_calls by metis
  obtain ds where ds: "fst (handleJob env ctx bundles handler event) =
      ?pre @ Produce (selection_context (snd selection)) # cs @ ds" "\<forall>z \<in> set ds. \<not> is_produce z"
  proof (cases "snd (result_stage env ctx event payload offer amount offerEvent (snd selection))")
    case (Some responseEvent)
    have "\<forall>z \<in> set (fst (after_result env ctx event payload amount offerEvent (fst selection) responseEvent)). \<not> is_produce z"
      using after_result_calls [of env ctx event payload amount offerEvent "fst selection" responseEvent] by auto
    with Some cs(1) show ?thesis
      by (intro that) (auto simp: handleJob_reached [OF r] job_bind_unfold simp del: job_bind.simps)
  qed (use cs(1) in \<open>auto intro!: that [of "[]"] simp: handleJob_reached [OF r] job_bind_unfold simp del: job_bind.simps\<close>)
  have "\<forall>z \<in> set ?pre \<union> set (cs @ ds). \<not> is_produce z"
    using cs(2) ds(2) by (auto dest: quiet_calls)
  from split_at_only [OF trans [OF assms [symmetric] ds(1)] _ this]
  have "xs = ?pre" "c = selection_context (snd selection)" "ys = cs @ ds" by simp_all
  with r cs(2) ds(2) show ?thesis by (intro that) auto
qed

lemma job_around_redeem:
  assumes "fst (handleJob env ctx bundles handler event) = xs @ Redeem p # ys"
  obtains payload offer amount offerEvent selection preimage where
    "job_reached env ctx bundles handler event payload offer amount offerEvent selection"
    "waitForPreimage env ctx (qp_oracle_pubkey payload) (qp_query_id payload) (ev_id event) = Some preimage"
    "p = \<lparr> rh_token = fst selection, rh_preimageHex = preimage, rh_providerSecretKey = kp_secretKey (jc_identity ctx) \<rparr>"
    "Produce (selection_context (snd selection)) \<in> set xs"
    "set (fst (lock_stage env ctx payload amount selection)) \<subseteq> set xs"
    "\<forall>z \<in> set xs \<union> set ys. \<not> is_redeem z"
proof -
  have mem: "Redeem p \<in> set (fst (handleJob env ctx bundles handler event))" by (simp add: assms)
  then obtain payload offer amount offerEvent selection where
    r: "job_reached env ctx bundles handler event payload offer amount offerEvent selection"
    using handleJob_produces by (metis is_redeem.simps(1))
  let ?pre = "fst (offer_stage env ctx event payload amount) @ fst (lock_stage env ctx payload amount selection)"
  obtain cs where cs: "fst (result_stage env ctx event payload offer amount offerEvent (snd selection)) =
      Produce (selection_context (snd selection)) # cs" "\<forall>c \<in> set cs. \<not> is_produce c \<and> \<not> is_redeem c"
    using result_stage_calls by metis
  note job = handleJob_reached [OF r]
  obtain responseEvent where res:
    "snd (result_stage env ctx event payload offer amount offerEvent (snd selection)) = Some responseEvent"
    using mem cs by (auto simp: job job_bind_mem dest: quiet_calls simp del: job_bind.simps)
  have "fst (after_result env ctx event payload amount offerEvent (fst selection) responseEvent) \<noteq> []"
    using mem cs by (auto simp: job job_bind_mem res dest: quiet_calls simp del: job_bind.simps)
  then obtain preimage ds where ds:
    "waitForPreimage env ctx (qp_oracle_pubkey payload) (qp_query_id payload) (ev_id event) = Some preimage"
    "fst (after_result env ctx event payload amount offerEvent (fst selection) responseEvent) =
       Redeem \<lparr> rh_token = fst selection, rh_preimageHex = preimage, rh_providerSecretKey = kp_secretKey (jc_identity ctx) \<rparr> # ds"
    "\<forall>c \<in> set ds. \<not> is_produce c \<and> \<not> is_redeem c"
    using after_result_calls [of env ctx event payload amount offerEvent "fst selection" responseEvent] by auto
  have eq: "fst (handleJob env ctx bundles handler event) = (?pre @ Produce (selection_context (snd selection)) # cs) @
      Redeem \<lparr> rh_token = fst selection, rh_preimageHex = preimage, rh_providerSecretKey = kp_secretKey (jc_identity ctx) \<rparr> # ds"
    using cs(1) ds(2) by (simp add: job job_bind_unfold res del: job_bind.simps)
  have no: "\<forall>z \<in> set (?pre @ Produce (selection_context (snd selection)) # cs) \<union> set ds. \<not> is_redeem z"
    using cs(2) ds(3) by (auto dest: quiet_calls)
  have "xs = ?pre @ Produce (selection_context (snd selection)) # cs" "ys = ds"
    "p = \<lparr> rh_token = fst selection, rh_preimageHex = preimage, rh_providerSecretKey = kp_secretKey (jc_identity ctx) \<rparr>"
    using split_at_only [OF trans [OF assms [symmetric] eq] _ no] by simp_all
  with r ds(1) no show ?thesis by (intro that) auto
qed

lemma ask_handler_Some:
  "ask_handler ctx handler payload gen = Some (offer, amount) \<Longrightarrow>
    po_amountSats offer = Number amount \<and> \<not> amount \<le> 0 \<and> \<not> qp_max_amount_sats payload < amount"
  by (auto simp: ask_handler_def split: option.splits jsval.splits if_splits)

lemma accept_request_Some:
  "accept_request ctx bundles parse event = Some (payload, gen) \<Longrightarrow>
    parseQueryRequestEvent event = Some payload \<and> qp_oracle_pubkey payload \<in> set (jc_oracles ctx) \<and>
    isSchemaUri parse (String (qp_schema payload))"
  by (auto simp: accept_request_def canOfferForRequest_def Let_def split: option.splits if_splits)

lemma lock_stage_Some:
  assumes "snd (lock_stage env ctx payload amount selection) = Some ()"
  obtains hash r where "selection_fits ctx payload amount (snd selection)"
    "snd (getOracleClient env ctx (qp_oracle_pubkey payload) (qp_query_id payload)) = Inr hash"
    "jv_verifyLock env (lock_params ctx payload amount hash (fst selection) (snd selection)) = Inr r"
    "Verify_lock (lock_params ctx payload amount hash (fst selection) (snd selection)) \<in>
       set (fst (lock_stage env ctx payload amount selection))"
  using assms by (auto simp: lock_stage_def job_bind_unfold require_def Let_def bind_eq_Some_conv split: prod.splits sum.splits if_splits)

section \<open>What the provider relies on\<close>

text \<open>The contract of a payment adapter: a lock it accepts is locked as the parameters say, for their amount.\<close>

locale payment_lock =
  fixes check :: "VerifyProviderPaymentLockParams \<Rightarrow> client_error + Proof list \<times> jsnum"
    and locked :: "VerifyProviderPaymentLockParams \<Rightarrow> Proof list \<Rightarrow> bool"
  assumes checked: "check p = Inr (ps, a) \<Longrightarrow> locked p ps \<and> num_eq a (vp_amountSats p)"
begin

lemma produced_locked:
  assumes "jv_verifyLock env = check" "fst (handleJob env ctx bundles handler event) = xs @ Produce c # ys"
  shows "\<exists>payload hash params proofs. parseQueryRequestEvent event = Some payload \<and>
      qp_oracle_pubkey payload \<in> set (jc_oracles ctx) \<and>
      snd (getOracleClient env ctx (qp_oracle_pubkey payload) (qp_query_id payload)) = Inr hash \<and>
      Verify_lock params \<in> set xs \<and> locked params proofs \<and> vp_hashHex params = hash \<and>
      vp_providerPubkey params = kp_publicKey (jc_identity ctx) \<and> vp_customerPubkey params = qp_customer_pubkey payload \<and>
      vp_locktimeSeconds params = pc_locktimeSeconds c \<and> num_eq (pc_amountSats c) (vp_amountSats params) \<and>
      \<not> vp_amountSats params \<le> 0 \<and> \<not> qp_max_amount_sats payload < vp_amountSats params \<and>
      pc_schema c = qp_schema payload \<and> pc_mint c = jc_mintUrl ctx"
  using assms(2)
proof (rule job_around_produce)
  fix payload offer amount offerEvent selection
  assume r: "job_reached env ctx bundles handler event payload offer amount offerEvent selection"
    and c: "c = selection_context (snd selection)"
    and xs: "xs = fst (offer_stage env ctx event payload amount) @ fst (lock_stage env ctx payload amount selection)"
  obtain gen where acc: "accept_request ctx bundles (jv_parse env) event = Some (payload, gen)"
    and ask: "ask_handler ctx handler payload gen = Some (offer, amount)"
    and lock: "snd (lock_stage env ctx payload amount selection) = Some ()"
    using r by (auto simp: job_reached_def)
  obtain hash res where h: "selection_fits ctx payload amount (snd selection)"
    "snd (getOracleClient env ctx (qp_oracle_pubkey payload) (qp_query_id payload)) = Inr hash"
    "jv_verifyLock env (lock_params ctx payload amount hash (fst selection) (snd selection)) = Inr res"
    "Verify_lock (lock_params ctx payload amount hash (fst selection) (snd selection)) \<in>
       set (fst (lock_stage env ctx payload amount selection))"
    using lock by (rule lock_stage_Some)
  have "locked (lock_params ctx payload amount hash (fst selection) (snd selection)) (fst res)"
    using h(3) checked [of _ "fst res" "snd res"] by (simp add: assms(1))
  with h acc ask show ?thesis
    by (intro exI [of _ payload] exI [of _ hash] exI [of _ "fst res"]
        exI [of _ "lock_params ctx payload amount hash (fst selection) (snd selection)"])
      (auto simp: xs c lock_params_def selection_context_def selection_fits_def num_eq_def
        dest!: accept_request_Some ask_handler_Some)
qed

end

interpretation cashu_lock: payment_lock "\<lambda>p. fst (verifyProviderPaymentLock lib wallet loads now p client)"
  "\<lambda>p ps. payment_lock_ok (ca_numStr lib) now p (rw_getFeesForProofs (cw_redeem wallet) ps) ps \<and>
     (\<forall>proof \<in> set ps. mint_signed lib wallet proof) \<and> all_unspent wallet ps"
  for lib :: "'opt cashu_api" and wallet loads now client
  by unfold_locales (auto simp: verifyProviderPaymentLock_Inr payment_lock_ok_def)

end
