(* ===== verification/Customer_Request.thy ===== *)
theory Customer_Request
  imports Oracle_Client Proof_Verifier
begin

text \<open>
  The customer (\<open>customer.ts\<close>): one call of \<open>request\<close>, from the checks on its options to the returned
  result.  A request is the list of its calls that leave the customer, in order, and how it ended: \<open>Inl\<close> is
  the error it throws together with the recovery material attached to it, \<open>Inr\<close> the value of the stage.  The
  outside world of one request is the record \<open>customer_env\<close>; \<open>cv_clock i\<close> is the \<open>i\<close>-th reading of the clock.
\<close>

section \<open>Types (customer-types.ts)\<close>

record Offer =
  ff_providerPubkey :: string
  ff_amountSats :: jsnum
  ff_offerEventId :: string
  ff_receivedAt :: jsnum

record RequestOptions =
  ro_schema :: string
  ro_predicate :: jsval
  ro_description :: "string option"
  ro_context :: jsval
  ro_maxAmount :: jsnum
  ro_locktimeSeconds :: "jsnum option"
  ro_fundingProofs :: jsval
  ro_onPaymentChange :: "(Proof list \<Rightarrow> bool) option"
  ro_provider :: "string option"
  ro_regionCode :: "string option"

record RequestResult =
  rr_data :: jsval
  rr_proof :: string
  rr_providerPubkey :: string
  rr_schema :: string
  rr_paymentChangeProofs :: "Proof list option"
  rr_paymentLockProofs :: "Proof list"
  rr_paymentLockToken :: string
  rr_paymentLockRefundSecretKey :: bytes

type_synonym verify_fn = "string \<Rightarrow> jsval \<Rightarrow> jsval \<Rightarrow> jsval \<Rightarrow> bool option"

type_synonym hash_client = "string \<Rightarrow> Event list \<times> (oracle_error + string)"

record CustomerOptions =
  co_oracles :: "(string \<times> hash_client option) list"
  co_mint :: string
  co_stateStore :: bool
  co_oracleSelector :: "(string list \<Rightarrow> string option) option"
  co_offerSelector :: "(Offer list \<Rightarrow> Offer option option) option"
  co_offerWindowMs :: "jsnum option"
  co_resultTimeoutMs :: "jsnum option"
  co_verifierAdapters :: "((string \<Rightarrow> bool) \<times> verify_fn) list"
  co_schemaOptions :: "options_map option"

record 'k customer_env =
  cv_lib :: "'k nostr"
  cv_fstr :: "rat \<Rightarrow> string"
  cv_parse :: url_parser
  cv_clock :: "nat \<Rightarrow> jsnum"
  cv_identity :: Keypair
  cv_queryId :: string
  cv_bootstrap :: bootstrap
  cv_publish :: publisher
  cv_set :: "string \<Rightarrow> string \<Rightarrow> bool"
  cv_offers :: "(jsnum \<times> Event) list"
  cv_bind :: "BindProviderParams \<Rightarrow> client_error + CashuToken"
  cv_results :: "Event list"

datatype customer_error =
    InvalidSchemaUriError string
  | CustomerConfigError msg
  | RelayPublishError PublishResult
  | NoOffersReceivedError jsnum nat
  | ResultTimeoutError jsnum string
  | SchemaVerificationError string
  | Hash_error oracle_error
  | Payment_error client_error
  | Rejected

record recovery =
  rc_paymentChangeProofs :: "Proof list option"
  rc_paymentLockProofs :: "Proof list"
  rc_paymentLockToken :: string
  rc_paymentLockRefundSecretKey :: bytes

datatype customer_call =
    Send Event
  | Save string string
  | Bind BindProviderParams
  | Report_change "Proof list"

type_synonym 'a run = "customer_call list \<times> (customer_error + 'a)"

fun run_bind :: "'a run \<Rightarrow> ('a \<Rightarrow> 'b run) \<Rightarrow> 'b run" where
  "run_bind (cs, Inl e) f = (cs, Inl e)"
| "run_bind (cs, Inr a) f = (case f a of (ds, r) \<Rightarrow> (cs @ ds, r))"

definition result_of :: "customer_error + 'a \<Rightarrow> 'a run" where
  "result_of r = ([], r)"

section \<open>Constants and selection\<close>

definition DEFAULT_OFFER_WINDOW_MS :: jsnum where "DEFAULT_OFFER_WINDOW_MS = 30000"
definition DEFAULT_LOCKTIME_SECONDS :: jsnum where "DEFAULT_LOCKTIME_SECONDS = 3600"
definition DEFAULT_RESULT_TIMEOUT_MS :: jsnum where "DEFAULT_RESULT_TIMEOUT_MS = 300000"

definition MIN_PAYMENT_LOCK_DURATION_SECONDS :: jsnum where
  "MIN_PAYMENT_LOCK_DURATION_SECONDS = 600"

definition MIN_CUSTOMER_PAYMENT_LOCK_DURATION_SECONDS :: jsnum where
  "MIN_CUSTOMER_PAYMENT_LOCK_DURATION_SECONDS = MIN_PAYMENT_LOCK_DURATION_SECONDS + 60"

text \<open>\<open>reduce\<close> keeps the earlier of two equal offers.\<close>

definition selectCheapestOffer :: "Offer list \<Rightarrow> Offer option" where
  "selectCheapestOffer offers =
    (case offers of
       [] \<Rightarrow> None
     | q # qs \<Rightarrow> Some (foldl (\<lambda>min q. if ff_amountSats q < ff_amountSats min then q else min) q qs))"

definition isValidOfferAmount :: "jsnum \<Rightarrow> bool" where
  "isValidOfferAmount amountSats = (is_finite amountSats \<and> is_integer amountSats \<and> 0 < amountSats)"

text \<open>\<open>None\<close>: the error for an empty whitelist.\<close>

definition pickOracleForRequest :: "string list \<Rightarrow> string option" where
  "pickOracleForRequest oracles = hd_opt oracles"

definition findCustomerOracle ::
    "(string \<times> hash_client option) list \<Rightarrow> string \<Rightarrow> (string \<times> hash_client option) option" where
  "findCustomerOracle oracles pubkey = find (\<lambda>entry. fst entry = pubkey) oracles"

section \<open>State records\<close>

datatype CustomerStateStatus = Request_published | Customer_provider_selected | Result_received

fun customer_status_str :: "CustomerStateStatus \<Rightarrow> string" where
  "customer_status_str Request_published = ''request_published''"
| "customer_status_str Customer_provider_selected = ''provider_selected''"
| "customer_status_str Result_received = ''result_received''"

definition customerStateKey :: "string \<Rightarrow> string" where
  "customerStateKey queryId = ''customer:'' @ queryId"

definition customer_record ::
    "string \<Rightarrow> Event \<Rightarrow> string \<Rightarrow> CustomerStateStatus \<Rightarrow> Offer option \<Rightarrow> jsnum \<Rightarrow> jsval" where
  "customer_record queryId requestEvent schema status selected updatedAt = Object
    ([(''queryId'', String queryId), (''requestEventId'', String (ev_id requestEvent)), (''schema'', String schema),
      (''status'', String (customer_status_str status))] @
     (case selected of
        None \<Rightarrow> []
      | Some o' \<Rightarrow> [(''providerPubkey'', String (ff_providerPubkey o')), (''offerEventId'', String (ff_offerEventId o'))]) @
     [(''updatedAt'', Number updatedAt)])"

definition writeCustomerState :: "'k customer_env \<Rightarrow> CustomerOptions \<Rightarrow> jsval \<Rightarrow> unit run" where
  "writeCustomerState env opts rec =
    (if \<not> co_stateStore opts then result_of (Inr ())
     else let key = customerStateKey (cv_queryId env); v = jprint (cv_fstr env) rec
          in ([Save key v], if cv_set env key v then Inr () else Inl Rejected))"

text \<open>Publishing: \<open>None\<close> is an event that could not be built.\<close>

definition send_event :: "'k customer_env \<Rightarrow> Event option \<Rightarrow> (Event \<times> PublishResult) run" where
  "send_event env e =
    (case e of
       None \<Rightarrow> ([], Inl Rejected)
     | Some event \<Rightarrow>
       ([Send event], case cv_publish env event of None \<Rightarrow> Inl Rejected | Some r \<Rightarrow> Inr (event, r)))"

section \<open>Before the payment\<close>

text \<open>The checks on the options; the value is the duration of the lock.\<close>

definition request_checks :: "url_parser \<Rightarrow> RequestOptions \<Rightarrow> customer_error + jsnum" where
  "request_checks parse req =
    (let locktimeDurationSeconds = (case ro_locktimeSeconds req of None \<Rightarrow> DEFAULT_LOCKTIME_SECONDS | Some d \<Rightarrow> d)
     in if \<not> isSchemaUri parse (String (ro_schema req)) then Inl (InvalidSchemaUriError (ro_schema req))
        else if \<not> is_finite (ro_maxAmount req) \<or> \<not> is_integer (ro_maxAmount req) \<or> ro_maxAmount req \<le> 0
        then Inl (CustomerConfigError (plain ''payment.maxAmount must be a positive integer''))
        else if (case ro_fundingProofs req of Array _ \<Rightarrow> False | _ \<Rightarrow> True)
        then Inl (CustomerConfigError (plain ''fundingProofs must be an array of Cashu proofs''))
        else if \<not> is_finite locktimeDurationSeconds \<or> \<not> is_integer locktimeDurationSeconds \<or>
                locktimeDurationSeconds < MIN_CUSTOMER_PAYMENT_LOCK_DURATION_SECONDS
        then Inl (CustomerConfigError [T ''payment.locktimeSeconds must be an integer >= '',
                                       N MIN_CUSTOMER_PAYMENT_LOCK_DURATION_SECONDS])
        else Inr locktimeDurationSeconds)"

definition choose_oracle :: "CustomerOptions \<Rightarrow> customer_error + string \<times> hash_client option" where
  "choose_oracle opts =
    (let oraclePubkeys = map fst (co_oracles opts)
     in case (case co_oracleSelector opts of
                Some select \<Rightarrow> (case select oraclePubkeys of None \<Rightarrow> Inl Rejected | Some pk \<Rightarrow> Inr pk)
              | None \<Rightarrow> (case pickOracleForRequest oraclePubkeys of
                           None \<Rightarrow> Inl (CustomerConfigError (plain ''oracles whitelist is empty''))
                         | Some pk \<Rightarrow> Inr pk)) of
          Inl e \<Rightarrow> Inl e
        | Inr expectedOracle \<Rightarrow>
          (case findCustomerOracle (co_oracles opts) expectedOracle of
             None \<Rightarrow> Inl (CustomerConfigError (plain ''oracleSelector returned an oracle outside the whitelist''))
           | Some entry \<Rightarrow> Inr entry))"

definition request_hash :: "'k customer_env \<Rightarrow> string \<times> hash_client option \<Rightarrow> string run" where
  "request_hash env oracle =
    (let client = (case snd oracle of
                     Some c \<Rightarrow> c
                   | None \<Rightarrow> nostr_requestHash (cv_lib env) (cv_fstr env) (cv_bootstrap env) (fst oracle))
     in case client (cv_queryId env) of
          (sent, Inl e) \<Rightarrow> (map Send sent, Inl (Hash_error e))
        | (sent, Inr hash) \<Rightarrow> (map Send sent, Inr hash))"

definition offer_window :: "CustomerOptions \<Rightarrow> jsnum" where
  "offer_window opts = (case co_offerWindowMs opts of None \<Rightarrow> DEFAULT_OFFER_WINDOW_MS | Some w \<Rightarrow> w)"

definition request_payload ::
    "'k customer_env \<Rightarrow> CustomerOptions \<Rightarrow> RequestOptions \<Rightarrow> string \<Rightarrow> QueryRequestPayload" where
  "request_payload env opts req oraclePubkey =
    \<lparr> qp_query_id = cv_queryId env, qp_schema = ro_schema req, qp_customer_pubkey = kp_publicKey (cv_identity env),
      qp_oracle_pubkey = oraclePubkey, qp_max_amount_sats = ro_maxAmount req,
      qp_expires_at = js_floor (div_by (cv_clock env 0 + offer_window opts) 1000) * 1000 \<rparr>"

definition publish_request ::
    "'k customer_env \<Rightarrow> CustomerOptions \<Rightarrow> RequestOptions \<Rightarrow> string \<Rightarrow> Event run" where
  "publish_request env opts req oraclePubkey =
    run_bind (send_event env
        (buildQueryRequestEvent (cv_lib env) (cv_fstr env) (cv_clock env 1) (cv_identity env)
           (request_payload env opts req oraclePubkey) (ro_regionCode req))) (\<lambda>(requestEvent, publishResult).
    if pr_successes publishResult = [] then result_of (Inl (RelayPublishError publishResult))
    else run_bind (writeCustomerState env opts
               (customer_record (cv_queryId env) requestEvent (ro_schema req) Request_published None (cv_clock env 2))) (\<lambda>_.
         result_of (Inr requestEvent)))"

text \<open>The subscriber of offers: the counter and the offers kept, in the order of arrival.\<close>

fun collect_offers :: "RequestOptions \<Rightarrow> (jsnum \<times> Event) list \<Rightarrow> nat \<times> Offer list" where
  "collect_offers req [] = (0, [])"
| "collect_offers req ((now, event) # rest) =
    (case collect_offers req rest of (totalReceived, offers) \<Rightarrow>
      case parseOfferFeedbackEvent event of
        None \<Rightarrow> (totalReceived, offers)
      | Some parsed \<Rightarrow>
        (Suc totalReceived,
         if \<not> isValidOfferAmount (of_amount_sats parsed) then offers
         else if ro_maxAmount req < of_amount_sats parsed then offers
         else if ro_provider req \<noteq> None \<and> ro_provider req \<noteq> Some (of_provider_pubkey parsed) then offers
         else \<lparr> ff_providerPubkey = of_provider_pubkey parsed, ff_amountSats = of_amount_sats parsed,
                ff_offerEventId = ev_id event, ff_receivedAt = now \<rparr> # offers))"

definition select_offer :: "'k customer_env \<Rightarrow> CustomerOptions \<Rightarrow> RequestOptions \<Rightarrow> customer_error + Offer" where
  "select_offer env opts req =
    (case collect_offers req (cv_offers env) of (totalReceived, offers) \<Rightarrow>
      case (case co_offerSelector opts of Some f \<Rightarrow> f offers | None \<Rightarrow> Some (selectCheapestOffer offers)) of
        None \<Rightarrow> Inl Rejected
      | Some None \<Rightarrow> Inl (NoOffersReceivedError (offer_window opts) totalReceived)
      | Some (Some selected) \<Rightarrow>
        if \<not> isValidOfferAmount (ff_amountSats selected)
        then Inl (CustomerConfigError (plain ''offerSelector returned an invalid offer amount''))
        else if ro_maxAmount req < ff_amountSats selected
        then Inl (CustomerConfigError (plain ''offerSelector returned an offer above payment.maxAmount''))
        else Inr selected)"

section \<open>The Payment Lock and the result\<close>

definition bind_params ::
    "'k customer_env \<Rightarrow> RequestOptions \<Rightarrow> jsnum \<Rightarrow> string \<Rightarrow> Offer \<Rightarrow> BindProviderParams" where
  "bind_params env req locktimeDurationSeconds hash selected =
    \<lparr> bp_amountSats = ff_amountSats selected, bp_fundingProofs = ro_fundingProofs req,
      bp_providerPubkey = ff_providerPubkey selected, bp_hashHex = hash,
      bp_locktimeSeconds = seconds (cv_clock env 3) + locktimeDurationSeconds,
      bp_customerPubkey = kp_publicKey (cv_identity env), bp_customerSecretKey = kp_secretKey (cv_identity env) \<rparr>"

definition bind_stage :: "'k customer_env \<Rightarrow> BindProviderParams \<Rightarrow> CashuToken run" where
  "bind_stage env p =
    ([Bind p], case cv_bind env p of Inl e \<Rightarrow> Inl (Payment_error e) | Inr boundLock \<Rightarrow> Inr boundLock)"

definition change_of :: "CashuToken \<Rightarrow> Proof list" where
  "change_of boundLock = (case ck_changeProofs boundLock of None \<Rightarrow> [] | Some ps \<Rightarrow> ps)"

definition report_change :: "RequestOptions \<Rightarrow> Proof list \<Rightarrow> unit run" where
  "report_change req proofs =
    (if proofs = [] then result_of (Inr ())
     else case ro_onPaymentChange req of
            None \<Rightarrow> result_of (Inr ())
          | Some f \<Rightarrow> ([Report_change proofs], if f proofs then Inr () else Inl Rejected))"

definition selection_payload ::
    "CustomerOptions \<Rightarrow> RequestOptions \<Rightarrow> BindProviderParams \<Rightarrow> CashuToken \<Rightarrow> SelectionFeedbackPayload" where
  "selection_payload opts req p boundLock =
    \<lparr> sf_selected_provider_pubkey = bp_providerPubkey p, sf_provider_redemption_token = ck_token boundLock,
      sf_execution = \<lparr> se_schema = ro_schema req, se_predicate = ro_predicate req, se_description = ro_description req,
        se_context = ro_context req, se_mint_url = co_mint opts, se_max_amount_sats = ro_maxAmount req,
        se_amount_sats = bp_amountSats p, se_locktime_seconds = bp_locktimeSeconds p \<rparr> \<rparr>"

definition announce_selection ::
    "'k customer_env \<Rightarrow> CustomerOptions \<Rightarrow> RequestOptions \<Rightarrow> Event \<Rightarrow> Offer \<Rightarrow> BindProviderParams \<Rightarrow> CashuToken \<Rightarrow> unit run" where
  "announce_selection env opts req requestEvent selected p boundLock =
    run_bind (send_event env
        (buildSelectionFeedbackEvent (cv_lib env) (cv_fstr env) (cv_clock env 4) (cv_identity env) (ev_id requestEvent)
           (selection_payload opts req p boundLock))) (\<lambda>_.
    writeCustomerState env opts
      (customer_record (cv_queryId env) requestEvent (ro_schema req) Customer_provider_selected (Some selected) (cv_clock env 5)))"

text \<open>The first event the relay delivers is the result, whatever it is; one that cannot be read is reported as
  a timeout too.\<close>

definition await_result ::
    "'k customer_env \<Rightarrow> CustomerOptions \<Rightarrow> Offer \<Rightarrow> customer_error + QueryResponsePayload" where
  "await_result env opts selected =
    (let resultTimeoutMs = (case co_resultTimeoutMs opts of None \<Rightarrow> DEFAULT_RESULT_TIMEOUT_MS | Some t \<Rightarrow> t);
         timed_out = ResultTimeoutError resultTimeoutMs (ff_providerPubkey selected)
     in case wait_result Some (cv_results env) of
          None \<Rightarrow> Inl timed_out
        | Some resultEvent \<Rightarrow>
          (case parseQueryResponseEvent (cv_lib env) resultEvent (kp_secretKey (cv_identity env)) (ff_providerPubkey selected) of
             None \<Rightarrow> Inl timed_out
           | Some response \<Rightarrow> Inr response))"

definition verify_locally ::
    "CustomerOptions \<Rightarrow> ('w, 'p, verify_fn) schema_bundles \<Rightarrow> RequestOptions \<Rightarrow> QueryResponsePayload \<Rightarrow> customer_error + unit" where
  "verify_locally opts bundles req response =
    (case resolveVerifierAdapter (co_verifierAdapters opts) bundles (ro_schema req) of
       None \<Rightarrow> Inr ()
     | Some verify \<Rightarrow>
       (case verify (rp_proof response) (ro_predicate req) (rp_data response)
               (case Option.bind (co_schemaOptions opts) (\<lambda>m. map_get m (ro_schema req)) of None \<Rightarrow> Undefined | Some v \<Rightarrow> v) of
          None \<Rightarrow> Inl Rejected
        | Some ok \<Rightarrow> if ok then Inr () else Inl (SchemaVerificationError (ro_schema req))))"

definition request_result :: "'k customer_env \<Rightarrow> Offer \<Rightarrow> CashuToken \<Rightarrow> QueryResponsePayload \<Rightarrow> RequestResult" where
  "request_result env selected boundLock response =
    \<lparr> rr_data = rp_data response, rr_proof = rp_proof response, rr_providerPubkey = ff_providerPubkey selected,
      rr_schema = rp_schema response,
      rr_paymentChangeProofs = (if change_of boundLock \<noteq> [] then Some (change_of boundLock) else None),
      rr_paymentLockProofs = ck_proofs boundLock, rr_paymentLockToken = ck_token boundLock,
      rr_paymentLockRefundSecretKey = kp_secretKey (cv_identity env) \<rparr>"

text \<open>The body of the \<open>try\<close> after the Payment Lock exists.\<close>

definition after_bind ::
    "'k customer_env \<Rightarrow> CustomerOptions \<Rightarrow> ('w, 'p, verify_fn) schema_bundles \<Rightarrow> RequestOptions \<Rightarrow> Event \<Rightarrow> Offer \<Rightarrow>
     BindProviderParams \<Rightarrow> CashuToken \<Rightarrow> RequestResult run" where
  "after_bind env opts bundles req requestEvent selected p boundLock =
    (if \<not> num_eq (ck_amountSats boundLock) (ff_amountSats selected)
     then result_of (Inl (CustomerConfigError
            (plain ''bound Payment Lock amount does not match the selected offer amount'')))
     else run_bind (report_change req (change_of boundLock)) (\<lambda>_.
          run_bind (announce_selection env opts req requestEvent selected p boundLock) (\<lambda>_.
          run_bind (result_of (await_result env opts selected)) (\<lambda>response.
          run_bind (result_of (verify_locally opts bundles req response)) (\<lambda>_.
          run_bind (writeCustomerState env opts
              (customer_record (cv_queryId env) requestEvent (ro_schema req) Result_received (Some selected) (cv_clock env 6))) (\<lambda>_.
          result_of (Inr (request_result env selected boundLock response))))))))"

definition attachPaymentRecoveryMaterial :: "CashuToken \<Rightarrow> secret_key \<Rightarrow> recovery" where
  "attachPaymentRecoveryMaterial boundLock refundSecretKey =
    \<lparr> rc_paymentChangeProofs = (if change_of boundLock \<noteq> [] then Some (change_of boundLock) else None),
      rc_paymentLockProofs = ck_proofs boundLock, rc_paymentLockToken = ck_token boundLock,
      rc_paymentLockRefundSecretKey = refundSecretKey \<rparr>"

definition before_bind ::
    "'k customer_env \<Rightarrow> CustomerOptions \<Rightarrow> RequestOptions \<Rightarrow> (Event \<times> Offer \<times> BindProviderParams) run" where
  "before_bind env opts req =
    run_bind (result_of (request_checks (cv_parse env) req)) (\<lambda>duration.
    run_bind (result_of (choose_oracle opts)) (\<lambda>oracle.
    run_bind (request_hash env oracle) (\<lambda>hash.
    run_bind (publish_request env opts req (fst oracle)) (\<lambda>requestEvent.
    run_bind (result_of (select_offer env opts req)) (\<lambda>selected.
    result_of (Inr (requestEvent, selected, bind_params env req duration hash selected)))))))"

text \<open>\<open>request\<close>; the error of a failure after the lock carries the recovery material.\<close>

definition customer_request ::
    "'k customer_env \<Rightarrow> CustomerOptions \<Rightarrow> ('w, 'p, verify_fn) schema_bundles \<Rightarrow> RequestOptions \<Rightarrow>
     customer_call list \<times> (customer_error \<times> recovery option + RequestResult)" where
  "customer_request env opts bundles req =
    (case run_bind (before_bind env opts req) (\<lambda>(requestEvent, selected, p).
            run_bind (bind_stage env p) (\<lambda>boundLock. result_of (Inr (requestEvent, selected, p, boundLock)))) of
       (cs, Inl e) \<Rightarrow> (cs, Inl (e, None))
     | (cs, Inr (requestEvent, selected, p, boundLock)) \<Rightarrow>
       (case after_bind env opts bundles req requestEvent selected p boundLock of
          (ds, Inl e) \<Rightarrow>
            (cs @ ds, Inl (e, Some (attachPaymentRecoveryMaterial boundLock (kp_secretKey (cv_identity env)))))
        | (ds, Inr r) \<Rightarrow> (cs @ ds, Inr r)))"

section \<open>Sequences of calls\<close>

lemma run_bind_unfold:
  "fst (run_bind m f) = fst m @ (case snd m of Inl e \<Rightarrow> [] | Inr a \<Rightarrow> fst (f a))"
  "snd (run_bind m f) = (case snd m of Inl e \<Rightarrow> Inl e | Inr a \<Rightarrow> snd (f a))"
  by (cases m; cases "snd m"; simp split: prod.split)+

lemma run_bind_Inr: "snd (run_bind m f) = Inr b \<longleftrightarrow> (\<exists>a. snd m = Inr a \<and> snd (f a) = Inr b)"
  by (simp add: run_bind_unfold split: sum.split)

lemma result_of_simps [simp]: "fst (result_of r) = []" "snd (result_of r) = r"
  by (simp_all add: result_of_def)

fun is_bind :: "customer_call \<Rightarrow> bool" where
  "is_bind (Bind _) = True"
| "is_bind _ = False"

lemma no_bind_calls:
  "c \<in> set (fst (send_event env e)) \<Longrightarrow> \<not> is_bind c"
  "c \<in> set (fst (writeCustomerState env opts r)) \<Longrightarrow> \<not> is_bind c"
  "c \<in> set (fst (report_change req ps)) \<Longrightarrow> \<not> is_bind c"
  "c \<in> set (fst (request_hash env oracle)) \<Longrightarrow> \<not> is_bind c"
  by (auto simp: send_event_def writeCustomerState_def report_change_def request_hash_def Let_def result_of_def
      split: option.splits if_splits prod.splits sum.splits)

lemma before_bind_no_bind: "c \<in> set (fst (before_bind env opts req)) \<Longrightarrow> \<not> is_bind c"
  by (auto simp: before_bind_def publish_request_def run_bind_unfold split: sum.splits if_splits dest: no_bind_calls)

lemma after_bind_no_bind: "c \<in> set (fst (after_bind env opts bundles req re selected p b)) \<Longrightarrow> \<not> is_bind c"
  by (auto simp: after_bind_def announce_selection_def run_bind_unfold split: sum.splits if_splits dest: no_bind_calls)

section \<open>The checks\<close>

lemma request_checks_Inr:
  "request_checks parse req = Inr d \<Longrightarrow> is_integer (ro_maxAmount req) \<and> is_integer d \<and> \<not> d < 660"
  by (auto simp: request_checks_def Let_def MIN_CUSTOMER_PAYMENT_LOCK_DURATION_SECONDS_def
      MIN_PAYMENT_LOCK_DURATION_SECONDS_def split: if_splits)

lemma choose_oracle_Inr: "choose_oracle opts = Inr oracle \<Longrightarrow> oracle \<in> set (co_oracles opts)"
  by (auto simp: choose_oracle_def findCustomerOracle_def find_Some_iff Let_def split: sum.splits option.splits)

lemma select_offer_Inr:
  "select_offer env opts req = Inr selected \<Longrightarrow>
    isValidOfferAmount (ff_amountSats selected) \<and> \<not> ro_maxAmount req < ff_amountSats selected"
  by (auto simp: select_offer_def split: prod.splits option.splits if_splits)

lemma before_bind_Inr:
  assumes "snd (before_bind env opts req) = Inr (requestEvent, selected, p)"
  obtains d orc hash where "request_checks (cv_parse env) req = Inr d" "choose_oracle opts = Inr orc"
    "snd (request_hash env orc) = Inr hash" "snd (publish_request env opts req (fst orc)) = Inr requestEvent"
    "select_offer env opts req = Inr selected" "p = bind_params env req d hash selected"
    "set (fst (publish_request env opts req (fst orc))) \<subseteq> set (fst (before_bind env opts req))"
  using assms by (auto simp: before_bind_def run_bind_unfold split: sum.splits)

lemma publish_request_Inr:
  assumes "snd (publish_request env opts req oracle) = Inr e"
  shows "buildQueryRequestEvent (cv_lib env) (cv_fstr env) (cv_clock env 1) (cv_identity env)
           (request_payload env opts req oracle) (ro_regionCode req) = Some e"
    "\<exists>r. cv_publish env e = Some r \<and> pr_successes r \<noteq> []"
    "Send e \<in> set (fst (publish_request env opts req oracle))"
  using assms
  by (auto simp: publish_request_def run_bind_unfold send_event_def split: option.splits if_splits sum.splits)

text \<open>How a request ends, in terms of its three parts.\<close>

lemma customer_request_cases:
  obtains e where "snd (before_bind env opts req) = Inl e"
    "customer_request env opts bundles req = (fst (before_bind env opts req), Inl (e, None))"
  | requestEvent selected p e where "snd (before_bind env opts req) = Inr (requestEvent, selected, p)" "cv_bind env p = Inl e"
    "customer_request env opts bundles req = (fst (before_bind env opts req) @ [Bind p], Inl (Payment_error e, None))"
  | requestEvent selected p b where "snd (before_bind env opts req) = Inr (requestEvent, selected, p)" "cv_bind env p = Inr b"
    "customer_request env opts bundles req =
      (fst (before_bind env opts req) @ Bind p # fst (after_bind env opts bundles req requestEvent selected p b),
       case snd (after_bind env opts bundles req requestEvent selected p b) of
         Inl e \<Rightarrow> Inl (e, Some (attachPaymentRecoveryMaterial b (kp_secretKey (cv_identity env))))
       | Inr r \<Rightarrow> Inr r)"
proof (cases "before_bind env opts req")
  case (Pair cs r)
  show thesis
  proof (cases r)
    case (Inl e)
    then show thesis using that(1) Pair by (simp add: customer_request_def)
  next
    case (Inr t)
    obtain requestEvent selected p where t: "t = (requestEvent, selected, p)" by (cases t) auto
    show thesis
    proof (cases "cv_bind env p")
      case Inl
      then show thesis
        using that(2) Pair Inr t by (simp add: customer_request_def bind_stage_def result_of_def)
    next
      case b: (Inr b)
      show thesis
        using that(3) Pair Inr t b
        by (simp add: customer_request_def bind_stage_def result_of_def split: prod.splits sum.splits)
    qed
  qed
qed

end
