(* ===== verification/Oracle_Nostr.thy ===== *)
theory Oracle_Nostr
  imports Oracle_Client Proof_Verifier
begin

text \<open>
  The oracle's relay service (\<open>adapters/nostr/oracle-service.ts\<close>), its handlers
  (\<open>adapters/nostr/oracle-handlers.ts\<close>) and its direct messages (\<open>adapters/nostr/events/dm.ts\<close>).  The state
  is the preimage store, the map of issued hashes and the watched queries; a delivery also gives the list of
  events handed to the relay, in order, and \<open>None\<close> where its promise is rejected.  Closing a subscription is
  a call of the relay and not part of the state.
\<close>

section \<open>Release messages (events/dm.ts)\<close>

text \<open>The common end of the three builders: unlike the builders of the protocol package they add no version.\<close>

definition release_dm ::
    "'k nostr \<Rightarrow> (rat \<Rightarrow> string) \<Rightarrow> jsnum \<Rightarrow> Keypair \<Rightarrow> string \<Rightarrow> jsval \<Rightarrow> Event option" where
  "release_dm lib fstr now oracleIdentity providerPubKey payload =
    Option.bind (encryptNip44 lib (jprint fstr payload) (kp_secretKey oracleIdentity) providerPubKey)
      (sign_content lib now oracleIdentity KIND_DIRECT_MESSAGE [[''p'', providerPubKey]])"

definition preimage_payload :: "string \<Rightarrow> string \<Rightarrow> jsval" where
  "preimage_payload queryId preimage = Object
    [(''type'', String ''preimage''), (''query_id'', String queryId), (''preimage'', String preimage)]"

definition buildPreimageDM ::
    "'k nostr \<Rightarrow> (rat \<Rightarrow> string) \<Rightarrow> jsnum \<Rightarrow> Keypair \<Rightarrow> string \<Rightarrow> string \<Rightarrow> string \<Rightarrow> Event option" where
  "buildPreimageDM lib fstr now oracleIdentity providerPubKey queryId preimage =
    release_dm lib fstr now oracleIdentity providerPubKey (preimage_payload queryId preimage)"

definition buildRejectionDM ::
    "'k nostr \<Rightarrow> (rat \<Rightarrow> string) \<Rightarrow> jsnum \<Rightarrow> Keypair \<Rightarrow> string \<Rightarrow> string \<Rightarrow> string \<Rightarrow> Event option" where
  "buildRejectionDM lib fstr now oracleIdentity providerPubKey queryId reason =
    release_dm lib fstr now oracleIdentity providerPubKey (Object
      [(''type'', String ''rejection''), (''query_id'', String queryId), (''reason'', String reason)])"

definition buildFrostSignatureDM ::
    "'k nostr \<Rightarrow> (rat \<Rightarrow> string) \<Rightarrow> jsnum \<Rightarrow> Keypair \<Rightarrow> string \<Rightarrow> string \<Rightarrow> jsval list \<Rightarrow> string \<Rightarrow> Event option" where
  "buildFrostSignatureDM lib fstr now oracleIdentity providerPubKey queryId groupSignature groupPubkey =
    release_dm lib fstr now oracleIdentity providerPubKey (Object
      [(''type'', String ''frost_signature''), (''query_id'', String queryId),
       (''group_signature'', Array groupSignature), (''group_pubkey'', String groupPubkey)])"

datatype OracleDMPayload =
    Preimage_dm string string
  | Rejection_dm string string
  | Frost_signature_dm string "string list" string

definition oracle_dm_payload :: "jsval \<Rightarrow> OracleDMPayload option" where
  "oracle_dm_payload v =
    (if \<not> isRecord v then None
     else case string_of (opt_prop v ''query_id'') of
       None \<Rightarrow> None
     | Some q \<Rightarrow>
       if opt_prop v ''type'' = String ''preimage'' then map_option (Preimage_dm q) (string_of (opt_prop v ''preimage''))
       else if opt_prop v ''type'' = String ''rejection'' then map_option (Rejection_dm q) (string_of (opt_prop v ''reason''))
       else if opt_prop v ''type'' = String ''frost_signature''
       then (case (string_tag (opt_prop v ''group_signature''), string_of (opt_prop v ''group_pubkey'')) of
               (Some sigs, Some pk) \<Rightarrow> Some (Frost_signature_dm q sigs pk)
             | _ \<Rightarrow> None)
       else None)"

text \<open>\<open>None\<close>: the key derivation, which is outside the \<open>try\<close>, throws; \<open>Some None\<close>: \<open>null\<close>.\<close>

definition parseOracleDM :: "'k nostr \<Rightarrow> string \<Rightarrow> secret_key \<Rightarrow> string \<Rightarrow> OracleDMPayload option option" where
  "parseOracleDM lib content recipientSecretKey senderPubKey =
    (case n_conversationKey lib recipientSecretKey senderPubKey of
       None \<Rightarrow> None
     | Some key \<Rightarrow> Some (Option.bind (Option.bind (n_decrypt lib content key) jparse) oracle_dm_payload))"

section \<open>Evidence of a result event (oracle-handlers.ts)\<close>

record WatchedQuery =
  wq_query :: Query
  wq_queryEventId :: string
  wq_customerPubkey :: string
  wq_selectedProviderPubkey :: "string option"
  wq_offeredProviders :: "string list"

definition parseAttachment :: "jsval \<Rightarrow> AttachmentRef option" where
  "parseAttachment v =
    (if \<not> isRecord v then None
     else case (string_of (opt_prop v ''id''), string_of (opt_prop v ''uri''), string_of (opt_prop v ''mime_type''),
                if opt_prop v ''storage_kind'' = String ''blossom'' then Some Blossom
                else if opt_prop v ''storage_kind'' = String ''external'' then Some External else None) of
            (Some i, Some u, Some mt, Some kind) \<Rightarrow>
              Some \<lparr> at_id = i, at_uri = u, at_mime_type = mt, at_storage_kind = kind,
                     at_filename = string_of (opt_prop v ''filename''),
                     at_size_bytes = number_of (opt_prop v ''size_bytes''),
                     at_blossom_hash = string_of (opt_prop v ''blossom_hash''),
                     at_blossom_servers = string_tag (opt_prop v ''blossom_servers'') \<rparr>
          | _ \<Rightarrow> None)"

definition attachments_of :: "jsval \<Rightarrow> AttachmentRef list" where
  "attachments_of data =
    (case opt_prop data ''attachments'' of Array vs \<Rightarrow> List.map_filter parseAttachment vs | _ \<Rightarrow> [])"

text \<open>\<open>None\<close>: registering the reference bundles throws.\<close>

definition oracleResponseToResult ::
    "proof_env \<Rightarrow> nat \<Rightarrow> Query \<Rightarrow> OracleQueryResponsePayload \<Rightarrow> reference_state \<Rightarrow> QueryResult option \<times> reference_state" where
  "oracleResponseToResult penv ref query payload rs =
    (case ensureReferenceSchemaBundlesRegistered penv ref rs of (rs', ok) \<Rightarrow>
      if \<not> ok then (None, rs')
      else let data = (if isRecord (rp_data payload) then rp_data payload else Object [])
           in (Some \<lparr> qr_attachments = attachments_of data, qr_notes = string_of (opt_prop data ''notes''),
                      qr_schema_evidence = resolveSchemaEvidence (snd rs')
                        (case q_schema query of None \<Rightarrow> DEFAULT_QUERY_SCHEMA | Some s \<Rightarrow> s)
                        data (Proof_text (rp_proof payload)) \<rparr>, rs'))"

section \<open>The service\<close>

record oracle_service =
  os_preimages :: preimages
  os_queryHashMap :: hash_map
  os_watched :: "(string, WatchedQuery) jsmap"
  os_reference :: reference_state

record DeliveryOutcome =
  do_passed :: bool
  do_terminal :: bool

text \<open>The configuration and the outside world of one delivery; \<open>dv_publish i\<close> is the answer to the \<open>i\<close>-th
  publication and \<open>dv_text\<close> the text of a message.\<close>

record 'k delivery_env =
  dv_lib :: "'k nostr"
  dv_fstr :: "rat \<Rightarrow> string"
  dv_now :: jsnum
  dv_identity :: Keypair
  dv_text :: "msg \<Rightarrow> string"
  dv_verify :: "Query \<Rightarrow> QueryResult \<Rightarrow> VerificationDetail option"
  dv_publish :: "nat \<Rightarrow> PublishResult option"
  dv_retries :: "nat option"
  dv_frostCoordinator :: bool
  dv_frostConfig :: bool
  dv_frostNodeConfig :: "FrostNodeConfig option"
  dv_sha :: "string \<Rightarrow> string"
  dv_decode :: "string \<Rightarrow> Proof list option"
  dv_coordinate :: "SigningCoordinatorConfig \<Rightarrow> string \<Rightarrow> SigningCoordinatorResult option option"
  dv_proof_env :: proof_env

type_synonym delivery = "Event list \<times> DeliveryOutcome option \<times> oracle_service"

abbreviation rejected_outcome :: DeliveryOutcome where
  "rejected_outcome \<equiv> \<lparr> do_passed = False, do_terminal = True \<rparr>"

text \<open>A rejection: build the message and publish it once.\<close>

definition reject_provider :: "'k delivery_env \<Rightarrow> string \<Rightarrow> string \<Rightarrow> string \<Rightarrow> oracle_service \<Rightarrow> delivery" where
  "reject_provider env providerPubkey queryId reason st =
    (case buildRejectionDM (dv_lib env) (dv_fstr env) (dv_now env) (dv_identity env) providerPubkey queryId reason of
       None \<Rightarrow> ([], None, st)
     | Some dm \<Rightarrow> ([dm], if dv_publish env 0 = None then None else Some rejected_outcome, st))"

definition rejectQuorumWithoutFrost :: "'k delivery_env \<Rightarrow> string \<Rightarrow> string \<Rightarrow> oracle_service \<Rightarrow> delivery" where
  "rejectQuorumWithoutFrost env queryId providerPubkey st =
    reject_provider env providerPubkey queryId ''Quorum verification requested but FROST is not configured on this Oracle'' st"

definition failure_reason :: "'k delivery_env \<Rightarrow> VerificationDetail \<Rightarrow> string" where
  "failure_reason env detail =
    (let reason = dv_text env (join_failures (vd_failures detail))
     in if reason \<noteq> [] then reason else ''Verification failed'')"

text \<open>The attempts to publish, at most \<open>n\<close>: how many there were and whether one reached a relay; \<open>None\<close> is
  a rejected publication.\<close>

fun publish_attempts :: "(nat \<Rightarrow> PublishResult option) \<Rightarrow> nat \<Rightarrow> nat \<Rightarrow> nat \<times> bool option" where
  "publish_attempts answer i 0 = (i, Some False)"
| "publish_attempts answer i (Suc n) =
    (case answer i of
       None \<Rightarrow> (Suc i, None)
     | Some r \<Rightarrow> if pr_successes r \<noteq> [] then (Suc i, Some True) else publish_attempts answer (Suc i) n)"

definition max_attempts :: "'k delivery_env \<Rightarrow> nat" where
  "max_attempts env = (case dv_retries env of None \<Rightarrow> 2 | Some n \<Rightarrow> n) + 1"

definition deliver_preimage ::
    "'k delivery_env \<Rightarrow> string \<Rightarrow> string \<Rightarrow> string \<Rightarrow> string \<Rightarrow> oracle_service \<Rightarrow> delivery" where
  "deliver_preimage env queryId providerPubkey hash preimage st =
    (case buildPreimageDM (dv_lib env) (dv_fstr env) (dv_now env) (dv_identity env) providerPubkey queryId preimage of
       None \<Rightarrow> ([], None, st)
     | Some dm \<Rightarrow>
       (case publish_attempts (dv_publish env) 0 (max_attempts env) of
          (k, None) \<Rightarrow> (replicate k dm, None, st)
        | (k, Some False) \<Rightarrow> (replicate k dm, Some \<lparr> do_passed = False, do_terminal = False \<rparr>, st)
        | (k, Some True) \<Rightarrow>
            (replicate k dm, Some \<lparr> do_passed = True, do_terminal = True \<rparr>,
             st\<lparr> os_preimages := preimage_delete hash (os_preimages st),
                 os_queryHashMap := map_delete queryId (os_queryHashMap st) \<rparr>)))"

definition verifyAndDeliverInternal ::
    "'k delivery_env \<Rightarrow> string \<Rightarrow> Query \<Rightarrow> QueryResult \<Rightarrow> string \<Rightarrow> oracle_service \<Rightarrow> delivery" where
  "verifyAndDeliverInternal env queryId query result providerPubkey st =
    (case dv_verify env query result of
       None \<Rightarrow> ([], None, st)
     | Some detail \<Rightarrow>
       let hash = map_get (os_queryHashMap st) queryId;
           preimage = (if ostr_truthy hash then getPreimage (os_preimages st) (the hash) else None)
       in if vd_passed detail \<and> ostr_truthy preimage \<and> ostr_truthy hash
          then deliver_preimage env queryId providerPubkey (the hash) (the preimage) st
          else reject_provider env providerPubkey queryId (failure_reason env detail) st)"

definition frost_messages :: "'k delivery_env \<Rightarrow> string \<Rightarrow> Query \<Rightarrow> string list option" where
  "frost_messages env queryId query =
    (if ostr_truthy (adapter_token query)
     then deriveFrostP2pkMessages (dv_sha env) (dv_decode env) (the (adapter_token query))
     else Some [deriveFrostSigningMessage (dv_sha env) queryId])"

definition verifyAndDeliverWithFrostInternal ::
    "'k delivery_env \<Rightarrow> string \<Rightarrow> Query \<Rightarrow> QueryResult \<Rightarrow> string \<Rightarrow> FrostNodeConfig \<Rightarrow> oracle_service \<Rightarrow> delivery" where
  "verifyAndDeliverWithFrostInternal env queryId query result providerPubkey node st =
    (case dv_verify env query result of
       None \<Rightarrow> ([], None, st)
     | Some detail \<Rightarrow>
       if \<not> vd_passed detail then reject_provider env providerPubkey queryId (failure_reason env detail) st
       else case frost_messages env queryId query of
              None \<Rightarrow> ([], None, st)
            | Some messages \<Rightarrow>
              (case sign_messages (dv_coordinate env (adapter_config (dv_sha env) node query result None)) messages [] of
                 None \<Rightarrow> ([], None, st)
               | Some None \<Rightarrow>
                   reject_provider env providerPubkey queryId
                     (dv_text env [T ''FROST threshold not met '', EmDash, T '' insufficient Oracle approvals'']) st
               | Some (Some groupSignatures) \<Rightarrow>
                 (case buildFrostSignatureDM (dv_lib env) (dv_fstr env) (dv_now env) (dv_identity env) providerPubkey
                         queryId groupSignatures (nc_group_pubkey node) of
                    None \<Rightarrow> ([], None, st)
                  | Some dm \<Rightarrow>
                    ([dm],
                     map_option (\<lambda>r. if pr_successes r \<noteq> [] then \<lparr> do_passed = True, do_terminal = True \<rparr>
                                      else \<lparr> do_passed = False, do_terminal = False \<rparr>) (dv_publish env 0), st))))"

definition dispatchVerifyAndDeliver ::
    "'k delivery_env \<Rightarrow> string \<Rightarrow> Query \<Rightarrow> QueryResult \<Rightarrow> string \<Rightarrow> oracle_service \<Rightarrow> delivery" where
  "dispatchVerifyAndDeliver env queryId query result providerPubkey st =
    (case q_quorum query of
       None \<Rightarrow> verifyAndDeliverInternal env queryId query result providerPubkey st
     | Some _ \<Rightarrow>
       (case dv_frostNodeConfig env of
          Some node \<Rightarrow>
            if \<not> dv_frostCoordinator env \<or> \<not> dv_frostConfig env then rejectQuorumWithoutFrost env queryId providerPubkey st
            else verifyAndDeliverWithFrostInternal env queryId query result providerPubkey node st
        | None \<Rightarrow> rejectQuorumWithoutFrost env queryId providerPubkey st))"

definition unwatchRequest :: "string \<Rightarrow> oracle_service \<Rightarrow> oracle_service" where
  "unwatchRequest queryId st = st\<lparr> os_watched := map_delete queryId (os_watched st) \<rparr>"

definition unwatch_if_terminal :: "string \<Rightarrow> delivery \<Rightarrow> delivery" where
  "unwatch_if_terminal queryId d =
    (case d of (evs, outcome, st) \<Rightarrow>
      (evs, outcome, case outcome of Some out \<Rightarrow> if do_terminal out then unwatchRequest queryId st else st | None \<Rightarrow> st))"

text \<open>The subscriber of result events: \<open>None\<close> where it returns before a delivery or logs an error.\<close>

definition handleResponseEvent :: "'k delivery_env \<Rightarrow> nat \<Rightarrow> string \<Rightarrow> Event \<Rightarrow> oracle_service \<Rightarrow> delivery" where
  "handleResponseEvent env ref queryId event st =
    (case map_get (os_watched st) queryId of
       None \<Rightarrow> ([], None, st)
     | Some entry \<Rightarrow>
       if \<not> ostr_truthy (wq_selectedProviderPubkey entry) then ([], None, st)
       else if Some (ev_pubkey event) \<noteq> wq_selectedProviderPubkey entry then ([], None, st)
       else case parseOracleQueryResponseEvent (dv_lib env) event (kp_secretKey (dv_identity env)) (ev_pubkey event) of
              None \<Rightarrow> ([], None, st)
            | Some payload \<Rightarrow>
              if rp_query_id payload \<noteq> q_id (wq_query entry) \<or> rp_request_event_id payload \<noteq> wq_queryEventId entry
              then ([], None, st)
              else (case oracleResponseToResult (dv_proof_env env) ref (wq_query entry) payload (os_reference st) of
                      (None, rs) \<Rightarrow> ([], None, st\<lparr> os_reference := rs \<rparr>)
                    | (Some result, rs) \<Rightarrow>
                      unwatch_if_terminal queryId
                        (dispatchVerifyAndDeliver env queryId (wq_query entry) result (ev_pubkey event)
                           (st\<lparr> os_reference := rs \<rparr>))))"

definition set_add :: "'a \<Rightarrow> 'a list \<Rightarrow> 'a list" where
  "set_add x xs = (if x \<in> set xs then xs else xs @ [x])"

definition handleFeedbackEvent :: "string \<Rightarrow> Event \<Rightarrow> oracle_service \<Rightarrow> oracle_service" where
  "handleFeedbackEvent queryId event st =
    (case (map_get (os_watched st) queryId, parseOfferFeedbackEvent event) of
       (Some entry, Some offer) \<Rightarrow>
         st\<lparr> os_watched := map_set queryId
               (entry\<lparr> wq_offeredProviders := set_add (of_provider_pubkey offer) (wq_offeredProviders entry) \<rparr>) (os_watched st) \<rparr>
     | _ \<Rightarrow> st)"

definition watchRequest :: "Query \<Rightarrow> string \<Rightarrow> string \<Rightarrow> oracle_service \<Rightarrow> oracle_service" where
  "watchRequest request queryEventId customerPubkey st =
    st\<lparr> os_watched := map_set (q_id request)
          \<lparr> wq_query = request, wq_queryEventId = queryEventId, wq_customerPubkey = customerPubkey,
            wq_selectedProviderPubkey = None, wq_offeredProviders = [] \<rparr> (os_watched st) \<rparr>"

definition recordSelectedProvider :: "string \<Rightarrow> string \<Rightarrow> oracle_service \<Rightarrow> oracle_service" where
  "recordSelectedProvider queryId providerPubkey st =
    (case map_get (os_watched st) queryId of
       None \<Rightarrow> st
     | Some entry \<Rightarrow>
       st\<lparr> os_watched := map_set queryId (entry\<lparr> wq_selectedProviderPubkey := Some providerPubkey \<rparr>) (os_watched st) \<rparr>)"

definition verifyAndDeliver ::
    "'k delivery_env \<Rightarrow> string \<Rightarrow> Query \<Rightarrow> QueryResult \<Rightarrow> string \<Rightarrow> oracle_service \<Rightarrow> delivery" where
  "verifyAndDeliver env queryId query result providerPubkey st =
    unwatch_if_terminal queryId (dispatchVerifyAndDeliver env queryId query result providerPubkey st)"

definition verifyAndDeliverWithFrost ::
    "'k delivery_env \<Rightarrow> string \<Rightarrow> Query \<Rightarrow> QueryResult \<Rightarrow> string \<Rightarrow> oracle_service \<Rightarrow> delivery" where
  "verifyAndDeliverWithFrost env queryId query result providerPubkey st =
    unwatch_if_terminal queryId
      (case dv_frostNodeConfig env of
         None \<Rightarrow> rejectQuorumWithoutFrost env queryId providerPubkey st
       | Some node \<Rightarrow> verifyAndDeliverWithFrostInternal env queryId query result providerPubkey node st)"

definition stop_service :: "oracle_service \<Rightarrow> oracle_service" where
  "stop_service st = st\<lparr> os_watched := [] \<rparr>"

section \<open>What leaves the oracle\<close>

lemma publish_attempts_count: "publish_attempts answer i n = (k, r) \<Longrightarrow> i \<le> k \<and> k \<le> i + n"
  by (induction answer i n rule: publish_attempts.induct) (auto split: option.splits if_splits)

text \<open>A provider can read the three messages, each as what it is.\<close>

lemma release_dm_content:
  assumes "nostr_ok lib" "release_dm lib fstr now oid (n_publicKey lib sk) v = Some e" "jok v"
  shows "ev_kind e = KIND_DIRECT_MESSAGE"
    "parseOracleDM lib (ev_content e) sk (n_publicKey lib (kp_secretKey oid)) = Some (oracle_dm_payload v)"
    "decryptNip44 lib (ev_content e) sk (n_publicKey lib (kp_secretKey oid)) = Some (jprint fstr v)"
proof -
  obtain c where c: "encryptNip44 lib (jprint fstr v) (kp_secretKey oid) (n_publicKey lib sk) = Some c"
    and sgn: "sign_content lib now oid KIND_DIRECT_MESSAGE [[''p'', n_publicKey lib sk]] c = Some e"
    using assms(2) by (auto simp: release_dm_def bind_eq_Some_conv simp del: jprint.simps)
  note ev = sign_content_event [OF assms(1) sgn] and dec = encrypted_readable [OF assms(1) c]
  show "ev_kind e = KIND_DIRECT_MESSAGE" by (rule ev)
  show "decryptNip44 lib (ev_content e) sk (n_publicKey lib (kp_secretKey oid)) = Some (jprint fstr v)"
    using dec ev(2) by simp
  then show "parseOracleDM lib (ev_content e) sk (n_publicKey lib (kp_secretKey oid)) = Some (oracle_dm_payload v)"
    using assms(3) by (auto simp: parseOracleDM_def decryptNip44_def bind_eq_Some_conv jparse_print simp del: jprint.simps)
qed

lemma reject_provider_sent:
  "reject_provider env pk q reason st = (evs, out, st') \<Longrightarrow>
    st' = st \<and> (\<forall>e \<in> set evs. buildRejectionDM (dv_lib env) (dv_fstr env) (dv_now env) (dv_identity env) pk q reason = Some e) \<and>
    (out = None \<or> out = Some rejected_outcome)"
  by (auto simp: reject_provider_def split: option.splits if_splits)

text \<open>The guards of the two deliveries: what holds whenever something other than a rejection is sent.\<close>

definition preimage_sent :: "'k delivery_env \<Rightarrow> string \<Rightarrow> string \<Rightarrow> oracle_service \<Rightarrow> Event \<Rightarrow> bool" where
  "preimage_sent env pk q st e =
    (\<exists>hash preimage. map_get (os_queryHashMap st) q = Some hash \<and> getPreimage (os_preimages st) hash = Some preimage \<and>
       buildPreimageDM (dv_lib env) (dv_fstr env) (dv_now env) (dv_identity env) pk q preimage = Some e)"

definition signature_sent :: "'k delivery_env \<Rightarrow> string \<Rightarrow> string \<Rightarrow> Query \<Rightarrow> QueryResult \<Rightarrow> Event \<Rightarrow> bool" where
  "signature_sent env pk q query result e =
    (\<exists>node messages signatures. dv_frostNodeConfig env = Some node \<and> frost_messages env q query = Some messages \<and>
       sign_messages (dv_coordinate env (adapter_config (dv_sha env) node query result None)) messages [] = Some (Some signatures) \<and>
       buildFrostSignatureDM (dv_lib env) (dv_fstr env) (dv_now env) (dv_identity env) pk q signatures (nc_group_pubkey node) = Some e)"

definition rejection_sent :: "'k delivery_env \<Rightarrow> string \<Rightarrow> string \<Rightarrow> Event \<Rightarrow> bool" where
  "rejection_sent env pk q e =
    (\<exists>reason. buildRejectionDM (dv_lib env) (dv_fstr env) (dv_now env) (dv_identity env) pk q reason = Some e)"

lemma rejects:
  assumes "reject_provider env pk q reason st = (evs, out, st')" "e \<in> set evs"
  shows "rejection_sent env pk q e"
  using reject_provider_sent [OF assms(1)] assms(2) by (auto simp: rejection_sent_def)

lemma verifyAndDeliverInternal_sent:
  assumes "verifyAndDeliverInternal env q query result pk st = (evs, out, st')" "e \<in> set evs"
  shows "rejection_sent env pk q e \<or>
    (\<exists>detail. dv_verify env query result = Some detail \<and> vd_passed detail) \<and> preimage_sent env pk q st e"
proof (cases "dv_verify env query result")
  case (Some detail)
  let ?h = "map_get (os_queryHashMap st) q"
  let ?p = "if ostr_truthy ?h then getPreimage (os_preimages st) (the ?h) else None"
  show ?thesis
  proof (cases "vd_passed detail \<and> ostr_truthy ?p \<and> ostr_truthy ?h")
    case True
    then obtain h p where hp: "?h = Some h" "h \<noteq> []" "getPreimage (os_preimages st) h = Some p" "p \<noteq> []"
      by (auto elim!: ostr_truthyE)
    have "deliver_preimage env q pk h p st = (evs, out, st')"
      using assms(1) Some hp conjunct1 [OF True] by (simp add: verifyAndDeliverInternal_def Let_def)
    then have "buildPreimageDM (dv_lib env) (dv_fstr env) (dv_now env) (dv_identity env) pk q p = Some e"
      using assms(2) by (auto simp: deliver_preimage_def split: option.splits prod.splits bool.splits)
    then show ?thesis using Some True hp by (auto simp: preimage_sent_def)
  next
    case False
    have "reject_provider env pk q (failure_reason env detail) st = (evs, out, st')"
      using assms(1) Some False unfolding verifyAndDeliverInternal_def Let_def by (simp only: option.case if_False)
    then show ?thesis using assms(2) rejects by blast
  qed
qed (use assms in \<open>simp add: verifyAndDeliverInternal_def\<close>)

lemma verifyAndDeliverWithFrost_sent:
  assumes "verifyAndDeliverWithFrostInternal env q query result pk node st = (evs, out, st')" "e \<in> set evs"
    "dv_frostNodeConfig env = Some node"
  shows "rejection_sent env pk q e \<or>
    (\<exists>detail. dv_verify env query result = Some detail \<and> vd_passed detail) \<and> signature_sent env pk q query result e"
  using assms
  by (auto simp: verifyAndDeliverWithFrostInternal_def signature_sent_def dest!: rejects
      split: option.splits if_splits)

lemma dispatch_sent:
  assumes "dispatchVerifyAndDeliver env q query result pk st = (evs, out, st')" "e \<in> set evs"
  shows "rejection_sent env pk q e \<or>
    (\<exists>detail. dv_verify env query result = Some detail \<and> vd_passed detail) \<and>
    (if q_quorum query = None then preimage_sent env pk q st e else signature_sent env pk q query result e)"
  using assms verifyAndDeliverInternal_sent [of env q query result pk st evs out st' e]
    verifyAndDeliverWithFrost_sent [of env q query result pk _ st evs out st' e]
  by (auto simp: dispatchVerifyAndDeliver_def rejectQuorumWithoutFrost_def dest: rejects split: option.splits if_splits)

end
