(* ===== verification/Exchange.thy ===== *)
theory Exchange
  imports Provider_Job Customer_Request Oracle_Nostr Protocol_Properties Proof_Properties
begin

text \<open>
  The customer and the provider of one exchange: what the provider makes of the customer's notice and selection,
  and an exchange with one customer, one provider and one oracle over the library \<open>ex_nostr\<close> that the examples
  of the properties share.
\<close>

section \<open>The customer's messages at the provider\<close>

lemma selection_read_by_provider:
  assumes lib: "nostr_ok lib" "cv_lib cenv = lib"
    and keys: "kp_publicKey (cv_identity cenv) = n_publicKey lib (kp_secretKey (cv_identity cenv))"
      "kp_publicKey ident = n_publicKey lib (kp_secretKey ident)" "bp_providerPubkey p = kp_publicKey ident"
    and json: "jok (ro_predicate req)" "ro_context req = Undefined \<or> isRecord (ro_context req) \<and> jok (ro_context req)"
      "whole (ro_maxAmount req)" "whole (bp_amountSats p)" "whole (bp_locktimeSeconds p)"
    and sent: "Send sel \<in> set (fst (announce_selection cenv opts req notice selected p b))"
  shows "match_selection lib ident (kp_publicKey (cv_identity cenv)) sel = Some (ck_token b, sf_execution (selection_payload opts req p b))"
proof -
  let ?s = "selection_payload opts req p b"
  have built: "buildSelectionFeedbackEvent lib (cv_fstr cenv) (cv_clock cenv 4) (cv_identity cenv) (ev_id notice) ?s = Some sel"
    using sent lib(2)
    by (auto simp: announce_selection_def run_bind_unfold send_event_def writeCustomerState_def result_of_def Let_def
        split: option.splits sum.splits if_splits)
  have "parseSelectionFeedbackEvent lib sel (kp_secretKey ident) (kp_publicKey (cv_identity cenv)) = Some ?s"
    unfolding keys(1) by (rule selection_read_back [OF lib(1) _ _ _ _ _ _ built])
      (use keys json in \<open>simp_all add: selection_payload_def\<close>)
  then show ?thesis
    using keys(3) by (auto simp: match_selection_def parseSelectionFeedbackEvent_def selection_payload_def
        split: option.splits if_splits)
qed

lemma notice_accepted:
  assumes "nostr_ok (cv_lib cenv)" "whole (ro_maxAmount req)" "whole (qp_expires_at (request_payload cenv opts req orc))"
    "snd (publish_request cenv opts req orc) = Inr notice"
    "orc \<in> set (jc_oracles ctx)" "isSchemaUri parse (String (ro_schema req))" "jc_proofGenerators ctx = []"
  shows "accept_request ctx bundles parse notice = Some (request_payload cenv opts req orc, None)"
proof -
  have "parseQueryRequestEvent notice = Some (request_payload cenv opts req orc)"
    using publish_request_Inr(1) [OF assms(4)] assms(2,3)
    by (intro request_read_back [OF assms(1)]) (auto simp: request_payload_def)
  then show ?thesis
    using assms(5-7) by (simp add: accept_request_def canOfferForRequest_def request_payload_def)
qed

lemma exchange_reached:
  assumes lib: "nostr_ok lib" "cv_lib cenv = lib" "jv_lib env = lib"
    and keys: "kp_publicKey (cv_identity cenv) = n_publicKey lib (kp_secretKey (cv_identity cenv))"
      "kp_publicKey (jc_identity ctx) = n_publicKey lib (kp_secretKey (jc_identity ctx))"
      "bp_providerPubkey p = kp_publicKey (jc_identity ctx)" "bp_customerPubkey p = kp_publicKey (cv_identity cenv)"
    and json: "jok (ro_predicate req)" "ro_context req = Undefined \<or> isRecord (ro_context req) \<and> jok (ro_context req)"
      "whole (ro_maxAmount req)" "whole (bp_amountSats p)" "whole (bp_locktimeSeconds p)"
      "whole (qp_expires_at (request_payload cenv opts req orc))"
    and customer: "snd (publish_request cenv opts req orc) = Inr notice"
      "Send sel \<in> set (fst (announce_selection cenv opts req notice selected p b))"
    and provider: "orc \<in> set (jc_oracles ctx)" "isSchemaUri (jv_parse env) (String (ro_schema req))" "jc_proofGenerators ctx = []"
      "ask_handler ctx handler (request_payload cenv opts req orc) None = Some (offer, bp_amountSats p)"
      "snd (offer_stage env ctx notice (request_payload cenv opts req orc) (bp_amountSats p)) = Some offerEvent"
      "jc_mintUrl ctx = co_mint opts"
      "jv_selections env = es @ sel # fs"
      "\<And>e. e \<in> set es \<Longrightarrow> match_selection lib (jc_identity ctx) (kp_publicKey (cv_identity cenv)) e = None"
      "snd (getOracleClient env ctx orc (cv_queryId cenv)) = Inr (bp_hashHex p)"
      "jv_verifyLock env (verify_params p b) = Inr r"
  shows "job_reached env ctx bundles handler notice (request_payload cenv opts req orc) offer (bp_amountSats p) offerEvent
      (ck_token b, sf_execution (selection_payload opts req p b))"
    "Verify_lock (verify_params p b) \<in> set (fst (lock_stage env ctx (request_payload cenv opts req orc) (bp_amountSats p)
      (ck_token b, sf_execution (selection_payload opts req p b))))"
proof -
  let ?payload = "request_payload cenv opts req orc" and ?s = "selection_payload opts req p b"
  have acc: "accept_request ctx bundles (jv_parse env) notice = Some (?payload, None)"
    using notice_accepted [OF _ json(3,6) customer(1) provider(1-3)] lib by simp
  have "match_selection lib (jc_identity ctx) (kp_publicKey (cv_identity cenv)) sel = Some (ck_token b, sf_execution ?s)"
    by (rule selection_read_by_provider [OF lib(1,2) keys(1-3) json(1-5) customer(2)])
  then have sel: "waitForSelection env ctx (qp_customer_pubkey ?payload) = Some (ck_token b, sf_execution ?s)"
    using wait_result_skip [of es "match_selection lib (jc_identity ctx) (kp_publicKey (cv_identity cenv))" sel fs, OF provider(8)]
      provider(7) lib(3) by (simp add: waitForSelection_def request_payload_def)
  have fits: "selection_fits ctx ?payload (bp_amountSats p) (sf_execution ?s)"
    using provider(6) json(3,4) by (auto simp: selection_fits_def selection_payload_def request_payload_def num_eq_def whole_def)
  have params: "lock_params ctx ?payload (bp_amountSats p) (bp_hashHex p) (ck_token b) (sf_execution ?s) = verify_params p b"
    using keys(3,4) by (simp add: lock_params_def verify_params_def selection_payload_def request_payload_def)
  have lock: "snd (lock_stage env ctx ?payload (bp_amountSats p) (ck_token b, sf_execution ?s)) = Some ()"
    "Verify_lock (verify_params p b) \<in> set (fst (lock_stage env ctx ?payload (bp_amountSats p) (ck_token b, sf_execution ?s)))"
    using fits provider(9,10) params
    by (auto simp: lock_stage_def job_bind_unfold require_def request_payload_def Let_def split: prod.splits)
  show "job_reached env ctx bundles handler notice ?payload offer (bp_amountSats p) offerEvent (ck_token b, sf_execution ?s)"
    using acc provider(4,5) sel lock(1) by (auto simp: job_reached_def)
  show "Verify_lock (verify_params p b) \<in> set (fst (lock_stage env ctx ?payload (bp_amountSats p) (ck_token b, sf_execution ?s)))"
    by (fact lock(2))
qed

text \<open>The calls of a job that has reached its result.\<close>

lemma reached_calls:
  assumes "job_reached env ctx bundles handler event payload offer amount offerEvent selection"
  shows "set (fst (lock_stage env ctx payload amount selection)) \<subseteq> set (fst (handleJob env ctx bundles handler event))"
    "Produce (selection_context (snd selection)) \<in> set (fst (handleJob env ctx bundles handler event))"
proof -
  obtain cs where "fst (result_stage env ctx event payload offer amount offerEvent (snd selection)) =
      Produce (selection_context (snd selection)) # cs"
    using result_stage_calls by metis
  then show "set (fst (lock_stage env ctx payload amount selection)) \<subseteq> set (fst (handleJob env ctx bundles handler event))"
    "Produce (selection_context (snd selection)) \<in> set (fst (handleJob env ctx bundles handler event))"
    by (auto simp: handleJob_reached [OF assms] job_bind_unfold simp del: job_bind.simps)
qed

section \<open>An exchange\<close>

definition xc_customer :: Keypair where
  "xc_customer = \<lparr> kp_secretKey = replicate 32 1, kp_publicKey = hex_string (replicate 32 1) \<rparr>"

definition xc_provider :: Keypair where
  "xc_provider = \<lparr> kp_secretKey = [2], kp_publicKey = hex_string [2] \<rparr>"

definition xc_oracle :: Keypair where
  "xc_oracle = \<lparr> kp_secretKey = [3], kp_publicKey = hex_string [3] \<rparr>"

lemmas xc_ids = xc_customer_def xc_provider_def xc_oracle_def

lemma xc_own_keys:
  "kp_publicKey xc_customer = n_publicKey ex_nostr (kp_secretKey xc_customer)"
  "kp_publicKey xc_provider = n_publicKey ex_nostr (kp_secretKey xc_provider)"
  "kp_publicKey xc_oracle = n_publicKey ex_nostr (kp_secretKey xc_oracle)"
  by (simp_all add: xc_ids ex_keys)

definition xc_hash :: string where
  "xc_hash = replicate 64 (CHR ''a'')"

lemma xc_hash_ok: "hex64 xc_hash" "to_lower xc_hash = xc_hash"
  by (simp_all add: xc_hash_def hex64_def list_all_length hex_value_def to_lower_def)

definition xc_time :: jsnum where
  "xc_time = Fin 1700000000000"

lemma xc_seconds: "seconds xc_time = Fin 1700000000"
  by (simp add: xc_time_def)

subsection \<open>The payment\<close>

definition xc_funding :: jsval where
  "xc_funding = Array [Object [(''id'', String ''k1''), (''amount'', Number (Fin 100)), (''secret'', String ''s''), (''C'', String ''C0'')]]"

definition xc_bind :: BindProviderParams where
  "xc_bind = \<lparr> bp_amountSats = Fin 80, bp_fundingProofs = xc_funding, bp_providerPubkey = kp_publicKey xc_provider,
     bp_hashHex = xc_hash, bp_locktimeSeconds = Fin 1700003600, bp_customerPubkey = kp_publicKey xc_customer,
     bp_customerSecretKey = kp_secretKey xc_customer \<rparr>"

definition xc_lock_tags :: "string list list" where
  "xc_lock_tags = lock_tags (\<lambda>_. []) xc_bind (kp_publicKey xc_provider) (kp_publicKey xc_customer)"

definition xc_locked :: Proof where
  "xc_locked = \<lparr> p_amount = Fin 80, p_secret = secret_text (\<lambda>_. []) ''n1'' xc_hash xc_lock_tags, p_C = ''C1'', p_witness = Undefined,
     p_id = ''k1'', p_dleq = Object [(''s'', String ''00''), (''e'', String ''00'')] \<rparr>"

definition xc_api :: "unit cashu_api" where
  "xc_api = \<lparr> ca_toOptions = (\<lambda>_. ()), ca_encode = (\<lambda>mint ps. mint), ca_decode = (\<lambda>t ks. Some (t, [xc_locked])),
     ca_verifyDleq = (\<lambda>_ _ _ _. Some True), ca_verifyHTLCHash = (\<lambda>_ _. Some True), ca_signP2PK = (\<lambda>ps k. Some ps),
     ca_numStr = (\<lambda>_. []) \<rparr>"

definition xc_cashu_wallet :: "unit cashu_wallet" where
  "xc_cashu_wallet = \<lparr> cw_redeem = \<lparr> rw_getFeesForProofs = (\<lambda>_. Fin 0), rw_keyset = None, rw_asCustom = False,
       rw_createRandomData = (\<lambda>_ _. []), rw_run = (\<lambda>a ps k d. Some ps),
       rw_checkProofsStates = Some (\<lambda>ps. Some (replicate (length ps) ''UNSPENT'')), rw_restore = None \<rparr>,
     cw_keysetIds = [], cw_loadMint = Some True, cw_getKeyset = Some (\<lambda>i. Some (\<lambda>a. String ''pk'')),
     cw_hasIncludeFees = True, cw_send = (\<lambda>a ins k opt inc. Some (None, [xc_locked])) \<rparr>"

definition xc_client :: cashu_client where
  "xc_client = \<lparr> cc_mintUrl = ''https://mint'', cc_injected = True, cc_walletPromise = None \<rparr>"

definition xc_token :: CashuToken where
  "xc_token = \<lparr> ck_token = ''https://mint'', ck_amountSats = Fin 80, ck_proofs = [xc_locked], ck_changeProofs = Some [] \<rparr>"

lemma xc_signed: "mint_signed xc_api xc_cashu_wallet xc_locked"
proof -
  have "\<exists>d. decodeProofDleq xc_locked = Inr d"
    by (simp add: decodeProofDleq_def xc_locked_def hexToBytesLocal_def hex_value_def bigint_hex_def trim_def ws_chars_def map_get_def)
  then show ?thesis by (auto simp: mint_signed_def xc_api_def xc_cashu_wallet_def)
qed

lemma xc_spelled: "spells_lock (\<lambda>_. []) xc_bind xc_locked"
proof -
  have "kp_publicKey xc_provider \<in> set (p2pkVariants (bp_providerPubkey xc_bind))"
    "kp_publicKey xc_customer \<in> set (p2pkVariants (bp_customerPubkey xc_bind))"
    by (simp_all add: p2pkVariants_def xc_bind_def)
  then show ?thesis
    unfolding spells_lock_def xc_locked_def xc_lock_tags_def by (auto simp: xc_bind_def)
qed

lemma xc_cashu_ok: "cashu_ok xc_api xc_cashu_wallet xc_cashu_wallet xc_bind"
  using xc_signed xc_spelled by (auto simp: cashu_ok_def) (simp_all add: xc_api_def xc_cashu_wallet_def)

lemma xc_bound: "bindProvider xc_api xc_cashu_wallet True xc_time xc_bind xc_client = (Inr xc_token, xc_client)"
proof -
  have "bind_checks xc_time xc_bind = Inr [as_proof (Object [(''id'', String ''k1''), (''amount'', Number (Fin 100)),
      (''secret'', String ''s''), (''C'', String ''C0'')])]"
    by (simp add: bind_checks_def xc_bind_def xc_hash_ok validateHashHex_def validateLocktime_def xc_seconds throw_if_def
        xc_funding_def xc_customer_def isValidProofShape_def map_get_def)
  then show ?thesis
    by (simp add: bindProvider_def with_wallet_def getWallet_def xc_client_def bind_swap_def xc_bind_def throw_if_def
        xc_cashu_wallet_def xc_api_def xc_token_def sumProofAmounts_def as_proof_def map_get_def Let_def xc_locked_def)
qed

subsection \<open>The customer\<close>

definition xc_parse :: url_parser where
  "xc_parse s = Some \<lparr> u_protocol = ''https:'', u_username = [], u_password = [], u_search = [], u_hash = [],
     u_pathname = ''/spec/proof/tlsn/v1'' \<rparr>"

lemma xc_schema: "isSchemaUri xc_parse (String s)"
  by (simp add: xc_parse_def) code_simp

definition xc_published :: PublishResult where
  "xc_published = \<lparr> pr_successes = [''wss://relay''], pr_failures = [] \<rparr>"

definition xc_req :: RequestOptions where
  "xc_req = \<lparr> ro_schema = TlsnV1, ro_predicate = Object [(''min'', Number (Fin 3))], ro_description = None, ro_context = Undefined,
     ro_maxAmount = Fin 100, ro_locktimeSeconds = None, ro_fundingProofs = xc_funding, ro_onPaymentChange = None,
     ro_provider = None, ro_regionCode = None \<rparr>"

definition xc_hash_client :: "string \<Rightarrow> Event list \<times> (oracle_error + string)" where
  "xc_hash_client q = ([], Inr xc_hash)"

definition xc_copts :: CustomerOptions where
  "xc_copts = \<lparr> co_oracles = [(kp_publicKey xc_oracle, Some xc_hash_client)], co_mint = ''https://mint'', co_stateStore = False,
     co_oracleSelector = None, co_offerSelector = None, co_offerWindowMs = None, co_resultTimeoutMs = None,
     co_verifierAdapters = [], co_schemaOptions = None \<rparr>"

definition xc_offer_payload :: OfferFeedbackPayload where
  "xc_offer_payload = \<lparr> of_provider_pubkey = kp_publicKey xc_provider, of_amount_sats = Fin 80 \<rparr>"

definition xc_offer_event :: Event where
  "xc_offer_event = the (buildOfferFeedbackEvent ex_nostr (\<lambda>_. []) xc_time xc_provider ''id'' (kp_publicKey xc_customer) xc_offer_payload)"

definition xc_bootstrap :: bootstrap where
  "xc_bootstrap = \<lparr> bs_identity = xc_customer, bs_now = xc_time, bs_timeoutMs = None, bs_publish = (\<lambda>e. Some xc_published), bs_events = [] \<rparr>"

definition xc_boot :: "Keypair \<Rightarrow> Event list \<Rightarrow> bootstrap" where
  "xc_boot ident events = xc_bootstrap\<lparr> bs_identity := ident, bs_events := events \<rparr>"

definition xc_cenv :: "string set customer_env" where
  "xc_cenv = \<lparr> cv_lib = ex_nostr, cv_fstr = (\<lambda>_. []), cv_parse = xc_parse, cv_clock = (\<lambda>_. xc_time), cv_identity = xc_customer,
     cv_queryId = ''q1'', cv_bootstrap = xc_bootstrap, cv_publish = (\<lambda>e. Some xc_published), cv_set = (\<lambda>_ _. True),
     cv_offers = [(xc_time, xc_offer_event)],
     cv_bind = (\<lambda>p. fst (bindProvider xc_api xc_cashu_wallet True xc_time p xc_client)), cv_results = [] \<rparr>"

definition xc_notice :: Event where
  "xc_notice = the (buildQueryRequestEvent ex_nostr (\<lambda>_. []) xc_time xc_customer
     (request_payload xc_cenv xc_copts xc_req (kp_publicKey xc_oracle)) None)"

definition xc_offer :: Offer where
  "xc_offer = \<lparr> ff_providerPubkey = kp_publicKey xc_provider, ff_amountSats = Fin 80, ff_offerEventId = ev_id xc_offer_event,
     ff_receivedAt = xc_time \<rparr>"

lemma xc_offer_read: "parseOfferFeedbackEvent xc_offer_event = Some (offer_seen (''id'', kp_publicKey xc_customer, xc_offer_payload))"
proof -
  obtain e where e: "buildOfferFeedbackEvent ex_nostr (\<lambda>_. []) xc_time xc_provider ''id'' (kp_publicKey xc_customer) xc_offer_payload = Some e"
    using ex_sign unfolding buildOfferFeedbackEvent_def by blast
  have "parseOfferFeedbackEvent e = Some (offer_seen (''id'', kp_publicKey xc_customer, xc_offer_payload))"
    by (rule offer_read_back(2) [OF ex_nostr_ok _ _ _ _ e])
      (simp_all add: xc_offer_payload_def whole_def xc_own_keys xc_customer_def hex_string_def hex_byte_def)
  then show ?thesis by (simp add: xc_offer_event_def e)
qed

lemma xc_published_notice: "snd (publish_request xc_cenv xc_copts xc_req (kp_publicKey xc_oracle)) = Inr xc_notice"
proof -
  obtain e where e: "buildQueryRequestEvent ex_nostr (\<lambda>_. []) xc_time xc_customer
      (request_payload xc_cenv xc_copts xc_req (kp_publicKey xc_oracle)) None = Some e"
    using ex_built(3) by blast
  then have n: "xc_notice = e" by (simp add: xc_notice_def)
  have env: "cv_lib xc_cenv = ex_nostr" "cv_fstr xc_cenv = (\<lambda>_. [])" "cv_clock xc_cenv i = xc_time" "cv_identity xc_cenv = xc_customer"
    "cv_publish xc_cenv x = Some xc_published" "ro_regionCode xc_req = None" "co_stateStore xc_copts = False" for i x
    by (simp_all add: xc_cenv_def xc_req_def xc_copts_def)
  show ?thesis
    by (simp add: publish_request_def run_bind_unfold env e n send_event_def writeCustomerState_def xc_published_def
        del: run_bind.simps)
qed

lemma xc_before_bind: "snd (before_bind xc_cenv xc_copts xc_req) = Inr (xc_notice, xc_offer, xc_bind)"
proof -
  have "request_checks (cv_parse xc_cenv) xc_req = Inr 3600"
    by (simp add: request_checks_def xc_cenv_def xc_schema xc_req_def xc_funding_def DEFAULT_LOCKTIME_SECONDS_def
        MIN_CUSTOMER_PAYMENT_LOCK_DURATION_SECONDS_def MIN_PAYMENT_LOCK_DURATION_SECONDS_def Let_def del: isSchemaUri.simps)
  moreover have "choose_oracle xc_copts = Inr (kp_publicKey xc_oracle, Some xc_hash_client)"
    by (simp add: choose_oracle_def xc_copts_def pickOracleForRequest_def findCustomerOracle_def)
  moreover have "snd (request_hash xc_cenv (kp_publicKey xc_oracle, Some xc_hash_client)) = Inr xc_hash"
    by (simp add: request_hash_def xc_hash_client_def)
  moreover have "select_offer xc_cenv xc_copts xc_req = Inr xc_offer"
    by (simp add: select_offer_def xc_cenv_def xc_offer_read offer_seen_def xc_offer_payload_def isValidOfferAmount_def xc_req_def
        xc_copts_def selectCheapestOffer_def xc_offer_def)
  moreover have "bind_params xc_cenv xc_req 3600 xc_hash xc_offer = xc_bind"
    by (simp add: bind_params_def xc_cenv_def xc_req_def xc_offer_def xc_bind_def xc_seconds)
  ultimately show ?thesis by (simp add: before_bind_def run_bind_unfold xc_published_notice del: run_bind.simps)
qed

subsection \<open>The provider\<close>

definition xc_sel_event :: Event where
  "xc_sel_event = the (buildSelectionFeedbackEvent ex_nostr (\<lambda>_. []) xc_time xc_customer (ev_id xc_notice)
     (selection_payload xc_copts xc_req xc_bind xc_token))"

definition xc_dm :: Event where
  "xc_dm = the (buildPreimageDeliveryEvent ex_nostr (\<lambda>_. []) xc_time xc_oracle (kp_publicKey xc_provider)
     \<lparr> pd_query_id = ''q1'', pd_request_event_id = ev_id xc_notice, pd_preimage = ''00ff'' \<rparr>)"

definition xc_pctx :: "unit JobContext" where
  "xc_pctx = \<lparr> jc_identity = xc_provider, jc_oracles = [kp_publicKey xc_oracle], jc_mintUrl = ''https://mint'', jc_stateStore = False,
     jc_proofGenerators = [], jc_schemaOptions = None, jc_oracleClients = [(kp_publicKey xc_oracle, xc_hash_client)] \<rparr>"

definition xc_offered :: ProviderOffer where
  "xc_offered = \<lparr> po_amountSats = Number (Fin 80), po_produce = (\<lambda>c. Some (Bool True, Proof_text ''proof'')) \<rparr>"

definition xc_handler :: "unit ProviderHandler" where
  "xc_handler r = Some (Some xc_offered)"

definition xc_later :: jsnum where
  "xc_later = Fin 1700000030000"

definition xc_env :: "string set job_env" where
  "xc_env = \<lparr> jv_lib = ex_nostr, jv_fstr = (\<lambda>_. []), jv_parse = xc_parse, jv_clock = (\<lambda>_. xc_later), jv_publish = (\<lambda>e. Some xc_published),
     jv_set = (\<lambda>_ _. True), jv_selections = [xc_offer_event, xc_sel_event], jv_bootstrap = xc_bootstrap,
     jv_verifyLock = (\<lambda>p. fst (verifyProviderPaymentLock xc_api xc_cashu_wallet True xc_later p xc_client)), jv_dms = [xc_dm],
     jv_redeem = (\<lambda>p. fst (redeemHtlc xc_api xc_cashu_wallet True p xc_client)) \<rparr>"

definition xc_bundles :: "(unit, unit, verify_fn) schema_bundles" where
  "xc_bundles = []"

definition xc_payload :: QueryRequestPayload where
  "xc_payload = request_payload xc_cenv xc_copts xc_req (kp_publicKey xc_oracle)"

lemma xc_lock_verified:
  "fst (verifyProviderPaymentLock xc_api xc_cashu_wallet True xc_later (verify_params xc_bind xc_token) xc_client) =
    Inr ([xc_locked], Fin 80)"
proof -
  have b: "fst (bindProvider xc_api xc_cashu_wallet True xc_time xc_bind xc_client) = Inr xc_token" by (simp add: xc_bound)
  have "num_eq (ck_amountSats xc_token) (bp_amountSats xc_bind)" "to_lower (bp_hashHex xc_bind) = bp_hashHex xc_bind"
    "bp_locktimeSeconds xc_bind = Fin (of_int (1700000000 + 3600))" "seconds xc_later = Fin (of_int 1700000030)"
    by (simp_all add: xc_token_def xc_bind_def xc_hash_ok xc_later_def)
  note ok = bound_lock_ok [OF xc_cashu_ok b this(2,1) refl this(3) _ this(4)]
  have ps: "ck_proofs xc_token = [xc_locked]" by (simp add: xc_token_def)
  have "all_unspent xc_cashu_wallet [xc_locked]" by (simp add: all_unspent_def xc_cashu_wallet_def)
  moreover have "wallet_ready xc_client True" "cw_loadMint xc_cashu_wallet \<noteq> Some False" "cw_getKeyset xc_cashu_wallet \<noteq> None"
    "cc_mintUrl xc_client = ''https://mint''" "rw_getFeesForProofs (cw_redeem xc_cashu_wallet) [xc_locked] = Fin 0"
    "sumProofAmounts [xc_locked] = Fin 80" "vp_token (verify_params xc_bind xc_token) = ck_token xc_token"
    by (simp_all add: wallet_ready_def xc_client_def xc_cashu_wallet_def sumProofAmounts_def xc_locked_def verify_params_def)
  ultimately show ?thesis using ok ps by (simp add: verifyProviderPaymentLock_Inr)
qed

lemma xc_selection_sent: "Send xc_sel_event \<in> set (fst (announce_selection xc_cenv xc_copts xc_req xc_notice xc_offer xc_bind xc_token))"
proof -
  obtain e where e: "buildSelectionFeedbackEvent ex_nostr (\<lambda>_. []) xc_time xc_customer (ev_id xc_notice)
      (selection_payload xc_copts xc_req xc_bind xc_token) = Some e"
    using ex_built(1) by blast
  then show ?thesis
    by (simp add: announce_selection_def run_bind_unfold send_event_def xc_cenv_def xc_sel_event_def del: run_bind.simps)
qed

lemma xc_offer_no_selection: "match_selection ex_nostr xc_provider (kp_publicKey xc_customer) xc_offer_event = None"
proof -
  obtain e where e: "buildOfferFeedbackEvent ex_nostr (\<lambda>_. []) xc_time xc_provider ''id'' (kp_publicKey xc_customer) xc_offer_payload = Some e"
    using ex_sign unfolding buildOfferFeedbackEvent_def by blast
  have "ev_tags e = [[''e'', ''id'', [], ''request''], [''p'', kp_publicKey xc_customer], [''status'', ''payment-required'']]"
    using sign_content_event(3) [OF ex_nostr_ok e [unfolded buildOfferFeedbackEvent_def]] .
  moreover have "kp_publicKey xc_customer \<noteq> kp_publicKey xc_provider"
    by (auto simp: xc_ids hex_string_length dest: arg_cong [of _ _ length])
  ultimately show ?thesis by (simp add: match_selection_def xc_offer_event_def e)
qed

lemma xc_offer_stage: "\<exists>oe. snd (offer_stage xc_env xc_pctx xc_notice xc_payload (Fin 80)) = Some oe"
proof -
  obtain e where "buildOfferFeedbackEvent ex_nostr (\<lambda>_. []) xc_later xc_provider (ev_id xc_notice) (qp_customer_pubkey xc_payload)
      \<lparr> of_provider_pubkey = kp_publicKey xc_provider, of_amount_sats = Fin 80 \<rparr> = Some e"
    using ex_sign unfolding buildOfferFeedbackEvent_def by blast
  then show ?thesis
    by (simp add: offer_stage_def publish_event_def job_bind_unfold xc_env_def xc_pctx_def writeProviderState_def pure_def
        del: job_bind.simps)
qed

lemma xc_setup:
  "cv_lib xc_cenv = ex_nostr" "jv_lib xc_env = ex_nostr" "cv_identity xc_cenv = xc_customer" "jc_identity xc_pctx = xc_provider"
  "jv_parse xc_env = xc_parse" "jc_proofGenerators xc_pctx = []" "jc_mintUrl xc_pctx = co_mint xc_copts"
  "jv_selections xc_env = [xc_offer_event] @ xc_sel_event # []" "jc_oracles xc_pctx = [kp_publicKey xc_oracle]"
  "jv_verifyLock xc_env (verify_params xc_bind xc_token) = Inr ([xc_locked], Fin 80)" "cv_queryId xc_cenv = ''q1''"
  "bp_providerPubkey xc_bind = kp_publicKey xc_provider" "bp_customerPubkey xc_bind = kp_publicKey xc_customer"
  "ck_token xc_token = ''https://mint''" "bp_amountSats xc_bind = Fin 80"
  "snd (getOracleClient xc_env xc_pctx (kp_publicKey xc_oracle) ''q1'') = Inr (bp_hashHex xc_bind)"
  "ask_handler xc_pctx xc_handler (request_payload xc_cenv xc_copts xc_req (kp_publicKey xc_oracle)) None = Some (xc_offered, Fin 80)"
  using xc_lock_verified
  by (simp_all add: xc_cenv_def xc_env_def xc_pctx_def xc_copts_def xc_bind_def xc_token_def getOracleClient_def xc_hash_client_def
      map_get_def ask_handler_def xc_handler_def xc_offered_def request_payload_def xc_req_def)

lemma xc_json:
  "jok (ro_predicate xc_req)" "ro_context xc_req = Undefined" "whole (ro_maxAmount xc_req)" "whole (Fin 80)"
  "whole (bp_locktimeSeconds xc_bind)" "whole (qp_expires_at (request_payload xc_cenv xc_copts xc_req (kp_publicKey xc_oracle)))"
  by (simp_all add: xc_req_def xc_bind_def whole_def request_payload_def xc_cenv_def xc_time_def offer_window_def xc_copts_def
      DEFAULT_OFFER_WINDOW_MS_def)

lemma xc_reached:
  "\<exists>oe. job_reached xc_env xc_pctx xc_bundles xc_handler xc_notice xc_payload xc_offered (Fin 80) oe
     (''https://mint'', sf_execution (selection_payload xc_copts xc_req xc_bind xc_token))"
proof -
  obtain oe where oe: "snd (offer_stage xc_env xc_pctx xc_notice xc_payload (Fin 80)) = Some oe" using xc_offer_stage by blast
  have "job_reached xc_env xc_pctx xc_bundles xc_handler xc_notice xc_payload xc_offered (bp_amountSats xc_bind) oe
     (ck_token xc_token, sf_execution (selection_payload xc_copts xc_req xc_bind xc_token))"
    unfolding xc_payload_def
  proof (rule exchange_reached(1) [OF ex_nostr_ok xc_setup(1,2)])
    show "snd (offer_stage xc_env xc_pctx xc_notice (request_payload xc_cenv xc_copts xc_req (kp_publicKey xc_oracle)) (bp_amountSats xc_bind)) = Some oe"
      using oe by (simp add: xc_payload_def xc_setup)
    show "match_selection ex_nostr (jc_identity xc_pctx) (kp_publicKey (cv_identity xc_cenv)) e = None" if "e \<in> set [xc_offer_event]" for e
      using that xc_offer_no_selection by (simp add: xc_setup)
  qed (use xc_setup xc_json xc_own_keys xc_published_notice xc_selection_sent xc_schema in \<open>simp_all del: isSchemaUri.simps\<close>)
  then show ?thesis by (auto simp: xc_setup)
qed

lemma xc_produces: "\<exists>xs c ys. fst (handleJob xc_env xc_pctx xc_bundles xc_handler xc_notice) = xs @ Produce c # ys"
  using xc_reached reached_calls(2) by (metis split_list)

text \<open>The oracle's message arrives, so the job goes on to redeem.\<close>

lemma xc_dm_built: "\<exists>e. build_dm ex_nostr fstr now ident pk ms = Some e"
  by (simp add: build_dm_def ex_encrypt ex_sign)

lemma xc_preimage_seen: "waitForPreimage xc_env xc_pctx (qp_oracle_pubkey xc_payload) (qp_query_id xc_payload) (ev_id xc_notice) = Some ''00ff''"
proof -
  let ?p = "\<lparr> pd_query_id = ''q1'', pd_request_event_id = ev_id xc_notice, pd_preimage = ''00ff'' \<rparr>"
  obtain e where e: "buildPreimageDeliveryEvent ex_nostr (\<lambda>_. []) xc_time xc_oracle (kp_publicKey xc_provider) ?p = Some e"
    using xc_dm_built unfolding buildPreimageDeliveryEvent_def by blast
  have "parsePreimageDeliveryEvent ex_nostr e (kp_secretKey xc_provider) (kp_publicKey xc_oracle) = Some ?p"
    using preimage_read_back(2) [OF ex_nostr_ok e [unfolded xc_own_keys(2)]] by (simp add: xc_own_keys(3))
  then show ?thesis
    by (simp add: waitForPreimage_def wait_result_first xc_env_def xc_pctx_def map_filter_simps match_preimage_def xc_dm_def e
        xc_payload_def request_payload_def xc_cenv_def)
qed

lemma xc_redeems: "\<exists>xs p ys. fst (handleJob xc_env xc_pctx xc_bundles xc_handler xc_notice) = xs @ Redeem p # ys"
proof -
  let ?sel = "(''https://mint'', sf_execution (selection_payload xc_copts xc_req xc_bind xc_token))"
  obtain oe where r: "job_reached xc_env xc_pctx xc_bundles xc_handler xc_notice xc_payload xc_offered (Fin 80) oe ?sel"
    using xc_reached by blast
  obtain e where "buildQueryResponseEvent ex_nostr (\<lambda>_. []) xc_later xc_provider (ev_id xc_notice) (qp_customer_pubkey xc_payload)
      (qp_schema xc_payload) (Bool True) (Proof_text ''proof'') (Some (qp_oracle_pubkey xc_payload)) (Some (qp_query_id xc_payload)) = Some e"
    using ex_built(2) by blast
  then have res: "snd (result_stage xc_env xc_pctx xc_notice xc_payload xc_offered (Fin 80) oe (snd ?sel)) = Some e"
    by (simp add: result_stage_def publish_event_def job_bind_unfold xc_env_def xc_pctx_def writeProviderState_def pure_def xc_offered_def
        del: job_bind.simps)
  have "fst (after_result xc_env xc_pctx xc_notice xc_payload (Fin 80) oe (fst ?sel) e) \<noteq> []"
    using redeem_stage_calls [of xc_env xc_pctx xc_notice xc_payload "Fin 80" oe e "fst ?sel" "''00ff''"]
    by (auto simp: after_result_def job_bind_unfold xc_preimage_seen)
  then obtain p cs where "fst (after_result xc_env xc_pctx xc_notice xc_payload (Fin 80) oe (fst ?sel) e) = Redeem p # cs"
    using after_result_calls by metis
  then have "Redeem p \<in> set (fst (handleJob xc_env xc_pctx xc_bundles xc_handler xc_notice))"
    using res by (simp add: handleJob_reached [OF r] job_bind_unfold del: job_bind.simps)
  then show ?thesis by (metis split_list)
qed

subsection \<open>The oracle\<close>

definition xc_query :: Query where
  "xc_query = \<lparr> q_id = ''q1'', q_schema = Some TlsnV1, q_status = Processing, q_description = ''price'', q_location_hint = None,
     q_challenge_nonce = None, q_verification_requirements = [], q_created_at = xc_time, q_expires_at = xc_later, q_customer_meta = None,
     q_payment_lock = None, q_oracle_ids = None, q_assigned_oracle_id = None, q_submitted_at = None, q_result = None,
     q_verification = None, q_submission_meta = None, q_payment_status = Locked, q_escrow = None, q_offers = None,
     q_nostr_event_id = None, q_blossom_keys = None, q_schema_requirement = Undefined, q_quorum = None, q_attestations = None \<rparr>"

definition xc_watched :: oracle_service where
  "xc_watched = \<lparr> os_preimages = [(xc_hash, \<lparr> pe_hash = xc_hash, pe_preimage = ''00ff'', pe_created_at = xc_time \<rparr>)],
     os_queryHashMap = [(''q1'', xc_hash)],
     os_watched = [(''q1'', \<lparr> wq_query = xc_query, wq_queryEventId = ''id'', wq_customerPubkey = kp_publicKey xc_customer,
       wq_selectedProviderPubkey = Some (kp_publicKey xc_provider), wq_offeredProviders = [] \<rparr>)],
     os_reference = (True, []) \<rparr>"

definition xc_delivery :: "string set delivery_env" where
  "xc_delivery = \<lparr> dv_lib = ex_nostr, dv_fstr = (\<lambda>_. []), dv_now = xc_later, dv_identity = xc_oracle, dv_text = (\<lambda>_. []),
     dv_verify = (\<lambda>q r. Some \<lparr> vd_passed = True, vd_checks = [], vd_failures = [], vd_warnings = None, vd_schema_verdict = Undefined \<rparr>),
     dv_publish = (\<lambda>i. Some xc_published), dv_retries = None, dv_frostCoordinator = False, dv_frostConfig = False,
     dv_frostNodeConfig = None, dv_sha = (\<lambda>s. s), dv_decode = (\<lambda>_. None), dv_coordinate = (\<lambda>_ _. None), dv_proof_env = ex_proof_env \<rparr>"

definition xc_result :: Event where
  "xc_result = the (buildQueryResponseEvent ex_nostr (\<lambda>_. []) xc_later xc_provider ''id'' (kp_publicKey xc_customer) TlsnV1 (Bool True)
     (Proof_text ''proof'') (Some (kp_publicKey xc_oracle)) (Some ''q1''))"

lemma xc_release_built: "\<exists>e. buildPreimageDM ex_nostr fstr now oid pk q preimage = Some e"
  by (simp add: buildPreimageDM_def release_dm_def ex_encrypt ex_sign)

lemma xc_releases:
  "\<exists>dm out st'. handleResponseEvent xc_delivery 0 ''q1'' xc_result xc_watched = ([dm], out, st') \<and>
     buildPreimageDM ex_nostr (\<lambda>_. []) xc_later xc_oracle (kp_publicKey xc_provider) ''q1'' ''00ff'' = Some dm"
proof -
  obtain e where e: "buildQueryResponseEvent ex_nostr (\<lambda>_. []) xc_later xc_provider ''id'' (kp_publicKey xc_customer) TlsnV1 (Bool True)
      (Proof_text ''proof'') (Some (kp_publicKey xc_oracle)) (Some ''q1'') = Some e"
    using ex_built(2) by blast
  have res: "xc_result = e" by (simp add: xc_result_def e)
  have "jok (Bool True)" by simp
  note read = oracle_read_back [OF ex_nostr_ok this e [unfolded xc_own_keys(1,3)]] response_read_back [OF ex_nostr_ok this e [unfolded xc_own_keys(1,3)]]
  have pk: "ev_pubkey e = kp_publicKey xc_provider"
    using e by (auto simp: buildQueryResponseEvent_def xc_own_keys(2) split: option.splits dest: sign_content_event [OF ex_nostr_ok])
  obtain dm where dm: "buildPreimageDM ex_nostr (\<lambda>_. []) xc_later xc_oracle (kp_publicKey xc_provider) ''q1'' ''00ff'' = Some dm"
    using xc_release_built by blast
  have attempts: "publish_attempts (\<lambda>i. Some xc_published) 0 (max_attempts xc_delivery) = (1, Some True)"
    by (simp add: max_attempts_def xc_delivery_def xc_published_def numeral_2_eq_2)
  let ?st = "xc_watched\<lparr> os_reference := (True, []) \<rparr>"
  have del: "\<exists>out st'. dispatchVerifyAndDeliver xc_delivery ''q1'' xc_query result (kp_publicKey xc_provider) ?st = ([dm], out, st')" for result
  proof -
    have "q_quorum xc_query = None" "map_get (os_queryHashMap ?st) ''q1'' = Some xc_hash" "getPreimage (os_preimages ?st) xc_hash = Some ''00ff''"
      "xc_hash \<noteq> []"
      by (simp_all add: xc_query_def xc_watched_def map_get_def getPreimage_def xc_hash_def)
    moreover have "\<exists>out st'. deliver_preimage xc_delivery ''q1'' (kp_publicKey xc_provider) xc_hash ''00ff'' ?st = ([dm], out, st')"
      using dm attempts by (simp add: deliver_preimage_def xc_delivery_def)
    moreover have "\<exists>d. dv_verify xc_delivery xc_query result = Some d \<and> vd_passed d" by (simp add: xc_delivery_def)
    ultimately show ?thesis by (auto simp: dispatchVerifyAndDeliver_def verifyAndDeliverInternal_def Let_def)
  qed
  have env: "dv_lib xc_delivery = ex_nostr" "dv_identity xc_delivery = xc_oracle" "os_reference xc_watched = (True, [])"
    by (simp_all add: xc_delivery_def xc_watched_def)
  have entry: "map_get (os_watched xc_watched) ''q1'' = Some \<lparr> wq_query = xc_query, wq_queryEventId = ''id'',
      wq_customerPubkey = kp_publicKey xc_customer, wq_selectedProviderPubkey = Some (kp_publicKey xc_provider), wq_offeredProviders = [] \<rparr>"
    by (simp add: xc_watched_def map_get_def)
  have "kp_publicKey xc_provider \<noteq> []" "q_id xc_query = ''q1''" by (simp_all add: xc_ids xc_query_def hex_string_def hex_byte_def)
  moreover obtain payload where "parseOracleQueryResponseEvent ex_nostr e (kp_secretKey xc_oracle) (kp_publicKey xc_provider) = Some payload"
    "rp_query_id payload = ''q1''" "rp_request_event_id payload = ''id''"
    using read(1) by (simp add: xc_own_keys(2) oracle_seen_def)
  moreover obtain result where "oracleResponseToResult (dv_proof_env xc_delivery) 0 xc_query payload (True, []) = (Some result, (True, []))"
    by (simp add: oracleResponseToResult_def ensureReferenceSchemaBundlesRegistered_def Let_def)
  moreover obtain out st' where "dispatchVerifyAndDeliver xc_delivery ''q1'' xc_query result (kp_publicKey xc_provider) ?st = ([dm], out, st')"
    using del by blast
  ultimately have "\<exists>out st'. handleResponseEvent xc_delivery 0 ''q1'' e xc_watched = ([dm], out, st')"
    by (simp add: handleResponseEvent_def entry env pk unwatch_if_terminal_def)
  with dm show ?thesis by (auto simp: res)
qed

end
