(* ===== verification/Exchange_Properties.thy ===== *)
theory Exchange_Properties
  imports Exchange
begin

text \<open>
  The properties of the exchange between customer, provider and oracle: what each of them relies on, and how
  the messages and the Payment Lock of one are taken by the other.  The examples share one customer, one
  provider and one oracle over the library \<open>ex_nostr\<close>.
\<close>

section \<open>Claims\<close>

text \<open>C2. A provider works only for a locked payment.  Whenever a job calls the handler to produce a proof, the request
  names an oracle of its whitelist, and before that the Payment Lock was checked against the hash this oracle
  gave for the query: proofs the mint signed and reports unspent, locked by this hash to the provider's key alone,
  refundable to the customer only, with at least ten minutes left, worth after fees the amount offered, which is
  positive, at most the customer's maximum and the one handed to the handler.\<close>

theorem provider_works_for_locked_payment:
  assumes "jv_verifyLock env = (\<lambda>p. fst (verifyProviderPaymentLock lib wallet loads now p client))"
    "fst (handleJob env ctx bundles handler event) = xs @ Produce c # ys"
  shows "\<exists>payload hash params proofs. parseQueryRequestEvent event = Some payload \<and>
      qp_oracle_pubkey payload \<in> set (jc_oracles ctx) \<and>
      snd (getOracleClient env ctx (qp_oracle_pubkey payload) (qp_query_id payload)) = Inr hash \<and>
      Verify_lock params \<in> set xs \<and>
      (payment_lock_ok (ca_numStr lib) now params (rw_getFeesForProofs (cw_redeem wallet) proofs) proofs \<and>
       (\<forall>proof \<in> set proofs. mint_signed lib wallet proof) \<and> all_unspent wallet proofs) \<and> vp_hashHex params = hash \<and>
      vp_providerPubkey params = kp_publicKey (jc_identity ctx) \<and> vp_customerPubkey params = qp_customer_pubkey payload \<and>
      vp_locktimeSeconds params = pc_locktimeSeconds c \<and> num_eq (pc_amountSats c) (vp_amountSats params) \<and>
      \<not> vp_amountSats params \<le> 0 \<and> \<not> qp_max_amount_sats payload < vp_amountSats params \<and>
      pc_schema c = qp_schema payload \<and> pc_mint c = jc_mintUrl ctx"
  by (rule cashu_lock.produced_locked [OF assms])

theorem provider_works_for_locked_payment_witness:
  "\<exists>xs c ys params proofs. fst (handleJob xc_env xc_pctx xc_bundles xc_handler xc_notice) = xs @ Produce c # ys \<and>
     Verify_lock params \<in> set xs \<and> vp_providerPubkey params = kp_publicKey xc_provider \<and>
     payment_lock_ok (ca_numStr xc_api) xc_later params (rw_getFeesForProofs (cw_redeem xc_cashu_wallet) proofs) proofs"
proof -
  obtain xs c ys where c: "fst (handleJob xc_env xc_pctx xc_bundles xc_handler xc_notice) = xs @ Produce c # ys"
    using xc_produces by blast
  have "jv_verifyLock xc_env = (\<lambda>p. fst (verifyProviderPaymentLock xc_api xc_cashu_wallet True xc_later p xc_client))"
    by (simp add: xc_env_def)
  from provider_works_for_locked_payment [OF this c] show ?thesis
    using c by (auto simp: xc_pctx_def)
qed

text \<open>C5. A job redeems at most once, with the token it checked and a preimage the oracle sent for this very query and
  request event, and only after it has produced the result.\<close>

theorem redeemed_once_for_this_request:
  assumes "fst (handleJob env ctx bundles handler event) = xs @ Redeem p # ys"
  shows "(\<forall>q. Redeem q \<notin> set xs \<union> set ys) \<and> (\<exists>c. Produce c \<in> set xs) \<and>
    rh_providerSecretKey p = kp_secretKey (jc_identity ctx) \<and>
    (\<exists>params. Verify_lock params \<in> set xs \<and> vp_token params = rh_token p) \<and>
    (\<exists>payload dm. parseQueryRequestEvent event = Some payload \<and> dm \<in> set (jv_dms env) \<and>
      parsePreimageDeliveryEvent (jv_lib env) dm (kp_secretKey (jc_identity ctx)) (qp_oracle_pubkey payload) =
        Some \<lparr> pd_query_id = qp_query_id payload, pd_request_event_id = ev_id event, pd_preimage = rh_preimageHex p \<rparr>)"
  using assms
proof (rule job_around_redeem)
  fix payload offer amount offerEvent selection preimage
  assume r: "job_reached env ctx bundles handler event payload offer amount offerEvent selection"
    and w: "waitForPreimage env ctx (qp_oracle_pubkey payload) (qp_query_id payload) (ev_id event) = Some preimage"
    and p: "p = \<lparr> rh_token = fst selection, rh_preimageHex = preimage, rh_providerSecretKey = kp_secretKey (jc_identity ctx) \<rparr>"
    and prod: "Produce (selection_context (snd selection)) \<in> set xs"
    and lock: "set (fst (lock_stage env ctx payload amount selection)) \<subseteq> set xs"
    and one: "\<forall>z \<in> set xs \<union> set ys. \<not> is_redeem z"
  have once: "\<forall>q. Redeem q \<notin> set xs \<union> set ys" using one by (metis is_redeem.simps(1))
  have "snd (lock_stage env ctx payload amount selection) = Some ()" using r by (auto simp: job_reached_def)
  then have checked: "\<exists>params. Verify_lock params \<in> set xs \<and> vp_token params = rh_token p"
    by (rule lock_stage_Some) (use lock p in \<open>force simp: lock_params_def\<close>)
  obtain dm where dm: "dm \<in> set (jv_dms env)"
    "match_preimage (jv_lib env) (jc_identity ctx) (qp_oracle_pubkey payload) (qp_query_id payload) (ev_id event) dm = Some preimage"
    using wait_result_Some [OF w [unfolded waitForPreimage_def]] by blast
  have "parsePreimageDeliveryEvent (jv_lib env) dm (kp_secretKey (jc_identity ctx)) (qp_oracle_pubkey payload) =
        Some \<lparr> pd_query_id = qp_query_id payload, pd_request_event_id = ev_id event, pd_preimage = rh_preimageHex p \<rparr>"
    using dm(2) p by (auto simp: match_preimage_def split: option.splits if_splits)
  moreover have "parseQueryRequestEvent event = Some payload"
    using r by (auto simp: job_reached_def dest: accept_request_Some)
  ultimately show ?thesis using once prod checked dm(1) p by auto
qed

theorem redeemed_once_for_this_request_witness:
  "\<exists>xs p ys. fst (handleJob xc_env xc_pctx xc_bundles xc_handler xc_notice) = xs @ Redeem p # ys \<and>
     (\<exists>c. Produce c \<in> set xs) \<and> (\<forall>q. Redeem q \<notin> set xs \<union> set ys)"
proof -
  obtain xs p ys where "fst (handleJob xc_env xc_pctx xc_bundles xc_handler xc_notice) = xs @ Redeem p # ys"
    using xc_redeems by blast
  with redeemed_once_for_this_request [OF this] show ?thesis by blast
qed

text \<open>C3. A customer never locks more than it agreed to.  A request binds proofs at most once; it then pays a positive
  integer amount up to its maximum, under the hash an oracle of its whitelist gave, refundable to its own fresh
  key, with a locktime at least eleven minutes after the clock reading of the selection, and only after at least
  one relay has accepted the request notice.\<close>

theorem customer_locks_within_limits:
  assumes "fst (customer_request env opts bundles req) = xs @ Bind p # ys"
  shows "(\<forall>q. Bind q \<notin> set xs \<union> set ys) \<and> is_integer (bp_amountSats p) \<and> 0 < bp_amountSats p \<and>
    \<not> ro_maxAmount req < bp_amountSats p \<and> bp_fundingProofs p = ro_fundingProofs req \<and>
    bp_customerPubkey p = kp_publicKey (cv_identity env) \<and> bp_customerSecretKey p = kp_secretKey (cv_identity env) \<and>
    (\<exists>d. bp_locktimeSeconds p = seconds (cv_clock env 3) + d \<and> is_integer d \<and> \<not> d < 660) \<and>
    (\<exists>orc notice r. orc \<in> set (co_oracles opts) \<and> snd (request_hash env orc) = Inr (bp_hashHex p) \<and>
      buildQueryRequestEvent (cv_lib env) (cv_fstr env) (cv_clock env 1) (cv_identity env)
        (request_payload env opts req (fst orc)) (ro_regionCode req) = Some notice \<and>
      Send notice \<in> set xs \<and> cv_publish env notice = Some r \<and> pr_successes r \<noteq> [])"
proof -
  have limits: ?thesis if b: "snd (before_bind env opts req) = Inr (requestEvent, selected, q)"
    and eq: "fst (customer_request env opts bundles req) = fst (before_bind env opts req) @ Bind q # zs"
    and zs: "\<forall>c \<in> set zs. \<not> is_bind c" for requestEvent selected q zs
  proof -
    have no: "\<forall>z \<in> set (fst (before_bind env opts req)) \<union> set zs. \<not> is_bind z"
      using zs before_bind_no_bind by blast
    have split: "xs = fst (before_bind env opts req)" "p = q" "ys = zs"
      using split_at_only [OF trans [OF assms [symmetric] eq] _ no] by simp_all
    obtain d orc hash where o': "request_checks (cv_parse env) req = Inr d" "choose_oracle opts = Inr orc"
      "snd (request_hash env orc) = Inr hash" "snd (publish_request env opts req (fst orc)) = Inr requestEvent"
      "select_offer env opts req = Inr selected" "q = bind_params env req d hash selected"
      "set (fst (publish_request env opts req (fst orc))) \<subseteq> set (fst (before_bind env opts req))"
      using b by (rule before_bind_Inr)
    note pub = publish_request_Inr [OF o'(4)]
    have "\<forall>r. Bind r \<notin> set xs \<union> set ys" using no split by (metis is_bind.simps(1))
    moreover have "bp_hashHex p = hash" "bp_locktimeSeconds p = seconds (cv_clock env 3) + d"
      using o'(6) split(2) by (simp_all add: bind_params_def)
    moreover have "orc \<in> set (co_oracles opts)" by (rule choose_oracle_Inr [OF o'(2)])
    moreover have "Send requestEvent \<in> set xs" using pub(3) o'(7) split(1) by blast
    moreover have "is_integer d \<and> \<not> d < 660" using request_checks_Inr [OF o'(1)] by blast
    moreover have "is_integer (bp_amountSats p) \<and> 0 < bp_amountSats p \<and> \<not> ro_maxAmount req < bp_amountSats p \<and>
        bp_fundingProofs p = ro_fundingProofs req \<and> bp_customerPubkey p = kp_publicKey (cv_identity env) \<and>
        bp_customerSecretKey p = kp_secretKey (cv_identity env)"
      using select_offer_Inr [OF o'(5)] o'(6) split(2) by (simp add: bind_params_def isValidOfferAmount_def)
    ultimately show ?thesis using o'(3) pub(1,2) by blast
  qed
  show ?thesis
  proof (cases rule: customer_request_cases [of env opts req bundles])
    case (1 e)
    then have "Bind p \<in> set (fst (before_bind env opts req))" using assms by simp
    then show ?thesis using before_bind_no_bind by fastforce
  next
    case (2 requestEvent selected q e)
    then show ?thesis using limits [of requestEvent selected q "[]"] by simp
  next
    case (3 requestEvent selected q b)
    show ?thesis
      by (rule limits [OF 3(1), of "fst (after_bind env opts bundles req requestEvent selected q b)"])
        (simp add: 3(3), use after_bind_no_bind in blast)
  qed
qed

theorem customer_locks_within_limits_witness:
  "\<exists>xs p ys. fst (customer_request xc_cenv xc_copts xc_bundles xc_req) = xs @ Bind p # ys \<and> \<not> Fin 100 < bp_amountSats p \<and>
     (\<exists>d. bp_locktimeSeconds p = Fin 1700000000 + d \<and> \<not> d < 660)"
proof -
  obtain xs p ys where c: "fst (customer_request xc_cenv xc_copts xc_bundles xc_req) = xs @ Bind p # ys"
    by (cases rule: customer_request_cases [of xc_cenv xc_copts xc_req xc_bundles]) (use xc_before_bind in auto)
  have "ro_maxAmount xc_req = Fin 100" "seconds (cv_clock xc_cenv 3) = Fin 1700000000"
    by (simp_all add: xc_req_def xc_cenv_def xc_seconds del: js_floor.simps div_by.simps)
  with customer_locks_within_limits [OF c] c show ?thesis by (metis (no_types, lifting))
qed

text \<open>C4. No locked payment is lost by the customer.  Once the payment adapter has bound the proofs, every way a request
  can end, result or error, hands the caller the locked proofs, their token, the change and the refund key; and an
  error without them means that nothing was bound.\<close>

theorem lock_always_recoverable:
  "case customer_request env opts bundles req of
     (cs, Inl (e, None)) \<Rightarrow> \<not> (\<exists>p b. Bind p \<in> set cs \<and> cv_bind env p = Inr b)
   | (cs, Inl (e, Some r)) \<Rightarrow> \<exists>p b. Bind p \<in> set cs \<and> cv_bind env p = Inr b \<and>
        rc_paymentLockToken r = ck_token b \<and> rc_paymentLockProofs r = ck_proofs b \<and>
        rc_paymentLockRefundSecretKey r = bp_customerSecretKey p \<and>
        (case rc_paymentChangeProofs r of None \<Rightarrow> [] | Some ps \<Rightarrow> ps) = change_of b
   | (cs, Inr r) \<Rightarrow> \<exists>p b. Bind p \<in> set cs \<and> cv_bind env p = Inr b \<and>
        rr_paymentLockToken r = ck_token b \<and> rr_paymentLockProofs r = ck_proofs b \<and>
        rr_paymentLockRefundSecretKey r = bp_customerSecretKey p \<and>
        (case rr_paymentChangeProofs r of None \<Rightarrow> [] | Some ps \<Rightarrow> ps) = change_of b"
proof (cases rule: customer_request_cases [of env opts req bundles])
  case (1 e)
  then show ?thesis using before_bind_no_bind by fastforce
next
  case (2 requestEvent selected p e)
  then show ?thesis using before_bind_no_bind by fastforce
next
  case (3 requestEvent selected p b)
  have key: "bp_customerSecretKey p = kp_secretKey (cv_identity env)"
    using 3(1) by (rule before_bind_Inr) (simp add: bind_params_def)
  have res: "snd (after_bind env opts bundles req requestEvent selected p b) = Inr r \<Longrightarrow>
      \<exists>response. r = request_result env selected b response" for r
    by (auto simp: after_bind_def run_bind_unfold split: if_splits sum.splits)
  show ?thesis
    using 3 key res
    by (cases "snd (after_bind env opts bundles req requestEvent selected p b)")
      (auto intro!: exI [of _ p] exI [of _ b] simp: attachPaymentRecoveryMaterial_def request_result_def)
qed



text \<open>C9. What the customer asks for is what the provider works on.  A provider that receives the request notice and, after
  any other events, the selection event of a request, and that offered the amount the customer bound, checks
  exactly the lock the customer bound; if the lock passes, its handler is asked for exactly the schema, predicate,
  description, context, amounts and locktime of the customer.\<close>

theorem selection_reaches_provider:
  assumes lib: "nostr_ok lib" "cv_lib cenv = lib" "jv_lib env = lib"
    and keys: "kp_publicKey (cv_identity cenv) = n_publicKey lib (kp_secretKey (cv_identity cenv))"
      "kp_publicKey (jc_identity ctx) = n_publicKey lib (kp_secretKey (jc_identity ctx))"
      "bp_providerPubkey p = kp_publicKey (jc_identity ctx)" "bp_customerPubkey p = kp_publicKey (cv_identity cenv)"
    and json: "jok (ro_predicate req)" "ro_context req = Undefined \<or> isRecord (ro_context req) \<and> jok (ro_context req)"
      "whole (ro_maxAmount req)" "whole (bp_amountSats p)" "whole (bp_locktimeSeconds p)"
      "whole (qp_expires_at (request_payload cenv opts req orc))"
    and customer: "snd (publish_request cenv opts req orc) = Inr notice"
      "Send sel \<in> set (fst (announce_selection cenv opts req notice selected p b))"
    and provider: "orc \<in> set (jc_oracles ctx)" "isSchemaUri (jv_parse env) (String (ro_schema req))" "jc_proofGenerators ctx = []"
      "ask_handler ctx handler (request_payload cenv opts req orc) None = Some (offer, bp_amountSats p)"
      "snd (offer_stage env ctx notice (request_payload cenv opts req orc) (bp_amountSats p)) = Some offerEvent"
      "jc_mintUrl ctx = co_mint opts"
      "jv_selections env = es @ sel # fs"
      "\<And>e. e \<in> set es \<Longrightarrow> match_selection lib (jc_identity ctx) (kp_publicKey (cv_identity cenv)) e = None"
      "snd (getOracleClient env ctx orc (cv_queryId cenv)) = Inr (bp_hashHex p)"
      "jv_verifyLock env (verify_params p b) = Inr r"
  shows "Verify_lock (verify_params p b) \<in> set (fst (handleJob env ctx bundles handler notice)) \<and>
    Produce \<lparr> pc_schema = ro_schema req, pc_predicate = ro_predicate req, pc_description = ro_description req,
       pc_context = ro_context req, pc_mint = co_mint opts, pc_amountSats = bp_amountSats p,
       pc_maxAmountSats = ro_maxAmount req, pc_locktimeSeconds = bp_locktimeSeconds p \<rparr> \<in>
     set (fst (handleJob env ctx bundles handler notice))"
proof
  note r = exchange_reached [OF lib keys json customer provider]
  show "Verify_lock (verify_params p b) \<in> set (fst (handleJob env ctx bundles handler notice))"
    using reached_calls(1) [OF r(1)] r(2) by blast
  show "Produce \<lparr> pc_schema = ro_schema req, pc_predicate = ro_predicate req, pc_description = ro_description req,
       pc_context = ro_context req, pc_mint = co_mint opts, pc_amountSats = bp_amountSats p,
       pc_maxAmountSats = ro_maxAmount req, pc_locktimeSeconds = bp_locktimeSeconds p \<rparr> \<in>
     set (fst (handleJob env ctx bundles handler notice))"
    using reached_calls(2) [OF r(1)] by (simp add: selection_context_def selection_payload_def)
qed

theorem selection_reaches_provider_witness:
  "Verify_lock (verify_params xc_bind xc_token) \<in> set (fst (handleJob xc_env xc_pctx xc_bundles xc_handler xc_notice))"
proof -
  obtain oe where oe: "snd (offer_stage xc_env xc_pctx xc_notice xc_payload (Fin 80)) = Some oe" using xc_offer_stage by blast
  show ?thesis
  proof (rule selection_reaches_provider [THEN conjunct1, OF ex_nostr_ok xc_setup(1,2)])
    show "snd (offer_stage xc_env xc_pctx xc_notice (request_payload xc_cenv xc_copts xc_req (kp_publicKey xc_oracle)) (bp_amountSats xc_bind)) = Some oe"
      using oe by (simp add: xc_payload_def xc_setup)
    show "match_selection ex_nostr (jc_identity xc_pctx) (kp_publicKey (cv_identity xc_cenv)) e = None" if "e \<in> set [xc_offer_event]" for e
      using that xc_offer_no_selection by (simp add: xc_setup)
  qed (use xc_setup xc_json xc_own_keys xc_published_notice xc_selection_sent xc_schema in \<open>simp_all del: isSchemaUri.simps\<close>)
qed



text \<open>C6. The oracle releases nothing unverified.  Every event that its service publishes in answer to a result event goes to
  the selected provider of a watched query, after a payload bound to this query and request event; and unless it is
  a rejection the verifier has passed the evidence of that payload, and the event carries the preimage stored for
  the query's hash, or for a query with a quorum the signatures of the threshold signing.\<close>

theorem oracle_release_guarded:
  assumes "handleResponseEvent env ref q event st = (evs, out, st')" "e \<in> set evs"
  shows "\<exists>entry payload result rs. map_get (os_watched st) q = Some entry \<and>
    wq_selectedProviderPubkey entry = Some (ev_pubkey event) \<and>
    parseOracleQueryResponseEvent (dv_lib env) event (kp_secretKey (dv_identity env)) (ev_pubkey event) = Some payload \<and>
    rp_query_id payload = q_id (wq_query entry) \<and> rp_request_event_id payload = wq_queryEventId entry \<and>
    oracleResponseToResult (dv_proof_env env) ref (wq_query entry) payload (os_reference st) = (Some result, rs) \<and>
    (rejection_sent env (ev_pubkey event) q e \<or>
     (\<exists>detail. dv_verify env (wq_query entry) result = Some detail \<and> vd_passed detail) \<and>
     (if q_quorum (wq_query entry) = None then preimage_sent env (ev_pubkey event) q st e
      else signature_sent env (ev_pubkey event) q (wq_query entry) result e))"
proof -
  obtain entry payload result rs where g: "map_get (os_watched st) q = Some entry"
    "wq_selectedProviderPubkey entry = Some (ev_pubkey event)"
    "parseOracleQueryResponseEvent (dv_lib env) event (kp_secretKey (dv_identity env)) (ev_pubkey event) = Some payload"
    "rp_query_id payload = q_id (wq_query entry)" "rp_request_event_id payload = wq_queryEventId entry"
    "oracleResponseToResult (dv_proof_env env) ref (wq_query entry) payload (os_reference st) = (Some result, rs)"
    "unwatch_if_terminal q (dispatchVerifyAndDeliver env q (wq_query entry) result (ev_pubkey event) (st\<lparr> os_reference := rs \<rparr>)) =
      (evs, out, st')"
    using assms by (auto simp: handleResponseEvent_def split: option.splits if_splits prod.splits)
  obtain st'' where d: "dispatchVerifyAndDeliver env q (wq_query entry) result (ev_pubkey event) (st\<lparr> os_reference := rs \<rparr>) =
      (evs, out, st'')"
    using g(7) by (auto simp: unwatch_if_terminal_def split: prod.splits)
  have "preimage_sent env (ev_pubkey event) q (st\<lparr> os_reference := rs \<rparr>) e = preimage_sent env (ev_pubkey event) q st e"
    by (simp add: preimage_sent_def)
  with g(1-6) dispatch_sent [OF d assms(2)] show ?thesis by metis
qed

theorem oracle_release_guarded_witness:
  "\<exists>dm out st'. handleResponseEvent xc_delivery 0 ''q1'' xc_result xc_watched = ([dm], out, st') \<and>
     (\<exists>entry. map_get (os_watched xc_watched) ''q1'' = Some entry \<and> wq_selectedProviderPubkey entry = Some (ev_pubkey xc_result))"
proof -
  obtain dm out st' where r: "handleResponseEvent xc_delivery 0 ''q1'' xc_result xc_watched = ([dm], out, st')"
    using xc_releases by blast
  from oracle_release_guarded [OF this, of dm] r show ?thesis by auto
qed

text \<open>C39. A provider of the SDK cannot use the preimage that the relay service of the SDK sends.  The message of the service is
  read back by its own parser, but not by the parser of the protocol package, which asks for a version and for the
  request event; so a provider whose direct messages are those of the service never redeems.\<close>

theorem service_preimage_not_redeemed:
  assumes "nostr_ok lib" "kp_publicKey ident = n_publicKey lib (kp_secretKey ident)"
    "buildPreimageDM lib fstr now oid (kp_publicKey ident) q preimage = Some dm"
    and env: "jv_lib env = lib" "jc_identity ctx = ident" "jv_dms env = [dm]" "jc_oracles ctx = [n_publicKey lib (kp_secretKey oid)]"
  shows "parseOracleDM lib (ev_content dm) (kp_secretKey ident) (n_publicKey lib (kp_secretKey oid)) =
      Some (Some (Preimage_dm q preimage)) \<and>
    parsePreimageDeliveryEvent lib dm (kp_secretKey ident) (n_publicKey lib (kp_secretKey oid)) = None \<and>
    Redeem r \<notin> set (fst (handleJob env ctx bundles handler event))"
proof (intro conjI)
  have ok: "jok (preimage_payload q preimage)" by (simp add: preimage_payload_def)
  note c = release_dm_content [OF assms(1) assms(3) [unfolded buildPreimageDM_def assms(2)] ok]
  show "parseOracleDM lib (ev_content dm) (kp_secretKey ident) (n_publicKey lib (kp_secretKey oid)) =
      Some (Some (Preimage_dm q preimage))"
    using c(2) by (simp add: oracle_dm_payload_def preimage_payload_def map_get_def)
  have "parse_object (jprint fstr (preimage_payload q preimage)) = Some (preimage_payload q preimage)"
    by (simp add: parse_object_def jparse_print [OF ok] del: jprint.simps) (simp add: preimage_payload_def)
  then show none: "parsePreimageDeliveryEvent lib dm (kp_secretKey ident) (n_publicKey lib (kp_secretKey oid)) = None"
    using c(1,3) by (simp add: parsePreimageDeliveryEvent_def decryptDmJson_def decrypt_object_def hasVersion_def
        preimage_payload_def map_get_def del: jprint.simps)
  show "Redeem r \<notin> set (fst (handleJob env ctx bundles handler event))"
  proof
    assume "Redeem r \<in> set (fst (handleJob env ctx bundles handler event))"
    then obtain xs ys where "fst (handleJob env ctx bundles handler event) = xs @ Redeem r # ys" by (metis split_list)
    then show False
    proof (rule job_around_redeem)
      fix payload offer amount offerEvent selection preimage'
      assume re: "job_reached env ctx bundles handler event payload offer amount offerEvent selection"
        and w: "waitForPreimage env ctx (qp_oracle_pubkey payload) (qp_query_id payload) (ev_id event) = Some preimage'"
      have "qp_oracle_pubkey payload = n_publicKey lib (kp_secretKey oid)"
        using re env(4) by (auto simp: job_reached_def dest: accept_request_Some)
      with w none show False by (simp add: env waitForPreimage_def wait_result_first map_filter_simps match_preimage_def)
    qed
  qed
qed

theorem service_preimage_not_redeemed_witness:
  "\<exists>dm. buildPreimageDM ex_nostr (\<lambda>_. []) xc_later xc_oracle (kp_publicKey xc_provider) ''q1'' ''00ff'' = Some dm \<and>
     (\<forall>r. Redeem r \<notin> set (fst (handleJob (xc_env\<lparr> jv_dms := [dm] \<rparr>) xc_pctx xc_bundles xc_handler xc_notice)))"
proof -
  obtain dm where dm: "buildPreimageDM ex_nostr (\<lambda>_. []) xc_later xc_oracle (kp_publicKey xc_provider) ''q1'' ''00ff'' = Some dm"
    using xc_release_built by blast
  have "Redeem r \<notin> set (fst (handleJob (xc_env\<lparr> jv_dms := [dm] \<rparr>) xc_pctx xc_bundles xc_handler xc_notice))" for r
    by (rule service_preimage_not_redeemed [THEN conjunct2, THEN conjunct2, OF ex_nostr_ok xc_own_keys(2) dm])
      (simp_all add: xc_env_def xc_pctx_def xc_own_keys(3))
  with dm show ?thesis by blast
qed

text \<open>C33. Waiting always ends.  A wait that reaches its deadline or is cancelled is settled, with the first event delivered
  until then that the matcher accepts and with nothing if there is none, and nothing that comes later changes it.\<close>

theorem wait_settles:
  "waitForFirstEvent match (map Deliver es @ Deadline # later) = Settled (hd_opt (List.map_filter match es)) \<and>
   waitForFirstEvent match (map Deliver es @ Cancel # later) = Settled (hd_opt (List.map_filter match es))"
  by (simp add: waitForFirstEvent_def wait_delivered split: option.split)



end
