(* ===== verification/Actor_Options.thy ===== *)
theory Actor_Options
  imports Provider_Job Customer_Request
begin

text \<open>
  The validation of the options of the two actors (\<open>validateProviderOptions\<close> in \<open>provider.ts\<close> and
  \<open>validateCustomerOptions\<close> in \<open>customer.ts\<close>).  Options hold functions and adapter objects besides plain
  values, so they are values of the type \<open>optval\<close>.  A check gives the message of the error it throws, or
  \<open>None\<close>.
\<close>

section \<open>Values with functions\<close>

datatype optval = Plain jsval | Function | Arr "optval list" | Obj "(string \<times> optval) list"

fun is_object :: "optval \<Rightarrow> bool" where
  "is_object (Arr _) = True"
| "is_object (Obj _) = True"
| "is_object (Plain v) = isRecord v"
| "is_object Function = False"

text \<open>Reading a member that may be absent, and \<open>"k" in v ? v.k : undefined\<close>.\<close>

fun member :: "optval \<Rightarrow> string \<Rightarrow> optval" where
  "member (Obj ms) k = (case map_get ms k of None \<Rightarrow> Plain Undefined | Some v \<Rightarrow> v)"
| "member (Plain v) k = Plain (opt_prop v k)"
| "member _ k = Plain Undefined"

fun elements :: "optval \<Rightarrow> optval list option" where
  "elements (Arr vs) = Some vs"
| "elements (Plain (Array vs)) = Some (map Plain vs)"
| "elements _ = None"

text \<open>\<open>Object.values\<close>.\<close>

fun object_values :: "optval \<Rightarrow> optval list" where
  "object_values (Arr vs) = vs"
| "object_values (Obj ms) = map snd ms"
| "object_values (Plain (Array vs)) = map Plain vs"
| "object_values (Plain (Object ms)) = map (\<lambda>m. Plain (snd m)) ms"
| "object_values _ = []"

definition absent :: "optval \<Rightarrow> bool" where
  "absent v = (v = Plain Undefined)"

definition nullish :: "optval \<Rightarrow> bool" where
  "nullish v = (v = Plain Undefined \<or> v = Plain Null)"

fun nonempty_string :: "optval \<Rightarrow> bool" where
  "nonempty_string (Plain (String s)) = (s \<noteq> [])"
| "nonempty_string _ = False"

definition nonempty_array :: "optval \<Rightarrow> bool" where
  "nonempty_array v = (case elements v of Some (_ # _) \<Rightarrow> True | _ \<Rightarrow> False)"

definition fail_if :: "bool \<Rightarrow> string \<Rightarrow> string option \<Rightarrow> string option" where
  "fail_if c message rest = (if c then Some message else rest)"

text \<open>A loop over entries, each with a check of its own.\<close>

fun first_error :: "('a \<Rightarrow> string option) \<Rightarrow> 'a list \<Rightarrow> string option" where
  "first_error f [] = None"
| "first_error f (x # xs) = (case f x of Some e \<Rightarrow> Some e | None \<Rightarrow> first_error f xs)"

section \<open>Shared checks\<close>

definition check_stateStore :: "optval \<Rightarrow> string option" where
  "check_stateStore store =
    fail_if (\<not> is_object store) ''stateStore, when provided, must be an object''
      (fail_if (member store ''get'' \<noteq> Function \<or> member store ''set'' \<noteq> Function \<or> member store ''delete'' \<noteq> Function)
         ''stateStore must expose get, set, and delete methods'' None)"

definition optional :: "optval \<Rightarrow> (optval \<Rightarrow> string option) \<Rightarrow> string option \<Rightarrow> string option" where
  "optional v check rest = (if absent v then rest else case check v of Some e \<Rightarrow> Some e | None \<Rightarrow> rest)"

definition check_oracleClient :: "string \<Rightarrow> string \<Rightarrow> optval \<Rightarrow> string option" where
  "check_oracleClient no_object no_method client =
    fail_if (\<not> is_object client) no_object (fail_if (member client ''requestHash'' \<noteq> Function) no_method None)"

section \<open>The provider\<close>

definition check_generator :: "optval \<Rightarrow> string option" where
  "check_generator entry =
    fail_if (\<not> is_object entry) ''proofGenerators entries must be objects''
      (fail_if (member entry ''canHandle'' \<noteq> Function \<or> member entry ''produce'' \<noteq> Function)
         ''proofGenerators entries must expose canHandle and produce'' None)"

definition check_generators :: "optval \<Rightarrow> string option" where
  "check_generators v =
    (case elements v of
       None \<Rightarrow> Some ''proofGenerators, when provided, must be an array''
     | Some es \<Rightarrow> first_error check_generator es)"

definition validateProviderOptions :: "optval \<Rightarrow> string option" where
  "validateProviderOptions o' =
    fail_if (\<not> is_object o') ''options must be an object''
    (fail_if (\<not> nonempty_array (member o' ''oracles'')) ''oracles must be a non-empty string array''
    (fail_if (list_ex (\<lambda>e. \<not> nonempty_string e) (the (elements (member o' ''oracles''))))
       ''oracles entries must be non-empty strings''
    (fail_if (\<not> nonempty_array (member o' ''relays'')) ''relays must be a non-empty string array''
    (fail_if (\<not> nonempty_string (member o' ''mint'')) ''mint must be a non-empty string''
    (fail_if (\<not> nonempty_string (member o' ''privKey'')) ''privKey must be a non-empty string''
    (fail_if (nullish (member o' ''cashuClient'')) ''cashuClient adapter is required''
    (fail_if (nullish (member o' ''relayClient'')) ''relayClient adapter is required''
    (optional (member o' ''stateStore'') check_stateStore
    (optional (member o' ''schemaOptions'') (\<lambda>v. fail_if (\<not> is_object v) ''schemaOptions, when provided, must be an object'' None)
    (optional (member o' ''oracleClients'')
       (\<lambda>v. fail_if (\<not> is_object v) ''oracleClients, when provided, must be an object''
          (first_error (check_oracleClient ''oracleClients entries must be objects''
             ''oracleClients entries must expose requestHash'') (object_values v)))
    (optional (member o' ''proofGenerators'') check_generators None)))))))))))"

section \<open>The customer\<close>

text \<open>The loop over the oracles, with the set of keys seen.\<close>

fun check_oracles :: "string list \<Rightarrow> optval list \<Rightarrow> string option" where
  "check_oracles seen [] = None"
| "check_oracles seen (entry # rest) =
    (if \<not> is_object entry then Some ''oracles entries must be objects''
     else case member entry ''pubkey'' of
            Plain (String pubkey) \<Rightarrow>
              if pubkey = [] then Some ''oracles entries must include a non-empty pubkey''
              else if pubkey \<in> set seen then Some ''oracles entries must have unique pubkeys''
              else optional (member entry ''client'')
                     (check_oracleClient ''oracle client overrides must be objects'' ''oracle clients must expose requestHash'')
                     (check_oracles (pubkey # seen) rest)
          | _ \<Rightarrow> Some ''oracles entries must include a non-empty pubkey'')"

definition validateCustomerOptions :: "optval \<Rightarrow> string option" where
  "validateCustomerOptions o' =
    fail_if (\<not> is_object o') ''options must be an object''
    (fail_if (\<not> nonempty_array (member o' ''oracles'')) ''oracles must be a non-empty array''
    (case check_oracles [] (the (elements (member o' ''oracles''))) of
       Some e \<Rightarrow> Some e
     | None \<Rightarrow>
    (fail_if (\<not> nonempty_array (member o' ''relays'')) ''relays must be a non-empty string array''
    (fail_if (\<not> nonempty_string (member o' ''mint'')) ''mint must be a non-empty string''
    (fail_if (nullish (member o' ''cashuClient'')) ''cashuClient adapter is required''
    (fail_if (nullish (member o' ''relayClient'')) ''relayClient adapter is required''
    (fail_if (\<not> absent (member o' ''oracleSelector'') \<and> member o' ''oracleSelector'' \<noteq> Function)
       ''oracleSelector, when provided, must be a function''
    (optional (member o' ''schemaOptions'') (\<lambda>v. fail_if (\<not> is_object v) ''schemaOptions, when provided, must be an object'' None)
    (optional (member o' ''stateStore'') check_stateStore None)))))))))"

section \<open>The types the checks promise\<close>

text \<open>The members of \<open>ProviderOptions\<close> and \<open>CustomerOptions\<close> the actors read, as types.\<close>

definition has_methods :: "optval \<Rightarrow> string list \<Rightarrow> bool" where
  "has_methods v names = (is_object v \<and> (\<forall>n \<in> set names. member v n = Function))"

definition string_array :: "optval \<Rightarrow> bool" where
  "string_array v = (\<exists>e es. elements v = Some (e # es) \<and> (\<forall>x \<in> set (e # es). nonempty_string x))"

definition optional_type :: "optval \<Rightarrow> (optval \<Rightarrow> bool) \<Rightarrow> bool" where
  "optional_type v ok = (absent v \<or> ok v)"

definition provider_typed :: "optval \<Rightarrow> bool" where
  "provider_typed o' =
    (is_object o' \<and> string_array (member o' ''oracles'') \<and> nonempty_array (member o' ''relays'') \<and>
     nonempty_string (member o' ''mint'') \<and> nonempty_string (member o' ''privKey'') \<and>
     \<not> nullish (member o' ''cashuClient'') \<and> \<not> nullish (member o' ''relayClient'') \<and>
     optional_type (member o' ''stateStore'') (\<lambda>v. has_methods v [''get'', ''set'', ''delete'']) \<and>
     optional_type (member o' ''schemaOptions'') is_object \<and>
     optional_type (member o' ''oracleClients'') (\<lambda>v. is_object v \<and> (\<forall>c \<in> set (object_values v). has_methods c [''requestHash''])) \<and>
     optional_type (member o' ''proofGenerators'')
       (\<lambda>v. \<exists>es. elements v = Some es \<and> (\<forall>g \<in> set es. has_methods g [''canHandle'', ''produce''])))"

definition oracle_key :: "optval \<Rightarrow> string" where
  "oracle_key e = (case member e ''pubkey'' of Plain (String k) \<Rightarrow> k | _ \<Rightarrow> [])"

definition oracles_typed :: "optval list \<Rightarrow> bool" where
  "oracles_typed es =
    (distinct (map oracle_key es) \<and>
     (\<forall>e \<in> set es. is_object e \<and> nonempty_string (member e ''pubkey'') \<and>
        optional_type (member e ''client'') (\<lambda>c. has_methods c [''requestHash''])))"

definition customer_typed :: "optval \<Rightarrow> bool" where
  "customer_typed o' =
    (is_object o' \<and> nonempty_array (member o' ''oracles'') \<and> oracles_typed (the (elements (member o' ''oracles''))) \<and>
     nonempty_array (member o' ''relays'') \<and> nonempty_string (member o' ''mint'') \<and>
     \<not> nullish (member o' ''cashuClient'') \<and> \<not> nullish (member o' ''relayClient'') \<and>
     optional_type (member o' ''oracleSelector'') (\<lambda>v. v = Function) \<and>
     optional_type (member o' ''schemaOptions'') is_object \<and>
     optional_type (member o' ''stateStore'') (\<lambda>v. has_methods v [''get'', ''set'', ''delete'']))"

lemma fail_if_None [simp]: "fail_if c m rest = None \<longleftrightarrow> \<not> c \<and> rest = None"
  by (simp add: fail_if_def)

lemma optional_None [simp]: "optional v check rest = None \<longleftrightarrow> optional_type v (\<lambda>v. check v = None) \<and> rest = None"
  by (auto simp: optional_def optional_type_def split: option.split)

lemma first_error_None [simp]: "first_error f xs = None \<longleftrightarrow> (\<forall>x \<in> set xs. f x = None)"
  by (induction xs) (auto split: option.split)

lemma shared_checks_None [simp]:
  "check_stateStore v = None \<longleftrightarrow> has_methods v [''get'', ''set'', ''delete'']"
  "check_oracleClient m n v = None \<longleftrightarrow> has_methods v [''requestHash'']"
  "check_generator v = None \<longleftrightarrow> has_methods v [''canHandle'', ''produce'']"
  by (auto simp: check_stateStore_def check_oracleClient_def check_generator_def has_methods_def)

lemma check_generators_None [simp]:
  "check_generators v = None \<longleftrightarrow> (\<exists>es. elements v = Some es \<and> (\<forall>g \<in> set es. has_methods g [''canHandle'', ''produce'']))"
  by (simp add: check_generators_def split: option.split)

lemma check_oracles_None:
  "check_oracles seen es = None \<longleftrightarrow> oracles_typed es \<and> set (map oracle_key es) \<inter> set seen = {}"
proof (induction es arbitrary: seen)
  case (Cons e es)
  show ?case
  proof (cases "\<exists>k. member e ''pubkey'' = Plain (String k)")
    case True
    then obtain k where k: "member e ''pubkey'' = Plain (String k)" by blast
    show ?thesis by (auto simp: k Cons.IH oracles_typed_def oracle_key_def)
  next
    case False
    then have "\<not> nonempty_string (member e ''pubkey'')"
      by (cases "member e ''pubkey''") (auto elim: nonempty_string.elims)
    moreover have "check_oracles seen (e # es) \<noteq> None"
      using False by (auto split: optval.split jsval.split)
    ultimately show ?thesis by (simp add: oracles_typed_def)
  qed
qed (simp add: oracles_typed_def)


end
