(* ===== verification/Exif_Validation.thy ===== *)
theory Exif_Validation
  imports Photo_Integrity
begin

text \<open>
  The EXIF parser and check of a photo (\<open>proofs/exif-validation.ts\<close>): the scan for the EXIF segment of a
  JPEG file, the image file directories of its TIFF structure in either byte order, and the check of camera,
  time and place.  Offsets are integers, because a pointer may be negative; \<open>None\<close> is the \<open>RangeError\<close> of a
  read outside the buffer.  The reading of a local date (\<open>new Date\<close>) depends on the time zone of the host and
  is an argument.
\<close>

unbundle bit_operations_syntax

section \<open>Reading a buffer\<close>

definition in_range :: "bytes \<Rightarrow> int \<Rightarrow> int \<Rightarrow> bool" where
  "in_range buf off n = (0 \<le> off \<and> off + n \<le> int (length buf))"

definition byte_at :: "bytes \<Rightarrow> int \<Rightarrow> int" where
  "byte_at buf i = uint (buf ! nat i)"

fun be_value :: "bytes \<Rightarrow> int" where
  "be_value [] = 0"
| "be_value (b # bs) = uint b * 256 ^ length bs + be_value bs"

definition int_of_bytes :: "bool \<Rightarrow> bytes \<Rightarrow> int" where
  "int_of_bytes le bs = be_value (if le then rev bs else bs)"

definition bytes_at :: "bytes \<Rightarrow> int \<Rightarrow> nat \<Rightarrow> bytes" where
  "bytes_at buf off n = take n (drop (nat off) buf)"

definition readU16 :: "bytes \<Rightarrow> int \<Rightarrow> bool \<Rightarrow> int option" where
  "readU16 buf off le = (if in_range buf off 2 then Some (int_of_bytes le (bytes_at buf off 2)) else None)"

definition readU32 :: "bytes \<Rightarrow> int \<Rightarrow> bool \<Rightarrow> int option" where
  "readU32 buf off le = (if in_range buf off 4 then Some (int_of_bytes le (bytes_at buf off 4)) else None)"

text \<open>\<open>buf.subarray(a, b)\<close>: a negative index counts from the end, an index past the end is the end.\<close>

definition sub_index :: "bytes \<Rightarrow> int \<Rightarrow> nat" where
  "sub_index buf i = nat (if i < 0 then max 0 (int (length buf) + i) else min i (int (length buf)))"

definition subarray :: "bytes \<Rightarrow> int \<Rightarrow> int \<Rightarrow> bytes" where
  "subarray buf a b = take (sub_index buf b - sub_index buf a) (drop (sub_index buf a) buf)"

text \<open>\<open>toString("ascii")\<close> clears the highest bit of each byte.\<close>

definition ascii_char :: "8 word \<Rightarrow> char" where
  "ascii_char b = char_of (uint b mod 128)"

definition strip_nul :: "string \<Rightarrow> string" where
  "strip_nul s = rev (dropWhile (\<lambda>c. c = CHR 0x00) (rev s))"

definition readAscii :: "bytes \<Rightarrow> int \<Rightarrow> int \<Rightarrow> int \<Rightarrow> string" where
  "readAscii buf tiffBase offset count =
    (let start = tiffBase + offset
     in if int (length buf) < start + count then []
        else strip_nul (map ascii_char (subarray buf start (start + count))))"

definition readRational :: "bytes \<Rightarrow> int \<Rightarrow> int \<Rightarrow> bool \<Rightarrow> jsnum option" where
  "readRational buf tiffBase offset le =
    (let pos = tiffBase + offset
     in if int (length buf) < pos + 8 then Some 0
        else case readU32 buf pos le of
               None \<Rightarrow> None
             | Some num \<Rightarrow>
               (case readU32 buf (pos + 4) le of
                  None \<Rightarrow> None
                | Some den \<Rightarrow> Some (if den = 0 then 0 else Fin (of_int num / of_int den))))"

definition readGpsCoord :: "bytes \<Rightarrow> int \<Rightarrow> int \<Rightarrow> bool \<Rightarrow> jsnum option" where
  "readGpsCoord buf tiffBase offset le =
    (case (readRational buf tiffBase offset le, readRational buf tiffBase (offset + 8) le,
           readRational buf tiffBase (offset + 16) le) of
       (Some deg, Some mins, Some sec) \<Rightarrow> Some (deg + div_by mins 60 + div_by sec 3600)
     | _ \<Rightarrow> None)"

section \<open>Image file directories\<close>

record IfdEntry =
  ie_tag :: int
  ie_type :: int
  ie_count :: int
  ie_valueOffset :: int

definition read_entry :: "bytes \<Rightarrow> int \<Rightarrow> bool \<Rightarrow> IfdEntry option" where
  "read_entry buf entryPos le =
    (case (readU16 buf entryPos le, readU16 buf (entryPos + 2) le, readU32 buf (entryPos + 4) le,
           readU32 buf (entryPos + 8) le) of
       (Some tag, Some type, Some count, Some valueOffset) \<Rightarrow>
         Some \<lparr> ie_tag = tag, ie_type = type, ie_count = count, ie_valueOffset = valueOffset \<rparr>
     | _ \<Rightarrow> None)"

text \<open>The loop of \<open>readIfdEntries\<close> from entry \<open>i\<close> with \<open>n\<close> iterations left.\<close>

fun ifd_loop :: "bytes \<Rightarrow> int \<Rightarrow> bool \<Rightarrow> nat \<Rightarrow> nat \<Rightarrow> IfdEntry list option" where
  "ifd_loop buf pos le i 0 = Some []"
| "ifd_loop buf pos le i (Suc n) =
    (let entryPos = pos + 2 + int i * 12
     in if int (length buf) < entryPos + 12 then Some []
        else case read_entry buf entryPos le of
               None \<Rightarrow> None
             | Some entry \<Rightarrow> map_option (Cons entry) (ifd_loop buf pos le (Suc i) n))"

definition readIfdEntries :: "bytes \<Rightarrow> int \<Rightarrow> int \<Rightarrow> bool \<Rightarrow> IfdEntry list option" where
  "readIfdEntries buf tiffBase ifdOffset le =
    (let pos = tiffBase + ifdOffset
     in if int (length buf) < pos + 2 then Some []
        else case readU16 buf pos le of None \<Rightarrow> None | Some count \<Rightarrow> ifd_loop buf pos le 0 (nat count))"

text \<open>
  The operands of \<open>&\<close> and \<open>>>\<close> are read as signed 32 bit integers, so the mask for the big endian case is -1.
\<close>

definition int32 :: "int \<Rightarrow> int" where
  "int32 v = signed_take_bit 31 v"

definition getEntryLong :: "IfdEntry \<Rightarrow> bool \<Rightarrow> bytes \<Rightarrow> int \<Rightarrow> int option" where
  "getEntryLong entry le buf tiffBase =
    (if ie_type entry = 4 then Some (ie_valueOffset entry)
     else if ie_type entry = 3
     then Some (int32 (ie_valueOffset entry) AND (if le then 0xffff else drop_bit 16 (int32 0xffff0000)))
     else readU32 buf (tiffBase + ie_valueOffset entry) le)"

text \<open>Entries are told apart by identity, so \<open>entries.indexOf(entry)\<close> is the position \<open>i\<close> of the entry.\<close>

definition entryAsciiOffset :: "int \<Rightarrow> nat \<Rightarrow> IfdEntry \<Rightarrow> int" where
  "entryAsciiOffset ifdOffset i entry =
    (if ie_count entry \<le> 4 then ifdOffset + 2 + int i * 12 + 8 else ie_valueOffset entry)"

definition entry_text :: "bytes \<Rightarrow> int \<Rightarrow> int \<Rightarrow> nat \<times> IfdEntry \<Rightarrow> string" where
  "entry_text buf tiffBase ifdOffset ie =
    readAscii buf tiffBase (entryAsciiOffset ifdOffset (fst ie) (snd ie)) (ie_count (snd ie))"

definition parseExifIfd :: "bytes \<Rightarrow> int \<Rightarrow> IfdEntry \<Rightarrow> bool \<Rightarrow> string option option" where
  "parseExifIfd buf tiffBase entry le =
    (case getEntryLong entry le buf tiffBase of
       None \<Rightarrow> None
     | Some exifIfdOffset \<Rightarrow>
       (case readIfdEntries buf tiffBase exifIfdOffset le of
          None \<Rightarrow> None
        | Some exifEntries \<Rightarrow>
          Some (map_option (entry_text buf tiffBase exifIfdOffset)
                  (find (\<lambda>ie. ie_tag (snd ie) = 0x9003) (enumerate 0 exifEntries)))))"

record gps_scan =
  gs_latRef :: string
  gs_lonRef :: string
  gs_lat :: "jsnum option"
  gs_lon :: "jsnum option"

text \<open>The body of a loop that may throw.\<close>

fun run_loop :: "('a \<Rightarrow> 's \<Rightarrow> 's option) \<Rightarrow> 'a list \<Rightarrow> 's \<Rightarrow> 's option" where
  "run_loop f [] s = Some s"
| "run_loop f (x # xs) s = (case f x s of None \<Rightarrow> None | Some s' \<Rightarrow> run_loop f xs s')"

definition gps_field :: "bytes \<Rightarrow> int \<Rightarrow> int \<Rightarrow> bool \<Rightarrow> nat \<times> IfdEntry \<Rightarrow> gps_scan \<Rightarrow> gps_scan option" where
  "gps_field buf tiffBase gpsIfdOffset le ie s =
    (let e = snd ie;
         coord = (\<lambda>store. if ie_type e = 5 \<and> ie_count e = 3
                   then map_option store (readGpsCoord buf tiffBase (ie_valueOffset e) le) else Some s)
     in if ie_tag e = 1 then Some (s\<lparr> gs_latRef := entry_text buf tiffBase gpsIfdOffset ie \<rparr>)
        else if ie_tag e = 2 then coord (\<lambda>x. s\<lparr> gs_lat := Some x \<rparr>)
        else if ie_tag e = 3 then Some (s\<lparr> gs_lonRef := entry_text buf tiffBase gpsIfdOffset ie \<rparr>)
        else if ie_tag e = 4 then coord (\<lambda>x. s\<lparr> gs_lon := Some x \<rparr>)
        else Some s)"

definition gps_result :: "gps_scan \<Rightarrow> GpsCoord option" where
  "gps_result s =
    (case (gs_lat s, gs_lon s) of
       (Some lat, Some lon) \<Rightarrow>
         Some \<lparr> gc_lat = (if take 1 (gs_latRef s) = ''S'' then 0 - lat else lat),
                gc_lon = (if take 1 (gs_lonRef s) = ''W'' then 0 - lon else lon) \<rparr>
     | _ \<Rightarrow> None)"

definition parseGpsIfd :: "bytes \<Rightarrow> int \<Rightarrow> IfdEntry \<Rightarrow> bool \<Rightarrow> GpsCoord option option" where
  "parseGpsIfd buf tiffBase entry le =
    (case getEntryLong entry le buf tiffBase of
       None \<Rightarrow> None
     | Some gpsIfdOffset \<Rightarrow>
       (case readIfdEntries buf tiffBase gpsIfdOffset le of
          None \<Rightarrow> None
        | Some gpsEntries \<Rightarrow>
          map_option gps_result
            (run_loop (gps_field buf tiffBase gpsIfdOffset le) (enumerate 0 gpsEntries)
               \<lparr> gs_latRef = ''N'', gs_lonRef = ''E'', gs_lat = None, gs_lon = None \<rparr>)))"

section \<open>Finding the segment\<close>

definition EXIF_MAGIC :: bytes where
  "EXIF_MAGIC = [0x45, 0x78, 0x69, 0x66, 0, 0]"

text \<open>
  The loop over the markers: the inner option is \<open>null\<close> or the position of the TIFF structure.  Every
  iteration advances by at least two bytes.
\<close>

function exif_scan :: "bytes \<Rightarrow> nat \<Rightarrow> nat option option" where
  "exif_scan data offset =
    (if length data \<le> offset + 3 then Some None
     else case readU16 data (int offset) False of
            None \<Rightarrow> None
          | Some marker \<Rightarrow>
            if marker AND 0xff00 \<noteq> 0xff00 then Some None
            else if 0xffd0 \<le> marker \<and> marker \<le> 0xffd9 then exif_scan data (offset + 2)
            else (case readU16 data (int offset + 2) False of
                    None \<Rightarrow> None
                  | Some segLen \<Rightarrow>
                    if marker = 0xffe1 \<and> offset + 4 + 6 < length data \<and> bytes_at data (int offset + 4) 6 = EXIF_MAGIC
                    then Some (Some (offset + 4 + 6))
                    else exif_scan data (offset + 2 + nat segLen)))"
  by pat_completeness auto
termination
  by (relation "measure (\<lambda>(data, offset). length data - offset)") auto

declare exif_scan.simps [simp del]

definition findApp1ExifSegment :: "bytes \<Rightarrow> nat option option" where
  "findApp1ExifSegment data =
    (if length data < 2 then Some None
     else case readU16 data 0 False of
            None \<Rightarrow> None
          | Some soi \<Rightarrow> if soi \<noteq> 0xffd8 then Some None else exif_scan data 2)"

section \<open>The metadata\<close>

definition no_metadata :: ExifMetadata where
  "no_metadata = \<lparr> xm_make = None, xm_model = None, xm_dateTime = None, xm_dateTimeOriginal = None, xm_gps = None \<rparr>"

definition exif_field :: "bytes \<Rightarrow> int \<Rightarrow> int \<Rightarrow> bool \<Rightarrow> nat \<times> IfdEntry \<Rightarrow> ExifMetadata \<Rightarrow> ExifMetadata option" where
  "exif_field buf tiffBase ifd0Offset le ie m =
    (let tag = ie_tag (snd ie); text = entry_text buf tiffBase ifd0Offset ie
     in if tag = 0x010f then Some (m\<lparr> xm_make := Some text \<rparr>)
        else if tag = 0x0110 then Some (m\<lparr> xm_model := Some text \<rparr>)
        else if tag = 0x0132 then Some (m\<lparr> xm_dateTime := Some text \<rparr>)
        else if tag = 0x8769 then map_option (\<lambda>v. m\<lparr> xm_dateTimeOriginal := v \<rparr>) (parseExifIfd buf tiffBase (snd ie) le)
        else if tag = 0x8825 then map_option (\<lambda>v. m\<lparr> xm_gps := v \<rparr>) (parseGpsIfd buf tiffBase (snd ie) le)
        else Some m)"

text \<open>The byte order and the offset of the first directory, if the TIFF header is one.\<close>

definition tiff_header :: "bytes \<Rightarrow> (bool \<times> int) option option" where
  "tiff_header tiffData =
    (if length tiffData < 8 then Some None
     else case readU16 tiffData 0 False of
            None \<Rightarrow> None
          | Some byteOrder \<Rightarrow>
            let le = (byteOrder = 0x4949)
            in if \<not> le \<and> byteOrder \<noteq> 0x4d4d then Some None
               else (case readU16 tiffData 2 le of
                       None \<Rightarrow> None
                     | Some magic \<Rightarrow>
                       if magic \<noteq> 42 then Some None
                       else map_option (\<lambda>off. Some (le, off)) (readU32 tiffData 4 le)))"

definition extractExifMetadata :: "bytes \<Rightarrow> ExifMetadata option" where
  "extractExifMetadata data =
    (case findApp1ExifSegment data of
       None \<Rightarrow> None
     | Some None \<Rightarrow> Some no_metadata
     | Some (Some tiffBase) \<Rightarrow>
       (case tiff_header (drop tiffBase data) of
          None \<Rightarrow> None
        | Some None \<Rightarrow> Some no_metadata
        | Some (Some (le, ifd0Offset)) \<Rightarrow>
          (case readIfdEntries data (int tiffBase) ifd0Offset le of
             None \<Rightarrow> None
           | Some entries \<Rightarrow>
             run_loop (exif_field data (int tiffBase) ifd0Offset le) (enumerate 0 entries) no_metadata)))"

section \<open>The check\<close>

definition all_digits :: "string \<Rightarrow> bool" where
  "all_digits s = list_all (\<lambda>c. c \<in> set ''0123456789'') s"

text \<open>The pattern \<open>YYYY:MM:DD HH:MM:SS\<close>, rewritten as an ISO local date and time.\<close>

definition exif_iso :: "string \<Rightarrow> string option" where
  "exif_iso dt =
    (case dt of
       [y1, y2, y3, y4, c1, m1, m2, c2, d1, d2, sp, h1, h2, c3, n1, n2, c4, s1, s2] \<Rightarrow>
         if all_digits [y1, y2, y3, y4, m1, m2, d1, d2, h1, h2, n1, n2, s1, s2] \<and>
            [c1, c2, sp, c3, c4] = '':: ::''
         then Some ([y1, y2, y3, y4] @ ''-'' @ [m1, m2] @ ''-'' @ [d1, d2] @ ''T'' @ [h1, h2] @ '':'' @ [n1, n2] @ '':'' @ [s1, s2])
         else None
     | _ \<Rightarrow> None)"

record ExifValidationOptions =
  xo_maxAgeMs :: "jsnum option"
  xo_expectedGps :: "GpsCoord option"
  xo_maxDistanceKm :: "jsnum option"
  xo_referenceTime :: "jsnum option"

definition no_options :: ExifValidationOptions where
  "no_options = \<lparr> xo_maxAgeMs = None, xo_expectedGps = None, xo_maxDistanceKm = None, xo_referenceTime = None \<rparr>"

text \<open>\<open>local_time\<close> reads an ISO local date and time as milliseconds, \<open>NaN\<close> for an invalid date.\<close>

definition parseExifDateTime :: "(string \<Rightarrow> jsnum) \<Rightarrow> string \<Rightarrow> jsnum option" where
  "parseExifDateTime local_time dt = map_option local_time (exif_iso dt)"

definition validateCameraModel :: "ExifMetadata \<Rightarrow> msg list \<times> msg list \<Rightarrow> (msg list \<times> msg list) \<times> bool" where
  "validateCameraModel metadata acc =
    (case acc of (checks, failures) \<Rightarrow>
     if ostr_truthy (xm_make metadata) \<or> ostr_truthy (xm_model metadata)
     then ((checks @ [T ''camera: '' # camera_label metadata], failures), True)
     else ((checks, failures @ [plain ''no camera make/model in EXIF (possible AI-generated or screenshot)'']), False))"

definition timestamp_of :: "ExifMetadata \<Rightarrow> string option" where
  "timestamp_of metadata =
    (if ostr_truthy (xm_dateTimeOriginal metadata) then xm_dateTimeOriginal metadata else xm_dateTime metadata)"

definition validateTimestamp ::
    "(string \<Rightarrow> jsnum) \<Rightarrow> jsnum \<Rightarrow> ExifMetadata \<Rightarrow> ExifValidationOptions \<Rightarrow> msg list \<times> msg list \<Rightarrow>
     (msg list \<times> msg list) \<times> bool \<times> bool" where
  "validateTimestamp local_time now metadata options acc =
    (case acc of (checks, failures) \<Rightarrow>
     if \<not> ostr_truthy (timestamp_of metadata) then ((checks, failures @ [plain ''no timestamp in EXIF'']), False, False)
     else let dtStr = the (timestamp_of metadata)
          in case parseExifDateTime local_time dtStr of
               None \<Rightarrow> ((checks, failures @ [[T ''unparseable EXIF timestamp: '', T dtStr]]), True, False)
             | Some dt \<Rightarrow>
               let refTime = (case xo_referenceTime options of Some t \<Rightarrow> t | None \<Rightarrow> now);
                   maxAge = (case xo_maxAgeMs options of Some a \<Rightarrow> a | None \<Rightarrow> Fin 3600000);
                   ageMs = refTime - dt
               in if 0 \<le> ageMs \<and> ageMs \<le> maxAge
                  then ((checks @ [[T ''timestamp recent: '', T dtStr]], failures), True, True)
                  else ((checks, failures @ [[T ''timestamp not recent: '', T dtStr, T '' (age: '',
                           N (js_round (div_by ageMs 60000)), T ''min)'']]), True, False))"

definition validateGps ::
    "js_math \<Rightarrow> ExifMetadata \<Rightarrow> ExifValidationOptions \<Rightarrow> msg list \<times> msg list \<Rightarrow>
     (msg list \<times> msg list) \<times> bool \<times> bool option" where
  "validateGps M metadata options acc =
    (case acc of (checks, failures) \<Rightarrow>
     case xm_gps metadata of
       None \<Rightarrow> (acc, False, None)
     | Some gps \<Rightarrow>
       let checks1 = checks @ [[T ''GPS: '', N (to_fixed 4 (gc_lat gps)), T '', '', N (to_fixed 4 (gc_lon gps))]]
       in case xo_expectedGps options of
            None \<Rightarrow> ((checks1, failures), True, None)
          | Some expected \<Rightarrow>
            let maxDist = (case xo_maxDistanceKm options of Some d \<Rightarrow> d | None \<Rightarrow> Fin 50);
                policy = evaluateC2paGpsProximity M gps (Some expected) maxDist ''EXIF'';
                distanceKm = (case px_distanceKm policy of Some d \<Rightarrow> d | None \<Rightarrow> 0)
            in if px_failures policy = []
               then ((checks1 @ [[T ''GPS within '', N maxDist, T ''km of hint ('', N (to_fixed 1 distanceKm), T ''km)'']],
                      failures), True, Some True)
               else ((checks1, failures @ [[T ''GPS '', N (to_fixed 1 distanceKm), T ''km from hint (max '',
                        N maxDist, T ''km)'']]), True, Some False))"

definition exif_verdict ::
    "js_math \<Rightarrow> (string \<Rightarrow> jsnum) \<Rightarrow> jsnum \<Rightarrow> ExifValidationOptions \<Rightarrow> ExifMetadata \<Rightarrow> ExifValidationResult" where
  "exif_verdict M local_time now options metadata =
    (if \<not> (ostr_truthy (xm_make metadata) \<or> ostr_truthy (xm_model metadata) \<or> ostr_truthy (xm_dateTime metadata) \<or>
           xm_gps metadata \<noteq> None)
     then \<lparr> xr_hasExif = False, xr_hasCameraModel = False, xr_hasTimestamp = False, xr_hasGps = False,
            xr_timestampRecent = False, xr_gpsNearHint = None, xr_metadata = metadata, xr_checks = [],
            xr_failures = [plain ''no EXIF metadata found (possible AI-generated image)''] \<rparr>
     else case validateCameraModel metadata ([plain ''EXIF metadata present''], []) of (acc1, hasCameraModel) \<Rightarrow>
          (case validateTimestamp local_time now metadata options acc1 of (acc2, hasTimestamp, timestampRecent) \<Rightarrow>
          (case validateGps M metadata options acc2 of ((checks, failures), hasGps, gpsNearHint) \<Rightarrow>
             \<lparr> xr_hasExif = True, xr_hasCameraModel = hasCameraModel, xr_hasTimestamp = hasTimestamp, xr_hasGps = hasGps,
               xr_timestampRecent = timestampRecent, xr_gpsNearHint = gpsNearHint, xr_metadata = metadata,
               xr_checks = checks, xr_failures = failures \<rparr>)))"

definition validateExif ::
    "js_math \<Rightarrow> (string \<Rightarrow> jsnum) \<Rightarrow> jsnum \<Rightarrow> bytes \<Rightarrow> ExifValidationOptions \<Rightarrow> ExifValidationResult option" where
  "validateExif M local_time now data options =
    map_option (exif_verdict M local_time now options) (extractExifMetadata data)"

end
