(* ===== verification/Exif_Properties.thy ===== *)
theory Exif_Properties
  imports Exif_Validation
begin

text \<open>
  What the EXIF parser reads and when it fails: an encoder of photos in either byte order as the specification
  the parser is inverse to, the exact condition under which the parser throws, and the meaning of a check
  without failures.
\<close>

unbundle bit_operations_syntax

section \<open>Reads inside the buffer\<close>

lemma be_value_append: "be_value (xs @ ys) = be_value xs * 256 ^ length ys + be_value ys"
  by (induct xs) (simp_all add: algebra_simps power_add)

lemma be_value_bounds: "0 \<le> be_value xs \<and> be_value xs < 256 ^ length xs"
proof (induct xs)
  case (Cons b bs)
  have "uint b * 256 ^ length bs + be_value bs < (uint b + 1) * 256 ^ length bs"
    using Cons by (simp add: algebra_simps)
  also have "\<dots> \<le> 256 * 256 ^ length bs"
    using uint_bounded [of b] by (intro mult_right_mono) simp_all
  finally show ?case using Cons by simp
qed simp

lemma int_of_bytes_bounds: "0 \<le> int_of_bytes le xs" "int_of_bytes le xs < 256 ^ length xs"
  using be_value_bounds [of xs] be_value_bounds [of "rev xs"] by (auto simp: int_of_bytes_def)

lemma readU16_range: "in_range buf off 2 \<Longrightarrow> \<exists>v. readU16 buf off le = Some v"
  by (simp add: readU16_def)

lemma readU32_range: "in_range buf off 4 \<Longrightarrow> \<exists>v. readU32 buf off le = Some v"
  by (simp add: readU32_def)

lemma readU16_nonneg: "readU16 buf off le = Some v \<Longrightarrow> 0 \<le> v"
  by (auto simp: readU16_def int_of_bytes_bounds split: if_splits)

lemma readU32_nonneg: "readU32 buf off le = Some v \<Longrightarrow> 0 \<le> v"
  by (auto simp: readU32_def int_of_bytes_bounds split: if_splits)

lemma readRational_returns: "0 \<le> tiffBase + offset \<Longrightarrow> \<exists>x. readRational buf tiffBase offset le = Some x"
  by (auto simp: readRational_def readU32_def in_range_def Let_def)

lemma readGpsCoord_returns: "0 \<le> tiffBase + offset \<Longrightarrow> \<exists>x. readGpsCoord buf tiffBase offset le = Some x"
  using readRational_returns [of tiffBase offset buf le] readRational_returns [of tiffBase "offset + 8" buf le]
    readRational_returns [of tiffBase "offset + 16" buf le]
  by (auto simp: readGpsCoord_def)

lemma read_entry_returns:
  "0 \<le> pos \<Longrightarrow> pos + 12 \<le> int (length buf) \<Longrightarrow> \<exists>e. read_entry buf pos le = Some e"
  by (simp add: read_entry_def readU16_def readU32_def in_range_def)

lemma read_entry_nonneg: "read_entry buf pos le = Some e \<Longrightarrow> 0 \<le> ie_valueOffset e"
  by (auto simp: read_entry_def dest: readU32_nonneg split: option.splits)

lemma ifd_loop_returns:
  "0 \<le> pos \<Longrightarrow> \<exists>es. ifd_loop buf pos le i n = Some es \<and> list_all (\<lambda>e. 0 \<le> ie_valueOffset e) es"
proof (induct n arbitrary: i)
  case (Suc n)
  show ?case
  proof (cases "int (length buf) < pos + 2 + int i * 12 + 12")
    case False
    then obtain e where "read_entry buf (pos + 2 + int i * 12) le = Some e"
      using read_entry_returns [of "pos + 2 + int i * 12" buf le] Suc.prems by auto
    moreover obtain es where "ifd_loop buf pos le (Suc i) n = Some es" "list_all (\<lambda>e. 0 \<le> ie_valueOffset e) es"
      using Suc by blast
    ultimately show ?thesis using False by (auto simp: Let_def dest: read_entry_nonneg)
  qed (simp add: Let_def)
qed simp

lemma readIfdEntries_returns:
  assumes "0 \<le> tiffBase + off"
  shows "\<exists>es. readIfdEntries buf tiffBase off le = Some es \<and> list_all (\<lambda>e. 0 \<le> ie_valueOffset e) es"
  using ifd_loop_returns [OF assms] assms by (auto simp: readIfdEntries_def Let_def readU16_def in_range_def)

lemma readIfdEntries_negative:
  "tiffBase + off < 0 \<Longrightarrow> 2 \<le> length buf \<Longrightarrow> readIfdEntries buf tiffBase off le = None"
  by (auto simp: readIfdEntries_def Let_def readU16_def in_range_def)

section \<open>When the parser throws\<close>

lemma run_loop_returns:
  "(\<And>x s. x \<in> set xs \<Longrightarrow> \<exists>s'. f x s = Some s') \<Longrightarrow> \<exists>s'. run_loop f xs s = Some s'"
proof (induct xs arbitrary: s)
  case (Cons x xs)
  obtain s' where "f x s = Some s'" using Cons.prems by force
  then show ?case using Cons by auto
qed simp

lemma run_loop_throws:
  "(\<And>x s. x \<in> set xs \<Longrightarrow> (f x s = None) = P x) \<Longrightarrow> (run_loop f xs s = None) = list_ex P xs"
proof (induct xs arbitrary: s)
  case (Cons x xs)
  have "(f x s = None) = P x" "\<forall>s. (run_loop f xs s = None) = list_ex P xs" using Cons by simp_all
  then show ?case by (cases "f x s") auto
qed simp

lemma exif_scan_returns: "exif_scan data offset \<noteq> None"
proof (induct data offset rule: exif_scan.induct)
  case (1 data offset)
  show ?case
    using 1 by (subst exif_scan.simps) (auto simp: readU16_def in_range_def split: option.split)
qed

lemma findApp1ExifSegment_returns: "findApp1ExifSegment data \<noteq> None"
  using exif_scan_returns [of data 2] by (auto simp: findApp1ExifSegment_def readU16_def in_range_def)

lemma tiff_header_returns: "tiff_header t \<noteq> None"
  by (auto simp: tiff_header_def readU16_def readU32_def in_range_def Let_def)

text \<open>A pointer to a directory that leads to a read before the buffer or beyond its end.\<close>

definition bad_pointer :: "bytes \<Rightarrow> int \<Rightarrow> bool \<Rightarrow> IfdEntry \<Rightarrow> bool" where
  "bad_pointer buf tiffBase le e =
    (ie_tag e \<in> {0x8769, 0x8825} \<and>
     (case getEntryLong e le buf tiffBase of None \<Rightarrow> True | Some off \<Rightarrow> tiffBase + off < 0))"

lemma parseExifIfd_None:
  assumes "2 \<le> length buf"
  shows "(parseExifIfd buf tiffBase e le = None) =
    (case getEntryLong e le buf tiffBase of None \<Rightarrow> True | Some off \<Rightarrow> tiffBase + off < 0)"
proof (cases "getEntryLong e le buf tiffBase")
  case (Some off)
  show ?thesis
    using readIfdEntries_returns [of tiffBase off buf le] readIfdEntries_negative [of tiffBase off buf le] assms Some
    by (cases "tiffBase + off < 0") (auto simp: parseExifIfd_def)
qed (simp add: parseExifIfd_def)

lemma gps_field_returns:
  "0 \<le> tiffBase \<Longrightarrow> 0 \<le> ie_valueOffset (snd ie) \<Longrightarrow> \<exists>s'. gps_field buf tiffBase off le ie s = Some s'"
  using readGpsCoord_returns [of tiffBase "ie_valueOffset (snd ie)" buf le] by (auto simp: gps_field_def Let_def)

lemma parseGpsIfd_None:
  assumes "2 \<le> length buf" "0 \<le> tiffBase"
  shows "(parseGpsIfd buf tiffBase e le = None) =
    (case getEntryLong e le buf tiffBase of None \<Rightarrow> True | Some off \<Rightarrow> tiffBase + off < 0)"
proof (cases "getEntryLong e le buf tiffBase")
  case (Some off)
  show ?thesis
  proof (cases "tiffBase + off < 0")
    case True
    then show ?thesis using readIfdEntries_negative [OF True assms(1)] Some by (simp add: parseGpsIfd_def)
  next
    case False
    then obtain es where es: "readIfdEntries buf tiffBase off le = Some es" "list_all (\<lambda>e. 0 \<le> ie_valueOffset e) es"
      using readIfdEntries_returns [of tiffBase off buf le] by auto
    have "\<exists>s'. run_loop (gps_field buf tiffBase off le) (enumerate 0 es) s = Some s'" for s
      using es(2) by (intro run_loop_returns gps_field_returns assms)
        (auto simp: list_all_iff in_set_enumerate_eq)
    then show ?thesis using es(1) Some False by (force simp: parseGpsIfd_def)
  qed
qed (simp add: parseGpsIfd_def)

lemma exif_field_None:
  assumes "2 \<le> length buf" "0 \<le> tiffBase"
  shows "(exif_field buf tiffBase off le ie m = None) = bad_pointer buf tiffBase le (snd ie)"
  using parseExifIfd_None [OF assms(1), of tiffBase "snd ie" le] parseGpsIfd_None [OF assms, of "snd ie" le]
  by (simp add: exif_field_def bad_pointer_def Let_def)

lemma list_ex_enumerate: "list_ex (\<lambda>ie. P (snd ie)) (enumerate n xs) = list_ex P xs"
  by (induct xs arbitrary: n) simp_all

text \<open>C34. The EXIF parser throws on exactly the photos with a bad pointer: a first directory, found behind a TIFF header
  in an EXIF segment, with an entry for the EXIF or GPS directory that is neither a LONG nor a SHORT and points
  outside the file, or that is read as a negative offset before its start.  All other bytes, also no JPEG at all,
  give a result.\<close>

theorem exif_throws_iff:
  "(validateExif M local_time now data options = None) =
   (\<exists>b le off es. findApp1ExifSegment data = Some (Some b) \<and> tiff_header (drop b data) = Some (Some (le, off)) \<and>
      readIfdEntries data (int b) off le = Some es \<and> list_ex (bad_pointer data (int b) le) es)"
proof (cases "findApp1ExifSegment data")
  case (Some r)
  show ?thesis
  proof (cases r)
    case found: (Some b)
    have len: "2 \<le> length data"
      using Some found by (auto simp: findApp1ExifSegment_def split: if_splits)
    show ?thesis
    proof (cases "tiff_header (drop b data)")
      case header: (Some h)
      show ?thesis
      proof (cases h)
        case (Some lo)
        obtain le off where lo: "lo = (le, off)" by force
        have "0 \<le> off"
          using header Some lo by (auto simp: tiff_header_def Let_def dest: readU32_nonneg split: option.splits if_splits)
        then obtain es where es: "readIfdEntries data (int b) off le = Some es"
          using readIfdEntries_returns [of "int b" off data le] by auto
        have "(run_loop (exif_field data (int b) off le) (enumerate 0 es) no_metadata = None) =
            list_ex (\<lambda>ie. bad_pointer data (int b) le (snd ie)) (enumerate 0 es)"
          by (rule run_loop_throws, rule exif_field_None [OF len]) simp
        then show ?thesis
          using \<open>findApp1ExifSegment data = Some r\<close> found header Some lo es
          by (simp add: validateExif_def extractExifMetadata_def list_ex_enumerate)
      qed (use \<open>findApp1ExifSegment data = Some r\<close> found header in
          \<open>simp add: validateExif_def extractExifMetadata_def\<close>)
    qed (simp add: tiff_header_returns)
  qed (use Some in \<open>simp add: validateExif_def extractExifMetadata_def\<close>)
qed (simp add: findApp1ExifSegment_returns)

section \<open>A check without failures\<close>

text \<open>The failures each part of the check leaves.\<close>

definition fresh_capture :: "(string \<Rightarrow> jsnum) \<Rightarrow> jsnum \<Rightarrow> ExifValidationOptions \<Rightarrow> string \<Rightarrow> bool" where
  "fresh_capture local_time now options stamp =
    (let age = (case xo_referenceTime options of Some t \<Rightarrow> t | None \<Rightarrow> now) - local_time stamp
     in 0 \<le> age \<and> age \<le> (case xo_maxAgeMs options of Some a \<Rightarrow> a | None \<Rightarrow> Fin 3600000))"

definition near_hint :: "js_math \<Rightarrow> ExifValidationOptions \<Rightarrow> ExifMetadata \<Rightarrow> bool" where
  "near_hint M options m =
    (case (xm_gps m, xo_expectedGps options) of
       (Some gps, Some expected) \<Rightarrow>
         haversineKm M (gc_lat gps) (gc_lon gps) (gc_lat expected) (gc_lon expected) \<le>
           (case xo_maxDistanceKm options of Some d \<Rightarrow> d | None \<Rightarrow> Fin 50)
     | _ \<Rightarrow> True)"

lemma camera_failures:
  "snd (fst (validateCameraModel m acc)) = [] \<longleftrightarrow> snd acc = [] \<and> (ostr_truthy (xm_make m) \<or> ostr_truthy (xm_model m))"
  by (cases acc) (simp add: validateCameraModel_def)

lemma timestamp_failures:
  "snd (fst (validateTimestamp local_time now m options acc)) = [] \<longleftrightarrow>
   snd acc = [] \<and> (\<exists>dt stamp. timestamp_of m = Some dt \<and> exif_iso dt = Some stamp \<and> fresh_capture local_time now options stamp)"
proof (cases "timestamp_of m")
  case (Some dt)
  have "exif_iso [] = None" by (simp add: exif_iso_def)
  then show ?thesis
    by (cases acc; cases "exif_iso dt"; cases "dt = []")
      (simp_all add: Some validateTimestamp_def parseExifDateTime_def ostr_truthy_def fresh_capture_def Let_def)
qed (cases acc, simp add: validateTimestamp_def ostr_truthy_def)

lemma gps_failures:
  "snd (fst (validateGps M m options acc)) = [] \<longleftrightarrow> snd acc = [] \<and> near_hint M options m"
  by (cases acc; cases "xm_gps m"; cases "xo_expectedGps options")
    (simp_all add: validateGps_def near_hint_def evaluateC2paGpsProximity_def evaluateGpsDistancePolicy_def Let_def)

lemma exif_verdict_failures:
  "xr_failures (exif_verdict M local_time now options m) = [] \<longleftrightarrow>
   (ostr_truthy (xm_make m) \<or> ostr_truthy (xm_model m)) \<and>
   (\<exists>dt stamp. timestamp_of m = Some dt \<and> exif_iso dt = Some stamp \<and> fresh_capture local_time now options stamp) \<and>
   near_hint M options m"
proof (cases "ostr_truthy (xm_make m) \<or> ostr_truthy (xm_model m) \<or> ostr_truthy (xm_dateTime m) \<or> xm_gps m \<noteq> None")
  case True
  have "xr_failures (exif_verdict M local_time now options m) =
      snd (fst (validateGps M m options (fst (validateTimestamp local_time now m options
        (fst (validateCameraModel m ([plain ''EXIF metadata present''], [])))))))"
    using True by (simp add: exif_verdict_def split: prod.split)
  then show ?thesis by (simp only: gps_failures timestamp_failures camera_failures) auto
qed (simp add: exif_verdict_def)

text \<open>A photo passes the EXIF check without a failure exactly if it names a camera make or model, its time of capture is
  given in the EXIF format and lies at most the allowed age before the reference time, and its position, where both
  a position and an expected one are given, is within the allowed distance of the expected one.\<close>

theorem exif_accepted_iff:
  "(\<exists>r. validateExif M local_time now data options = Some r \<and> xr_failures r = []) =
   (\<exists>m dt stamp. extractExifMetadata data = Some m \<and> (ostr_truthy (xm_make m) \<or> ostr_truthy (xm_model m)) \<and>
      timestamp_of m = Some dt \<and> exif_iso dt = Some stamp \<and>
      (let age = (case xo_referenceTime options of Some t \<Rightarrow> t | None \<Rightarrow> now) - local_time stamp
       in 0 \<le> age \<and> age \<le> (case xo_maxAgeMs options of Some a \<Rightarrow> a | None \<Rightarrow> Fin 3600000)) \<and>
      (case (xm_gps m, xo_expectedGps options) of
         (Some gps, Some expected) \<Rightarrow>
           haversineKm M (gc_lat gps) (gc_lon gps) (gc_lat expected) (gc_lon expected) \<le>
             (case xo_maxDistanceKm options of Some d \<Rightarrow> d | None \<Rightarrow> Fin 50)
       | _ \<Rightarrow> True))"
  unfolding fresh_capture_def [symmetric] near_hint_def [symmetric]
  by (cases "extractExifMetadata data") (auto simp: validateExif_def exif_verdict_failures)

section \<open>An encoder of photos\<close>

text \<open>Numbers in a byte order, texts with a closing NUL, and the entries of a directory.\<close>

fun be_bytes :: "nat \<Rightarrow> int \<Rightarrow> bytes" where
  "be_bytes 0 v = []"
| "be_bytes (Suc n) v = be_bytes n (v div 256) @ [word_of_int v]"

definition enc :: "bool \<Rightarrow> nat \<Rightarrow> int \<Rightarrow> bytes" where
  "enc le n v = (if le then rev (be_bytes n v) else be_bytes n v)"

definition text_bytes :: "string \<Rightarrow> bytes" where
  "text_bytes s = map of_char s @ [0]"

definition plain_text :: "string \<Rightarrow> bool" where
  "plain_text s = list_all (\<lambda>c. of_char c < (128 :: nat) \<and> c \<noteq> CHR 0x00) s"

definition entry_bytes :: "bool \<Rightarrow> IfdEntry \<Rightarrow> bytes" where
  "entry_bytes le e =
    enc le 2 (ie_tag e) @ enc le 2 (ie_type e) @ enc le 4 (ie_count e) @ enc le 4 (ie_valueOffset e)"

definition ifd_bytes :: "bool \<Rightarrow> IfdEntry list \<Rightarrow> bytes" where
  "ifd_bytes le es = enc le 2 (int (length es)) @ concat (map (entry_bytes le) es) @ enc le 4 0"

definition inline_bytes :: "string \<Rightarrow> bytes" where
  "inline_bytes s = take 4 (text_bytes s @ [0, 0, 0])"

definition text_entry :: "bool \<Rightarrow> int \<Rightarrow> string \<Rightarrow> int \<Rightarrow> IfdEntry" where
  "text_entry le tag s pos =
    \<lparr> ie_tag = tag, ie_type = 2, ie_count = int (length s) + 1,
      ie_valueOffset = (if length s < 4 then int_of_bytes le (inline_bytes s) else pos) \<rparr>"

definition pointer_entry :: "int \<Rightarrow> int \<Rightarrow> IfdEntry" where
  "pointer_entry tag pos = \<lparr> ie_tag = tag, ie_type = 4, ie_count = 1, ie_valueOffset = pos \<rparr>"

definition coord_entry :: "int \<Rightarrow> int \<Rightarrow> IfdEntry" where
  "coord_entry tag pos = \<lparr> ie_tag = tag, ie_type = 5, ie_count = 3, ie_valueOffset = pos \<rparr>"

text \<open>What a camera writes: texts, and a position in degrees, minutes and seconds as fractions.\<close>

type_synonym fraction = "int \<times> int"

record exposure =
  ex_make :: string
  ex_model :: string
  ex_dateTime :: string
  ex_original :: string
  ex_south :: bool
  ex_lat :: "fraction \<times> fraction \<times> fraction"
  ex_west :: bool
  ex_lon :: "fraction \<times> fraction \<times> fraction"

definition fraction_bytes :: "bool \<Rightarrow> fraction \<Rightarrow> bytes" where
  "fraction_bytes le q = enc le 4 (fst q) @ enc le 4 (snd q)"

definition coord_bytes :: "bool \<Rightarrow> fraction \<times> fraction \<times> fraction \<Rightarrow> bytes" where
  "coord_bytes le c = (case c of (d, m, s) \<Rightarrow> fraction_bytes le d @ fraction_bytes le m @ fraction_bytes le s)"

definition ifd0_of :: "bool \<Rightarrow> exposure \<Rightarrow> IfdEntry list" where
  "ifd0_of le x =
    (let p1 = 194; p2 = p1 + int (length (ex_make x)) + 1; p3 = p2 + int (length (ex_model x)) + 1
     in [text_entry le 0x010f (ex_make x) p1, text_entry le 0x0110 (ex_model x) p2,
         text_entry le 0x0132 (ex_dateTime x) p3, pointer_entry 0x8769 74, pointer_entry 0x8825 92])"

definition exif_ifd_of :: "bool \<Rightarrow> exposure \<Rightarrow> IfdEntry list" where
  "exif_ifd_of le x =
    [text_entry le 0x9003 (ex_original x)
       (197 + int (length (ex_make x)) + int (length (ex_model x)) + int (length (ex_dateTime x)))]"

definition gps_ifd_of :: "bool \<Rightarrow> exposure \<Rightarrow> IfdEntry list" where
  "gps_ifd_of le x =
    [text_entry le 1 (if ex_south x then ''S'' else ''N'') 0, coord_entry 2 146,
     text_entry le 3 (if ex_west x then ''W'' else ''E'') 0, coord_entry 4 170]"

definition tiff_of :: "bool \<Rightarrow> exposure \<Rightarrow> bytes" where
  "tiff_of le x =
    enc False 2 (if le then 0x4949 else 0x4d4d) @ enc le 2 42 @ enc le 4 8 @
    ifd_bytes le (ifd0_of le x) @ ifd_bytes le (exif_ifd_of le x) @ ifd_bytes le (gps_ifd_of le x) @
    coord_bytes le (ex_lat x) @ coord_bytes le (ex_lon x) @
    text_bytes (ex_make x) @ text_bytes (ex_model x) @ text_bytes (ex_dateTime x) @ text_bytes (ex_original x)"

text \<open>Other segments before the EXIF segment: a marker byte and a payload.\<close>

definition segment_bytes :: "8 word \<times> bytes \<Rightarrow> bytes" where
  "segment_bytes seg = [0xff, fst seg] @ enc False 2 (int (length (snd seg)) + 2) @ snd seg"

definition other_segment :: "8 word \<times> bytes \<Rightarrow> bool" where
  "other_segment seg =
    (\<not> (0xd0 \<le> fst seg \<and> fst seg \<le> 0xd9) \<and> int (length (snd seg)) + 2 < 65536 \<and>
     (fst seg = 0xe1 \<longrightarrow> 6 \<le> length (snd seg) \<and> take 6 (snd seg) \<noteq> EXIF_MAGIC))"

definition photo_of :: "bool \<Rightarrow> (8 word \<times> bytes) list \<Rightarrow> exposure \<Rightarrow> bytes \<Rightarrow> bytes" where
  "photo_of le segs x scans =
    [0xff, 0xd8] @ concat (map segment_bytes segs) @ segment_bytes (0xe1, EXIF_MAGIC @ tiff_of le x) @ scans"

definition fraction_ok :: "fraction \<Rightarrow> bool" where
  "fraction_ok q = (0 \<le> fst q \<and> fst q < 2 ^ 32 \<and> 0 < snd q \<and> snd q < 2 ^ 32)"

definition coord_ok :: "fraction \<times> fraction \<times> fraction \<Rightarrow> bool" where
  "coord_ok c = (case c of (d, m, s) \<Rightarrow> fraction_ok d \<and> fraction_ok m \<and> fraction_ok s)"

definition exposure_ok :: "exposure \<Rightarrow> bool" where
  "exposure_ok x =
    (list_all plain_text [ex_make x, ex_model x, ex_dateTime x, ex_original x] \<and>
     coord_ok (ex_lat x) \<and> coord_ok (ex_lon x) \<and>
     length (ex_make x) + length (ex_model x) + length (ex_dateTime x) + length (ex_original x) < 65000)"

definition degrees :: "bool \<Rightarrow> fraction \<times> fraction \<times> fraction \<Rightarrow> jsnum" where
  "degrees negative c =
    (case c of ((a, b), (c, d), (e, f)) \<Rightarrow>
       let v = of_int a / of_int b + of_int c / of_int d / 60 + of_int e / of_int f / 3600
       in Fin (if negative then - v else v))"

section \<open>Reading what was encoded\<close>

definition holds :: "bytes \<Rightarrow> int \<Rightarrow> bytes \<Rightarrow> bool" where
  "holds buf off bs = (0 \<le> off \<and> nat off + length bs \<le> length buf \<and> bytes_at buf off (length bs) = bs)"

lemma holds_append: "holds buf off (xs @ ys) \<longleftrightarrow> holds buf off xs \<and> holds buf (off + int (length xs)) ys"
  by (auto simp: holds_def bytes_at_def take_add nat_add_distrib add.commute append_eq_append_conv)

lemma holds_at_end: "holds (xs @ bs @ ys) (int (length xs)) bs"
  by (simp add: holds_def bytes_at_def)

lemma length_enc [simp]: "length (enc le n v) = n"
proof -
  have "length (be_bytes n v) = n" for v by (induct n arbitrary: v) simp_all
  then show ?thesis by (simp add: enc_def)
qed

lemma enc_value: "0 \<le> v \<Longrightarrow> v < 256 ^ n \<Longrightarrow> int_of_bytes le (enc le n v) = v"
proof -
  have "be_value (be_bytes n v) = v" if "0 \<le> v" "v < 256 ^ n" for v :: int
    using that
  proof (induct n arbitrary: v)
    case (Suc n)
    have "uint (word_of_int v :: 8 word) = v mod 256" by (simp add: uint_word_of_int)
    moreover have "v < 256 * 256 ^ n" using Suc.prems by simp
    then have "v div 256 < 256 ^ n" by linarith
    then have "be_value (be_bytes n (v div 256)) = v div 256"
      using Suc.prems by (intro Suc.hyps) (simp_all add: pos_imp_zdiv_nonneg_iff)
    ultimately show ?case by (simp add: be_value_append)
  qed simp
  then show "0 \<le> v \<Longrightarrow> v < 256 ^ n \<Longrightarrow> int_of_bytes le (enc le n v) = v" by (simp add: int_of_bytes_def enc_def)
qed

lemma be_bytes_value: "be_bytes (length bs) (be_value bs) = bs"
proof (induct bs rule: rev_induct)
  case (snoc b bs)
  have b: "uint b < 256" using uint_bounded [of b] by simp
  then have "uint (word_of_int (v * 256 + uint b) :: 8 word) = uint b" for v
    by (simp add: uint_word_of_int del: of_int_add of_int_mult)
  then have "word_of_int (v * 256 + uint b) = b" for v by (simp only: word_uint_eq_iff)
  then show ?case using snoc b by (simp add: be_value_append del: of_int_add of_int_mult)
qed simp

lemma enc_bytes: "length bs = n \<Longrightarrow> enc le n (int_of_bytes le bs) = bs"
  using be_bytes_value [of bs] be_bytes_value [of "rev bs"] by (auto simp: enc_def int_of_bytes_def)

lemma holds_U16: "holds buf off (enc le 2 v) \<Longrightarrow> 0 \<le> v \<Longrightarrow> v < 65536 \<Longrightarrow> readU16 buf off le = Some v"
  using enc_value [of v 2 le] by (auto simp: holds_def readU16_def in_range_def)

lemma holds_U32: "holds buf off (enc le 4 v) \<Longrightarrow> 0 \<le> v \<Longrightarrow> v < 4294967296 \<Longrightarrow> readU32 buf off le = Some v"
  using enc_value [of v 4 le] by (auto simp: holds_def readU32_def in_range_def)

lemma ascii_char_of: "of_char c < (128 :: nat) \<Longrightarrow> ascii_char (of_char c) = c"
proof -
  assume c: "of_char c < (128 :: nat)"
  have "(of_char c :: 8 word) = of_nat (of_char c)" by (simp only: of_nat_of_char)
  then have "uint (of_char c :: 8 word) = int (of_char c) mod 256"
    by (simp only: unsigned_of_nat) (simp add: take_bit_eq_mod)
  then have "uint (of_char c :: 8 word) mod 128 = int (of_char c)" using c by simp
  then show ?thesis by (simp add: ascii_char_def)
qed

lemma text_bytes_ascii: "plain_text s \<Longrightarrow> strip_nul (map ascii_char (text_bytes s)) = s"
proof -
  assume s: "plain_text s"
  then have "map ascii_char (map of_char s) = s"
    by (induct s) (simp_all add: plain_text_def ascii_char_of)
  moreover have "\<forall>c \<in> set (rev s). c \<noteq> CHR 0x00" using s by (simp add: plain_text_def list_all_iff)
  then have "dropWhile (\<lambda>c. c = CHR 0x00) (rev s) = rev s" by (cases "rev s") simp_all
  moreover have "ascii_char 0 = CHR 0x00" by (simp add: ascii_char_def char_of_def)
  ultimately show ?thesis by (simp add: text_bytes_def strip_nul_def)
qed

lemma length_text_bytes [simp]: "length (text_bytes s) = length s + 1"
  by (simp add: text_bytes_def)

lemma holds_text:
  assumes "holds buf (base + off) (text_bytes s)" "plain_text s"
  shows "readAscii buf base off (int (length s) + 1) = s"
proof -
  have r: "0 \<le> base + off" "base + off + (int (length s) + 1) \<le> int (length buf)"
    and t: "take (length s + 1) (drop (nat (base + off)) buf) = text_bytes s"
    using assms(1) by (auto simp: holds_def bytes_at_def)
  have "sub_index buf (base + off) = nat (base + off)" "sub_index buf (base + off + (int (length s) + 1)) = nat (base + off) + (length s + 1)"
    using r by (simp_all add: sub_index_def min_absorb1 nat_add_distrib)
  then have "subarray buf (base + off) (base + off + (int (length s) + 1)) = text_bytes s"
    using t by (simp add: subarray_def)
  then show ?thesis using r assms(2) by (simp add: readAscii_def Let_def text_bytes_ascii)
qed

lemma inline_prefix: "length s < 4 \<Longrightarrow> inline_bytes s = text_bytes s @ take (3 - length s) [0, 0, 0]"
  by (simp add: inline_bytes_def)

lemma length_entry_bytes [simp]: "length (entry_bytes le e) = 12"
  by (simp add: entry_bytes_def)

lemma entry_text_holds:
  assumes "holds buf (base + ifd + 2 + int i * 12) (entry_bytes le (text_entry le tag s pos))"
    "\<not> length s < 4 \<Longrightarrow> holds buf (base + pos) (text_bytes s)" "plain_text s"
  shows "entry_text buf base ifd (i, text_entry le tag s pos) = s"
proof (cases "length s < 4")
  case True
  have "length (inline_bytes s) = 4" by (simp add: inline_bytes_def)
  then have "holds buf (base + (ifd + 2 + int i * 12 + 8)) (inline_bytes s)"
    using assms(1) True by (simp add: entry_bytes_def text_entry_def holds_append enc_bytes algebra_simps)
  then have "holds buf (base + (ifd + 2 + int i * 12 + 8)) (text_bytes s)"
    by (simp add: inline_prefix [OF True] holds_append)
  from holds_text [OF this assms(3)] show ?thesis
    using True by (simp add: entry_text_def entryAsciiOffset_def text_entry_def)
next
  case False
  with holds_text [OF assms(2) assms(3)] show ?thesis
    by (simp add: entry_text_def entryAsciiOffset_def text_entry_def)
qed

definition entry_ok :: "IfdEntry \<Rightarrow> bool" where
  "entry_ok e =
    (0 \<le> ie_tag e \<and> ie_tag e < 65536 \<and> 0 \<le> ie_type e \<and> ie_type e < 65536 \<and>
     0 \<le> ie_count e \<and> ie_count e < 4294967296 \<and> 0 \<le> ie_valueOffset e \<and> ie_valueOffset e < 4294967296)"

lemma holds_entry: "holds buf pos (entry_bytes le e) \<Longrightarrow> entry_ok e \<Longrightarrow> read_entry buf pos le = Some e"
proof -
  assume h: "holds buf pos (entry_bytes le e)" and ok: "entry_ok e"
  have tag: "holds buf pos (enc le 2 (ie_tag e))" and type: "holds buf (pos + 2) (enc le 2 (ie_type e))"
    and count: "holds buf (pos + 4) (enc le 4 (ie_count e))" and off: "holds buf (pos + 8) (enc le 4 (ie_valueOffset e))"
    using h by (simp_all add: entry_bytes_def holds_append algebra_simps)
  show ?thesis
    using holds_U16 [OF tag] holds_U16 [OF type] holds_U32 [OF count] holds_U32 [OF off] ok
    by (simp add: read_entry_def entry_ok_def)
qed

lemma holds_ifd_loop:
  "holds buf (pos + 2 + int i * 12) (concat (map (entry_bytes le) es)) \<Longrightarrow> list_all entry_ok es \<Longrightarrow>
   ifd_loop buf pos le i (length es) = Some es"
proof (induct es arbitrary: i)
  case (Cons e es)
  have e: "holds buf (pos + 2 + int i * 12) (entry_bytes le e)"
    and es: "holds buf (pos + 2 + int (Suc i) * 12) (concat (map (entry_bytes le) es))"
    using Cons.prems(1) by (simp_all add: holds_append algebra_simps)
  have "pos + 2 + int i * 12 + 12 \<le> int (length buf)" using e by (auto simp: holds_def)
  then show ?case using Cons.hyps [OF es] holds_entry [OF e] Cons.prems(2) by (simp add: Let_def)
qed simp

lemma holds_ifd:
  assumes "holds buf (base + off) (ifd_bytes le es)" "list_all entry_ok es" "length es < 65536"
  shows "readIfdEntries buf base off le = Some es"
proof -
  have n: "holds buf (base + off) (enc le 2 (int (length es)))"
    and es: "holds buf (base + off + 2) (concat (map (entry_bytes le) es))"
    using assms(1) by (simp_all add: ifd_bytes_def holds_append)
  have "base + off + 2 \<le> int (length buf)" using n by (auto simp: holds_def)
  then show ?thesis
    using holds_U16 [OF n] holds_ifd_loop [of buf "base + off" 0 le es] es assms by (simp add: readIfdEntries_def Let_def)
qed

lemma holds_ifd_entry:
  assumes "holds buf pos (ifd_bytes le (xs @ e # ys))"
  shows "holds buf (pos + 2 + int (length xs) * 12) (entry_bytes le e)"
proof -
  have "length (concat (map (entry_bytes le) xs)) = length xs * 12" by (induct xs) simp_all
  then show ?thesis using assms by (simp add: ifd_bytes_def holds_append algebra_simps)
qed

lemma holds_fraction:
  assumes "holds buf (base + off) (fraction_bytes le q)" "fraction_ok q"
  shows "readRational buf base off le = Some (Fin (of_int (fst q) / of_int (snd q)))"
proof -
  have num: "holds buf (base + off) (enc le 4 (fst q))" and den: "holds buf (base + off + 4) (enc le 4 (snd q))"
    using assms(1) by (simp_all add: fraction_bytes_def holds_append)
  have "base + off + 8 \<le> int (length buf)"
    using assms(1) by (auto simp: holds_def fraction_bytes_def)
  then show ?thesis
    using holds_U32 [OF num] holds_U32 [OF den] assms(2) by (simp add: readRational_def Let_def fraction_ok_def)
qed

lemma holds_coord:
  assumes "holds buf (base + off) (coord_bytes le c)" "coord_ok c"
  shows "readGpsCoord buf base off le = Some (degrees False c)"
proof -
  obtain d m s where c: "c = (d, m, s)" by (cases c)
  have q: "holds buf (base + off) (fraction_bytes le d)" "holds buf (base + (off + 8)) (fraction_bytes le m)"
    "holds buf (base + (off + 16)) (fraction_bytes le s)"
    using assms(1) by (simp_all add: c coord_bytes_def holds_append fraction_bytes_def algebra_simps)
  have "fraction_ok d" "fraction_ok m" "fraction_ok s" using assms(2) by (simp_all add: c coord_ok_def)
  with holds_fraction [OF q(1)] holds_fraction [OF q(2)] holds_fraction [OF q(3)] show ?thesis
    by (simp add: readGpsCoord_def degrees_def c Let_def split: prod.split)
qed

lemma marker_mask: "(0xff00 + uint (m :: 8 word)) AND 0xff00 = 0xff00"
proof -
  have "\<forall>k \<in> set [0 .. 255]. (0xff00 + k) AND 0xff00 = (0xff00 :: int)" by code_simp
  moreover have "uint m \<in> set [0 .. 255]" using uint_bounded [of m] by simp
  ultimately show ?thesis by blast
qed

lemma exif_scan_step:
  assumes "0 \<le> n" "n < 65536" "\<not> (0xd0 \<le> m \<and> m \<le> 0xd9)"
  shows "exif_scan (pre @ [0xff, m] @ enc False 2 n @ payload) (length pre) =
    (if m = 0xe1 \<and> 6 < length payload \<and> take 6 payload = EXIF_MAGIC then Some (Some (length pre + 10))
     else exif_scan (pre @ [0xff, m] @ enc False 2 n @ payload) (length pre + 2 + nat n))"
    (is "exif_scan ?data _ = _")
proof -
  have marker: "readU16 ?data (int (length pre)) False = Some (0xff00 + uint m)"
    by (simp add: readU16_def in_range_def bytes_at_def int_of_bytes_def)
  have "holds ((pre @ [0xff, m]) @ enc False 2 n @ payload) (int (length (pre @ [0xff, m]))) (enc False 2 n)"
    by (rule holds_at_end)
  then have "holds ?data (int (length pre) + 2) (enc False 2 n)" by (simp add: add.commute)
  from holds_U16 [OF this assms(1, 2)] have len: "readU16 ?data (int (length pre) + 2) False = Some n" .
  have magic: "bytes_at ?data (int (length pre) + 4) 6 = take 6 payload"
    by (simp add: bytes_at_def nat_add_distrib)
  have m: "0xff00 + uint m = 0xffe1 \<longleftrightarrow> m = 0xe1" "0xffd0 \<le> 0xff00 + uint m \<longleftrightarrow> 0xd0 \<le> m"
    "0xff00 + uint m \<le> 0xffd9 \<longleftrightarrow> m \<le> 0xd9"
    by (simp_all add: word_uint_eq_iff word_le_def)
  define k where "k = 0xff00 + uint m"
  note k = m [folded k_def] marker_mask [of m, folded k_def]
  define data where "data = ?data"
  have size: "length data = length pre + 4 + length payload" by (simp add: data_def)
  show ?thesis
    using marker len magic assms(3) unfolding data_def [symmetric] k_def [symmetric]
    by (subst exif_scan.simps) (auto simp: k size)
qed

lemma exif_scan_segments:
  assumes "list_all other_segment segs" "t \<noteq> []" "length t < 65520"
  shows "exif_scan (pre @ concat (map segment_bytes segs) @ segment_bytes (0xe1, EXIF_MAGIC @ t) @ scans) (length pre) =
    Some (Some (length pre + length (concat (map segment_bytes segs)) + 10))"
  using assms(1)
proof (induct segs arbitrary: pre)
  case Nil
  have "length EXIF_MAGIC = 6" by (simp add: EXIF_MAGIC_def)
  then show ?case
    using assms(2, 3) exif_scan_step [of "8 + int (length t)" "0xe1" pre "EXIF_MAGIC @ t @ scans"]
    by (simp add: segment_bytes_def)
next
  case (Cons seg segs)
  define rest where "rest = concat (map segment_bytes segs) @ segment_bytes (0xe1, EXIF_MAGIC @ t) @ scans"
  obtain m p where seg: "seg = (m, p)" by force
  have m: "\<not> (0xd0 \<le> m \<and> m \<le> 0xd9)" "int (length p) + 2 < 65536"
    and no: "m = 0xe1 \<Longrightarrow> 6 \<le> length p \<and> take 6 p \<noteq> EXIF_MAGIC"
    using Cons.prems by (simp_all add: seg other_segment_def)
  have bytes: "pre @ [0xff, m] @ enc False 2 (int (length p) + 2) @ p @ rest = pre @ segment_bytes seg @ rest"
    and size: "length pre + 2 + nat (int (length p) + 2) = length (pre @ segment_bytes seg)"
    by (simp_all add: seg segment_bytes_def nat_add_distrib)
  have "exif_scan (pre @ segment_bytes seg @ rest) (length pre) =
      exif_scan (pre @ segment_bytes seg @ rest) (length (pre @ segment_bytes seg))"
    using exif_scan_step [OF _ m(2) m(1), of pre "p @ rest"] no unfolding bytes size by auto
  then show ?case
    using Cons.hyps [of "pre @ segment_bytes seg"] Cons.prems by (simp add: rest_def add.assoc)
qed

lemma findApp1_photo:
  assumes "list_all other_segment segs" "tiff_of le x \<noteq> []" "length (tiff_of le x) < 65520"
  shows "findApp1ExifSegment (photo_of le segs x scans) = Some (Some (12 + length (concat (map segment_bytes segs))))"
proof -
  have "exif_scan (photo_of le segs x scans) 2 = Some (Some (12 + length (concat (map segment_bytes segs))))"
    using exif_scan_segments [OF assms, of "[0xff, 0xd8]" scans] by (simp add: photo_of_def numeral_2_eq_2)
  moreover have "readU16 (photo_of le segs x scans) 0 False = Some 0xffd8" "2 \<le> length (photo_of le segs x scans)"
    by (simp_all add: photo_of_def readU16_def in_range_def bytes_at_def int_of_bytes_def)
  ultimately show ?thesis by (simp add: findApp1ExifSegment_def)
qed

lemma length_ifd_bytes [simp]: "length (ifd_bytes le es) = 6 + 12 * length es"
  by (induct es) (simp_all add: ifd_bytes_def)

lemma length_coord_bytes [simp]: "length (coord_bytes le c) = 24"
  by (simp add: coord_bytes_def fraction_bytes_def split: prod.split)

lemma length_tiff_of:
  "length (tiff_of le x) =
   198 + length (ex_make x) + length (ex_model x) + length (ex_dateTime x) + length (ex_original x)"
  by (simp add: tiff_of_def ifd0_of_def exif_ifd_of_def gps_ifd_of_def Let_def)

text \<open>The places at which the structures of a photo stand.\<close>

lemma tiff_layout:
  assumes "holds buf b (tiff_of le x)"
  shows "holds buf (b + 8) (ifd_bytes le (ifd0_of le x))" "holds buf (b + 74) (ifd_bytes le (exif_ifd_of le x))"
    "holds buf (b + 92) (ifd_bytes le (gps_ifd_of le x))" "holds buf (b + 146) (coord_bytes le (ex_lat x))"
    "holds buf (b + 170) (coord_bytes le (ex_lon x))" "holds buf (b + 194) (text_bytes (ex_make x))"
    "holds buf (b + (194 + int (length (ex_make x)) + 1)) (text_bytes (ex_model x))"
    "holds buf (b + (194 + int (length (ex_make x)) + 1 + int (length (ex_model x)) + 1)) (text_bytes (ex_dateTime x))"
    "holds buf (b + (197 + int (length (ex_make x)) + int (length (ex_model x)) + int (length (ex_dateTime x))))
       (text_bytes (ex_original x))"
proof -
  have "length (ifd0_of le x) = 5" "length (exif_ifd_of le x) = 1" "length (gps_ifd_of le x) = 4"
    by (simp_all add: ifd0_of_def exif_ifd_of_def gps_ifd_of_def Let_def)
  note sizes = this
  show "holds buf (b + 8) (ifd_bytes le (ifd0_of le x))" "holds buf (b + 74) (ifd_bytes le (exif_ifd_of le x))"
    "holds buf (b + 92) (ifd_bytes le (gps_ifd_of le x))" "holds buf (b + 146) (coord_bytes le (ex_lat x))"
    "holds buf (b + 170) (coord_bytes le (ex_lon x))" "holds buf (b + 194) (text_bytes (ex_make x))"
    "holds buf (b + (194 + int (length (ex_make x)) + 1)) (text_bytes (ex_model x))"
    "holds buf (b + (194 + int (length (ex_make x)) + 1 + int (length (ex_model x)) + 1)) (text_bytes (ex_dateTime x))"
    "holds buf (b + (197 + int (length (ex_make x)) + int (length (ex_model x)) + int (length (ex_dateTime x))))
       (text_bytes (ex_original x))"
    using assms by (simp_all add: tiff_of_def holds_append sizes algebra_simps)
qed

lemma tiff_header_of: "tiff_header (tiff_of le x @ scans) = Some (Some (le, 8))"
proof -
  define t where "t = tiff_of le x @ scans"
  have "holds t 0 (tiff_of le x)" using holds_at_end [of "[]" "tiff_of le x" scans] by (simp add: t_def)
  then have order: "holds t 0 (enc False 2 (if le then 0x4949 else 0x4d4d))" and magic: "holds t 2 (enc le 2 42)"
    and off: "holds t 4 (enc le 4 8)"
    unfolding tiff_of_def by (simp_all add: holds_append)
  have "8 \<le> length t" by (simp add: t_def length_tiff_of)
  then show ?thesis
    using holds_U16 [OF order] holds_U16 [OF magic] holds_U32 [OF off] unfolding t_def [symmetric]
    by (cases le) (simp_all add: tiff_header_def Let_def)
qed

lemma text_entry_ok:
  "0 \<le> tag \<Longrightarrow> tag < 65536 \<Longrightarrow> length s < 65536 \<Longrightarrow> 0 \<le> pos \<Longrightarrow> pos < 4294967296 \<Longrightarrow> entry_ok (text_entry le tag s pos)"
  using int_of_bytes_bounds [of le "inline_bytes s"] by (auto simp: entry_ok_def text_entry_def inline_bytes_def)

lemma ifds_ok:
  assumes "exposure_ok x"
  shows "list_all entry_ok (ifd0_of le x)" "list_all entry_ok (exif_ifd_of le x)" "list_all entry_ok (gps_ifd_of le x)"
  using assms by (auto simp: ifd0_of_def exif_ifd_of_def gps_ifd_of_def Let_def exposure_ok_def
      intro!: text_entry_ok) (simp_all add: entry_ok_def pointer_entry_def coord_entry_def)

lemma exif_ifd_read:
  assumes "holds buf b (tiff_of le x)" "exposure_ok x"
  shows "parseExifIfd buf b (pointer_entry 0x8769 74) le = Some (Some (ex_original x))"
proof -
  note at = tiff_layout [OF assms(1)]
  have entries: "readIfdEntries buf b 74 le = Some (exif_ifd_of le x)"
    using at(2) ifds_ok(2) [OF assms(2)] by (rule holds_ifd) (simp add: exif_ifd_of_def)
  have "plain_text (ex_original x)" using assms(2) by (simp add: exposure_ok_def)
  moreover have "holds buf (b + 74 + 2 + int 0 * 12) (entry_bytes le (hd (exif_ifd_of le x)))"
    using holds_ifd_entry [of buf "b + 74" le "[]"] at(2) by (simp add: exif_ifd_of_def)
  ultimately have "entry_text buf b 74 (0, hd (exif_ifd_of le x)) = ex_original x"
    unfolding exif_ifd_of_def list.sel by (intro entry_text_holds [OF _ at(9)])
  then show ?thesis
    using entries by (simp add: parseExifIfd_def pointer_entry_def getEntryLong_def exif_ifd_of_def)
      (simp add: text_entry_def)
qed

lemma degrees_sign: "degrees n c = (if n then 0 - degrees False c else degrees False c)"
  by (auto simp: degrees_def Let_def zero_jsnum_def split: prod.split)

lemma gps_ifd_read:
  assumes "holds buf b (tiff_of le x)" "exposure_ok x"
  shows "parseGpsIfd buf b (pointer_entry 0x8825 92) le =
    Some (Some \<lparr> gc_lat = degrees (ex_south x) (ex_lat x), gc_lon = degrees (ex_west x) (ex_lon x) \<rparr>)"
proof -
  note at = tiff_layout [OF assms(1)]
  let ?ns = "if ex_south x then ''S'' else ''N''" and ?ew = "if ex_west x then ''W'' else ''E''"
  have entries: "readIfdEntries buf b 92 le = Some (gps_ifd_of le x)"
    using at(3) ifds_ok(3) [OF assms(2)] by (rule holds_ifd) (simp add: gps_ifd_of_def)
  have "holds buf (b + 92 + 2 + int 0 * 12) (entry_bytes le (text_entry le 1 ?ns 0))"
    "holds buf (b + 92 + 2 + int 2 * 12) (entry_bytes le (text_entry le 3 ?ew 0))"
    using holds_ifd_entry [of buf "b + 92" le "[]"] holds_ifd_entry [of buf "b + 92" le "[a, c]" for a c] at(3)
    by (simp_all add: gps_ifd_of_def)
  then have refs: "entry_text buf b 92 (0, text_entry le 1 ?ns 0) = ?ns" "entry_text buf b 92 (2, text_entry le 3 ?ew 0) = ?ew"
    by (auto intro!: entry_text_holds simp: plain_text_def)
  have "coord_ok (ex_lat x)" "coord_ok (ex_lon x)" using assms(2) by (simp_all add: exposure_ok_def)
  with holds_coord [OF at(4)] holds_coord [OF at(5)]
  have "readGpsCoord buf b 146 le = Some (degrees False (ex_lat x))" "readGpsCoord buf b 170 le = Some (degrees False (ex_lon x))"
    by simp_all
  then show ?thesis
    using entries refs degrees_sign [of "ex_south x" "ex_lat x"] degrees_sign [of "ex_west x" "ex_lon x"]
    by (simp add: parseGpsIfd_def pointer_entry_def getEntryLong_def gps_ifd_of_def gps_field_def coord_entry_def
        gps_result_def Let_def numeral_2_eq_2 text_entry_def)
qed

lemma ifd0_shape:
  "\<exists>e0 e1 e2. ifd0_of le x = [e0, e1, e2, pointer_entry 0x8769 74, pointer_entry 0x8825 92] \<and>
     ie_tag e0 = 0x010f \<and> ie_tag e1 = 0x0110 \<and> ie_tag e2 = 0x0132"
  by (simp add: ifd0_of_def Let_def text_entry_def)

lemma ifd0_texts:
  assumes "holds buf b (tiff_of le x)" "exposure_ok x" "ifd0_of le x = e0 # e1 # e2 # es"
  shows "entry_text buf b 8 (0, e0) = ex_make x" "entry_text buf b 8 (Suc 0, e1) = ex_model x"
    "entry_text buf b 8 (Suc (Suc 0), e2) = ex_dateTime x"
proof -
  note place = tiff_layout [OF assms(1)]
  have "holds buf (b + 8 + 2 + int 0 * 12) (entry_bytes le e0)" "holds buf (b + 8 + 2 + int (Suc 0) * 12) (entry_bytes le e1)"
    "holds buf (b + 8 + 2 + int (Suc (Suc 0)) * 12) (entry_bytes le e2)"
    using holds_ifd_entry [of buf "b + 8" le "[]"] holds_ifd_entry [of buf "b + 8" le "[a]" for a]
      holds_ifd_entry [of buf "b + 8" le "[a, c]" for a c] place(1) assms(3) by simp_all
  moreover have "plain_text (ex_make x)" "plain_text (ex_model x)" "plain_text (ex_dateTime x)"
    using assms(2) by (simp_all add: exposure_ok_def)
  ultimately show "entry_text buf b 8 (0, e0) = ex_make x" "entry_text buf b 8 (Suc 0, e1) = ex_model x"
    "entry_text buf b 8 (Suc (Suc 0), e2) = ex_dateTime x"
    using place(6, 7, 8) assms(3) by (auto simp: ifd0_of_def Let_def intro!: entry_text_holds)
qed

lemma ifd0_metadata:
  assumes "holds buf b (tiff_of le x)" "exposure_ok x"
  shows "run_loop (exif_field buf b 8 le) (enumerate 0 (ifd0_of le x)) no_metadata =
    Some \<lparr> xm_make = Some (ex_make x), xm_model = Some (ex_model x), xm_dateTime = Some (ex_dateTime x),
           xm_dateTimeOriginal = Some (ex_original x),
           xm_gps = Some \<lparr> gc_lat = degrees (ex_south x) (ex_lat x), gc_lon = degrees (ex_west x) (ex_lon x) \<rparr> \<rparr>"
proof -
  obtain e0 e1 e2 where es: "ifd0_of le x = [e0, e1, e2, pointer_entry 0x8769 74, pointer_entry 0x8825 92]"
    and tags: "ie_tag e0 = 0x010f" "ie_tag e1 = 0x0110" "ie_tag e2 = 0x0132"
    using ifd0_shape by blast
  have pointers: "ie_tag (pointer_entry t p) = t" for t p by (simp add: pointer_entry_def)
  show ?thesis
    by (simp add: es exif_field_def Let_def tags pointers ifd0_texts [OF assms es] exif_ifd_read [OF assms]
        gps_ifd_read [OF assms] no_metadata_def)
qed

text \<open>C23. The EXIF parser reads back what a camera wrote.  For texts of ASCII characters and positive fractions of 32 bits,
  in either byte order and behind any other segments, the metadata of an encoded photo are its make, model and two
  times, and its position as degrees plus sixtieths and thirty-six-hundredths, negative in the south and west.\<close>

theorem exif_roundtrip:
  assumes "exposure_ok x" "list_all other_segment segs"
  shows "extractExifMetadata (photo_of le segs x scans) =
    Some \<lparr> xm_make = Some (ex_make x), xm_model = Some (ex_model x), xm_dateTime = Some (ex_dateTime x),
           xm_dateTimeOriginal = Some (ex_original x),
           xm_gps = Some \<lparr> gc_lat = degrees (ex_south x) (ex_lat x), gc_lon = degrees (ex_west x) (ex_lon x) \<rparr> \<rparr>"
proof -
  let ?data = "photo_of le segs x scans"
  define b where "b = 12 + length (concat (map segment_bytes segs))"
  have size: "length (tiff_of le x) < 65520" "tiff_of le x \<noteq> []"
    using assms(1) length_tiff_of [of le x] by (auto simp: exposure_ok_def)
  define pre where "pre = [0xff, 0xd8] @ concat (map segment_bytes segs) @ [0xff, 0xe1] @
      enc False 2 (int (length (EXIF_MAGIC @ tiff_of le x)) + 2) @ EXIF_MAGIC"
  have data: "?data = pre @ tiff_of le x @ scans" and pre: "length pre = b"
    by (simp_all add: photo_of_def segment_bytes_def pre_def b_def EXIF_MAGIC_def)
  have at: "holds ?data (int b) (tiff_of le x)"
    using holds_at_end [of pre "tiff_of le x" scans] by (simp only: data pre)
  have header: "tiff_header (drop b ?data) = Some (Some (le, 8))"
    using tiff_header_of [of le x scans] by (simp add: data flip: pre)
  have entries: "readIfdEntries ?data (int b) 8 le = Some (ifd0_of le x)"
    using tiff_layout(1) [OF at] ifds_ok(1) [OF assms(1)] by (rule holds_ifd) (simp add: ifd0_of_def Let_def)
  show ?thesis
    by (simp add: extractExifMetadata_def findApp1_photo [OF assms(2) size(2, 1), folded b_def] header entries
        ifd0_metadata [OF at assms(1)])
qed

definition ex_exposure :: exposure where
  "ex_exposure = \<lparr> ex_make = ''Canon'', ex_model = ''R5'', ex_dateTime = ''2026:01:02 03:04:05'', ex_original = ''2026:01:02 03:04:05'',
    ex_south = True, ex_lat = ((33, 1), (51, 1), (354, 10)), ex_west = False, ex_lon = ((151, 1), (12, 1), (40, 1)) \<rparr>"

theorem exif_roundtrip_witness:
  "exposure_ok ex_exposure \<and> list_all other_segment [(0xe0, [1, 2, 3])] \<and>
   map_option xm_gps (extractExifMetadata (photo_of True [(0xe0, [1, 2, 3])] ex_exposure [0xff, 0xd9])) =
     Some (Some \<lparr> gc_lat = Fin (- (33 + 51 / 60 + 354 / 36000)), gc_lon = Fin (151 + 12 / 60 + 40 / 3600) \<rparr>)"
proof -
  have "exposure_ok ex_exposure"
    by (simp add: exposure_ok_def ex_exposure_def plain_text_def coord_ok_def fraction_ok_def)
  moreover have "list_all other_segment [(0xe0, [1, 2, 3])]" by (simp add: other_segment_def)
  ultimately show ?thesis
    using exif_roundtrip [of ex_exposure "[(0xe0, [1, 2, 3])]" True "[0xff, 0xd9]"]
    by (simp add: ex_exposure_def degrees_def)
qed

end
