(* ===== verification/Proofmode_Validation.thy ===== *)
theory Proofmode_Validation
  imports Photo_Integrity
begin

text \<open>
  ProofMode bundles (\<open>proofs/proofmode-validation.ts\<close>).  The \<open>unzip\<close> and \<open>gpg\<close> programs and the file
  system between them are arguments: the entries of an archive, and the exit codes of the import of a key and
  of the check of a signature.  Members of \<open>proof.json\<close> are kept as the values they have, since the source
  does not check their types; \<open>None\<close> is the exception where it calls a method a value does not have.
\<close>

type_synonym zip_entries = "(string, bytes) jsmap"

record proofmode_tools =
  pt_unzip :: "bytes \<Rightarrow> zip_entries option"
  pt_utf8 :: "bytes \<Rightarrow> string"
  pt_sha256 :: "bytes \<Rightarrow> string"
  pt_gpg :: "bytes \<Rightarrow> bytes \<Rightarrow> bytes \<Rightarrow> (int \<times> int) option"

record ProofModeMetadata =
  mm_fileHashSha256 :: jsval
  mm_proofGenerated :: jsval
  mm_manufacturer :: jsval
  mm_hardware :: jsval
  mm_screenSize :: jsval
  mm_locationProvider :: jsval
  mm_locationLatitude :: jsnum
  mm_locationLongitude :: jsnum
  mm_locationAccuracy :: jsval
  mm_locationAltitude :: jsnum
  mm_locationSpeed :: jsnum
  mm_locationBearing :: jsnum
  mm_networkType :: jsval
  mm_locale :: jsval

record ProofModeData =
  md_photo :: bytes
  md_photoFilename :: string
  md_proof :: "ProofModeMetadata option"
  md_hashValid :: bool
  md_pgpValid :: "bool option"
  md_hasOts :: bool
  md_hasDeviceCheck :: bool
  md_checks :: "msg list"
  md_failures :: "msg list"

section \<open>proof.json\<close>

text \<open>\<open>parseFloat\<close> of any value: of its string, which for an array starts with its first element.\<close>

fun float_of :: "jsval \<Rightarrow> jsnum" where
  "float_of (String s) = parseFloat s"
| "float_of (Number x) = x"
| "float_of (Array (v # _)) = float_of v"
| "float_of _ = NaN"

definition num_or :: "jsnum \<Rightarrow> jsnum \<Rightarrow> jsnum" where
  "num_or x fallback = (if num_truthy x then x else fallback)"

definition or_empty :: "jsval \<Rightarrow> jsval" where
  "or_empty v = (if no_props v then String [] else v)"

definition parseProofJson :: "string \<Rightarrow> ProofModeMetadata option" where
  "parseProofJson raw =
    (case jparse raw of
       None \<Rightarrow> None
     | Some obj \<Rightarrow>
       if no_props obj then None
       else let field = (\<lambda>k. or_empty (opt_prop obj k)); num = (\<lambda>k d. num_or (float_of (opt_prop obj k)) d)
            in Some \<lparr> mm_fileHashSha256 = field ''File Hash SHA256'', mm_proofGenerated = field ''Proof Generated'',
                 mm_manufacturer = field ''Manufacturer'', mm_hardware = field ''Hardware'',
                 mm_screenSize = field ''ScreenSize'', mm_locationProvider = field ''Location.Provider'',
                 mm_locationLatitude = num ''Location.Latitude'' 0, mm_locationLongitude = num ''Location.Longitude'' 0,
                 mm_locationAccuracy = field ''Location.Accuracy'', mm_locationAltitude = num ''Location.Altitude'' 0,
                 mm_locationSpeed = num ''Location.Speed'' (Fin (- 1)), mm_locationBearing = num ''Location.Bearing'' (Fin (- 1)),
                 mm_networkType = field ''NetworkType'', mm_locale = field ''Locale'' \<rparr>)"

definition ends_with :: "string \<Rightarrow> string \<Rightarrow> bool" where
  "ends_with suf s = (length suf \<le> length s \<and> drop (length s - length suf) s = suf)"

definition findPhotoEntry :: "zip_entries \<Rightarrow> (string \<times> bytes) option" where
  "findPhotoEntry entries =
    find (\<lambda>(name, _). list_ex (\<lambda>ext. ends_with ext (to_lower name)) [''.jpg'', ''.jpeg'', ''.png'', ''.heic'', ''.webp''] \<and>
            take 8 name \<noteq> ''__MACOSX'') entries"

text \<open>\<open>v.slice(0, 16)\<close> in a message: strings and arrays have the method.\<close>

definition slice16 :: "jsval \<Rightarrow> msg option" where
  "slice16 v =
    (case v of String s \<Rightarrow> Some [T (take 16 s)] | Array vs \<Rightarrow> Some [J (Array (take 16 vs))] | _ \<Rightarrow> None)"

definition gps_check :: "ProofModeMetadata \<Rightarrow> msg list option" where
  "gps_check proof =
    (if \<not> (jsval_truthy (mm_locationProvider proof) \<and> mm_locationLatitude proof \<noteq> 0) then Some []
     else case mm_locationAccuracy proof of
            String s \<Rightarrow>
              (let first = hd (split_comma s); accuracy = (if first \<noteq> [] then first else s)
               in Some [[T ''ProofMode: GPS via '', J (mm_locationProvider proof), T '' (accuracy: '',
                         N (to_fixed 1 (parseFloat accuracy)), T ''m)'']])
          | _ \<Rightarrow> None)"

definition validateProofJson ::
    "proofmode_tools \<Rightarrow> zip_entries \<Rightarrow> bytes \<Rightarrow> msg list \<times> msg list \<Rightarrow>
     ((msg list \<times> msg list) \<times> ProofModeMetadata option \<times> bool) option" where
  "validateProofJson tools entries photo acc =
    (case acc of (checks, failures) \<Rightarrow>
     case find (\<lambda>(name, _). ends_with ''.proof.json'' name) entries of
       None \<Rightarrow> Some ((checks @ [plain ''ProofMode: no proof.json (partial bundle)''], failures), None, False)
     | Some (_, content) \<Rightarrow>
       (case parseProofJson (pt_utf8 tools content) of
          None \<Rightarrow> Some (acc, None, False)
        | Some proof \<Rightarrow>
          let checks1 = checks @ [[T ''ProofMode: proof.json parsed ('', J (mm_manufacturer proof), T '' '', J (mm_hardware proof), T '')'']];
              actualHash = pt_sha256 tools photo;
              hashValid = (mm_fileHashSha256 proof = String actualHash)
          in case (if hashValid then Some (checks1 @ [plain ''ProofMode: SHA256 hash matches''], failures)
                   else map_option (\<lambda>expected. (checks1, failures @ [T ''ProofMode: SHA256 mismatch (expected '' # expected @
                          [T ''..., got '', T (take 16 actualHash), T ''...)'']])) (slice16 (mm_fileHashSha256 proof))) of
               None \<Rightarrow> None
             | Some (checks2, failures2) \<Rightarrow>
               map_option (\<lambda>gps. ((checks2 @ gps, failures2), Some proof, hashValid)) (gps_check proof)))"

section \<open>Signature and further proofs\<close>

definition verifyPgpSignature :: "proofmode_tools \<Rightarrow> zip_entries \<Rightarrow> bytes \<Rightarrow> bool option" where
  "verifyPgpSignature tools entries photo =
    (case (map_get entries (pt_sha256 tools photo @ ''.asc''), map_get entries ''pubkey.asc'') of
       (Some signature, Some pubkey) \<Rightarrow>
         (case pt_gpg tools pubkey signature photo of
            None \<Rightarrow> None
          | Some (imported, verified) \<Rightarrow> if imported \<noteq> 0 then None else Some (verified = 0))
     | _ \<Rightarrow> None)"

definition validatePgp ::
    "proofmode_tools \<Rightarrow> zip_entries \<Rightarrow> bytes \<Rightarrow> msg list \<times> msg list \<Rightarrow> (msg list \<times> msg list) \<times> bool option" where
  "validatePgp tools entries photo acc =
    (case acc of (checks, failures) \<Rightarrow>
     if \<not> list_ex (\<lambda>n. ends_with ''.asc'' n \<and> \<not> str_includes n ''proof'' \<and> \<not> str_includes n ''pubkey'') (map fst entries) \<or>
        \<not> map_has entries ''pubkey.asc''
     then (acc, None)
     else case verifyPgpSignature tools entries photo of
            Some True \<Rightarrow> ((checks @ [plain ''ProofMode: PGP signature valid''], failures), Some True)
          | Some False \<Rightarrow> ((checks, failures @ [plain ''ProofMode: PGP signature invalid'']), Some False)
          | None \<Rightarrow> ((checks @ [plain ''ProofMode: PGP signature present (gpg not available for verification)''], failures), None))"

definition checkAncillaryProofs :: "zip_entries \<Rightarrow> msg list \<Rightarrow> msg list \<times> bool \<times> bool" where
  "checkAncillaryProofs entries checks =
    (let hasOts = list_ex (ends_with ''.ots'') (map fst entries);
         hasDeviceCheck = list_ex (ends_with ''.devicecheck'') (map fst entries)
     in (checks @ (if hasOts then [plain ''ProofMode: OpenTimestamps proof present (Bitcoin anchored)''] else []) @
           (if hasDeviceCheck then [plain ''ProofMode: Apple DeviceCheck attestation present''] else []),
         hasOts, hasDeviceCheck))"

text \<open>\<open>None\<close> is an exception, \<open>Some None\<close> the \<open>null\<close> of a bundle without a photo.\<close>

definition parseProofModeZip :: "proofmode_tools \<Rightarrow> bytes \<Rightarrow> ProofModeData option option" where
  "parseProofModeZip tools zipBuffer =
    (case pt_unzip tools zipBuffer of
       None \<Rightarrow> Some None
     | Some entries \<Rightarrow>
       (case findPhotoEntry entries of
          None \<Rightarrow> Some None
        | Some (photoFilename, photo) \<Rightarrow>
          (case validateProofJson tools entries photo ([[T ''ProofMode: photo found ('', T photoFilename, T '')'']], []) of
             None \<Rightarrow> None
           | Some (acc, proof, hashValid) \<Rightarrow>
             (case validatePgp tools entries photo acc of ((checks, failures), pgpValid) \<Rightarrow>
              case checkAncillaryProofs entries checks of (checks', hasOts, hasDeviceCheck) \<Rightarrow>
                Some (Some \<lparr> md_photo = photo, md_photoFilename = photoFilename, md_proof = proof, md_hashValid = hashValid,
                             md_pgpValid = pgpValid, md_hasOts = hasOts, md_hasDeviceCheck = hasDeviceCheck,
                             md_checks = checks', md_failures = failures \<rparr>)))))"

section \<open>What a bundle says\<close>

text \<open>A bundle is reported as matching its photo only if its \<open>proof.json\<close> records the photo's own hash, and as signed
  only if the key in the bundle verifies a signature stored under that hash.\<close>

lemma bundle_hash:
  assumes "parseProofModeZip tools archive = Some (Some d)" "md_hashValid d"
  shows "\<exists>p. md_proof d = Some p \<and> mm_fileHashSha256 p = String (pt_sha256 tools (md_photo d))"
  using assms
  by (auto simp: parseProofModeZip_def validateProofJson_def Let_def split: option.splits prod.splits if_splits)

lemma pgp_valid:
  assumes "validatePgp tools entries photo acc = (acc', Some True)"
  shows "\<exists>s k. map_get entries (pt_sha256 tools photo @ ''.asc'') = Some s \<and> map_get entries ''pubkey.asc'' = Some k \<and>
    pt_gpg tools k s photo = Some (0, 0)"
  using assms by (auto simp: validatePgp_def verifyPgpSignature_def split: option.splits prod.splits if_splits bool.splits)

end
