(* ===== verification/Attachment_Upload.thy ===== *)
theory Attachment_Upload
  imports Exif_Validation Proofmode_Validation
begin

text \<open>
  Encrypted attachments: the Blossom client (\<open>attachments/blossom.ts\<close>), the upload of a blob
  (\<open>attachments/provider-upload.ts\<close>) and of a photo or ProofMode bundle with its integrity record
  (\<open>attachments/upload.ts\<close>, \<open>upload-helpers.ts\<close>, \<open>mime.ts\<close>).  AES-GCM, SHA-256, the hexadecimal codec and the
  HTTP client are arguments.  Uploads to several servers run concurrently; the argument \<open>order\<close> is the order
  in which they complete.
\<close>

section \<open>Blossom client\<close>

record blob_crypto =
  bc_encrypt :: "bytes \<Rightarrow> bytes \<Rightarrow> bytes \<Rightarrow> bytes"
  bc_decrypt :: "bytes \<Rightarrow> bytes \<Rightarrow> bytes \<Rightarrow> bytes option"
  bc_sha256 :: "bytes \<Rightarrow> bytes"
  bc_hex :: "bytes \<Rightarrow> string"
  bc_unhex :: "string \<Rightarrow> bytes option"

text \<open>A typed array is a window on a buffer.\<close>

record u8view =
  uv_buffer :: bytes
  uv_offset :: nat
  uv_length :: nat

definition view_bytes :: "u8view \<Rightarrow> bytes" where
  "view_bytes v = take (uv_length v) (drop (uv_offset v) (uv_buffer v))"

definition fresh_view :: "bytes \<Rightarrow> u8view" where
  "fresh_view bs = \<lparr> uv_buffer = bs, uv_offset = 0, uv_length = length bs \<rparr>"

text \<open>The cipher is given \<open>data.buffer\<close>, the whole buffer behind the array.\<close>

definition encryptBlob :: "blob_crypto \<Rightarrow> bytes \<Rightarrow> bytes \<Rightarrow> u8view \<Rightarrow> bytes" where
  "encryptBlob C key iv data = bc_encrypt C key iv (uv_buffer data)"

definition decryptBlob :: "blob_crypto \<Rightarrow> bytes \<Rightarrow> bytes \<Rightarrow> bytes \<Rightarrow> bytes option" where
  "decryptBlob C encrypted key iv = bc_decrypt C key iv encrypted"

text \<open>The members of a signed event in the order in which they are set; \<open>btoa\<close> of their JSON text.\<close>

definition event_json :: "Event \<Rightarrow> jsval" where
  "event_json e =
    Object [(''kind'', Number (Fin (of_nat (ev_kind e)))), (''created_at'', Number (ev_created_at e)),
            (''tags'', Array (map (\<lambda>t. Array (map String t)) (ev_tags e))), (''content'', String (ev_content e)),
            (''pubkey'', String (ev_pubkey e)), (''id'', String (ev_id e)), (''sig'', String (ev_sig e))]"

definition buildAuthEvent ::
    "'k nostr \<Rightarrow> (rat \<Rightarrow> string) \<Rightarrow> jsnum \<Rightarrow> jsnum \<Rightarrow> secret_key \<Rightarrow> string \<Rightarrow> string \<Rightarrow> string option" where
  "buildAuthEvent lib fstr now1 now2 secretKey hash serverEndpoint =
    map_option (\<lambda>e. base64Encode (map of_char (jprint fstr (event_json e))))
      (n_finalize lib
         \<lparr> tm_kind = 24242, tm_created_at = js_floor (div_by now1 1000),
           tm_content = ''Upload '' @ hash @ '' to '' @ serverEndpoint,
           tm_tags = [[''t'', ''upload''], [''x'', hash],
                      [''expiration'', js_num_str fstr (js_floor (div_by now2 1000) + Fin 300)]] \<rparr> secretKey)"

record BlossomUploadResult =
  br_hash :: string
  br_urls :: "string list"
  br_encryptKey :: string
  br_encryptIv :: string
  br_sizeBytes :: jsnum

text \<open>The environment of an upload; \<open>ue_put\<close> tells whether a server accepts, \<open>None\<close> if the request rejects.\<close>

record 'k upload_env =
  ue_lib :: "'k nostr"
  ue_fstr :: "rat \<Rightarrow> string"
  ue_crypto :: blob_crypto
  ue_secretKey :: secret_key
  ue_now :: "string \<Rightarrow> jsnum \<times> jsnum"
  ue_key :: bytes
  ue_iv :: bytes
  ue_put :: "string \<Rightarrow> string \<Rightarrow> bytes \<Rightarrow> bool option"
  ue_order :: "string list \<Rightarrow> string list"
  ue_servers :: "string list"

definition getBlossomConfig :: "string list \<Rightarrow> string list option" where
  "getBlossomConfig blossomServers = (if blossomServers = [] then None else Some blossomServers)"

definition isBlossomEnabled :: "string list \<Rightarrow> bool" where
  "isBlossomEnabled blossomServers = (getBlossomConfig blossomServers \<noteq> None)"

definition upload_one :: "'k upload_env \<Rightarrow> bytes \<Rightarrow> string \<Rightarrow> string \<Rightarrow> string option" where
  "upload_one env encrypted hash serverEndpoint =
    (case buildAuthEvent (ue_lib env) (ue_fstr env) (fst (ue_now env serverEndpoint)) (snd (ue_now env serverEndpoint))
            (ue_secretKey env) hash serverEndpoint of
       None \<Rightarrow> None
     | Some authToken \<Rightarrow>
       if ue_put env (serverEndpoint @ ''/upload'') (''Nostr '' @ authToken) encrypted = Some True
       then Some (serverEndpoint @ ''/'' @ hash) else None)"

definition uploadToBlossom :: "'k upload_env \<Rightarrow> u8view \<Rightarrow> string list option \<Rightarrow> BlossomUploadResult option" where
  "uploadToBlossom env data servers =
    (case (case servers of Some s \<Rightarrow> Some s | None \<Rightarrow> getBlossomConfig (ue_servers env)) of
       None \<Rightarrow> None
     | Some urls \<Rightarrow>
       if urls = [] then None
       else let C = ue_crypto env;
                encrypted = encryptBlob C (ue_key env) (ue_iv env) data;
                hash = bc_hex C (bc_sha256 C encrypted);
                successUrls = List.map_filter (upload_one env encrypted hash) (ue_order env urls)
            in if successUrls = [] then None
               else Some \<lparr> br_hash = hash, br_urls = successUrls, br_encryptKey = bc_hex C (ue_key env),
                           br_encryptIv = bc_hex C (ue_iv env), br_sizeBytes = of_len encrypted \<rparr>)"

text \<open>The answer of a server in an attempt; \<open>None\<close>: not accepted, or the request or reading its body rejects.\<close>

definition fetch_blob :: "blob_crypto \<Rightarrow> (nat \<Rightarrow> string \<Rightarrow> bytes option) \<Rightarrow> nat \<Rightarrow> string \<Rightarrow> string \<Rightarrow> string \<Rightarrow> string \<Rightarrow> bytes option" where
  "fetch_blob C get attempt hash encryptKey encryptIv serverEndpoint =
    (case get attempt (serverEndpoint @ ''/'' @ hash) of
       None \<Rightarrow> None
     | Some encrypted \<Rightarrow>
       (case (bc_unhex C encryptKey, bc_unhex C encryptIv) of
          (Some key, Some iv) \<Rightarrow> decryptBlob C encrypted key iv
        | _ \<Rightarrow> None))"

fun first_some :: "('a \<Rightarrow> 'b option) \<Rightarrow> 'a list \<Rightarrow> 'b option" where
  "first_some f [] = None"
| "first_some f (x # xs) = (case f x of Some y \<Rightarrow> Some y | None \<Rightarrow> first_some f xs)"

definition downloadFromBlossom ::
    "blob_crypto \<Rightarrow> string list \<Rightarrow> (nat \<Rightarrow> string \<Rightarrow> bytes option) \<Rightarrow> string \<Rightarrow> string \<Rightarrow> string \<Rightarrow> string list option \<Rightarrow> nat option \<Rightarrow> bytes option" where
  "downloadFromBlossom C blossomServers get hash encryptKey encryptIv servers maxRetries =
    (case (case servers of Some s \<Rightarrow> Some s | None \<Rightarrow> getBlossomConfig blossomServers) of
       None \<Rightarrow> None
     | Some urls \<Rightarrow>
       if urls = [] then None
       else first_some (\<lambda>attempt. first_some (fetch_blob C get attempt hash encryptKey encryptIv) urls)
              [1 ..< (case maxRetries of None \<Rightarrow> 3 | Some n \<Rightarrow> n) + 1])"

section \<open>Upload of a blob\<close>

definition providerUpload :: "'k upload_env \<Rightarrow> u8view \<Rightarrow> string \<Rightarrow> string \<Rightarrow> string list option \<Rightarrow> (AttachmentRef \<times> BlossomUploadResult) option" where
  "providerUpload env data filename mimeType servers =
    (case (case servers of Some s \<Rightarrow> Some s | None \<Rightarrow> getBlossomConfig (ue_servers env)) of
       None \<Rightarrow> None
     | Some urls \<Rightarrow>
       if urls = [] then None
       else map_option (\<lambda>result.
              (\<lparr> at_id = br_hash result, at_uri = hd (br_urls result), at_mime_type = mimeType, at_storage_kind = Blossom,
                 at_filename = Some filename, at_size_bytes = Some (Fin (of_nat (uv_length data))),
                 at_blossom_hash = Some (br_hash result), at_blossom_servers = Some urls \<rparr>, result))
              (uploadToBlossom env data (Some urls)))"

section \<open>MIME types\<close>

text \<open>\<open>extname\<close>: from the last dot of the last path part, unless that dot is its first character.\<close>

definition last_part :: "string \<Rightarrow> string" where
  "last_part path =
    rev (takeWhile (\<lambda>c. c \<noteq> CHR ''/'') (dropWhile (\<lambda>c. c = CHR ''/'') (rev path)))"

definition extname :: "string \<Rightarrow> string" where
  "extname path =
    (let base = last_part path; after = rev (takeWhile (\<lambda>c. c \<noteq> CHR ''.'') (rev base))
     in if length base \<le> length after + 1 \<or> base = ''..'' then [] else CHR ''.'' # after)"

definition MIME_TYPES :: "(string \<times> string) list" where
  "MIME_TYPES =
    [(''.gif'', ''image/gif''), (''.heic'', ''image/heic''), (''.heif'', ''image/heif''), (''.jpeg'', ''image/jpeg''),
     (''.jpg'', ''image/jpeg''), (''.png'', ''image/png''), (''.webp'', ''image/webp'')]"

definition inferMimeTypeFromFilename :: "string \<Rightarrow> string" where
  "inferMimeTypeFromFilename filename =
    (case map_of MIME_TYPES (to_lower (extname filename)) of Some t \<Rightarrow> t | None \<Rightarrow> ''application/octet-stream'')"

section \<open>Upload of a photo\<close>

definition detectZip :: "bytes \<Rightarrow> string \<Rightarrow> bool" where
  "detectZip rawBuffer filename = (ends_with ''.zip'' filename \<or> take 2 rawBuffer = [0x50, 0x4b])"

definition extractProofModeIntegrity :: "ProofModeData \<Rightarrow> ProofModeIntegrity" where
  "extractProofModeIntegrity d =
    \<lparr> pm_proof = map_option (\<lambda>p. \<lparr> gc_lat = mm_locationLatitude p, gc_lon = mm_locationLongitude p \<rparr>) (md_proof d),
      pm_hashValid = md_hashValid d, pm_pgpValid = md_pgpValid d, pm_hasOts = md_hasOts d,
      pm_hasDeviceCheck = md_hasDeviceCheck d, pm_checks = md_checks d, pm_failures = md_failures d \<rparr>"

datatype upload_error = Upload_error string | Upload_threw

record 'k photo_upload_env =
  po_upload :: "'k upload_env"
  po_tools :: proofmode_tools
  po_math :: js_math
  po_local :: "string \<Rightarrow> jsnum"
  po_c2pa :: c2pa_tool
  po_c2paPath :: "string option option"
  po_exifNow :: jsnum
  po_now :: jsnum

definition extractPhotoData ::
    "proofmode_tools \<Rightarrow> bytes \<Rightarrow> string \<Rightarrow> upload_error + bytes \<times> string \<times> ProofModeIntegrity option" where
  "extractPhotoData tools rawBuffer filename =
    (if \<not> detectZip rawBuffer filename then Inr (rawBuffer, filename, None)
     else case parseProofModeZip tools rawBuffer of
            None \<Rightarrow> Inl Upload_threw
          | Some None \<Rightarrow> Inl (Upload_error ''Invalid zip: no photo found in archive'')
          | Some (Some d) \<Rightarrow> Inr (md_photo d, md_photoFilename d, Some (extractProofModeIntegrity d)))"

text \<open>\<open>u.replace(text, "")\<close>: the first occurrence of a text is removed.\<close>

fun remove_first :: "string \<Rightarrow> string \<Rightarrow> string" where
  "remove_first p [] = []"
| "remove_first p (c # cs) = (case starts_with p (c # cs) of Some r \<Rightarrow> r | None \<Rightarrow> c # remove_first p cs)"

definition buildAttachmentRef :: "AttachmentRef \<times> BlossomUploadResult \<Rightarrow> AttachmentRef" where
  "buildAttachmentRef result =
    (case result of (attachment, blossom) \<Rightarrow>
      \<lparr> at_id = at_id attachment, at_uri = at_uri attachment, at_mime_type = at_mime_type attachment,
        at_storage_kind = Blossom, at_filename = at_filename attachment, at_size_bytes = at_size_bytes attachment,
        at_blossom_hash = Some (br_hash blossom),
        at_blossom_servers = Some (map (remove_first (''/'' @ br_hash blossom)) (br_urls blossom)) \<rparr>)"

definition uploadAttachment ::
    "'k photo_upload_env \<Rightarrow> string \<Rightarrow> bytes \<Rightarrow> string \<Rightarrow> GpsCoord option \<Rightarrow> integrity_store \<Rightarrow>
     (upload_error + AttachmentRef \<times> BlossomKeyMaterial) \<times> integrity_store" where
  "uploadAttachment env queryId rawBuffer filename expectedGps store =
    (if \<not> isBlossomEnabled (ue_servers (po_upload env))
     then (Inl (Upload_error ''Blossom is not configured. Set BLOSSOM_SERVERS to enable attachment uploads.''), store)
     else case extractPhotoData (po_tools env) rawBuffer filename of
            Inl e \<Rightarrow> (Inl e, store)
          | Inr (photo, photoFilename, proofmode) \<Rightarrow>
            (case (validateExif (po_math env) (po_local env) (po_exifNow env) photo (no_options\<lparr> xo_expectedGps := expectedGps \<rparr>),
                   validateC2pa (po_c2pa env) (ue_fstr (po_upload env)) (po_c2paPath env) photo photoFilename) of
               (Some exif, Some provenance) \<Rightarrow>
                 (case providerUpload (po_upload env) (fresh_view photo) photoFilename
                         (inferMimeTypeFromFilename photoFilename) None of
                    None \<Rightarrow> (Inl (Upload_error (''Blossom upload failed for query '' @ queryId)), store)
                  | Some result \<Rightarrow>
                    let attachment = buildAttachmentRef result
                    in (Inr (attachment, \<lparr> bk_encrypt_key = br_encryptKey (snd result), bk_encrypt_iv = br_encryptIv (snd result) \<rparr>),
                        integrity_put \<lparr> im_attachmentId = at_id attachment, im_requestId = queryId, im_capturedAt = po_now env,
                          im_exif = exif, im_c2pa = provenance, im_proofmode = proofmode \<rparr> store))
             | _ \<Rightarrow> (Inl Upload_threw, store)))"

end
