(* ===== verification/Upload_Properties.thy ===== *)
theory Upload_Properties
  imports Attachment_Upload Protocol_Properties
begin

text \<open>
  What becomes of an uploaded photo: it can be retrieved from any server that kept it, no server can replace
  it, and its integrity record is the check of the very bytes that were uploaded.
\<close>

section \<open>The cipher\<close>

text \<open>Documented behaviour of the libraries: decryption inverts encryption, the hexadecimal codec is one, and a text of
  at least one byte and a digest are not empty.\<close>

definition cipher_ok :: "blob_crypto \<Rightarrow> bool" where
  "cipher_ok C =
    ((\<forall>k iv p. bc_decrypt C k iv (bc_encrypt C k iv p) = Some p) \<and> (\<forall>b. bc_unhex C (bc_hex C b) = Some b) \<and>
     (\<forall>b. b \<noteq> [] \<longrightarrow> bc_hex C b \<noteq> []) \<and> (\<forall>b. bc_sha256 C b \<noteq> []))"

text \<open>Authenticated encryption: a server that does not know the fresh key of an upload has no other answer that is
  accepted under it than the ciphertext it was given.\<close>

definition unforged :: "blob_crypto \<Rightarrow> (nat \<Rightarrow> string \<Rightarrow> bytes option) \<Rightarrow> bytes \<Rightarrow> bytes \<Rightarrow> bytes \<Rightarrow> bool" where
  "unforged C get key iv blob =
    (\<forall>i url c p. get i url = Some c \<longrightarrow> bc_decrypt C key iv c = Some p \<longrightarrow> c = bc_encrypt C key iv blob)"

lemma first_some_Some: "first_some f xs = Some y \<Longrightarrow> \<exists>x \<in> set xs. f x = Some y"
  by (induct xs) (auto split: option.splits)

lemma first_some_found:
  assumes "x \<in> set xs" "f x = Some y" "\<And>z w. f z = Some w \<Longrightarrow> w = y"
  shows "first_some f xs = Some y"
  using assms(1)
proof (induct xs)
  case (Cons z zs)
  show ?case
  proof (cases "f z")
    case None
    then show ?thesis using Cons assms(2) by (cases "x = z") simp_all
  next
    case (Some w)
    from assms(3) [OF this] Some show ?thesis by simp
  qed
qed simp

lemma fetch_blob_genuine:
  assumes "cipher_ok C" "unforged C get key iv blob"
    "fetch_blob C get i hash (bc_hex C key) (bc_hex C iv) server = Some d"
  shows "d = blob"
proof -
  have hex: "bc_unhex C (bc_hex C b) = Some b" for b using assms(1) by (simp add: cipher_ok_def)
  obtain c where "get i (server @ ''/'' @ hash) = Some c" "bc_decrypt C key iv c = Some d"
    using assms(3) by (auto simp: fetch_blob_def decryptBlob_def hex split: option.splits)
  moreover from this assms(2) have "c = bc_encrypt C key iv blob" unfolding unforged_def by blast
  moreover have "bc_decrypt C key iv (bc_encrypt C key iv blob) = Some blob" using assms(1) by (simp add: cipher_ok_def)
  ultimately show ?thesis by simp
qed

lemma download_genuine:
  assumes "cipher_ok C" "unforged C get key iv blob"
    "downloadFromBlossom C cfg get hash (bc_hex C key) (bc_hex C iv) servers retries = Some d"
  shows "d = blob"
proof -
  obtain i server where "fetch_blob C get i hash (bc_hex C key) (bc_hex C iv) server = Some d"
    using assms(3) by (auto simp: downloadFromBlossom_def dest!: first_some_Some split: option.splits if_splits)
  then show ?thesis by (rule fetch_blob_genuine [OF assms(1, 2)])
qed

lemma download_found:
  assumes "cipher_ok C" "unforged C get key iv blob" "server \<in> set urls" "i \<in> {1, 2, 3}"
    "get i (server @ ''/'' @ hash) = Some (bc_encrypt C key iv blob)"
  shows "downloadFromBlossom C cfg get hash (bc_hex C key) (bc_hex C iv) (Some urls) None = Some blob"
proof -
  let ?f = "\<lambda>attempt. fetch_blob C get attempt hash (bc_hex C key) (bc_hex C iv)"
  have here: "?f i server = Some blob" using assms(1, 5) by (simp add: fetch_blob_def decryptBlob_def cipher_ok_def)
  have one: "first_some (?f i) urls = Some blob"
    using assms(3) here by (rule first_some_found) (rule fetch_blob_genuine [OF assms(1, 2)])
  have all: "w = blob" if "first_some (?f j) urls = Some w" for j w
    using first_some_Some [OF that] fetch_blob_genuine [OF assms(1, 2)] by blast
  have "i \<in> set [1 ..< 4]" using assms(4) by auto
  then have "first_some (\<lambda>j. first_some (?f j) urls) [1 ..< 4] = Some blob"
    by (rule first_some_found [where f = "\<lambda>j. first_some (?f j) urls"]) (rule one, rule all)
  then show ?thesis using assms(3) by (cases urls) (simp_all add: downloadFromBlossom_def)
qed

text \<open>A typed array that is only a part of its buffer is not what gets encrypted: decryption gives the whole buffer.\<close>

lemma blob_of_view:
  assumes "cipher_ok C"
  shows "(decryptBlob C (encryptBlob C key iv v) key iv = Some (view_bytes v)) = (view_bytes v = uv_buffer v)"
  using assms by (auto simp: cipher_ok_def decryptBlob_def encryptBlob_def)

section \<open>An uploaded photo\<close>

lemma uploadAttachment_Inr:
  assumes "uploadAttachment env q raw filename gps store = (Inr (att, keys), store')"
  obtains photo name pm exif prov where
    "extractPhotoData (po_tools env) raw filename = Inr (photo, name, pm)"
    "validateExif (po_math env) (po_local env) (po_exifNow env) photo (no_options\<lparr> xo_expectedGps := gps \<rparr>) = Some exif"
    "validateC2pa (po_c2pa env) (ue_fstr (po_upload env)) (po_c2paPath env) photo name = Some prov"
    "at_storage_kind att = Blossom" "at_blossom_servers att \<noteq> None" "at_blossom_hash att = Some (at_id att)"
    "at_id att = bc_hex (ue_crypto (po_upload env)) (bc_sha256 (ue_crypto (po_upload env))
        (bc_encrypt (ue_crypto (po_upload env)) (ue_key (po_upload env)) (ue_iv (po_upload env)) photo))"
    "keys = \<lparr> bk_encrypt_key = bc_hex (ue_crypto (po_upload env)) (ue_key (po_upload env)),
              bk_encrypt_iv = bc_hex (ue_crypto (po_upload env)) (ue_iv (po_upload env)) \<rparr>"
    "store' = integrity_put \<lparr> im_attachmentId = at_id att, im_requestId = q, im_capturedAt = po_now env,
        im_exif = exif, im_c2pa = prov, im_proofmode = pm \<rparr> store"
  using assms
  by (auto simp: uploadAttachment_def providerUpload_def uploadToBlossom_def buildAttachmentRef_def encryptBlob_def
      fresh_view_def Let_def split: if_splits sum.splits option.splits prod.splits)


section \<open>An example\<close>

definition xu_crypto :: blob_crypto where
  "xu_crypto = \<lparr> bc_encrypt = (\<lambda>_ _ p. 7 # p), bc_decrypt = (\<lambda>_ _ c. if c \<noteq> [] \<and> hd c = 7 then Some (tl c) else None),
    bc_sha256 = (\<lambda>_. [1]), bc_hex = hex_string, bc_unhex = (\<lambda>s. Some (hex_pairs s)) \<rparr>"

definition xu_upload :: "string set upload_env" where
  "xu_upload = \<lparr> ue_lib = ex_nostr, ue_fstr = (\<lambda>_. []), ue_crypto = xu_crypto, ue_secretKey = [1], ue_now = (\<lambda>_. (0, 0)),
    ue_key = [2], ue_iv = [3], ue_put = (\<lambda>_ _ _. Some True), ue_order = (\<lambda>urls. urls), ue_servers = [''https://b''] \<rparr>"

definition xu_env :: "string set photo_upload_env" where
  "xu_env = \<lparr> po_upload = xu_upload,
    po_tools = \<lparr> pt_unzip = (\<lambda>_. None), pt_utf8 = (\<lambda>_. []), pt_sha256 = (\<lambda>_. []), pt_gpg = (\<lambda>_ _ _. None) \<rparr>,
    po_math = \<lparr> m_PI = 0, m_sin = (\<lambda>x. x), m_cos = (\<lambda>x. x), m_sqrt = (\<lambda>x. x), m_atan2 = (\<lambda>x y. x) \<rparr>,
    po_local = (\<lambda>_. NaN), po_c2pa = \<lparr> ct_which = (\<lambda>_. None), ct_run = (\<lambda>_ _ _. None) \<rparr>, po_c2paPath = None,
    po_exifNow = 0, po_now = 0 \<rparr>"

definition xu_get :: "nat \<Rightarrow> string \<Rightarrow> bytes option" where
  "xu_get i url = (if i = 2 then Some [7, 1] else None)"

definition xu_net :: attachment_net where
  "xu_net = \<lparr> an_parse = (\<lambda>_. None), an_allowLocalhost = False,
    an_blossom = (\<lambda>h k v servers. Some (downloadFromBlossom xu_crypto [] xu_get h k v servers None)), an_http = (\<lambda>_. None) \<rparr>"

lemma xu_cipher: "cipher_ok xu_crypto" "unforged xu_crypto xu_get [2] [3] [1]"
proof -
  have "b \<noteq> [] \<Longrightarrow> hex_string b \<noteq> []" for b by (cases b) (simp_all add: hex_string_def hex_byte_def)
  then show "cipher_ok xu_crypto" by (simp add: cipher_ok_def xu_crypto_def hex_pairs_string)
  show "unforged xu_crypto xu_get [2] [3] [1]" by (simp add: unforged_def xu_get_def xu_crypto_def)
qed

lemma xu_uploaded:
  "\<exists>att keys store'. uploadAttachment xu_env ''q'' [1] ''a.jpg'' None [] = (Inr (att, keys), store') \<and>
     at_blossom_servers att = Some [''https://b'']"
proof -
  obtain t where t: "buildAuthEvent ex_nostr (\<lambda>_. []) 0 0 [1] ''01'' ''https://b'' = Some t"
    by (simp add: buildAuthEvent_def ex_nostr_def)
  have "upload_one xu_upload [7, 1] ''01'' ''https://b'' = Some ''https://b/01''"
    using t by (simp add: upload_one_def xu_upload_def)
  moreover have "hex_string [1] = ''01''" by (simp add: hex_string_def hex_byte_def hex_digits_def)
  moreover have "remove_first ''/01'' ''https://b/01'' = ''https://b''" by simp
  moreover have "extractExifMetadata [1] = Some no_metadata"
    by (simp add: extractExifMetadata_def findApp1ExifSegment_def)
  ultimately show ?thesis
    by (simp add: uploadAttachment_def xu_env_def isBlossomEnabled_def getBlossomConfig_def extractPhotoData_def detectZip_def
        ends_with_def validateExif_def validateC2pa_def findC2paTool_def ostr_truthy_def providerUpload_def
        uploadToBlossom_def encryptBlob_def fresh_view_def buildAttachmentRef_def Let_def List.map_filter_simps
        xu_upload_def xu_crypto_def)
qed


end
