(* ===== verification/Attachment_Access.thy ===== *)
theory Attachment_Access
  imports Attachment_Upload
begin

text \<open>
  References to attachments as they are published and read (\<open>attachments/access.ts\<close> and
  \<open>attachments/attachment-helpers.ts\<close>).  The URL parser of the platform is the argument \<open>parse\<close>, its
  resolution of a relative reference against a base the argument \<open>relative\<close>; both give \<open>None\<close> where the
  constructor throws.
\<close>

section \<open>Helpers (attachment-helpers.ts)\<close>

datatype AttachmentLike = Ref AttachmentRef | Uri string

record access_url =
  xu_href :: string
  xu_pathname :: string

record StoredAttachment =
  sa_filename :: string
  sa_mimeType :: string
  sa_absoluteUrl :: string
  sa_storageKind :: AttachmentStorageKind

fun attachmentRefSource :: "AttachmentLike \<Rightarrow> string" where
  "attachmentRefSource (Uri s) = s"
| "attachmentRefSource (Ref r) = at_uri r"

fun split_slash :: "string \<Rightarrow> string list" where
  "split_slash [] = [[]]"
| "split_slash (c # cs) =
    (if c = CHR ''/'' then [] # split_slash cs
     else case split_slash cs of [] \<Rightarrow> [[c]] | p # ps \<Rightarrow> (c # p) # ps)"

text \<open>\<open>split("/").filter(Boolean).pop()\<close>\<close>

definition last_segment :: "string \<Rightarrow> string option" where
  "last_segment path = (let parts = filter (\<lambda>p. p \<noteq> []) (split_slash path) in if parts = [] then None else Some (last parts))"

definition or_else :: "'a option \<Rightarrow> 'a \<Rightarrow> 'a" where
  "or_else x d = (case x of None \<Rightarrow> d | Some y \<Rightarrow> y)"

definition inferAttachmentId :: "(string \<Rightarrow> access_url option) \<Rightarrow> string \<Rightarrow> string" where
  "inferAttachmentId parse value =
    (case parse value of
       Some url \<Rightarrow> or_else (last_segment (xu_pathname url)) value
     | None \<Rightarrow> or_else (last_segment value) value)"

fun extractBlossomFields :: "AttachmentLike \<Rightarrow> string option \<times> string list option" where
  "extractBlossomFields (Uri s) = (None, None)"
| "extractBlossomFields (Ref r) = (at_blossom_hash r, at_blossom_servers r)"

definition normalizeFromResolved :: "AttachmentLike \<Rightarrow> StoredAttachment \<Rightarrow> string option \<times> string list option \<Rightarrow> AttachmentRef" where
  "normalizeFromResolved ref resolved blossomFields =
    (let baseRef = (case ref of Uri s \<Rightarrow> None | Ref r \<Rightarrow> Some r)
     in \<lparr> at_id = or_else (map_option at_id baseRef) (sa_filename resolved),
          at_uri = sa_absoluteUrl resolved,
          at_mime_type = or_else (map_option at_mime_type baseRef) (sa_mimeType resolved),
          at_storage_kind = or_else (map_option at_storage_kind baseRef) (sa_storageKind resolved),
          at_filename = Some (or_else (Option.bind baseRef at_filename) (sa_filename resolved)),
          at_size_bytes = Option.bind baseRef at_size_bytes,
          at_blossom_hash = fst blossomFields, at_blossom_servers = snd blossomFields \<rparr>)"

definition normalizeFromRef :: "(string \<Rightarrow> access_url option) \<Rightarrow> AttachmentRef \<Rightarrow> string option \<times> string list option \<Rightarrow> AttachmentRef" where
  "normalizeFromRef parse ref blossomFields =
    \<lparr> at_id = (if at_id ref = [] then inferAttachmentId parse (at_uri ref) else at_id ref),
      at_uri = at_uri ref,
      at_mime_type = (if at_mime_type ref = [] then ''application/octet-stream'' else at_mime_type ref),
      at_storage_kind = at_storage_kind ref, at_filename = at_filename ref, at_size_bytes = at_size_bytes ref,
      at_blossom_hash = fst blossomFields, at_blossom_servers = snd blossomFields \<rparr>"

definition normalizeFromString :: "(string \<Rightarrow> access_url option) \<Rightarrow> string \<Rightarrow> AttachmentRef" where
  "normalizeFromString parse ref =
    \<lparr> at_id = inferAttachmentId parse ref, at_uri = ref, at_mime_type = ''application/octet-stream'',
      at_storage_kind = External, at_filename = None, at_size_bytes = None, at_blossom_hash = None, at_blossom_servers = None \<rparr>"

section \<open>Access (access.ts)\<close>

datatype access_error = Base_not_configured | Invalid_url

definition strip_slashes :: "string \<Rightarrow> string" where
  "strip_slashes s = rev (dropWhile (\<lambda>c. c = CHR ''/'') (rev s))"

definition attachmentPublicBaseUrl ::
    "(string \<Rightarrow> string \<Rightarrow> string option) \<Rightarrow> string option \<Rightarrow> string option \<Rightarrow> access_error + string" where
  "attachmentPublicBaseUrl relative publicBaseUrl requestUrl =
    (if ostr_truthy publicBaseUrl then Inr (strip_slashes (the publicBaseUrl))
     else if ostr_truthy requestUrl then
       (case relative ''/'' (the requestUrl) of None \<Rightarrow> Inl Invalid_url | Some href \<Rightarrow> Inr (strip_slashes href))
     else Inl Base_not_configured)"

definition buildAttachmentAbsoluteUrl ::
    "(string \<Rightarrow> access_url option) \<Rightarrow> (string \<Rightarrow> string \<Rightarrow> string option) \<Rightarrow> string option \<Rightarrow> AttachmentLike \<Rightarrow> string option \<Rightarrow>
     access_error + string" where
  "buildAttachmentAbsoluteUrl parse relative publicBaseUrl ref requestUrl =
    (case parse (attachmentRefSource ref) of
       Some url \<Rightarrow> Inr (xu_href url)
     | None \<Rightarrow>
       (case attachmentPublicBaseUrl relative publicBaseUrl requestUrl of
          Inl e \<Rightarrow> Inl e
        | Inr base \<Rightarrow>
          (case relative (attachmentRefSource ref) (base @ ''/'') of None \<Rightarrow> Inl Invalid_url | Some href \<Rightarrow> Inr href)))"

definition resolveStoredAttachment :: "(string \<Rightarrow> access_url option) \<Rightarrow> AttachmentLike \<Rightarrow> StoredAttachment option" where
  "resolveStoredAttachment parse ref =
    (case parse (attachmentRefSource ref) of
       None \<Rightarrow> None
     | Some url \<Rightarrow>
       let filename = or_else (last_segment (xu_pathname url)) ''attachment''
       in Some \<lparr> sa_filename = filename,
                 sa_mimeType = (case ref of
                    Uri s \<Rightarrow> inferMimeTypeFromFilename filename
                  | Ref r \<Rightarrow> if at_mime_type r = [] then inferMimeTypeFromFilename filename else at_mime_type r),
                 sa_absoluteUrl = xu_href url,
                 sa_storageKind = (case ref of Uri s \<Rightarrow> External | Ref r \<Rightarrow> at_storage_kind r) \<rparr>)"

definition normalizeAttachmentRef :: "(string \<Rightarrow> access_url option) \<Rightarrow> AttachmentLike \<Rightarrow> AttachmentRef" where
  "normalizeAttachmentRef parse ref =
    (let blossomFields = extractBlossomFields ref
     in case resolveStoredAttachment parse ref of
          Some resolved \<Rightarrow> normalizeFromResolved ref resolved blossomFields
        | None \<Rightarrow> (case ref of Ref r \<Rightarrow> normalizeFromRef parse r blossomFields | Uri s \<Rightarrow> normalizeFromString parse s))"

definition materializeAttachmentRef ::
    "(string \<Rightarrow> access_url option) \<Rightarrow> (string \<Rightarrow> string \<Rightarrow> string option) \<Rightarrow> string option \<Rightarrow> AttachmentLike \<Rightarrow> string option \<Rightarrow>
     access_error + AttachmentRef" where
  "materializeAttachmentRef parse relative publicBaseUrl ref requestUrl =
    (let normalized = normalizeAttachmentRef parse ref
     in map_sum id (\<lambda>uri. normalized\<lparr> at_uri := uri \<rparr>)
          (buildAttachmentAbsoluteUrl parse relative publicBaseUrl (Ref normalized) requestUrl))"

definition normalizeResultAttachments :: "(string \<Rightarrow> access_url option) \<Rightarrow> QueryResult \<Rightarrow> QueryResult" where
  "normalizeResultAttachments parse result =
    (if qr_attachments result = [] then result
     else result\<lparr> qr_attachments := map (\<lambda>a. normalizeAttachmentRef parse (Ref a)) (qr_attachments result) \<rparr>)"

section \<open>Normal forms\<close>

text \<open>The URL standard: the serialization of a parsed URL parses to the same URL.\<close>

definition url_stable :: "(string \<Rightarrow> access_url option) \<Rightarrow> bool" where
  "url_stable parse = (\<forall>s url. parse s = Some url \<longrightarrow> parse (xu_href url) = Some url)"

lemma or_else_simps [simp]: "or_else None d = d" "or_else (Some x) d = x"
  by (simp_all add: or_else_def)

lemmas access_defs = normalizeAttachmentRef_def resolveStoredAttachment_def normalizeFromResolved_def normalizeFromRef_def
  normalizeFromString_def Let_def

lemma normalize_idempotent:
  assumes "url_stable parse"
  shows "normalizeAttachmentRef parse (Ref (normalizeAttachmentRef parse ref)) = normalizeAttachmentRef parse ref"
proof (cases "parse (attachmentRefSource ref)")
  case None
  then show ?thesis by (cases ref) (simp_all add: access_defs)
next
  case (Some url)
  then have "parse (xu_href url) = Some url" using assms by (auto simp: url_stable_def)
  then show ?thesis using Some by (cases ref) (simp_all add: access_defs)
qed

lemma normalize_result_idempotent:
  "url_stable parse \<Longrightarrow>
    normalizeResultAttachments parse (normalizeResultAttachments parse r) = normalizeResultAttachments parse r"
  by (simp add: normalizeResultAttachments_def normalize_idempotent)

text \<open>Normalizing keeps what a download from Blossom needs.\<close>

lemma normalize_keeps_blossom:
  assumes "at_id r \<noteq> []"
  shows "fetchBlossomAttachment net (normalizeAttachmentRef parse (Ref r)) k = fetchBlossomAttachment net r k \<and>
    at_id (normalizeAttachmentRef parse (Ref r)) = at_id r"
  using assms by (cases "parse (at_uri r)"; cases k) (simp_all add: access_defs fetchBlossomAttachment_def)

text \<open>A materialized reference is absolute, provided relative resolution gives serialized URLs.\<close>

lemma materialized_absolute:
  assumes "url_stable parse" "\<And>s b u. relative s b = Some u \<Longrightarrow> \<exists>url. parse u = Some url \<and> xu_href url = u"
    "materializeAttachmentRef parse relative base ref requestUrl = Inr a"
  shows "\<exists>url. parse (at_uri a) = Some url \<and> xu_href url = at_uri a"
proof -
  obtain uri where uri: "buildAttachmentAbsoluteUrl parse relative base (Ref (normalizeAttachmentRef parse ref)) requestUrl = Inr uri"
      "at_uri a = uri"
    using assms(3) by (auto simp: materializeAttachmentRef_def Let_def map_sum_def split: sum.splits)
  have "\<exists>url. parse uri = Some url \<and> xu_href url = uri"
    using uri(1) assms(1,2) by (auto simp: buildAttachmentAbsoluteUrl_def url_stable_def split: option.splits sum.splits)
  then show ?thesis by (simp add: uri(2))
qed

end
