(* ===== verification/Oracle_Discovery.thy ===== *)
theory Oracle_Discovery
  imports Protocol_Properties Oracle_Registry "HOL-Library.Multiset"
begin

text \<open>
  The public events of an oracle: its announcement (\<open>adapters/nostr/events/event-builders.ts\<close>), the
  discovery of announcements on relays (\<open>adapters/oracle-client/oracle-discovery.ts\<close>) and the attestation of a
  verification (\<open>adapters/nostr/events/oracle-attestation.ts\<close>).  The query of the relay pool is an argument;
  \<open>None\<close> is a call that throws or a promise that rejects.
\<close>

section \<open>Typed members (internal/runtime/types.ts)\<close>

definition plain_object :: "jsval \<Rightarrow> bool" where
  "plain_object v = (case v of Object _ \<Rightarrow> True | _ \<Rightarrow> False)"

fun finite_number :: "jsval \<Rightarrow> jsnum option" where
  "finite_number (Number x) = (if is_finite x then Some x else None)"
| "finite_number _ = None"

definition requireString :: "jsval \<Rightarrow> string \<Rightarrow> string option" where
  "requireString obj key = string_of (opt_prop obj key)"

definition requireNumber :: "jsval \<Rightarrow> string \<Rightarrow> jsnum option" where
  "requireNumber obj key = finite_number (opt_prop obj key)"

definition optionalString :: "jsval \<Rightarrow> string \<Rightarrow> string option option" where
  "optionalString obj key =
    (case opt_prop obj key of Undefined \<Rightarrow> Some None | Null \<Rightarrow> Some None | v \<Rightarrow> map_option Some (string_of v))"

definition optionalNumber :: "jsval \<Rightarrow> string \<Rightarrow> jsnum option option" where
  "optionalNumber obj key =
    (case opt_prop obj key of Undefined \<Rightarrow> Some None | Null \<Rightarrow> Some None | v \<Rightarrow> map_option Some (finite_number v))"

text \<open>An array of strings, all of which pass a test.\<close>

fun strings_of :: "(string \<Rightarrow> bool) \<Rightarrow> jsval list \<Rightarrow> string list option" where
  "strings_of ok [] = Some []"
| "strings_of ok (v # vs) =
    (case v of
       String s \<Rightarrow> if ok s then map_option (Cons s) (strings_of ok vs) else None
     | _ \<Rightarrow> None)"

definition string_list :: "(string \<Rightarrow> bool) \<Rightarrow> jsval \<Rightarrow> string list option" where
  "string_list ok value = (case value of Array vs \<Rightarrow> strings_of ok vs | _ \<Rightarrow> None)"

section \<open>Announcements\<close>

definition KIND_ORACLE_ANNOUNCEMENT :: nat where "KIND_ORACLE_ANNOUNCEMENT = 30088"
definition ORACLE_ANNOUNCEMENT_VERSION :: jsnum where "ORACLE_ANNOUNCEMENT_VERSION = 0"

definition PAYMENT_LOCK_TYPE_VALUES :: "string list" where
  "PAYMENT_LOCK_TYPE_VALUES = [''htlc'', ''p2pk_frost'']"

definition isPaymentLockType :: "string \<Rightarrow> bool" where
  "isPaymentLockType x = (x \<in> set PAYMENT_LOCK_TYPE_VALUES)"

definition requireSchemaUris :: "url_parser \<Rightarrow> jsval \<Rightarrow> string list option" where
  "requireSchemaUris parse value = string_list (\<lambda>s. isSchemaUri parse (String s)) value"

definition requirePaymentLockTypes :: "jsval \<Rightarrow> string list option" where
  "requirePaymentLockTypes value = string_list isPaymentLockType value"

record OracleAnnouncement =
  an_id :: string
  an_name :: string
  an_endpoint :: "string option"
  an_fee_ppm :: jsnum
  an_supported_schemas :: "string list"
  an_supported_payment_lock_types :: "string list"
  an_min_amount_sats :: "jsnum option"
  an_max_amount_sats :: "jsnum option"
  an_description :: "string option"
  an_pubkey :: string
  an_announced_at :: jsnum

text \<open>The members read from the content; \<open>None\<close> where one of them throws.\<close>

definition announcement_of :: "url_parser \<Rightarrow> string \<Rightarrow> Event \<Rightarrow> jsval \<Rightarrow> OracleAnnouncement option" where
  "announcement_of parse oracle_id event content =
    (case (requireString content ''name'', optionalString content ''endpoint'', requireNumber content ''fee_ppm'',
           requireSchemaUris parse (opt_prop content ''supported_schemas'')) of
       (Some name, Some endpoint, Some fee_ppm, Some schemas) \<Rightarrow>
         (case (requirePaymentLockTypes (opt_prop content ''supported_payment_lock_types''),
                optionalNumber content ''min_amount_sats'', optionalNumber content ''max_amount_sats'',
                optionalString content ''description'') of
            (Some locks, Some min_amount, Some max_amount, Some description) \<Rightarrow>
              Some \<lparr> an_id = oracle_id, an_name = name, an_endpoint = endpoint, an_fee_ppm = fee_ppm,
                     an_supported_schemas = schemas, an_supported_payment_lock_types = locks,
                     an_min_amount_sats = min_amount, an_max_amount_sats = max_amount, an_description = description,
                     an_pubkey = ev_pubkey event, an_announced_at = ev_created_at event \<rparr>
          | _ \<Rightarrow> None)
     | _ \<Rightarrow> None)"

definition parseOracleAnnouncementEvent :: "url_parser \<Rightarrow> Event \<Rightarrow> OracleAnnouncement option" where
  "parseOracleAnnouncementEvent parse event =
    (case find (\<lambda>t. t \<noteq> [] \<and> hd t = ''d'') (ev_tags event) of
       Some (_ # oracle_id # _) \<Rightarrow>
         if oracle_id = [] then None
         else (case jparse (ev_content event) of
                 None \<Rightarrow> None
               | Some content \<Rightarrow>
                 if \<not> plain_object content then None
                 else if opt_prop content ''version'' \<noteq> Number ORACLE_ANNOUNCEMENT_VERSION then None
                 else announcement_of parse oracle_id event content)
     | _ \<Rightarrow> None)"

text \<open>A member that is written only when it is defined.\<close>

definition opt_member :: "string \<Rightarrow> ('a \<Rightarrow> jsval) \<Rightarrow> 'a option \<Rightarrow> (string \<times> jsval) list" where
  "opt_member key f v = (case v of None \<Rightarrow> [] | Some x \<Rightarrow> [(key, f x)])"

definition list_of :: "'a list option \<Rightarrow> 'a list" where
  "list_of v = (case v of None \<Rightarrow> [] | Some xs \<Rightarrow> xs)"

definition announcement_members :: "OracleInfo \<Rightarrow> (string, jsval) jsmap" where
  "announcement_members info =
    [(''version'', Number ORACLE_ANNOUNCEMENT_VERSION), (''name'', String (oi_name info))] @
    opt_member ''endpoint'' String (oi_endpoint info) @
    [(''fee_ppm'', Number (oi_fee_ppm info)),
     (''supported_schemas'', Array (map String (list_of (oi_supported_schemas info)))),
     (''supported_payment_lock_types'', Array (map String (list_of (oi_supported_payment_lock_types info))))] @
    opt_member ''min_amount_sats'' Number (oi_min_amount_sats info) @
    opt_member ''max_amount_sats'' Number (oi_max_amount_sats info) @
    opt_member ''description'' String (oi_description info)"

definition buildOracleAnnouncementEvent ::
    "'k nostr \<Rightarrow> (rat \<Rightarrow> string) \<Rightarrow> jsnum \<Rightarrow> Keypair \<Rightarrow> OracleInfo \<Rightarrow> string list option \<Rightarrow> Event option" where
  "buildOracleAnnouncementEvent lib fstr now identity info relayUrls =
    sign_content lib now identity KIND_ORACLE_ANNOUNCEMENT
      ([[''d'', oi_id info], [''t'', ''anchr-oracle'']] @ map (\<lambda>s. [''s'', s]) (list_of (oi_supported_schemas info)) @
       map (\<lambda>url. [''relay'', url]) (list_of relayUrls))
      (jprint fstr (Object (announcement_members info)))"

section \<open>Discovery\<close>

record discovery_filter =
  df_kinds :: "nat list"
  df_t :: "string list"
  df_s :: "string list option"
  df_since :: "jsnum option"
  df_limit :: "jsnum option"

definition discovery_filter_of :: "string option \<Rightarrow> jsnum option \<Rightarrow> jsnum option \<Rightarrow> discovery_filter" where
  "discovery_filter_of schema since limit =
    \<lparr> df_kinds = [KIND_ORACLE_ANNOUNCEMENT], df_t = [''anchr-oracle''], df_s = map_option (\<lambda>s. [s]) schema,
      df_since = since, df_limit = limit \<rparr>"

text \<open>A stable sort by descending time; event times are finite numbers.\<close>

fun insert_recent :: "OracleAnnouncement \<Rightarrow> OracleAnnouncement list \<Rightarrow> OracleAnnouncement list" where
  "insert_recent a [] = [a]"
| "insert_recent a (b # bs) =
    (if an_announced_at a < an_announced_at b then b # insert_recent a bs else a # b # bs)"

definition recent_first :: "OracleAnnouncement list \<Rightarrow> OracleAnnouncement list" where
  "recent_first as = foldr insert_recent as []"

text \<open>The second component tells whether the pool was opened and closed again.\<close>

definition discoverOracles ::
    "url_parser \<Rightarrow> (string list \<Rightarrow> discovery_filter \<Rightarrow> Event list option) \<Rightarrow> string list \<Rightarrow> string option \<Rightarrow> jsnum option \<Rightarrow>
     jsnum option \<Rightarrow> OracleAnnouncement list option \<times> bool" where
  "discoverOracles parse querySync relayUrls schema since limit =
    (if relayUrls = [] then (Some [], False)
     else (map_option (\<lambda>events. recent_first (List.map_filter (parseOracleAnnouncementEvent parse) events))
             (querySync relayUrls (discovery_filter_of schema since limit)), True))"

section \<open>Attestations\<close>

definition KIND_ORACLE_ATTESTATION :: nat where "KIND_ORACLE_ATTESTATION = 30103"
definition ORACLE_ATTESTATION_VERSION :: jsnum where "ORACLE_ATTESTATION_VERSION = 0"

record OracleAttestationPayload =
  ap_oracle_id :: string
  ap_query_id :: string
  ap_passed :: bool
  ap_checks :: "string list"
  ap_failures :: "string list"
  ap_attested_at :: jsnum
  ap_details :: jsval

definition attestation_members :: "OracleAttestationPayload \<Rightarrow> (string, jsval) jsmap" where
  "attestation_members p =
    [(''version'', Number ORACLE_ATTESTATION_VERSION), (''oracle_id'', String (ap_oracle_id p)),
     (''query_id'', String (ap_query_id p)), (''passed'', Bool (ap_passed p)),
     (''checks'', Array (map String (ap_checks p))), (''failures'', Array (map String (ap_failures p))),
     (''attested_at'', Number (ap_attested_at p)), (''details'', ap_details p)]"

text \<open>\<open>text\<close> renders the messages of the verification.\<close>

definition attestation_payload :: "(msg \<Rightarrow> string) \<Rightarrow> OracleAttestation \<Rightarrow> OracleAttestationPayload" where
  "attestation_payload text a =
    \<lparr> ap_oracle_id = oa_oracle_id a, ap_query_id = oa_query_id a, ap_passed = oa_passed a,
      ap_checks = map text (oa_checks a), ap_failures = map text (oa_failures a),
      ap_attested_at = oa_attested_at a, ap_details = oa_schema_verdict a \<rparr>"

definition buildOracleAttestationEvent ::
    "'k nostr \<Rightarrow> (rat \<Rightarrow> string) \<Rightarrow> (msg \<Rightarrow> string) \<Rightarrow> jsnum \<Rightarrow> Keypair \<Rightarrow> string \<Rightarrow> string \<Rightarrow> OracleAttestation \<Rightarrow> Event option" where
  "buildOracleAttestationEvent lib fstr text now identity queryEventId responseEventId a =
    sign_content lib now identity KIND_ORACLE_ATTESTATION
      [[''e'', queryEventId], [''e'', responseEventId], [''d'', oa_query_id a], [''t'', ''anchr''], [''t'', ''attestation''],
       [''result'', if oa_passed a then ''pass'' else ''fail'']]
      (jprint fstr (Object (attestation_members (attestation_payload text a))))"

fun boolean_of :: "jsval \<Rightarrow> bool option" where
  "boolean_of (Bool b) = Some b"
| "boolean_of _ = None"

text \<open>The type guard gives the payload it narrows to.\<close>

definition isOracleAttestationPayload :: "jsval \<Rightarrow> OracleAttestationPayload option" where
  "isOracleAttestationPayload v =
    (if \<not> isRecord v \<or> opt_prop v ''version'' \<noteq> Number ORACLE_ATTESTATION_VERSION then None
     else case (string_of (opt_prop v ''oracle_id''), string_of (opt_prop v ''query_id''), boolean_of (opt_prop v ''passed''),
                string_list (\<lambda>_. True) (opt_prop v ''checks''), string_list (\<lambda>_. True) (opt_prop v ''failures''),
                number_of (opt_prop v ''attested_at'')) of
            (Some oracle_id, Some query_id, Some passed, Some checks, Some failures, Some attested_at) \<Rightarrow>
              Some \<lparr> ap_oracle_id = oracle_id, ap_query_id = query_id, ap_passed = passed, ap_checks = checks,
                     ap_failures = failures, ap_attested_at = attested_at, ap_details = opt_prop v ''details'' \<rparr>
          | _ \<Rightarrow> None)"

definition parseOracleAttestationPayload :: "string \<Rightarrow> OracleAttestationPayload option" where
  "parseOracleAttestationPayload content =
    (case jparse content of None \<Rightarrow> None | Some v \<Rightarrow> isOracleAttestationPayload v)"

definition toOracleAttestation :: "OracleAttestationPayload \<Rightarrow> OracleAttestation" where
  "toOracleAttestation p =
    \<lparr> oa_oracle_id = ap_oracle_id p, oa_query_id = ap_query_id p, oa_passed = ap_passed p,
      oa_checks = map plain (ap_checks p), oa_failures = map plain (ap_failures p),
      oa_attested_at = ap_attested_at p, oa_schema_verdict = ap_details p \<rparr>"

section \<open>What is read back\<close>

lemma strings_of_map: "list_all ok ss \<Longrightarrow> strings_of ok (map String ss) = Some ss"
  by (induct ss) simp_all

lemma strings_of_ok: "strings_of ok vs = Some ss \<Longrightarrow> list_all ok ss"
  by (induct vs arbitrary: ss) (auto split: jsval.splits if_splits)

lemma map_filter_set: "x \<in> set (List.map_filter f xs) \<longleftrightarrow> (\<exists>y \<in> set xs. f y = Some x)"
  by (induct xs) (auto simp: List.map_filter_simps split: option.splits)

lemma insert_recent_mset [simp]: "mset (insert_recent a as) = add_mset a (mset as)"
  by (induct as) auto

lemma recent_first_mset: "mset (recent_first as) = mset as"
  by (induct as) (simp_all add: recent_first_def)

definition newer :: "OracleAnnouncement \<Rightarrow> OracleAnnouncement \<Rightarrow> bool" where
  "newer a b = (\<not> an_announced_at a < an_announced_at b)"

lemma insert_recent_set: "set (insert_recent a as) = insert a (set as)"
  by (induct as) auto

lemma insert_recent_sorted:
  "\<forall>b \<in> set (a # as). is_finite (an_announced_at b) \<Longrightarrow> sorted_wrt newer as \<Longrightarrow> sorted_wrt newer (insert_recent a as)"
proof (induct as)
  case (Cons b bs)
  have "newer a c" if "\<not> an_announced_at a < an_announced_at b" "c \<in> set bs" for c
  proof -
    have "newer b c" "is_finite (an_announced_at a)" "is_finite (an_announced_at b)" "is_finite (an_announced_at c)"
      using Cons.prems that(2) by auto
    then show ?thesis using that(1) by (auto simp: newer_def is_finite_iff)
  qed
  moreover have "newer b a" if "an_announced_at a < an_announced_at b"
    using Cons.prems(1) that by (auto simp: newer_def is_finite_iff)
  ultimately show ?case using Cons by (auto simp: insert_recent_set newer_def)
qed simp

lemma recent_first_sorted: "\<forall>a \<in> set as. is_finite (an_announced_at a) \<Longrightarrow> sorted_wrt newer (recent_first as)"
proof (induct as)
  case (Cons a as)
  have "set (recent_first as) = set as" by (metis recent_first_mset set_mset_mset)
  then show ?case using Cons insert_recent_sorted [of a "recent_first as"] by (simp add: recent_first_def)
qed (simp add: recent_first_def)

definition announced :: "Event \<Rightarrow> OracleInfo \<Rightarrow> OracleAnnouncement" where
  "announced e info =
    \<lparr> an_id = oi_id info, an_name = oi_name info, an_endpoint = oi_endpoint info, an_fee_ppm = oi_fee_ppm info,
      an_supported_schemas = list_of (oi_supported_schemas info),
      an_supported_payment_lock_types = list_of (oi_supported_payment_lock_types info),
      an_min_amount_sats = oi_min_amount_sats info, an_max_amount_sats = oi_max_amount_sats info,
      an_description = oi_description info, an_pubkey = ev_pubkey e, an_announced_at = ev_created_at e \<rparr>"

definition announceable :: "url_parser \<Rightarrow> OracleInfo \<Rightarrow> bool" where
  "announceable parse info =
    (oi_id info \<noteq> [] \<and> whole (oi_fee_ppm info) \<and> pred_option whole (oi_min_amount_sats info) \<and>
     pred_option whole (oi_max_amount_sats info) \<and>
     list_all (\<lambda>s. isSchemaUri parse (String s)) (list_of (oi_supported_schemas info)) \<and>
     list_all isPaymentLockType (list_of (oi_supported_payment_lock_types info)))"

lemma whole_finite: "whole x \<Longrightarrow> is_finite x"
  by (cases x) (simp_all add: whole_def jok.simps)

lemma jok_strings: "jok (Array (map String ss))"
  by (induct ss) simp_all

lemma announcement_json:
  assumes "announceable parse info"
  shows "jok (Object (announcement_members info))"
  using assms
  by (cases "oi_endpoint info"; cases "oi_min_amount_sats info"; cases "oi_max_amount_sats info"; cases "oi_description info")
    (auto simp: announcement_members_def opt_member_def announceable_def ORACLE_ANNOUNCEMENT_VERSION_def
      jok_strings zero_jsnum_def simp del: jok.simps(6))

lemma announcement_read:
  assumes "announceable parse info"
  shows "announcement_of parse (oi_id info) e (Object (announcement_members info)) = Some (announced e info)"
proof -
  have "strings_of (\<lambda>s. isSchemaUri parse (String s)) (map String (list_of (oi_supported_schemas info))) =
      Some (list_of (oi_supported_schemas info))"
    "strings_of isPaymentLockType (map String (list_of (oi_supported_payment_lock_types info))) =
      Some (list_of (oi_supported_payment_lock_types info))"
    using assms by (auto simp: announceable_def simp del: isSchemaUri.simps intro!: strings_of_map)
  moreover have "is_finite (oi_fee_ppm info)" using assms by (simp add: announceable_def whole_finite)
  moreover have "oi_min_amount_sats info = Some x \<Longrightarrow> is_finite x" "oi_max_amount_sats info = Some x \<Longrightarrow> is_finite x" for x
    using assms by (auto simp: announceable_def whole_finite simp del: isSchemaUri.simps)
  ultimately show ?thesis
    by (cases "oi_endpoint info"; cases "oi_min_amount_sats info"; cases "oi_max_amount_sats info"; cases "oi_description info")
      (simp_all add: announcement_of_def announcement_members_def opt_member_def requireString_def requireNumber_def
        optionalString_def optionalNumber_def requireSchemaUris_def requirePaymentLockTypes_def string_list_def
        map_get_def announced_def del: isSchemaUri.simps)
qed

lemma announcement_read_back:
  assumes "nostr_ok lib" "announceable parse info" "buildOracleAnnouncementEvent lib fstr now identity info relays = Some e"
  shows "parseOracleAnnouncementEvent parse e = Some (announced e info)"
proof -
  note ev = sign_content_event [OF assms(1) assms(3) [unfolded buildOracleAnnouncementEvent_def]]
  have "jparse (ev_content e) = Some (Object (announcement_members info))"
    using jparse_print [OF announcement_json [OF assms(2)]] by (simp add: ev(2) del: jprint.simps)
  moreover have "oi_id info \<noteq> []" using assms(2) by (simp add: announceable_def)
  ultimately show ?thesis
    using announcement_read [OF assms(2), of e] ev(3)
    by (simp add: parseOracleAnnouncementEvent_def plain_object_def)
      (simp add: announcement_members_def map_get_def)
qed

text \<open>C30. An announced oracle is discovered.  If a relay answers with the event an oracle built from its description, the
  discovery returns this description with the key and time of the event, next to every other well formed
  announcement of the answer and nothing else, newest first, and closes the pool it opened.\<close>

theorem announced_oracle_discovered:
  assumes "nostr_ok lib" "announceable parse info" "relays \<noteq> []"
    "buildOracleAnnouncementEvent lib fstr now identity info hints = Some e"
    "querySync relays (discovery_filter_of schema since limit) = Some events" "e \<in> set events"
    "\<forall>x \<in> set events. is_finite (ev_created_at x)"
  shows "\<exists>as. discoverOracles parse querySync relays schema since limit = (Some as, True) \<and>
    announced e info \<in> set as \<and> mset as = mset (List.map_filter (parseOracleAnnouncementEvent parse) events) \<and>
    sorted_wrt newer as"
proof -
  let ?as = "List.map_filter (parseOracleAnnouncementEvent parse) events"
  have "an_announced_at a = ev_created_at x" if "parseOracleAnnouncementEvent parse x = Some a" for a x
    using that by (auto simp: parseOracleAnnouncementEvent_def announcement_of_def split: option.splits list.splits if_splits)
  then have "\<forall>a \<in> set ?as. is_finite (an_announced_at a)"
    using assms(7) by (fastforce simp: map_filter_set)
  from recent_first_sorted [OF this] have "sorted_wrt newer (recent_first ?as)" .
  moreover have "announced e info \<in> set ?as"
    using announcement_read_back [OF assms(1, 2, 4)] assms(6) by (auto simp: map_filter_set)
  then have "announced e info \<in> set (recent_first ?as)" by (metis recent_first_mset set_mset_mset)
  ultimately show ?thesis using assms(3, 5) by (simp add: discoverOracles_def recent_first_mset)
qed

definition xd_info :: OracleInfo where
  "xd_info = \<lparr> oi_id = ''orc'', oi_name = ''Example'', oi_endpoint = None, oi_fee_ppm = Fin 50000,
    oi_supported_schemas = None, oi_supported_payment_lock_types = Some [''htlc''], oi_min_amount_sats = Some (Fin 1),
    oi_max_amount_sats = None, oi_description = None \<rparr>"

theorem announced_oracle_discovered_witness:
  "\<exists>e as. discoverOracles (\<lambda>_. None) (\<lambda>_ _. Some [e]) [''wss://relay''] None None None = (Some as, True) \<and> as = [announced e xd_info]"
proof -
  obtain e where e: "buildOracleAnnouncementEvent ex_nostr (\<lambda>_. []) (Fin 5000) ex_identity xd_info None = Some e"
    unfolding buildOracleAnnouncementEvent_def using ex_sign by blast
  have ok: "announceable (\<lambda>_. None) xd_info"
    by (simp add: announceable_def xd_info_def list_of_def isPaymentLockType_def PAYMENT_LOCK_TYPE_VALUES_def
        whole_def jok.simps)
  have "is_finite (ev_created_at e)"
    using e by (auto simp: buildOracleAnnouncementEvent_def sign_content_def signEvent_def ex_nostr_def)
  then obtain as where as: "discoverOracles (\<lambda>_. None) (\<lambda>_ _. Some [e]) [''wss://relay''] None None None = (Some as, True)"
    "mset as = mset (List.map_filter (parseOracleAnnouncementEvent (\<lambda>_. None)) [e])"
    using announced_oracle_discovered [OF ex_nostr_ok ok _ e, of "[''wss://relay'']" "\<lambda>_ _. Some [e]" None None None "[e]"]
    by auto
  moreover have "as = [announced e xd_info]"
    using as(2) announcement_read_back [OF ex_nostr_ok ok e] by (simp add: List.map_filter_simps)
  ultimately show ?thesis by blast
qed

section \<open>Attestations are read back\<close>

definition attestation_ok :: "OracleAttestation \<Rightarrow> bool" where
  "attestation_ok a = (whole (oa_attested_at a) \<and> (oa_schema_verdict a = Undefined \<or> jok (oa_schema_verdict a)))"

lemma attestation_read_back:
  assumes "nostr_ok lib" "attestation_ok a" "buildOracleAttestationEvent lib fstr text now identity q r a = Some e"
  shows "parseOracleAttestationPayload (ev_content e) = Some (attestation_payload text a)"
proof -
  note ev = sign_content_event [OF assms(1) assms(3) [unfolded buildOracleAttestationEvent_def]]
  let ?p = "attestation_payload text a"
  have checks: "string_list (\<lambda>_. True) (Array (map (String \<circ> text) ms)) = Some (map text ms)" for ms
    using strings_of_map [of "\<lambda>_. True" "map text ms"] by (simp add: string_list_def list_all_iff)
  let ?ms = "filter (\<lambda>m. snd m \<noteq> Undefined) (attestation_members ?p)"
  have "json_norm (Object (attestation_members ?p)) = Object ?ms" "jok (Object ?ms)"
    using assms(2)
    by (auto simp: list_all_iff attestation_members_def attestation_payload_def attestation_ok_def json_norm_ok jok_strings
        ORACLE_ATTESTATION_VERSION_def zero_jsnum_def)
  then have "jparse (ev_content e) = Some (Object ?ms)"
    using jparse_print_norm [of "Object (attestation_members ?p)" fstr] by (simp add: ev(2) del: jprint.simps)
  then show ?thesis
    by (cases "oa_schema_verdict a = Undefined")
      (simp_all add: parseOracleAttestationPayload_def isOracleAttestationPayload_def attestation_members_def attestation_payload_def map_get_def checks)
qed

end
