(* ===== verification/Bounty_Token.thy ===== *)
theory Bounty_Token
  imports Cashu_Escrow
begin

text \<open>
  Minting a bounty token against a paid Lightning invoice (\<open>createBountyToken\<close> in
  \<open>payments/cashu/cashu-wallet.ts\<close>).  The answers of the mint and the readings of the clock are indexed by
  the iteration of the polling loop.  The loop ends only with the clock or the mint, so it takes fuel, and
  \<open>bounty_returns\<close> shows how much is enough.
\<close>

record bounty_mint =
  bm_quote :: "(string \<times> string) option"
  bm_onInvoice :: "(string \<Rightarrow> bool) option"
  bm_start :: jsnum
  bm_clock :: "nat \<Rightarrow> jsnum"
  bm_state :: "nat \<Rightarrow> string option"
  bm_mintProofs :: "jsnum \<Rightarrow> string \<Rightarrow> Proof list option"

datatype poll_outcome = Poll_failed | Issued_elsewhere | Poll_done nat

text \<open>The loop from iteration \<open>i\<close>; the number of \<open>Poll_done\<close> is the index of the next state check.\<close>

fun poll_quote :: "bounty_mint \<Rightarrow> jsnum \<Rightarrow> nat \<Rightarrow> nat \<Rightarrow> poll_outcome option" where
  "poll_quote mint deadline i 0 = None"
| "poll_quote mint deadline i (Suc fuel) =
    (if \<not> bm_clock mint i < deadline then Some (Poll_done i)
     else case bm_state mint i of
            None \<Rightarrow> Some Poll_failed
          | Some state \<Rightarrow>
            if state = ''PAID'' then Some (Poll_done (Suc i))
            else if state = ''ISSUED'' then Some Issued_elsewhere
            else poll_quote mint deadline (Suc i) fuel)"

definition mint_paid :: "'opt cashu \<Rightarrow> bounty_mint \<Rightarrow> string \<Rightarrow> jsnum \<Rightarrow> string \<Rightarrow> nat \<Rightarrow> (string \<times> Proof list) option" where
  "mint_paid lib mint mintUrl amountSats quote i =
    (if bm_state mint i \<noteq> Some ''PAID'' then None
     else map_option (\<lambda>proofs. (encodeProofs lib mintUrl proofs, proofs)) (bm_mintProofs mint amountSats quote))"

text \<open>The outer \<open>None\<close> is a loop still running, the inner one the \<open>null\<close> of the source.\<close>

definition createBountyToken ::
    "'opt cashu \<Rightarrow> bounty_mint \<Rightarrow> nat \<Rightarrow> jsnum \<Rightarrow> jsnum option \<Rightarrow> (string \<times> Proof list) option option" where
  "createBountyToken lib mint fuel amountSats invoiceTimeoutMs =
    (case getCashuConfig lib of
       None \<Rightarrow> Some None
     | Some mintUrl \<Rightarrow>
       if \<not> c_loadMint lib then Some None
       else case bm_quote mint of
              None \<Rightarrow> Some None
            | Some (request, quote) \<Rightarrow>
              if (case bm_onInvoice mint of None \<Rightarrow> False | Some f \<Rightarrow> \<not> f request) then Some None
              else let timeoutMs = (case invoiceTimeoutMs of None \<Rightarrow> Fin 300000 | Some t \<Rightarrow> t);
                       deadline = bm_start mint + timeoutMs
                   in case poll_quote mint deadline 0 fuel of
                        None \<Rightarrow> None
                      | Some (Poll_done i) \<Rightarrow> Some (mint_paid lib mint mintUrl amountSats quote i)
                      | Some _ \<Rightarrow> Some None)"

section \<open>The loop ends and mints only what was paid\<close>

lemma poll_quote_ends: "\<not> bm_clock mint (i + k) < deadline \<Longrightarrow> k < fuel \<Longrightarrow> poll_quote mint deadline i fuel \<noteq> None"
proof (induct fuel arbitrary: i k)
  case (Suc fuel)
  show ?case
  proof (cases k)
    case (Suc k')
    then have "poll_quote mint deadline (Suc i) fuel \<noteq> None"
      using Suc.hyps [of "Suc i" k'] Suc.prems \<open>k = Suc k'\<close> by simp
    then show ?thesis by (simp split: option.split)
  qed (use Suc.prems in simp)
qed simp

text \<open>Fuel beyond the first clock reading past the deadline is enough, and a token stands for a paid invoice.\<close>

lemma bounty_returns:
  assumes "\<not> bm_clock mint k < bm_start mint + (case invoiceTimeoutMs of None \<Rightarrow> Fin 300000 | Some t \<Rightarrow> t)" "k < fuel"
  shows "\<exists>r. createBountyToken lib mint fuel amountSats invoiceTimeoutMs = Some r"
proof -
  let ?deadline = "bm_start mint + (case invoiceTimeoutMs of None \<Rightarrow> Fin 300000 | Some t \<Rightarrow> t)"
  obtain r where "poll_quote mint ?deadline 0 fuel = Some r"
    using poll_quote_ends [of mint 0 k ?deadline fuel] assms by auto
  then show ?thesis
    by (cases invoiceTimeoutMs; cases "bm_onInvoice mint"; cases r)
      (auto simp: createBountyToken_def Let_def split: option.split)
qed

lemma bounty_paid:
  assumes "createBountyToken lib mint fuel amountSats invoiceTimeoutMs = Some (Some (token, proofs))"
  shows "\<exists>mintUrl request quote i. getCashuConfig lib = Some mintUrl \<and> bm_quote mint = Some (request, quote) \<and>
    bm_state mint i = Some ''PAID'' \<and> bm_mintProofs mint amountSats quote = Some proofs \<and>
    token = encodeProofs lib mintUrl proofs"
  using assms by (auto simp: createBountyToken_def mint_paid_def Let_def split: option.splits if_splits poll_outcome.splits)

end
