(* ===== verification/Json_Pretty.thy ===== *)
theory Json_Pretty
  imports Json
begin

text \<open>
  \<open>JSON.stringify(value, null, 2)\<close>, the form in which the SDK writes its files, and the proof that
  \<open>JSON.parse\<close> reads it back.  Objects keep the order in which their keys were inserted, which is the order
  of the language for every key that is not an array index.
\<close>

section \<open>Indented printing\<close>

definition newline :: "nat \<Rightarrow> string" where
  "newline d = CHR 0x0A # replicate d CHR 0x20"

fun jpretty :: "(rat \<Rightarrow> string) \<Rightarrow> nat \<Rightarrow> jsval \<Rightarrow> string" where
  "jpretty fstr d (Array vs) =
    (if vs = [] then ''[]''
     else ''['' @ jsep (map (\<lambda>v. newline (d + 2) @ jpretty fstr (d + 2) v) vs) @ newline d @ '']'')"
| "jpretty fstr d (Object ms) =
    (let ts = map (\<lambda>(k, absent, t). newline (d + 2) @ jquote k @ '': '' @ t)
           (filter (\<lambda>(k, absent, t). \<not> absent)
             (map (\<lambda>(k, v). (k, v = Undefined, jpretty fstr (d + 2) v)) ms))
     in if ts = [] then ''{}'' else ''{'' @ jsep ts @ newline d @ ''}'')"
| "jpretty fstr d v = jprint fstr v"

section \<open>White space\<close>

lemma newline_ws: "list_all jws (newline d)"
  by (induction d) (simp_all add: newline_def jws_def)

lemma skip_ws_append: "list_all jws w \<Longrightarrow> skip_ws (w @ s) = skip_ws s"
  by (induction w) (simp_all add: skip_ws_def)

lemma skip_newline [simp]: "skip_ws (newline d @ s) = skip_ws s"
  by (rule skip_ws_append [OF newline_ws])

lemma jvalue_newline [simp]: "jvalue n (newline d @ s) = jvalue n s"
  by (cases n) simp_all

lemma jvalue_space: "jvalue n (CHR 0x20 # s) = jvalue n s"
  by (cases n) (simp_all add: skip_ws_def jws_def)

definition text_stop :: "string \<Rightarrow> bool" where
  "text_stop r = (val_stop r \<or> hd r = CHR 0x0A)"

lemma text_stop_num: "text_stop r \<Longrightarrow> num_stop r"
  using val_stop_num [of r] by (auto simp: text_stop_def num_stop_def is_digit_def)

lemma text_stop_simps [simp]: "text_stop (newline d @ r)" "text_stop (CHR '','' # r)"
  by (simp_all add: text_stop_def newline_def)

lemma skip_punct [simp]: "c \<in> {CHR 0x22, CHR '':'', CHR '','', CHR '']'', CHR ''}''} \<Longrightarrow> skip_ws (c # s) = c # s"
  by (auto simp: skip_ws_def jws_def)

section \<open>Reading back\<close>

text \<open>A list of texts, each read back as its value, closed after white space.\<close>

lemma jelements_texts:
  assumes "vs \<noteq> []" "\<And>v n r. v \<in> set vs \<Longrightarrow> text_stop r \<Longrightarrow> 2 * length (text v) < n \<Longrightarrow> jvalue n (text v @ r) = Some (v, r)"
    "2 * length (jsep (map text vs)) + 1 < n"
  shows "jelements n (jsep (map text vs) @ newline d @ CHR '']'' # r) = Some (vs, r)"
  using assms
proof (induction vs arbitrary: n)
  case (Cons v vs)
  obtain m where n: "n = Suc m" using Cons.prems(3) by (cases n) auto
  show ?case
  proof (cases "vs = []")
    case True
    have "jvalue m (text v @ newline d @ CHR '']'' # r) = Some (v, newline d @ CHR '']'' # r)"
      by (rule Cons.prems(2)) (use Cons.prems(3) True n in auto)
    then show ?thesis using True n by simp
  next
    case False
    let ?rest = "jsep (map text vs) @ newline d @ CHR '']'' # r"
    have len: "2 * length (text v) < m" "2 * length (jsep (map text vs)) + 1 < m"
      using Cons.prems(3) False n by (simp_all add: jsep_Cons)
    have "jvalue m (text v @ CHR '','' # ?rest) = Some (v, CHR '','' # ?rest)"
      by (rule Cons.prems(2)) (use len in auto)
    moreover have "jelements m ?rest = Some (vs, r)"
      by (rule Cons.IH) (use False Cons.prems len in auto)
    ultimately show ?thesis using False n by (simp add: jsep_Cons)
  qed
qed simp

definition member_line :: "nat \<Rightarrow> (jsval \<Rightarrow> string) \<Rightarrow> string \<times> jsval \<Rightarrow> string" where
  "member_line d text kv = newline d @ jquote (fst kv) @ '': '' @ text (snd kv)"

lemma jmembers_texts:
  assumes "ms \<noteq> []" "\<And>k v n r. (k, v) \<in> set ms \<Longrightarrow> text_stop r \<Longrightarrow> 2 * length (text v) < n \<Longrightarrow> jvalue n (text v @ r) = Some (v, r)"
    "2 * length (jsep (map (member_line e text) ms)) + 1 < n"
  shows "jmembers n (jsep (map (member_line e text) ms) @ newline d @ CHR ''}'' # r) = Some (ms, r)"
  using assms
proof (induction ms arbitrary: n)
  case (Cons kv ms)
  obtain k v where kv: "kv = (k, v)" by (cases kv)
  obtain m where n: "n = Suc m" using Cons.prems(3) by (cases n) auto
  have key: "jstring (concat (map escape k) @ CHR 0x22 # s) = Some (k, s)" for s by (rule jstring_quoted)
  have line: "member_line e text kv = newline e @ CHR 0x22 # concat (map escape k) @ CHR 0x22 # CHR '':'' # CHR 0x20 # text v"
    by (simp add: member_line_def kv jquote_def)
  note line = line [unfolded kv]
  show ?case
  proof (cases "ms = []")
    case True
    have "jvalue m (text v @ newline d @ CHR ''}'' # r) = Some (v, newline d @ CHR ''}'' # r)"
      by (rule Cons.prems(2) [of k]) (use Cons.prems(3) True n kv line in auto)
    then show ?thesis using True n by (simp add: kv line key jvalue_space)
  next
    case False
    let ?rest = "jsep (map (member_line e text) ms) @ newline d @ CHR ''}'' # r"
    have len: "2 * length (text v) < m" "2 * length (jsep (map (member_line e text) ms)) + 1 < m"
      using Cons.prems(3) False n by (simp_all add: jsep_Cons kv line)
    have "jvalue m (text v @ CHR '','' # ?rest) = Some (v, CHR '','' # ?rest)"
      by (rule Cons.prems(2) [of k]) (use len kv in auto)
    moreover have "jmembers m ?rest = Some (ms, r)"
      by (rule Cons.IH) (use False Cons.prems len in auto)
    ultimately show ?thesis using False n by (simp add: jsep_Cons kv line key jvalue_space)
  qed
qed simp

lemma jpretty_object:
  assumes "list_all (\<lambda>(k, v). jok v) ms" "ms \<noteq> []"
  shows "jpretty fstr d (Object ms) = ''{'' @ jsep (map (member_line (d + 2) (jpretty fstr (d + 2))) ms) @ newline d @ ''}''"
proof -
  have "map (\<lambda>(k, absent, t). newline (d + 2) @ jquote k @ '': '' @ t) (filter (\<lambda>(k, absent, t). \<not> absent)
      (map (\<lambda>(k, v). (k, v = Undefined, jpretty fstr (d + 2) v)) ms)) = map (member_line (d + 2) (jpretty fstr (d + 2))) ms"
    using assms(1) by (induction ms) (auto simp: member_line_def)
  then show ?thesis using assms(2) by (simp add: Let_def)
qed

lemma jvalue_open:
  "jvalue (Suc m) (CHR ''['' # s) =
    (if take 1 (skip_ws s) = '']'' then Some (Array [], drop 1 (skip_ws s))
     else map_option (\<lambda>(vs, r). (Array vs, r)) (jelements m s))"
  "jvalue (Suc m) (CHR ''{'' # s) =
    (if take 1 (skip_ws s) = ''}'' then Some (Object [], drop 1 (skip_ws s))
     else map_option (\<lambda>(ms, r). (jobject ms, r)) (jmembers m s))"
  by (simp_all add: skip_ws_def [of "_ # _"] jws_def split: option.split)

lemma jpretty_solid: "jok v \<Longrightarrow> solid (jpretty fstr d v)"
  using jprint_solid [of v fstr] by (cases v) (auto simp: solid_def jws_def Let_def)

lemma solid_open: "solid s \<Longrightarrow> take 1 (skip_ws (s @ r)) \<noteq> '']'' \<and> take 1 (skip_ws (s @ r)) \<noteq> ''}''"
  by (cases s) (auto simp: solid_def skip_ws_def)

lemma jsep_first: "xs \<noteq> [] \<Longrightarrow> \<exists>t. jsep xs = hd xs @ t"
  by (cases xs rule: jsep.cases) auto

text \<open>Atoms are printed as without indentation; only what may follow them is wider.\<close>

lemma jvalue_atom:
  assumes "jok v" "text_stop r" "2 * length (jprint fstr v) < n" "\<nexists>vs. v = Array vs" "\<nexists>ms. v = Object ms"
  shows "jvalue n (jprint fstr v @ r) = Some (v, r)"
proof (cases v)
  case (Number x)
  obtain i where i: "x = Fin (of_int i)" "jprint fstr (Number x) = int_str i"
    using jok_int assms(1) Number by blast
  obtain c cs where c: "int_str i = c # cs" "is_digit c \<or> c = CHR ''-''" using int_str_head by blast
  obtain m where n: "n = Suc m" using assms(3) by (cases n) auto
  have "jnumber (c # cs @ r) = Some (of_int i, r)"
    using jnumber_int [OF text_stop_num [OF assms(2)], of i] c by simp
  from jvalue_number [OF this c(2), of m] show ?thesis using n i c Number by simp
next
  case (String s)
  then show ?thesis using assms by (cases n) (simp_all add: jquote_def skip_ws_def jws_def jstring_quoted)
next
  case Null
  then show ?thesis using assms by (cases n) (simp_all add: skip_ws_def jws_def)
next
  case (Bool b)
  then show ?thesis using assms by (cases n; cases b) (simp_all add: skip_ws_def jws_def)
qed (use assms in auto)

lemma jvalue_pretty:
  assumes "jok v" "text_stop r" "2 * length (jpretty fstr d v) < n"
  shows "jvalue n (jpretty fstr d v @ r) = Some (v, r)"
  using assms
proof (induction v arbitrary: n r d)
  case (Array vs)
  obtain m where n: "n = Suc m" using Array(4) by (cases n) auto
  show ?case
  proof (cases "vs = []")
    case True
    then show ?thesis using n by (simp add: skip_ws_def jws_def)
  next
    case False
    let ?t = "\<lambda>v. newline (d + 2) @ jpretty fstr (d + 2) v"
    have "jelements m (jsep (map ?t vs) @ newline d @ CHR '']'' # r) = Some (vs, r)"
      by (rule jelements_texts) (use False Array n in \<open>auto simp: list_all_iff\<close>)
    moreover have "take 1 (skip_ws (jsep (map ?t vs) @ s)) \<noteq> '']''" for s
      using jsep_first [of "map ?t vs"] False Array(2) solid_open [OF jpretty_solid [of "hd vs" fstr "d + 2"]]
      by (auto simp: hd_map list_all_iff)
    ultimately show ?thesis using n False by (simp add: jvalue_open del: jvalue.simps)
  qed
next
  case (Object ms)
  obtain m where n: "n = Suc m" using Object(4) by (cases n) auto
  have ok: "list_all (\<lambda>(k, v). jok v) ms" and dist: "distinct (map fst ms)" using Object(2) by auto
  show ?case
  proof (cases "ms = []")
    case True
    then show ?thesis using n by (simp add: skip_ws_def jws_def)
  next
    case False
    let ?t = "jpretty fstr (d + 2)"
    have len: "2 * length (jsep (map (member_line (d + 2) ?t) ms)) + 1 < m"
      using Object(4) n jpretty_object [OF ok False, of fstr d] by simp
    have "jmembers m (jsep (map (member_line (d + 2) ?t) ms) @ newline d @ CHR ''}'' # r) = Some (ms, r)"
      by (rule jmembers_texts) (use False Object ok len in \<open>auto simp: list_all_iff\<close>)
    moreover have "take 1 (skip_ws (jsep (map (member_line (d + 2) ?t) ms) @ s)) \<noteq> ''}''" for s
      using jsep_first [of "map (member_line (d + 2) ?t) ms"] False
      by (auto simp: hd_map member_line_def jquote_def)
    moreover have "jobject ms = Object ms" using dist fold_map_set_fresh [of "[]" ms] by (simp add: jobject_def)
    ultimately show ?thesis
      using n jpretty_object [OF ok False, of fstr d] by (simp add: jvalue_open del: jpretty.simps jvalue.simps)
  qed
qed (simp_all add: jvalue_atom del: jprint.simps jvalue.simps jok.simps(2-5))

lemma jparse_pretty: "jok v \<Longrightarrow> jparse (jpretty fstr 0 v) = Some v"
  using jvalue_pretty [of v "[]" fstr 0 "2 * length (jpretty fstr 0 v) + 2"]
  by (simp add: jparse_def text_stop_def val_stop_def skip_ws_def)

end
