(* ===== verification/Persistent_Storage.thy ===== *)
theory Persistent_Storage
  imports Json_Pretty Preimage_Store Frost_Signing
begin

text \<open>
  What outlives the process: the file functions of \<open>internal/runtime/fs.ts\<close>, the file system store of
  \<open>adapters/storage.ts\<close>, the persistent preimage store (\<open>payments/cashu/preimage-store.ts\<close>) and the node
  configuration of a signer (\<open>payments/frost/frost-config.ts\<close>).  The file system maps paths to contents.
  Every call on it is given its outcome: a write may be refused or leave only a prefix of the text, a rename
  may fail.  A crash between two calls leaves the files as a failure of the second does.
\<close>

section \<open>Files (internal/runtime/fs.ts, adapters/storage.ts)\<close>

type_synonym files = "(string, string) jsmap"

datatype write_outcome = Written | Write_refused | Torn nat

datatype read_result = Text string | Not_found | Read_failed

definition writeTextFile :: "write_outcome \<Rightarrow> string \<Rightarrow> string \<Rightarrow> files \<Rightarrow> bool \<times> files" where
  "writeTextFile w path data fs =
    (case w of
       Written \<Rightarrow> (True, map_set path data fs)
     | Write_refused \<Rightarrow> (False, fs)
     | Torn n \<Rightarrow> (False, map_set path (take n data) fs))"

definition rename_file :: "bool \<Rightarrow> string \<Rightarrow> string \<Rightarrow> files \<Rightarrow> bool \<times> files" where
  "rename_file granted from_path to_path fs =
    (case map_get fs from_path of
       None \<Rightarrow> (False, fs)
     | Some data \<Rightarrow> if granted then (True, map_set to_path data (map_delete from_path fs)) else (False, fs))"

definition tmp_path :: "string \<Rightarrow> string" where
  "tmp_path path = path @ ''.tmp''"

type_synonym io = "write_outcome \<times> bool"

definition replaceTextFileAtomically :: "io \<Rightarrow> string \<Rightarrow> string \<Rightarrow> files \<Rightarrow> bool \<times> files" where
  "replaceTextFileAtomically io path data fs =
    (case writeTextFile (fst io) (tmp_path path) data fs of
       (False, fs') \<Rightarrow> (False, fs')
     | (True, fs') \<Rightarrow> rename_file (snd io) (tmp_path path) path fs')"

text \<open>\<open>readText\<close> of the file system store tells a missing file from every other failure.\<close>

definition readText :: "bool \<Rightarrow> files \<Rightarrow> string \<Rightarrow> read_result" where
  "readText readable fs path =
    (case map_get fs path of None \<Rightarrow> Not_found | Some data \<Rightarrow> if readable then Text data else Read_failed)"

section \<open>The persistent preimage store\<close>

text \<open>The file is parsed without a check, so the values of the map are whatever the file holds.\<close>

type_synonym stored = "(string, jsval) jsmap"

text \<open>\<open>Object.entries\<close>; on \<open>undefined\<close> and \<open>null\<close> it throws.\<close>

fun object_entries :: "jsval \<Rightarrow> (string \<times> jsval) list option" where
  "object_entries Undefined = None"
| "object_entries Null = None"
| "object_entries (Object ms) = Some ms"
| "object_entries (Array vs) = Some (map (\<lambda>(i, v). (nat_str i, v)) (enumerate 0 vs))"
| "object_entries (String s) = Some (map (\<lambda>(i, c). (nat_str i, String [c])) (enumerate 0 s))"
| "object_entries _ = Some []"

text \<open>\<open>data.entries\<close> of an array is its iterator method, which has no entries of its own.\<close>

fun file_entries :: "jsval \<Rightarrow> (string \<times> jsval) list option" where
  "file_entries (Array vs) = Some []"
| "file_entries data = object_entries (opt_prop data ''entries'')"

definition loadFromPersistence :: "bool \<Rightarrow> files \<Rightarrow> string \<Rightarrow> stored option" where
  "loadFromPersistence readable fs key =
    (case readText readable fs key of
       Not_found \<Rightarrow> Some []
     | Read_failed \<Rightarrow> None
     | Text data \<Rightarrow>
       (case jparse data of
          None \<Rightarrow> None
        | Some v \<Rightarrow> map_option (\<lambda>es. fold (\<lambda>(k, x). map_set k x) es []) (file_entries v)))"

definition file_text :: "(rat \<Rightarrow> string) \<Rightarrow> stored \<Rightarrow> string" where
  "file_text fstr entries = jpretty fstr 0 (Object [(''entries'', Object entries)])"

definition saveToPersistence :: "(rat \<Rightarrow> string) \<Rightarrow> io \<Rightarrow> string \<Rightarrow> stored \<Rightarrow> files \<Rightarrow> bool \<times> files" where
  "saveToPersistence fstr io key entries fs = replaceTextFileAtomically io key (file_text fstr entries) fs"

definition entry_json :: "PreimageEntry \<Rightarrow> jsval" where
  "entry_json e =
    Object [(''hash'', String (pe_hash e)), (''preimage'', String (pe_preimage e)), (''created_at'', Number (pe_created_at e))]"

definition new_entry :: "(bytes \<Rightarrow> bytes) \<Rightarrow> (bytes \<Rightarrow> string) \<Rightarrow> bytes \<Rightarrow> jsnum \<Rightarrow> PreimageEntry" where
  "new_entry sha256 bytesToHex raw now =
    (let (preimage, hash) = createPreimage sha256 bytesToHex raw
     in \<lparr> pe_hash = hash, pe_preimage = preimage, pe_created_at = now \<rparr>)"

type_synonym store_state = "stored \<times> files"

text \<open>The entry is set in memory before the save; \<open>None\<close> is a rejected call.\<close>

definition store_create ::
    "(rat \<Rightarrow> string) \<Rightarrow> (bytes \<Rightarrow> bytes) \<Rightarrow> (bytes \<Rightarrow> string) \<Rightarrow> io \<Rightarrow> string \<Rightarrow> bytes \<Rightarrow> jsnum \<Rightarrow> store_state \<Rightarrow>
     PreimageEntry option \<times> store_state" where
  "store_create fstr sha256 bytesToHex io key raw now st =
    (let entry = new_entry sha256 bytesToHex raw now;
         entries = map_set (pe_hash entry) (entry_json entry) (fst st);
         (saved, fs) = saveToPersistence fstr io key entries (snd st)
     in (if saved then Some entry else None, entries, fs))"

definition store_delete :: "(rat \<Rightarrow> string) \<Rightarrow> io \<Rightarrow> string \<Rightarrow> string \<Rightarrow> store_state \<Rightarrow> bool \<times> store_state" where
  "store_delete fstr io key hash st =
    (let entries = map_delete hash (fst st); (saved, fs) = saveToPersistence fstr io key entries (snd st)
     in (saved, entries, fs))"

text \<open>\<open>entries.get(hash)?.preimage ?? null\<close>\<close>

definition stored_preimage :: "stored \<Rightarrow> string \<Rightarrow> jsval" where
  "stored_preimage entries hash =
    (case map_get entries hash of
       None \<Rightarrow> Null
     | Some v \<Rightarrow> if opt_prop v ''preimage'' = Undefined then Null else opt_prop v ''preimage'')"

definition stored_has :: "stored \<Rightarrow> string \<Rightarrow> bool" where
  "stored_has entries hash = map_has entries hash"

definition stored_verify ::
    "(bytes \<Rightarrow> bytes) \<Rightarrow> (bytes \<Rightarrow> string) \<Rightarrow> stored \<Rightarrow> string \<Rightarrow> string \<Rightarrow> bool option" where
  "stored_verify sha256 bytesToHex entries hash preimage =
    (case map_get entries hash of
       None \<Rightarrow> Some False
     | Some v \<Rightarrow>
       if \<not> jsval_truthy v then Some False
       else case opt_prop v ''hash'' of
              String h \<Rightarrow> verifyPreimageHash sha256 bytesToHex preimage h
            | _ \<Rightarrow> map_option (\<lambda>_. False) (verifyPreimageHash sha256 bytesToHex preimage []))"

text \<open>\<open>createPersistencePreimageStore\<close>: the store starts with what the file holds, or is not created.\<close>

definition createPersistencePreimageStore :: "bool \<Rightarrow> string \<Rightarrow> files \<Rightarrow> store_state option" where
  "createPersistencePreimageStore readable key fs =
    map_option (\<lambda>entries. (entries, fs)) (loadFromPersistence readable fs key)"

section \<open>The node configuration of a signer\<close>

definition peer_json :: "PeerConfig \<Rightarrow> jsval" where
  "peer_json p =
    Object ([(''signer_index'', Number (Fin (of_nat (pc_signer_index p)))), (''endpoint'', String (pc_endpoint p))] @
            (case pc_api_key p of None \<Rightarrow> [] | Some k \<Rightarrow> [(''api_key'', String k)]))"

definition node_config_json :: "FrostNodeConfig \<Rightarrow> jsval" where
  "node_config_json c =
    Object [(''signer_index'', Number (Fin (of_nat (nc_signer_index c)))), (''total_signers'', Number (nc_total_signers c)),
            (''threshold'', Number (nc_threshold c)), (''key_package'', nc_key_package c),
            (''pubkey_package'', nc_pubkey_package c), (''group_pubkey'', String (nc_group_pubkey c)),
            (''peers'', Array (map peer_json (nc_peers c)))]"

text \<open>The file is written in place, not through a temporary file, and read back without a check.\<close>

definition saveFrostNodeConfig :: "(rat \<Rightarrow> string) \<Rightarrow> write_outcome \<Rightarrow> string \<Rightarrow> FrostNodeConfig \<Rightarrow> files \<Rightarrow> bool \<times> files" where
  "saveFrostNodeConfig fstr w filePath config fs = writeTextFile w filePath (jpretty fstr 0 (node_config_json config)) fs"

definition loadFrostNodeConfig :: "bool \<Rightarrow> files \<Rightarrow> string \<Rightarrow> jsval option" where
  "loadFrostNodeConfig readable fs filePath =
    (case readText readable fs filePath of Text data \<Rightarrow> jparse data | _ \<Rightarrow> None)"

section \<open>Histories\<close>

text \<open>A history of the store: calls one after the other, each with the outcome of its file operations, and
  restarts of the process.  \<open>None\<close>: the store could not be opened again.\<close>

datatype store_op = Create bytes jsnum io | Delete string io | Restart

fun store_step ::
    "(rat \<Rightarrow> string) \<Rightarrow> (bytes \<Rightarrow> bytes) \<Rightarrow> (bytes \<Rightarrow> string) \<Rightarrow> string \<Rightarrow> store_op \<Rightarrow> store_state \<Rightarrow> store_state option" where
  "store_step fstr sha256 bytesToHex key (Create raw now io) st =
    Some (snd (store_create fstr sha256 bytesToHex io key raw now st))"
| "store_step fstr sha256 bytesToHex key (Delete hash io) st = Some (snd (store_delete fstr io key hash st))"
| "store_step fstr sha256 bytesToHex key Restart st = createPersistencePreimageStore True key (snd st)"

fun store_run ::
    "(rat \<Rightarrow> string) \<Rightarrow> (bytes \<Rightarrow> bytes) \<Rightarrow> (bytes \<Rightarrow> string) \<Rightarrow> string \<Rightarrow> store_op list \<Rightarrow> store_state \<Rightarrow> store_state option" where
  "store_run fstr sha256 bytesToHex key [] st = Some st"
| "store_run fstr sha256 bytesToHex key (x # xs) st =
    (case store_step fstr sha256 bytesToHex key x st of
       None \<Rightarrow> None
     | Some st' \<Rightarrow> store_run fstr sha256 bytesToHex key xs st')"

text \<open>Clock readings are whole numbers.\<close>

fun op_clock :: "store_op \<Rightarrow> bool" where
  "op_clock (Create raw now io) = jok (Number now)"
| "op_clock _ = True"

fun op_hash :: "(bytes \<Rightarrow> bytes) \<Rightarrow> (bytes \<Rightarrow> string) \<Rightarrow> store_op \<Rightarrow> string option" where
  "op_hash sha256 bytesToHex (Create raw now io) = Some (pe_hash (new_entry sha256 bytesToHex raw now))"
| "op_hash sha256 bytesToHex (Delete hash io) = Some hash"
| "op_hash sha256 bytesToHex Restart = None"

section \<open>Overlapping calls\<close>

text \<open>Each awaited file operation is one step; \<open>tasks\<close> are the saves of the calls in the order of the calls.\<close>

datatype save_task = Writing string | Renaming | Resolved | Rejected

type_synonym overlap_state = "stored \<times> files \<times> save_task list"

definition create_begin ::
    "(rat \<Rightarrow> string) \<Rightarrow> (bytes \<Rightarrow> bytes) \<Rightarrow> (bytes \<Rightarrow> string) \<Rightarrow> bytes \<Rightarrow> jsnum \<Rightarrow> overlap_state \<Rightarrow> overlap_state" where
  "create_begin fstr sha256 bytesToHex raw now st =
    (case st of (entries, fs, tasks) \<Rightarrow>
      let entry = new_entry sha256 bytesToHex raw now; entries' = map_set (pe_hash entry) (entry_json entry) entries
      in (entries', fs, tasks @ [Writing (file_text fstr entries')]))"

definition task_step :: "string \<Rightarrow> nat \<Rightarrow> overlap_state \<Rightarrow> overlap_state" where
  "task_step key i st =
    (case st of (entries, fs, tasks) \<Rightarrow>
      if length tasks \<le> i then st
      else case tasks ! i of
             Writing data \<Rightarrow> (entries, snd (writeTextFile Written (tmp_path key) data fs), tasks[i := Renaming])
           | Renaming \<Rightarrow>
             (case rename_file True (tmp_path key) key fs of
                (moved, fs') \<Rightarrow> (entries, fs', tasks[i := if moved then Resolved else Rejected]))
           | _ \<Rightarrow> st)"

section \<open>The file holds the last saved state\<close>

definition stored_ok :: "stored \<Rightarrow> bool" where
  "stored_ok entries = jok (Object entries)"

lemma stored_ok_simps [simp, intro]:
  "stored_ok []" "stored_ok m \<Longrightarrow> jok v \<Longrightarrow> stored_ok (map_set k v m)" "stored_ok m \<Longrightarrow> stored_ok (map_delete k m)"
  using map_set_wf [of m k v] map_delete_wf [of m k] by (auto simp: stored_ok_def map_wf_def)

lemma entry_json_ok: "jok (Number now) \<Longrightarrow> jok (entry_json (new_entry sha256 bytesToHex raw now))"
  by (simp add: entry_json_def new_entry_def createPreimage_def)

lemma file_text_read: "stored_ok E \<Longrightarrow> map_get fs key = Some (file_text fstr E) \<Longrightarrow> loadFromPersistence True fs key = Some E"
  using fold_map_set_fresh [of "[]" E]
  by (simp add: loadFromPersistence_def readText_def file_text_def jparse_pretty stored_ok_def map_get_def del: jpretty.simps)

lemma tmp_path_other [simp]: "tmp_path key \<noteq> key" "key \<noteq> tmp_path key"
  by (simp_all add: tmp_path_def)

text \<open>A failing replacement leaves the file untouched, whatever it leaves in the temporary file.\<close>

lemma replace_atomic:
  "replaceTextFileAtomically io key data fs = (saved, fs') \<Longrightarrow>
    map_get fs' key = (if saved then Some data else map_get fs key)"
  by (cases io; cases "fst io") (auto simp: replaceTextFileAtomically_def writeTextFile_def rename_file_def split: if_splits)

definition saved_inv :: "string \<Rightarrow> store_state \<Rightarrow> bool" where
  "saved_inv key st = (stored_ok (fst st) \<and> (\<exists>E. stored_ok E \<and> loadFromPersistence True (snd st) key = Some E))"

lemma load_unchanged: "map_get fs' key = map_get fs key \<Longrightarrow> loadFromPersistence r fs' key = loadFromPersistence r fs key"
  by (simp add: loadFromPersistence_def readText_def)

text \<open>After a save the file holds the new entries or, if the save failed, the old ones.\<close>

lemma save_load:
  assumes "saveToPersistence fstr io key entries fs = (saved, fs')" "stored_ok entries"
  shows "loadFromPersistence True fs' key = (if saved then Some entries else loadFromPersistence True fs key)"
  using replace_atomic [OF assms(1) [unfolded saveToPersistence_def]] file_text_read [OF assms(2)] load_unchanged [of fs' key fs]
  by simp

lemma store_create_load:
  assumes "store_create fstr sha256 bytesToHex io key raw now st = (r, st')" "stored_ok (fst st)" "jok (Number now)"
  shows "stored_ok (fst st')" "loadFromPersistence True (snd st') key = (if r = None then loadFromPersistence True (snd st) key else Some (fst st'))"
  using assms save_load [of fstr io key "fst st'" "snd st" "r \<noteq> None" "snd st'"] entry_json_ok
  by (auto simp: store_create_def Let_def split: prod.splits if_splits)

lemma store_delete_load:
  assumes "store_delete fstr io key h st = (saved, st')" "stored_ok (fst st)"
  shows "stored_ok (fst st')" "loadFromPersistence True (snd st') key = (if saved then Some (fst st') else loadFromPersistence True (snd st) key)"
  using assms save_load [of fstr io key "fst st'" "snd st" saved "snd st'"]
  by (auto simp: store_delete_def Let_def split: prod.splits)

lemma saved_step_inv:
  assumes "saved_inv key st" "op_clock x"
  shows "\<exists>st'. store_step fstr sha256 bytesToHex key x st = Some st' \<and> saved_inv key st'"
proof (cases x)
  case (Create raw now io)
  obtain r st' where c: "store_create fstr sha256 bytesToHex io key raw now st = (r, st')" by (rule prod.exhaust)
  show ?thesis using store_create_load [OF c] assms Create c by (auto simp: saved_inv_def)
next
  case (Delete h io)
  obtain r st' where d: "store_delete fstr io key h st = (r, st')" by (rule prod.exhaust)
  show ?thesis using store_delete_load [OF d] assms Delete d by (auto simp: saved_inv_def)
next
  case Restart
  then show ?thesis using assms by (auto simp: saved_inv_def createPersistencePreimageStore_def)
qed

lemma saved_run_inv:
  "saved_inv key st \<Longrightarrow> list_all op_clock xs \<Longrightarrow>
    \<exists>st'. store_run fstr sha256 bytesToHex key xs st = Some st' \<and> saved_inv key st'"
proof (induction xs arbitrary: st)
  case (Cons x xs)
  obtain st' where "store_step fstr sha256 bytesToHex key x st = Some st'" "saved_inv key st'"
    using saved_step_inv [OF Cons.prems(1), of x fstr sha256 bytesToHex] Cons.prems(2) by auto
  then show ?case using Cons by simp
qed simp

text \<open>An entry that is in memory and in the file stays in both until a call names its hash.\<close>

definition entry_kept :: "string \<Rightarrow> string \<Rightarrow> jsval option \<Rightarrow> store_state \<Rightarrow> bool" where
  "entry_kept key h v st =
    (map_get (fst st) h = v \<and> (\<exists>E. loadFromPersistence True (snd st) key = Some E \<and> map_get E h = v))"

lemma store_step_kept:
  assumes "saved_inv key st" "op_clock x" "op_hash sha256 bytesToHex x \<noteq> Some h" "entry_kept key h v st"
    "store_step fstr sha256 bytesToHex key x st = Some st'"
  shows "entry_kept key h v st'"
proof (cases x)
  case (Create raw now io)
  obtain r where c: "store_create fstr sha256 bytesToHex io key raw now st = (r, st')"
    using assms(5) Create by (metis option.inject prod.collapse store_step.simps(1))
  have "map_get (fst st') h = map_get (fst st) h"
    using c assms(3) Create by (auto simp: store_create_def Let_def split: prod.splits)
  then show ?thesis using store_create_load [OF c] assms Create by (auto simp: saved_inv_def entry_kept_def)
next
  case (Delete h' io)
  obtain r where d: "store_delete fstr io key h' st = (r, st')"
    using assms(5) Delete by (metis option.inject prod.collapse store_step.simps(2))
  have "map_get (fst st') h = map_get (fst st) h"
    using d assms(3) Delete by (auto simp: store_delete_def Let_def split: prod.splits)
  then show ?thesis using store_delete_load [OF d] assms Delete by (auto simp: saved_inv_def entry_kept_def)
next
  case Restart
  then show ?thesis using assms by (auto simp: entry_kept_def createPersistencePreimageStore_def)
qed

lemma store_run_kept:
  assumes "saved_inv key st" "list_all op_clock xs" "list_all (\<lambda>x. op_hash sha256 bytesToHex x \<noteq> Some h) xs" "entry_kept key h v st"
    "store_run fstr sha256 bytesToHex key xs st = Some st'"
  shows "entry_kept key h v st'"
  using assms
proof (induction xs arbitrary: st)
  case (Cons x xs)
  obtain st1 where s: "store_step fstr sha256 bytesToHex key x st = Some st1" "saved_inv key st1"
    using saved_step_inv [OF Cons.prems(1), of x fstr sha256 bytesToHex] Cons.prems(2) by auto
  then show ?case using Cons store_step_kept [OF _ _ _ _ s(1)] by auto
qed simp

text \<open>On the entries it created itself the store is the in-memory store of \<open>createPreimageStore\<close>.\<close>

definition stored_image :: "preimages \<Rightarrow> stored" where
  "stored_image entries = map (\<lambda>(h, e). (h, entry_json e)) entries"

lemma stored_image_set: "stored_image (map_set h e m) = map_set h (entry_json e) (stored_image m)"
  unfolding map_set_def stored_image_def by (induction m) auto

lemma stored_image_delete: "stored_image (map_delete h m) = map_delete h (stored_image m)"
  unfolding map_delete_def stored_image_def by (induction m) (auto simp: AList.delete_eq)

lemma stored_image_get: "map_get (stored_image m) h = map_option entry_json (map_get m h)"
  unfolding map_get_def stored_image_def by (induction m) auto

lemma persistent_refines_memory:
  "fst (snd (store_create fstr sha256 bytesToHex io key raw now (stored_image m, fs))) =
    stored_image (snd (preimage_create sha256 bytesToHex raw now m))"
  "fst (snd (store_delete fstr io key h (stored_image m, fs))) = stored_image (preimage_delete h m)"
  "stored_has (stored_image m) h = preimage_has m h"
  "stored_preimage (stored_image m) h = (case getPreimage m h of None \<Rightarrow> Null | Some p \<Rightarrow> String p)"
  "stored_verify sha256 bytesToHex (stored_image m) h p = preimage_verify sha256 bytesToHex m h p"
  by (simp_all add: store_create_def store_delete_def new_entry_def preimage_create_def createPreimage_def preimage_delete_def
      stored_has_def preimage_has_def stored_preimage_def getPreimage_def stored_verify_def preimage_verify_def
      stored_image_set stored_image_delete stored_image_get map_has_get entry_json_def map_get_def [of "_ # _"] Let_def
      split: prod.split option.split)

section \<open>Properties\<close>

lemma fresh_saved_inv: "map_get fs key = None \<Longrightarrow> saved_inv key ([], fs)"
  by (simp add: saved_inv_def loadFromPersistence_def readText_def)



text \<open>C36. Two overlapping \<open>create\<close> calls share one temporary file.  When the write of the second call is
  done first, its rename publishes the text of the first: the second call resolves although the file does not
  hold its preimage, and the first is rejected although it does.\<close>

theorem overlapping_creates_lose_preimage:
  assumes "stored_ok entries" "jok (Number t1)" "jok (Number t2)"
    "hashA = pe_hash (new_entry sha256 bytesToHex a t1)" "hashB = pe_hash (new_entry sha256 bytesToHex b t2)"
    "hashA \<noteq> hashB" "\<not> stored_has entries hashB"
  shows "case fold (task_step key) [1, 0, 1, 0]
      (create_begin fstr sha256 bytesToHex b t2 (create_begin fstr sha256 bytesToHex a t1 (entries, fs, []))) of
    (entries', fs', tasks) \<Rightarrow> tasks = [Rejected, Resolved] \<and> stored_has entries' hashB \<and>
      (\<exists>E. loadFromPersistence True fs' key = Some E \<and> stored_has E hashA \<and> \<not> stored_has E hashB)"
proof -
  let ?A = "map_set hashA (entry_json (new_entry sha256 bytesToHex a t1)) entries"
  have "stored_ok ?A" using assms(1) entry_json_ok [OF assms(2)] by blast
  note loaded = file_text_read [OF this, of _ key fstr]
  show ?thesis
    using assms(4-7) loaded
    by (simp add: create_begin_def task_step_def writeTextFile_def rename_file_def Let_def stored_has_def map_has_get
        eval_nat_numeral)
qed

theorem overlapping_creates_lose_preimage_witness:
  "case fold (task_step ''p'') [1, 0, 1, 0]
      (create_begin (\<lambda>_. []) id hex_string [2] 1 (create_begin (\<lambda>_. []) id hex_string [1] 0 ([], [], []))) of
    (entries', fs', tasks) \<Rightarrow> tasks = [Rejected, Resolved] \<and> stored_has entries' ''02'' \<and>
      (\<exists>E. loadFromPersistence True fs' ''p'' = Some E \<and> stored_has E ''01'' \<and> \<not> stored_has E ''02'')"
proof -
  have "pe_hash (new_entry id hex_string [1] 0) = ''01''" "pe_hash (new_entry id hex_string [2] 1) = ''02''"
    by (simp_all add: new_entry_def createPreimage_def hex_string_def hex_byte_def hex_digits_def)
  then show ?thesis
    by (intro overlapping_creates_lose_preimage)
      (simp_all add: zero_jsnum_def one_jsnum_def stored_has_def map_has_def)
qed

section \<open>The node configuration is read back\<close>

definition node_config_ok :: "FrostNodeConfig \<Rightarrow> bool" where
  "node_config_ok c = (jok (Number (nc_total_signers c)) \<and> jok (Number (nc_threshold c)) \<and> jok (nc_key_package c) \<and>
    jok (nc_pubkey_package c) \<and> nc_signer_index c < 10 ^ 21 \<and> list_all (\<lambda>p. pc_signer_index p < 10 ^ 21) (nc_peers c))"

lemma jok_nat: "n < 10 ^ 21 \<Longrightarrow> jok (Number (Fin (of_nat n)))"
  using of_nat_less_iff [of n "10 ^ 21", where 'a = rat] by simp

lemma node_config_saved:
  assumes "node_config_ok c"
  shows "loadFrostNodeConfig True (snd (saveFrostNodeConfig fstr Written path c fs)) path = Some (node_config_json c)"
proof -
  have peer: "pc_signer_index p < 10 ^ 21 \<Longrightarrow> jok (peer_json p)" for p
    using jok_nat by (cases "pc_api_key p") (simp_all add: peer_json_def del: jok.simps(4))
  have "jok (node_config_json c)"
    using assms peer jok_nat [of "nc_signer_index c"]
    by (auto simp: node_config_ok_def node_config_json_def list_all_iff simp del: jok.simps(4))
  then show ?thesis
    by (simp add: loadFrostNodeConfig_def saveFrostNodeConfig_def writeTextFile_def readText_def jparse_pretty)
qed

text \<open>A write torn at its start leaves nothing of the old configuration either.\<close>

lemma torn_config_lost: "loadFrostNodeConfig True (snd (saveFrostNodeConfig fstr (Torn 0) path c fs)) path = None"
  by (simp add: loadFrostNodeConfig_def saveFrostNodeConfig_def writeTextFile_def readText_def jparse_def skip_ws_def)

end
