(* ===== verification/Spec2Isabelle.thy ===== *)
theory Spec2Isabelle
  imports Escrow_Properties Query_Properties Frost_Coordination_Properties Frost_Coordinator_Properties Protocol_Properties Proof_Properties
    Exchange_Properties Actor_Options Exif_Properties Upload_Properties Attachment_Access Oracle_Discovery Bounty_Token
    Persistent_Storage
begin

text \<open>
  A verification development for Anchr, a marketplace for paid, verified answers: a customer publishes a request with
  a budget on Nostr relays, providers offer, the customer locks Cashu proofs under a hash that the oracle issued,
  the provider proves its answer, and the oracle releases the preimage (or, with a threshold lock, its
  signature shares) once the proof is verified.  All paths below are under \<open>src/packages\<close>, \<open>sdk\<close> for
  \<open>sdk/src\<close> and \<open>protocol\<close> for \<open>protocol/src\<close>.

  \<^bold>\<open>How code becomes definitions.\<close>  A TypeScript interface is a record, a union a datatype, a function or
  handler a definition with the source's name where Isabelle permits it.  A class or closure with state is a record
  or map that its methods take and return.  A throw or rejected promise is \<open>None\<close> or an error of a sum type;
  \<open>undefined\<close> results are \<open>None\<close> too, and where both occur the option is nested and the text before the definition says
  which is which.  An \<open>async\<close> method that awaits is one function of its run to completion and, where
  other calls can come in between, also a pair of functions for the code before and after the await.  Clock readings,
  random bytes and the answers of the outside are arguments, indexed by the call when a loop reads them again.  Third party
  code (Nostr, Cashu, noble hashes, the FROST, TLSNotary, C2PA, gpg and unzip binaries, the URL parser, relays, HTTP) is
  a record of functions, and what is relied on is a named hypothesis: \<open>nostr_ok\<close>, \<open>cipher_ok\<close>,
  \<open>unforged\<close>, \<open>url_stable\<close> and the like, each with a model on which a witness runs.

  \<^bold>\<open>Language.\<close>  \<open>Anchr_Prelude\<close>: numbers with \<open>NaN\<close> and infinities and exact finite values, dynamic values,
  insertion ordered maps with the locale \<open>kv_store\<close>, diagnostics.  \<open>Json\<close>: \<open>JSON.parse\<close> and
  \<open>JSON.stringify\<close> with their round trip; the parser takes fuel, \<open>jparse\<close> gives twice the length of the text plus
  two, and the theory proves that no text needs more.  \<open>Json_Pretty\<close>: the same round trip for indented output.

  \<^bold>\<open>Requests\<close> (\<open>sdk/requests\<close>).  \<open>Query_Domain\<close> is the aggregate with its tables and validators,
  \<open>Query_Service\<close> the application service with lifecycle, escrow flow, single oracle and quorum verification,
  \<open>Oracle_Registry\<close> the registry.  \<open>Query_Lifecycle\<close> states the abstract lifecycle as the step relation \<open>life_step\<close> and the
  locale \<open>query_transition\<close>, interpreted for every transition; \<open>Query_Service_Correct\<close> lifts it to the store;
  \<open>Query_Runs\<close> has the step relations of methods run one at a time and interleaved at their awaits.
  \<open>Query_Properties\<close>: payments follow the status in every interleaving (C1), every method refines the
  lifecycle (C7), terminal queries stay (C8), the gates on oracles, locks and preimages (C13 to C15, C17), and the
  cancellation that an interleaving loses (C35).

  \<^bold>\<open>Payments\<close> (\<open>sdk/payments/cashu\<close>, \<open>sdk/adapters/cashu.ts\<close>).  \<open>Cashu_Escrow\<close> has tokens, swaps and redemption,
  \<open>Bounty_Token\<close> the minting of a token against an invoice, \<open>Escrow_Providers\<close> the two providers of the escrow port,
  \<open>Cashu_Client\<close> the adapter of the actors, \<open>Preimage_Store\<close> the store in memory, \<open>Persistent_Storage\<close> the store in a file.
  \<open>Escrow_Properties\<close> has the locales \<open>escrow_provider\<close> and \<open>issued_refs\<close>, each interpreted for both providers, the exact meaning
  of the lock checks and of token verification (C18, C25 to C28) and the double spend of the swap (C37).  A preimage once
  reported as stored survives failures and restarts (C16), unless two calls overlap (C36).

  \<^bold>\<open>Threshold signing\<close> (\<open>sdk/payments/frost\<close>, \<open>sdk/adapters/oracle-service\<close>).  \<open>Frost_Cli\<close>, \<open>Frost_Signing\<close> (a node and its
  peer routes), \<open>Frost_Coordination\<close> (the node that collects shares) and \<open>Frost_Coordinator\<close> (sessions of key generation and
  signing).  \<open>Frost_Signing_Correct\<close> has the specification of single use nonces as the locale \<open>nonce_signer\<close>; the
  \<open>..._Properties\<close> theories show that a peer signs only what it verified and once (C12), what a collected
  signature is (C19), that a locked escrow can be signed for (C20), and the invariant of the sessions (C29).

  \<^bold>\<open>Proofs and attachments\<close> (\<open>sdk/proofs\<close>, \<open>sdk/attachments\<close>, \<open>sdk/schema.ts\<close>).  \<open>Replay_Guard\<close>, \<open>Tlsn_Validation\<close>,
  \<open>C2pa_Validation\<close>, \<open>Exif_Validation\<close>, \<open>Proofmode_Validation\<close>, \<open>Photo_Integrity\<close> and \<open>Proof_Verifier\<close> are the checks;
  \<open>Attachment_Fetch\<close>, \<open>Attachment_Upload\<close> and \<open>Attachment_Access\<close> retrieve, encrypt and name attachments.
  \<open>Tlsn_Properties\<close> and \<open>Proof_Properties\<close>: what an accepted presentation means, from the binary to the verifier (C21, C22), what the
  replay guard refuses and misses (C31, C38).  \<open>Exif_Properties\<close>: the parser inverts an encoder of photos in both byte
  orders (C23) and throws exactly on bad pointers (C34).  \<open>Upload_Properties\<close>: an uploaded photo comes back unchanged (C24).

  \<^bold>\<open>Protocol and actors\<close> (\<open>protocol\<close>, \<open>sdk/customer.ts\<close>, \<open>sdk/provider.ts\<close>, \<open>sdk/oracle.ts\<close>, \<open>sdk/adapters/nostr\<close>).
  \<open>Schema_Uri\<close>, \<open>Protocol_Nostr\<close> and \<open>Protocol_Events\<close> are the event formats; \<open>Protocol_Formats\<close> has their contract
  as the locale \<open>event_format\<close>, interpreted for each of the eight, and \<open>Protocol_Properties\<close> its consequences.
  \<open>Oracle_Client\<close> has the waits, the hash bootstrap and its responder, \<open>Provider_Job\<close> a job with the locale \<open>payment_lock\<close>,
  \<open>Customer_Request\<close> a request, \<open>Oracle_Nostr\<close> the relay service, \<open>Oracle_Discovery\<close> announcements and attestations (C30),
  \<open>Actor_Options\<close> the option checks (C32).  A job and a request are the list of their external calls with the result.
  \<open>Exchange\<close> and \<open>Exchange_Properties\<close> put the actors together: what a provider may rely on before it works and when it
  redeems (C2, C5), the limits and recoverability of what a customer locks (C3, C4), what the oracle releases (C6), that
  selection, lock and hash of one side are what the other sees (C9 to C11), that waits settle (C33), and two defects (C39, C40).

  \<^bold>\<open>Bounds.\<close>  Loops over data are structural.  \<open>exif_scan\<close> and the scan of regular expressions end by a measure, since each
  step moves forward.  The polling loop of \<open>createBountyToken\<close> ends only with the clock or the mint: it takes fuel, and
  \<open>bounty_returns\<close> shows that fuel beyond the first reading past the deadline is enough.  Downloads try three times, as the code does.
  Bytes are 8 bit words; offsets of files and the signed 32 bit shift of the EXIF parser are integers with
  their range written out.  Numbers are exact: rounding of floating point arithmetic is not modelled, and the trigonometric functions are
  arguments.

  \<^bold>\<open>Not modelled.\<close>  The host: environment variables, child processes, sockets, the HTTP framework, logging, the IndexedDB state
  store.  They are reached only through arguments of the model.  Key generation and the browser signer of \<open>protocol/nostr.ts\<close>, which
  call the platform.  The binaries of \<open>crates\<close>, written in Rust and used as programs.  Entry points that only re-export,
  test helpers, examples, build and lint scripts.  Characters outside one byte: strings are lists of 8 bit
  characters.
\<close>

end
